(* ===== verification/Prelude.thy ===== *)
theory Prelude
  imports Main "HOL-Library.Word"
begin

text \<open>
  The vocabulary every component shares: byte strings, Go's error values, the
  three-way result of a Go call (a value, an error, a panic), and the theorem
  collections the component proofs draw on.

  A Go \<open>string\<close> and a Go \<open>[]byte\<close> are both sequences of bytes, and HOL's \<open>char\<close>
  has exactly 256 values, so both are \<open>string\<close> (a char list) here.
  Non-ASCII text of the source is written out as its UTF-8 bytes.
\<close>

named_theorems go_string_simps "facts on the byte-string operations"
named_theorems res_simps "facts on the result type and on error values"
named_theorems report_simps "facts on verification reports"

type_synonym bytes = string
type_synonym u64 = "64 word"
type_synonym address = "160 word"
type_synonym hash = "256 word"

subsection \<open>Error values\<close>

text \<open>
  Errors are values in Go. \<open>ErrorString\<close> is what \<open>errors.New\<close>, \<open>fmt.Errorf\<close>
  without \<open>%w\<close> and \<open>pkg/errors.Errorf\<close> build; \<open>Sentinel\<close> is a package-level error
  variable, recognised by its identity; \<open>DataError\<close> is an error that carries the
  data field of a JSON-RPC error (an \<open>ErrorData()\<close> method); \<open>WrapError\<close> is what
  \<open>fmt.Errorf\<close> builds for a format with \<open>%w\<close>: the whole message and the wrapped
  error.
\<close>

datatype err_data = DataNil | DataString string | DataBytes bytes | DataOther

datatype go_error =
    ErrorString string
  | Sentinel string
  | DataError string err_data
  | WrapError string go_error

fun err_msg :: "go_error \<Rightarrow> string" where
  "err_msg (ErrorString m) = m"
| "err_msg (Sentinel m) = m"
| "err_msg (DataError m _) = m"
| "err_msg (WrapError m _) = m"

text \<open>\<open>errors.Is\<close> for a sentinel: the chain of wrapped errors is walked.\<close>

fun errors_is :: "go_error \<Rightarrow> go_error \<Rightarrow> bool" where
  "errors_is (WrapError m e) t = (WrapError m e = t \<or> errors_is e t)"
| "errors_is e t = (e = t)"

text \<open>\<open>errors.As\<close> for the interface with \<open>ErrorData()\<close>: the first error of the
  chain that has the method.\<close>

fun errors_as_data :: "go_error \<Rightarrow> err_data option" where
  "errors_as_data (DataError _ d) = Some d"
| "errors_as_data (WrapError _ e) = errors_as_data e"
| "errors_as_data _ = None"

definition wrapf :: "string \<Rightarrow> go_error \<Rightarrow> go_error" where
  \<comment> \<open>\<open>fmt.Errorf("prefix: %w", err)\<close>\<close>
  "wrapf p e = WrapError (p @ '': '' @ err_msg e) e"

definition restring :: "go_error \<Rightarrow> go_error" where
  \<comment> \<open>\<open>errors.Errorf("%s", err)\<close> of pkg/errors: the text survives, the chain does not\<close>
  "restring e = ErrorString (err_msg e)"

definition errorf :: "string \<Rightarrow> go_error \<Rightarrow> go_error" where
  \<comment> \<open>\<open>errors.Errorf("prefix: %s", err)\<close> of pkg/errors\<close>
  "errorf p e = ErrorString (p @ '': '' @ err_msg e)"

lemma err_msg_wrapf [simp, res_simps]: "err_msg (wrapf p e) = p @ '': '' @ err_msg e"
  by (simp add: wrapf_def)

lemma err_msg_restring [simp, res_simps]: "err_msg (restring e) = err_msg e"
  by (simp add: restring_def)

lemma err_msg_errorf [simp, res_simps]: "err_msg (errorf p e) = p @ '': '' @ err_msg e"
  by (simp add: errorf_def)

lemma errors_as_data_wrapf [simp, res_simps]: "errors_as_data (wrapf p e) = errors_as_data e"
  by (simp add: wrapf_def)

lemma errors_as_data_restring [simp, res_simps]: "errors_as_data (restring e) = None"
  by (simp add: restring_def)

subsection \<open>Results\<close>

text \<open>
  The outcome of a call: a value, an error return, or a panic with its message.
  A panic is kept apart from an error: no caller in this repository recovers one,
  net/http's server aborts the one request.
\<close>

datatype 'a res = Ok 'a | Err go_error | Panic string

fun is_ok :: "'a res \<Rightarrow> bool" where
  "is_ok (Ok _) = True"
| "is_ok (Err _) = False"
| "is_ok (Panic _) = False"

fun is_panic :: "'a res \<Rightarrow> bool" where
  "is_panic (Panic _) = True"
| "is_panic (Ok _) = False"
| "is_panic (Err _) = False"

fun map_err :: "(go_error \<Rightarrow> go_error) \<Rightarrow> 'a res \<Rightarrow> 'a res" where
  "map_err f (Ok x) = Ok x"
| "map_err f (Err e) = Err (f e)"
| "map_err f (Panic m) = Panic m"

fun res_bind :: "'a res \<Rightarrow> ('a \<Rightarrow> 'b res) \<Rightarrow> 'b res" where
  \<comment> \<open>\<open>x, err := m; if err != nil { return err }\<close>\<close>
  "res_bind (Ok x) f = f x"
| "res_bind (Err e) f = Err e"
| "res_bind (Panic m) f = Panic m"

lemma is_ok_iff [res_simps]: "is_ok r \<longleftrightarrow> (\<exists>x. r = Ok x)"
  by (cases r) auto

lemma res_bind_Ok_iff [res_simps]: "res_bind m f = Ok y \<longleftrightarrow> (\<exists>x. m = Ok x \<and> f x = Ok y)"
  by (cases m) auto

lemma map_err_Ok_iff [simp, res_simps]: "map_err f m = Ok y \<longleftrightarrow> m = Ok y"
  by (cases m) auto

lemma map_err_Err_iff [res_simps]: "map_err f m = Err e \<longleftrightarrow> (\<exists>e'. m = Err e' \<and> e = f e')"
  by (cases m) auto

lemma map_err_Panic_iff [simp, res_simps]: "map_err f m = Panic s \<longleftrightarrow> m = Panic s"
  by (cases m) auto

lemma is_ok_map_err [simp, res_simps]: "is_ok (map_err f m) = is_ok m"
  by (cases m) auto

lemma is_panic_map_err [simp, res_simps]: "is_panic (map_err f m) = is_panic m"
  by (cases m) auto

text \<open>What a remote call answers: an error or a value.\<close>

type_synonym 'a rpc = "go_error + 'a"

fun of_rpc :: "'a rpc \<Rightarrow> 'a res" where
  "of_rpc (Inl e) = Err e"
| "of_rpc (Inr x) = Ok x"

lemma of_rpc_iff [simp, res_simps]:
  "of_rpc r = Ok x \<longleftrightarrow> r = Inr x" "of_rpc r = Err e \<longleftrightarrow> r = Inl e" "of_rpc r \<noteq> Panic m"
  by (cases r; simp)+

definition err_unless :: "bool \<Rightarrow> string \<Rightarrow> unit res" where
  \<comment> \<open>\<open>if !b { return ..., fmt.Errorf(msg) }\<close>\<close>
  "err_unless b msg = (if b then Ok () else Err (ErrorString msg))"

lemma err_unless_Ok [simp, res_simps]: "err_unless b m = Ok u \<longleftrightarrow> b"
  by (simp add: err_unless_def)

lemma err_unless_no_Panic [simp, res_simps]: "err_unless b m \<noteq> Panic p"
  by (simp add: err_unless_def)

subsection \<open>Lists updated in place\<close>

lemma sum_map_update:
  fixes f :: "'a \<Rightarrow> 'b::comm_monoid_add"
  assumes "i < length xs"
  shows "sum_list (map f (xs[i := x])) + f (xs ! i) = sum_list (map f xs) + f x"
  using assms
proof (induction xs arbitrary: i)
  case (Cons y ys)
  then show ?case by (cases i) (auto simp: ac_simps)
qed simp

lemma list_all_update: "list_all P xs \<Longrightarrow> P x \<Longrightarrow> list_all P (xs[i := x])"
  unfolding list_all_iff using set_update_subset_insert[of xs i x] by auto

lemma list_all_at: "list_all P xs \<Longrightarrow> i < length xs \<Longrightarrow> P (xs ! i)"
  by (simp add: list_all_length)

lemma ex_update:
  assumes "i < length xs" and "y \<in> set xs" and "P y" and "y = xs ! i \<Longrightarrow> P x"
  shows "\<exists>y\<in>set (xs[i := x]). P y"
proof -
  obtain k where k: "k < length xs" "xs ! k = y" using assms(2) by (metis in_set_conv_nth)
  show ?thesis
  proof (cases "k = i")
    case True
    then show ?thesis using assms k by (metis set_update_memI)
  next
    case False
    then have "xs[i := x] ! k = y" "k < length (xs[i := x])" using k by simp_all
    then show ?thesis using assms(3) by (metis nth_mem)
  qed
qed

subsection \<open>A small interface: encoders with a left inverse\<close>

text \<open>
  Several components write a value out and read it back (decimal numbers, hex,
  32-byte words, the registration state file). Their contract is the same: the
  decoder inverts the encoder on the values of its domain.
\<close>

locale codec =
  fixes enc :: "'a \<Rightarrow> 'b"
    and dec :: "'b \<Rightarrow> 'c"
    and ok :: "'a \<Rightarrow> bool"
    and inj :: "'a \<Rightarrow> 'c"
  assumes dec_enc: "ok x \<Longrightarrow> dec (enc x) = inj x"
    and inj_inj: "ok x \<Longrightarrow> ok y \<Longrightarrow> inj x = inj y \<Longrightarrow> x = y"
begin

lemma enc_inject: "ok x \<Longrightarrow> ok y \<Longrightarrow> enc x = enc y \<longleftrightarrow> x = y"
  by (metis dec_enc inj_inj)

lemma enc_inj_on: "inj_on enc (Collect ok)"
  by (rule inj_onI) (simp add: enc_inject)

end

subsection \<open>Environment variables\<close>

text \<open>\<open>os.Getenv\<close> returns the empty string for an unset variable, and the code never
  tells the two apart, so the environment is a total function.\<close>

type_synonym env = "string \<Rightarrow> string"

end
