(* ===== verification/GoStrings.thy ===== *)
theory GoStrings
  imports Prelude "HOL-Library.Sublist"
begin

text \<open>
  The part of Go's standard library for strings that the program uses, on byte
  strings: decimal numbers (\<open>strconv\<close>, \<open>math/big\<close>), hex (\<open>encoding/hex\<close>), prefixes,
  splitting and trimming (\<open>strings\<close>), lines (\<open>bufio.Scanner\<close>), UTF-8 decoding
  (\<open>unicode/utf8\<close>) and the \<open>%q\<close> verb. All of it is executable. The lemmas give the
  round trips and the characterisations the components rest on.
\<close>

subsection \<open>Characters\<close>

definition byte_nat :: "char \<Rightarrow> nat" where
  "byte_nat c = of_char c"

definition nat_byte :: "nat \<Rightarrow> char" where
  "nat_byte n = char_of n"

lemma byte_nat_less [simp]: "byte_nat c < 256"
  by (simp add: byte_nat_def)

lemma byte_nat_nat_byte [simp]: "n < 256 \<Longrightarrow> byte_nat (nat_byte n) = n"
  by (simp add: byte_nat_def nat_byte_def)

lemma nat_byte_byte_nat [simp]: "nat_byte (byte_nat c) = c"
  by (simp add: byte_nat_def nat_byte_def)

lemma byte_nat_inject [simp]: "byte_nat c = byte_nat d \<longleftrightarrow> c = d"
  by (metis nat_byte_byte_nat)

lemma nat_byte_inject: "m < 256 \<Longrightarrow> n < 256 \<Longrightarrow> nat_byte m = nat_byte n \<longleftrightarrow> m = n"
  by (metis byte_nat_nat_byte)

definition dquote :: char where "dquote = nat_byte 34"
definition em_dash :: string where "em_dash = [nat_byte 226, nat_byte 128, nat_byte 148]"

definition digit_char :: "nat \<Rightarrow> char" where
  "digit_char d = nat_byte (48 + d)"

definition digit_val :: "char \<Rightarrow> nat option" where
  "digit_val c = (let n = byte_nat c in if 48 \<le> n \<and> n \<le> 57 then Some (n - 48) else None)"

lemma digit_val_digit_char [simp]: "d < 10 \<Longrightarrow> digit_val (digit_char d) = Some d"
  by (simp add: digit_val_def digit_char_def)

lemma digit_val_less: "digit_val c = Some d \<Longrightarrow> d < 10"
  by (auto simp: digit_val_def Let_def split: if_splits)

lemma digit_val_Some: "digit_val c = Some d \<Longrightarrow> c = digit_char d"
  unfolding digit_val_def digit_char_def Let_def
  by (auto split: if_splits) 

subsection \<open>Decimal numbers\<close>

text \<open>\<open>big.Int.String\<close>, \<open>strconv.FormatUint\<close> and the \<open>%d\<close> verb.\<close>

fun dec :: "nat \<Rightarrow> string" where
  "dec n = (if n < 10 then [digit_char n] else dec (n div 10) @ [digit_char (n mod 10)])"

declare dec.simps [simp del]

definition dec_int :: "int \<Rightarrow> string" where
  "dec_int i = (if i < 0 then ''-'' @ dec (nat (- i)) else dec (nat i))"

text \<open>The value of a string of digits, \<open>None\<close> when a character is not a digit.\<close>

fun digits_val :: "nat \<Rightarrow> string \<Rightarrow> nat option" where
  "digits_val acc [] = Some acc"
| "digits_val acc (c # cs) =
     (case digit_val c of None \<Rightarrow> None | Some d \<Rightarrow> digits_val (acc * 10 + d) cs)"

lemma digits_val_append:
  "digits_val acc (xs @ ys) =
     (case digits_val acc xs of None \<Rightarrow> None | Some v \<Rightarrow> digits_val v ys)"
  by (induction xs arbitrary: acc) (auto split: option.splits)

lemma digits_val_dec [simp]: "digits_val 0 (dec n) = Some n"
proof (induction n rule: dec.induct)
  case (1 n)
  show ?case
  proof (cases "n < 10")
    case True
    then show ?thesis by (simp add: dec.simps[of n])
  next
    case False
    with 1 have "digits_val 0 (dec (n div 10)) = Some (n div 10)" by simp
    with False show ?thesis
      by (simp add: dec.simps[of n] digits_val_append)
  qed
qed

lemma dec_not_Nil [simp]: "dec n \<noteq> []"
  by (simp add: dec.simps[of n])

lemma dec_inject [simp]: "dec m = dec n \<longleftrightarrow> m = n"
  by (metis digits_val_dec option.inject)

lemma dec_digits: "c \<in> set (dec n) \<Longrightarrow> \<exists>d<10. c = digit_char d"
proof (induction n arbitrary: c rule: dec.induct)
  case (1 n)
  have "n mod 10 < 10" by simp
  with 1 show ?case
    by (cases "n < 10") (auto simp: dec.simps[of n] simp del: mod_less_divisor)
qed

lemma dec_hd: "0 < n \<Longrightarrow> hd (dec n) \<noteq> digit_char 0"
proof (induction n rule: dec.induct)
  case (1 n)
  show ?case
  proof (cases "n < 10")
    case True
    with 1 show ?thesis by (auto simp: dec.simps[of n] digit_char_def nat_byte_inject)
  next
    case False
    then show ?thesis using 1 by (auto simp: dec.simps[of n])
  qed
qed

lemma length_dec_bound: "n < 10 ^ k \<Longrightarrow> 0 < k \<Longrightarrow> length (dec n) \<le> k"
proof (induction k arbitrary: n)
  case 0
  then show ?case by simp
next
  case (Suc k)
  show ?case
  proof (cases "n < 10")
    case True
    then show ?thesis by (simp add: dec.simps[of n])
  next
    case False
    with Suc.prems have "0 < k" by (cases k) auto
    moreover have "n div 10 < 10 ^ k" using Suc.prems by (simp add: less_mult_imp_div_less mult.commute)
    ultimately have "length (dec (n div 10)) \<le> k" using Suc.IH by blast
    with False show ?thesis by (simp add: dec.simps[of n])
  qed
qed

lemma minus_not_digit [simp]: "digit_val (CHR ''-'') = None" "digit_val (CHR ''+'') = None"
  by (simp_all add: digit_val_def byte_nat_def)

lemma hd_dec_not_sign: "hd (dec n) \<noteq> CHR ''-''" "hd (dec n) \<noteq> CHR ''+''"
proof -
  have "hd (dec n) \<in> set (dec n)" by simp
  then obtain d where "d < 10" "hd (dec n) = digit_char d" using dec_digits by blast
  then show "hd (dec n) \<noteq> CHR ''-''" "hd (dec n) \<noteq> CHR ''+''"
    using minus_not_digit digit_val_digit_char by fastforce+
qed

text \<open>
  \<open>strconv.ParseUint(s, 10, 64)\<close>: the value and the error. The value is 0 with a syntax
  error and \<open>2^64-1\<close> with a range error; a value that leaves the range is reported
  before any later character is looked at.
\<close>

datatype num_error = ErrSyntax | ErrRange

fun parse_uint_from :: "nat \<Rightarrow> string \<Rightarrow> nat \<times> num_error option" where
  "parse_uint_from acc [] = (acc, None)"
| "parse_uint_from acc (c # cs) =
     (case digit_val c of
        None \<Rightarrow> (0, Some ErrSyntax)
      | Some d \<Rightarrow>
          if acc * 10 + d > 2 ^ 64 - 1 then (2 ^ 64 - 1, Some ErrRange)
          else parse_uint_from (acc * 10 + d) cs)"

definition parse_uint64 :: "string \<Rightarrow> u64 \<times> num_error option" where
  "parse_uint64 s =
     (if s = [] then (0, Some ErrSyntax)
      else (of_nat (fst (parse_uint_from 0 s)), snd (parse_uint_from 0 s)))"

lemma digits_val_mono: "digits_val acc s = Some v \<Longrightarrow> acc \<le> v"
proof (induction s arbitrary: acc)
  case (Cons c cs)
  then obtain d where "digits_val (acc * 10 + d) cs = Some v" by (auto split: option.splits)
  from Cons.IH[OF this] show ?case by simp
qed simp

lemma parse_uint_from_digits:
  "digits_val acc s = Some v \<Longrightarrow> acc \<le> 2 ^ 64 - 1 \<Longrightarrow>
   parse_uint_from acc s = (if v \<le> 2 ^ 64 - 1 then (v, None) else (2 ^ 64 - 1, Some ErrRange))"
proof (induction s arbitrary: acc)
  case Nil
  then show ?case by simp
next
  case (Cons c cs)
  then obtain d where d: "digit_val c = Some d" "digits_val (acc * 10 + d) cs = Some v"
    by (auto split: option.splits)
  show ?case
  proof (cases "acc * 10 + d > 2 ^ 64 - 1")
    case True
    with digits_val_mono[OF d(2)] have "\<not> v \<le> 2 ^ 64 - 1" by linarith
    with True d(1) show ?thesis by simp
  next
    case False
    then have "acc * 10 + d \<le> 2 ^ 64 - 1" by linarith
    from Cons.IH[OF d(2) this] False d(1) show ?thesis by simp
  qed
qed

lemma parse_uint64_dec:
  "parse_uint64 (dec n) =
     (if n < 2 ^ 64 then (of_nat n, None) else (of_nat (2 ^ 64 - 1), Some ErrRange))"
  using parse_uint_from_digits[of 0 "dec n" n] by (simp add: parse_uint64_def)

lemma parse_uint64_dec_pos: "0 < fst (parse_uint64 (dec n)) \<longleftrightarrow> 0 < n"
proof (cases "n < 2 ^ 64")
  case True
  have "(0 < (of_nat n :: u64)) = (unat (of_nat n :: u64) \<noteq> 0)"
    by (metis unat_0 unat_eq_zero word_gt_0)
  also have "unat (of_nat n :: u64) = n"
    using True by (simp add: unat_of_nat)
  finally show ?thesis using True by (simp add: parse_uint64_dec)
next
  case False
  then have "0 < n" by (cases n) auto
  moreover have "(0::u64) < of_nat (2 ^ 64 - 1)" by simp
  ultimately show ?thesis using False by (simp add: parse_uint64_dec)
qed

text \<open>\<open>big.Int.SetString(s, 10)\<close>: an optional sign and at least one digit.\<close>

definition big_set_string :: "string \<Rightarrow> int option" where
  "big_set_string s =
     (case s of
        [] \<Rightarrow> None
      | c # cs \<Rightarrow>
          (let neg = (c = CHR ''-''); ds = (if c = CHR ''-'' \<or> c = CHR ''+'' then cs else s)
           in if ds = [] then None
              else map_option (\<lambda>v. if neg then - int v else int v) (digits_val 0 ds)))"

lemma big_set_string_dec [simp]: "big_set_string (dec n) = Some (int n)"
  using hd_dec_not_sign[of n]
  by (cases "dec n") (auto simp: big_set_string_def simp flip: digits_val_dec)

lemma big_set_string_dec_int: "big_set_string (dec_int i) = Some i"
  by (auto simp: dec_int_def) (simp add: big_set_string_def)

text \<open>\<open>strconv.Atoi\<close>: an optional sign, digits, in the range of a 64-bit int.\<close>

definition atoi :: "string \<Rightarrow> int option" where
  "atoi s =
     (case big_set_string s of
        None \<Rightarrow> None
      | Some v \<Rightarrow> if - (2 ^ 63) \<le> v \<and> v < 2 ^ 63 then Some v else None)"

subsection \<open>Prefixes, substrings, splitting\<close>

definition has_prefix :: "string \<Rightarrow> string \<Rightarrow> bool" where
  "has_prefix s p = (take (length p) s = p)"

definition trim_prefix :: "string \<Rightarrow> string \<Rightarrow> string" where
  "trim_prefix s p = (if has_prefix s p then drop (length p) s else s)"

fun contains :: "string \<Rightarrow> string \<Rightarrow> bool" where
  "contains [] p = (p = [])"
| "contains (c # s) p = (has_prefix (c # s) p \<or> contains s p)"

lemma has_prefix_append [simp]: "has_prefix (p @ s) p"
  by (simp add: has_prefix_def)

lemma has_prefix_iff: "has_prefix s p \<longleftrightarrow> (\<exists>t. s = p @ t)"
  by (metis append_eq_conv_conj append_take_drop_id has_prefix_def)

lemma trim_prefix_append [simp]: "trim_prefix (p @ s) p = s"
  by (simp add: trim_prefix_def)

lemma contains_iff: "contains s p \<longleftrightarrow> (\<exists>l r. s = l @ p @ r)"
proof (induction s)
  case Nil
  then show ?case by auto
next
  case (Cons c s)
  have "(\<exists>l r. c # s = l @ p @ r) \<longleftrightarrow> (\<exists>r. c # s = p @ r) \<or> (\<exists>l r. s = l @ p @ r)"
    by (metis append_Cons append_Nil list.exhaust list.inject)
  with Cons show ?case by (simp add: has_prefix_iff)
qed

lemma contains_single [simp]: "contains s [c] \<longleftrightarrow> c \<in> set s"
  by (auto simp: contains_iff in_set_conv_decomp)

lemma contains_append [simp]: "contains (s @ p) p"
  by (metis append_Nil2 contains_iff)

text \<open>\<open>strings.SplitN(s, sep, 2)\<close> for a one-byte separator: \<open>None\<close> for the one-part result.\<close>

fun split2 :: "char \<Rightarrow> string \<Rightarrow> (string \<times> string) option" where
  "split2 sep [] = None"
| "split2 sep (c # s) =
     (if c = sep then Some ([], s)
      else map_option (\<lambda>(a, b). (c # a, b)) (split2 sep s))"

lemma split2_Some: "split2 sep s = Some (a, b) \<longleftrightarrow> s = a @ sep # b \<and> sep \<notin> set a"
proof (induction s arbitrary: a)
  case (Cons c s)
  then show ?case by (cases a) auto
qed simp

lemma split2_None: "split2 sep s = None \<longleftrightarrow> sep \<notin> set s"
  by (induction s) auto

text \<open>\<open>strings.Split(s, sep)\<close> for a one-byte separator: always at least one part.\<close>

fun split_all :: "char \<Rightarrow> string \<Rightarrow> string list" where
  "split_all sep [] = [[]]"
| "split_all sep (c # s) =
     (if c = sep then [] # split_all sep s
      else (case split_all sep s of [] \<Rightarrow> [[c]] | p # ps \<Rightarrow> (c # p) # ps))"

text \<open>\<open>strings.Join\<close>.\<close>

fun join :: "string \<Rightarrow> string list \<Rightarrow> string" where
  "join sep [] = []"
| "join sep [x] = x"
| "join sep (x # y # ys) = x @ sep @ join sep (y # ys)"

lemma split_all_not_Nil [simp]: "split_all sep s \<noteq> []"
  by (induction s) (auto split: list.splits)

lemma join_split_all: "join [sep] (split_all sep s) = s"
proof (induction s)
  case (Cons c s)
  obtain p ps where ps: "split_all sep s = p # ps" by (meson neq_Nil_conv split_all_not_Nil)
  show ?case using Cons ps by (cases ps) auto
qed simp

lemma split_all_no_sep: "p \<in> set (split_all sep s) \<Longrightarrow> sep \<notin> set p"
  by (induction s arbitrary: p) (auto split: list.splits if_splits)

subsection \<open>Trimming\<close>

text \<open>
  \<open>strings.TrimSpace\<close> drops every leading and trailing Unicode white space
  character (\<open>unicode.IsSpace\<close>). The table lists their UTF-8 encodings: six ASCII
  characters, U+0085, U+00A0, U+1680, U+2000 to U+200A, U+2028, U+2029, U+202F,
  U+205F and U+3000.
\<close>

definition spaces :: "string list" where
  "spaces = map (map nat_byte)
     ([[9], [10], [11], [12], [13], [32], [194, 133], [194, 160], [225, 154, 128]]
      @ map (\<lambda>i. [226, 128, 128 + i]) [0..<11]
      @ [[226, 128, 168], [226, 128, 169], [226, 128, 175], [226, 129, 159], [227, 128, 128]])"

definition lead :: "string list \<Rightarrow> string \<Rightarrow> nat" where
  "lead sp s = (case find (\<lambda>w. w \<noteq> [] \<and> has_prefix s w) sp of None \<Rightarrow> 0 | Some w \<Rightarrow> length w)"

lemma lead_pos: "0 < lead sp s \<Longrightarrow> s \<noteq> []"
  by (auto simp: lead_def has_prefix_def find_Some_iff split: option.splits)

function trim_by :: "string list \<Rightarrow> string \<Rightarrow> string" where
  "trim_by sp s = (if lead sp s = 0 then s else trim_by sp (drop (lead sp s) s))"
  by pat_completeness auto
termination
proof (relation "measure (\<lambda>(sp, s). length s)", simp)
  fix sp s
  assume "lead sp s \<noteq> 0"
  then have "s \<noteq> []" "0 < lead sp s" using lead_pos by auto
  then show "((sp, drop (lead sp s) s), sp, s) \<in> measure (\<lambda>(sp, s). length s)"
    by (cases s) (auto simp: lead_def)
qed

declare trim_by.simps [simp del]

definition trim_space :: "string \<Rightarrow> string" where
  "trim_space s = rev (trim_by (map rev spaces) (rev (trim_by spaces s)))"

lemma lead_zero_iff: "lead sp s = 0 \<longleftrightarrow> (\<forall>w\<in>set sp. w \<noteq> [] \<longrightarrow> \<not> has_prefix s w)"
  by (auto simp: lead_def find_None_iff find_Some_iff split: option.splits)

lemma trim_by_lead [simp]: "lead sp (trim_by sp s) = 0"
proof (induction sp s rule: trim_by.induct)
  case (1 sp s)
  then show ?case by (cases "lead sp s = 0") (auto simp: trim_by.simps[of sp s])
qed

lemma trim_by_id: "lead sp s = 0 \<Longrightarrow> trim_by sp s = s"
  by (simp add: trim_by.simps)

lemma trim_by_suffix: "\<exists>l. s = l @ trim_by sp s"
proof (induction sp s rule: trim_by.induct)
  case (1 sp s)
  show ?case
  proof (cases "lead sp s = 0")
    case False
    with 1 obtain l where "drop (lead sp s) s = l @ trim_by sp (drop (lead sp s) s)" by blast
    then have "s = (take (lead sp s) s @ l) @ trim_by sp (drop (lead sp s) s)"
      by (metis append.assoc append_take_drop_id)
    moreover have "trim_by sp s = trim_by sp (drop (lead sp s) s)"
      using False by (simp add: trim_by.simps[of sp s])
    ultimately show ?thesis by metis
  qed (simp add: trim_by_id)
qed

lemma trim_space_infix: "\<exists>l r. s = l @ trim_space s @ r"
proof -
  obtain l where l: "s = l @ trim_by spaces s" using trim_by_suffix by blast
  obtain r where "rev (trim_by spaces s) = r @ trim_by (map rev spaces) (rev (trim_by spaces s))"
    using trim_by_suffix by blast
  then have "trim_by spaces s = trim_space s @ rev r"
    by (metis rev_append rev_rev_ident trim_space_def)
  with l show ?thesis by metis
qed

lemma trim_space_set: "set (trim_space s) \<subseteq> set s"
  using trim_space_infix[of s] by (metis Un_upper1 Un_upper2 le_sup_iff set_append subsetI subset_trans)

text \<open>A string with no white space at either end is left alone; the result of trimming
  is such a string.\<close>

lemma trim_space_id:
  "lead spaces s = 0 \<Longrightarrow> lead (map rev spaces) (rev s) = 0 \<Longrightarrow> trim_space s = s"
  by (simp add: trim_space_def trim_by_id)

lemma trim_space_idem [simp]: "trim_space (trim_space s) = trim_space s"
proof (rule trim_space_id)
  show "lead (map rev spaces) (rev (trim_space s)) = 0"
    by (simp add: trim_space_def)
  obtain r where r: "rev (trim_by spaces s) = r @ trim_by (map rev spaces) (rev (trim_by spaces s))"
    using trim_by_suffix by blast
  then have "trim_by spaces s = trim_space s @ rev r"
    by (metis rev_append rev_rev_ident trim_space_def)
  moreover have "lead spaces (trim_by spaces s) = 0" by simp
  ultimately show "lead spaces (trim_space s) = 0"
    unfolding lead_zero_iff has_prefix_iff by (metis append.assoc)
qed

lemma trim_space_Nil [simp]: "trim_space [] = []"
  using trim_space_set[of "[]"] by simp

subsection \<open>Lines\<close>

text \<open>
  \<open>bufio.Scanner\<close> with \<open>ScanLines\<close>: lines end at a newline, one trailing carriage
  return is dropped, a last line without newline counts when it is not empty.
  The scanner's buffer holds 65536 bytes; a line that does not fit stops the scan
  (the code never asks for \<open>Err()\<close>), so the lines after it are lost.
\<close>

definition max_scan_token :: nat where "max_scan_token = 65536"

definition drop_cr :: "string \<Rightarrow> string" where
  "drop_cr l = (if l \<noteq> [] \<and> last l = nat_byte 13 then butlast l else l)"

function scan_lines :: "string \<Rightarrow> string list" where
  "scan_lines s =
     (if s = [] then []
      else let l = takeWhile (\<lambda>c. c \<noteq> nat_byte 10) s in
        if max_scan_token \<le> length l then []
        else drop_cr l # scan_lines (drop (Suc (length l)) s))"
  by pat_completeness auto
termination
  by (relation "measure length") auto

declare scan_lines.simps [simp del]

lemma scan_lines_Nil [simp]: "scan_lines [] = []"
  by (simp add: scan_lines.simps)

lemma scan_lines_line:
  assumes "nat_byte 10 \<notin> set l" and "length l < max_scan_token"
  shows "scan_lines (l @ nat_byte 10 # s) = drop_cr l # scan_lines s"
proof -
  have "takeWhile (\<lambda>c. c \<noteq> nat_byte 10) (l @ nat_byte 10 # s) = l"
    using assms(1) by (simp add: takeWhile_tail takeWhile_append)
  then show ?thesis using assms(2) by (subst scan_lines.simps) (simp add: Let_def)
qed

subsection \<open>Hex\<close>

definition hex_digit :: "nat \<Rightarrow> char" where
  "hex_digit d = (if d < 10 then nat_byte (48 + d) else nat_byte (87 + d))"

definition hex_val :: "char \<Rightarrow> nat option" where
  "hex_val c =
     (let n = byte_nat c in
      if 48 \<le> n \<and> n \<le> 57 then Some (n - 48)
      else if 97 \<le> n \<and> n \<le> 102 then Some (n - 87)
      else if 65 \<le> n \<and> n \<le> 70 then Some (n - 55)
      else None)"

lemma hex_val_digit [simp]: "d < 16 \<Longrightarrow> hex_val (hex_digit d) = Some d"
  by (auto simp: hex_val_def hex_digit_def Let_def)

lemma hex_val_less: "hex_val c = Some d \<Longrightarrow> d < 16"
  by (auto simp: hex_val_def Let_def split: if_splits)

text \<open>\<open>hex.EncodeToString\<close> and \<open>hex.DecodeString\<close>; the latter fails on an odd
  length and on a character that is not a hex digit.\<close>

fun hex_encode :: "bytes \<Rightarrow> string" where
  "hex_encode [] = []"
| "hex_encode (b # bs) =
     hex_digit (byte_nat b div 16) # hex_digit (byte_nat b mod 16) # hex_encode bs"

fun hex_decode :: "string \<Rightarrow> bytes option" where
  "hex_decode [] = Some []"
| "hex_decode [c] = None"
| "hex_decode (c # d # cs) =
     (case (hex_val c, hex_val d, hex_decode cs) of
        (Some x, Some y, Some bs) \<Rightarrow> Some (nat_byte (16 * x + y) # bs)
      | _ \<Rightarrow> None)"

lemma hex_decode_encode [simp]: "hex_decode (hex_encode bs) = Some bs"
proof (induction bs)
  case (Cons b bs)
  have "byte_nat b div 16 < 16" using byte_nat_less[of b] by linarith
  then show ?case using Cons by (simp add: mult.commute)
qed simp

lemma length_hex_encode [simp]: "length (hex_encode bs) = 2 * length bs"
  by (induction bs) auto

lemma length_hex_decode: "hex_decode s = Some bs \<Longrightarrow> length s = 2 * length bs"
  by (induction s arbitrary: bs rule: hex_decode.induct) (auto split: option.splits)

interpretation hexc: codec hex_encode hex_decode "\<lambda>_. True" "Some :: bytes \<Rightarrow> bytes option"
  by unfold_locales auto

interpretation decc: codec dec "digits_val 0" "\<lambda>_. True" "Some :: nat \<Rightarrow> nat option"
  by unfold_locales auto

text \<open>The anchored expressions \<open>^0x[0-9a-fA-F]{n}$\<close> of the program.\<close>

definition matches_0x_hex :: "nat \<Rightarrow> string \<Rightarrow> bool" where
  "matches_0x_hex n s =
     (length s = n + 2 \<and> has_prefix s ''0x'' \<and> list_all (\<lambda>c. hex_val c \<noteq> None) (drop 2 s))"

subsection \<open>UTF-8 and the quoting verb\<close>

text \<open>
  \<open>utf8.DecodeRuneInString\<close>: the code point and its width; an invalid or truncated
  encoding is U+FFFD of width 1. Surrogates and overlong forms are invalid.
\<close>

definition cont_byte :: "nat \<Rightarrow> nat \<Rightarrow> char \<Rightarrow> bool" where
  "cont_byte lo hi c = (lo \<le> byte_nat c \<and> byte_nat c \<le> hi)"

definition rune_error :: "nat \<times> nat" where "rune_error = (65533, 1)"

fun decode_rune :: "string \<Rightarrow> nat \<times> nat" where
  "decode_rune [] = (65533, 0)"
| "decode_rune (c # cs) =
     (let b = byte_nat c in
      if b < 128 then (b, 1)
      else if b < 194 then rune_error
      else if b < 224 then
        (case cs of
           c1 # _ \<Rightarrow> if cont_byte 128 191 c1 then ((b - 192) * 64 + (byte_nat c1 - 128), 2)
                    else rune_error
         | _ \<Rightarrow> rune_error)
      else if b < 240 then
        (case cs of
           c1 # c2 # _ \<Rightarrow>
             if cont_byte (if b = 224 then 160 else 128) (if b = 237 then 159 else 191) c1
                \<and> cont_byte 128 191 c2
             then ((b - 224) * 4096 + (byte_nat c1 - 128) * 64 + (byte_nat c2 - 128), 3)
             else rune_error
         | _ \<Rightarrow> rune_error)
      else if b < 245 then
        (case cs of
           c1 # c2 # c3 # _ \<Rightarrow>
             if cont_byte (if b = 240 then 144 else 128) (if b = 244 then 143 else 191) c1
                \<and> cont_byte 128 191 c2 \<and> cont_byte 128 191 c3
             then ((b - 240) * 262144 + (byte_nat c1 - 128) * 4096
                   + (byte_nat c2 - 128) * 64 + (byte_nat c3 - 128), 4)
             else rune_error
         | _ \<Rightarrow> rune_error)
      else rune_error)"

lemma decode_rune_width: "s \<noteq> [] \<Longrightarrow> 0 < snd (decode_rune s)"
  by (cases s) (auto simp: rune_error_def Let_def split: list.splits)

declare decode_rune.simps [simp del]

text \<open>Zero-padded lower-case hex of a fixed width, as \<open>%02x\<close> and \<open>%04x\<close> print it.\<close>

fun hex_pad :: "nat \<Rightarrow> nat \<Rightarrow> string" where
  "hex_pad 0 n = []"
| "hex_pad (Suc k) n = hex_pad k (n div 16) @ [hex_digit (n mod 16)]"

lemma length_hex_pad [simp]: "length (hex_pad k n) = k"
  by (induction k arbitrary: n) auto

text \<open>
  \<open>strconv.Quote\<close>, the \<open>%q\<close> verb. The table of printable code points beyond ASCII
  (\<open>strconv.IsPrint\<close>) is data of the Go release in use; it is the argument \<open>pr\<close>.
\<close>

definition bslash :: "string \<Rightarrow> string" where
  "bslash s = nat_byte 92 # s"

definition quote_rune :: "(nat \<Rightarrow> bool) \<Rightarrow> string \<Rightarrow> nat \<Rightarrow> nat \<Rightarrow> string" where
  "quote_rune pr s r w =
     (if w = 1 \<and> r = 65533 then bslash ''x'' @ hex_pad 2 (byte_nat (hd s))
      else if r = 34 \<or> r = 92 then [nat_byte 92, nat_byte r]
      else if 32 \<le> r \<and> r < 127 \<or> 128 \<le> r \<and> pr r then take w s
      else if r = 7 then bslash ''a'' else if r = 8 then bslash ''b'' else if r = 12 then bslash ''f''
      else if r = 10 then bslash ''n'' else if r = 13 then bslash ''r'' else if r = 9 then bslash ''t''
      else if r = 11 then bslash ''v''
      else if r < 32 \<or> r = 127 then bslash ''x'' @ hex_pad 2 r
      else if r < 65536 then bslash ''u'' @ hex_pad 4 r
      else bslash ''U'' @ hex_pad 8 r)"

function quote_body :: "(nat \<Rightarrow> bool) \<Rightarrow> string \<Rightarrow> string" where
  "quote_body pr s =
     (if s = [] then []
      else (let rw = decode_rune s in
        quote_rune pr s (fst rw) (snd rw) @ quote_body pr (drop (snd rw) s)))"
  by pat_completeness auto
termination
proof (relation "measure (\<lambda>(pr, s). length s)", simp)
  fix pr :: "nat \<Rightarrow> bool" and s :: string and rw
  assume "s \<noteq> []" "rw = decode_rune s"
  then show "((pr, drop (snd rw) s), pr, s) \<in> measure (\<lambda>(pr, s). length s)"
    using decode_rune_width[of s] by (cases s) auto
qed

declare quote_body.simps [simp del]

definition go_quote :: "(nat \<Rightarrow> bool) \<Rightarrow> string \<Rightarrow> string" where
  "go_quote pr s = [dquote] @ quote_body pr s @ [dquote]"

end
