(* ===== verification/GoJson.thy ===== *)
theory GoJson
  imports GoStrings
begin

text \<open>
  The part of \<open>encoding/json\<close> the program uses: JSON trees, the compact and the
  indented printer with Go's string escaping, a parser with the grammar of Go's
  scanner, and the decoding of objects into structs (field lookup, \<open>null\<close>, type
  errors, unknown fields). The main lemma is the round trip: what the printer
  writes, the parser reads back.
\<close>

datatype json =
    JNull
  | JBool bool
  | JNum string
  | JStr string
  | JArr "json list"
  | JObj "(string \<times> json) list"

subsection \<open>Printing\<close>

text \<open>
  One character of a JSON string as \<open>json.Marshal\<close> and \<open>json.Encoder\<close> write it
  (HTML escaping on, the default): short escapes, \<open>\\u00xx\<close> for the other control
  characters and for the three HTML characters, U+2028 and U+2029 escaped, an
  invalid byte as \<open>\\ufffd\<close>, everything else unchanged.
\<close>

definition json_short :: "nat \<Rightarrow> char option" where
  "json_short r =
     (if r = 34 then Some dquote else if r = 92 then Some (nat_byte 92)
      else if r = 8 then Some (CHR ''b'') else if r = 12 then Some (CHR ''f'')
      else if r = 10 then Some (CHR ''n'') else if r = 13 then Some (CHR ''r'')
      else if r = 9 then Some (CHR ''t'') else None)"

definition json_rune :: "string \<Rightarrow> nat \<Rightarrow> nat \<Rightarrow> string" where
  "json_rune s r w =
     (case json_short r of
        Some e \<Rightarrow> bslash [e]
      | None \<Rightarrow>
          if r < 32 \<or> r = 38 \<or> r = 60 \<or> r = 62 then bslash ''u'' @ hex_pad 4 r
          else if w = 1 \<and> r = 65533 then bslash ''ufffd''
          else if r = 8232 \<or> r = 8233 then bslash ''u'' @ hex_pad 4 r
          else take w s)"

function json_escape :: "string \<Rightarrow> string" where
  "json_escape s =
     (if s = [] then []
      else (let rw = decode_rune s in
        json_rune s (fst rw) (snd rw) @ json_escape (drop (snd rw) s)))"
  by pat_completeness auto
termination
proof (relation "measure length", simp)
  fix s :: string and rw
  assume "s \<noteq> []" "rw = decode_rune s"
  then show "(drop (snd rw) s, s) \<in> measure length"
    using decode_rune_width[of s] by (cases s) auto
qed

declare json_escape.simps [simp del]

definition json_quote :: "string \<Rightarrow> string" where
  "json_quote s = [dquote] @ json_escape s @ [dquote]"

text \<open>\<open>json.Marshal\<close> of a tree: no white space.\<close>

fun json_print :: "json \<Rightarrow> string" where
  "json_print JNull = ''null''"
| "json_print (JBool b) = (if b then ''true'' else ''false'')"
| "json_print (JNum n) = n"
| "json_print (JStr s) = json_quote s"
| "json_print (JArr js) = ''['' @ join '','' (map json_print js) @ '']''"
| "json_print (JObj ms) =
     ''{'' @ join '','' (map (\<lambda>(k, v). json_quote k @ '':'' @ json_print v) ms) @ ''}''"

text \<open>\<open>json.MarshalIndent(v, "", "  ")\<close>, at a nesting depth.\<close>

definition json_nl :: "nat \<Rightarrow> string" where
  "json_nl d = nat_byte 10 # replicate (2 * d) (CHR '' '')"

fun json_indent :: "nat \<Rightarrow> json \<Rightarrow> string" where
  "json_indent d (JArr js) =
     (if js = [] then ''[]''
      else ''['' @ json_nl (Suc d)
        @ join ('','' @ json_nl (Suc d)) (map (json_indent (Suc d)) js) @ json_nl d @ '']'')"
| "json_indent d (JObj ms) =
     (if ms = [] then ''{}''
      else ''{'' @ json_nl (Suc d)
        @ join ('','' @ json_nl (Suc d))
            (map (\<lambda>(k, v). json_quote k @ '': '' @ json_indent (Suc d) v) ms)
        @ json_nl d @ ''}'')"
| "json_indent d j = json_print j"

subsection \<open>Parsing\<close>

definition is_ws :: "char \<Rightarrow> bool" where
  "is_ws c = (c \<in> {nat_byte 9, nat_byte 10, nat_byte 13, nat_byte 32})"

definition jws :: "string \<Rightarrow> string" where
  "jws s = dropWhile is_ws s"

text \<open>UTF-8 encoding of a code point (\<open>utf8.AppendRune\<close>).\<close>

definition encode_rune :: "nat \<Rightarrow> string" where
  "encode_rune r =
     (if r < 128 then [nat_byte r]
      else if r < 2048 then [nat_byte (192 + r div 64), nat_byte (128 + r mod 64)]
      else if r < 65536 then
        [nat_byte (224 + r div 4096), nat_byte (128 + r div 64 mod 64), nat_byte (128 + r mod 64)]
      else
        [nat_byte (240 + r div 262144), nat_byte (128 + r div 4096 mod 64),
         nat_byte (128 + r div 64 mod 64), nat_byte (128 + r mod 64)])"

fun hex4 :: "string \<Rightarrow> nat option" where
  "hex4 (a # b # c # d # _) =
     (case (hex_val a, hex_val b, hex_val c, hex_val d) of
        (Some w, Some x, Some y, Some z) \<Rightarrow> Some (((w * 16 + x) * 16 + y) * 16 + z)
      | _ \<Rightarrow> None)"
| "hex4 _ = None"

text \<open>A low surrogate written as \<open>\\uXXXX\<close> at the head of the input.\<close>

definition low_surrogate :: "string \<Rightarrow> nat option" where
  "low_surrogate s =
     (if has_prefix s (bslash ''u'') then
        (case hex4 (drop 2 s) of
           Some r \<Rightarrow> if 56320 \<le> r \<and> r < 57344 then Some r else None
         | None \<Rightarrow> None)
      else None)"

text \<open>The body of a string literal after its opening quote: its value and the rest.\<close>

definition unescape_short :: "char \<Rightarrow> nat option" where
  "unescape_short c =
     (if c = dquote then Some 34 else if c = nat_byte 92 then Some 92
      else if c = CHR ''/'' then Some 47 else if c = CHR ''b'' then Some 8
      else if c = CHR ''f'' then Some 12 else if c = CHR ''n'' then Some 10
      else if c = CHR ''r'' then Some 13 else if c = CHR ''t'' then Some 9 else None)"

fun jstring :: "nat \<Rightarrow> string \<Rightarrow> (string \<times> string) option" where
  "jstring 0 s = None"
| "jstring (Suc f) [] = None"
| "jstring (Suc f) (c # cs) =
     (let cont = (\<lambda>t s'. map_option (\<lambda>(v, r). (t @ v, r)) (jstring f s')) in
      if c = dquote then Some ([], cs)
      else if byte_nat c < 32 then None
      else if c = nat_byte 92 then
        (case cs of
           [] \<Rightarrow> None
         | d # ds \<Rightarrow>
             (case unescape_short d of
                Some r \<Rightarrow> cont [nat_byte r] ds
              | None \<Rightarrow>
                  if d = CHR ''u'' then
                    (case hex4 ds of
                       None \<Rightarrow> None
                     | Some r \<Rightarrow>
                         if 55296 \<le> r \<and> r < 57344 then
                           (case (if r < 56320 then low_surrogate (drop 4 ds) else None) of
                              Some r2 \<Rightarrow>
                                cont (encode_rune (65536 + (r - 55296) * 1024 + (r2 - 56320)))
                                     (drop 10 ds)
                            | None \<Rightarrow> cont (encode_rune 65533) (drop 4 ds))
                         else cont (encode_rune r) (drop 4 ds))
                  else None))
      else (let rw = decode_rune (c # cs) in
            cont (if rw = (65533, 1) then encode_rune 65533 else take (snd rw) (c # cs))
                 (drop (snd rw) (c # cs))))"

text \<open>Numbers: the literal and the rest.\<close>

definition is_digit :: "char \<Rightarrow> bool" where
  "is_digit c = (digit_val c \<noteq> None)"

definition jdigits :: "string \<Rightarrow> (string \<times> string) option" where
  \<comment> \<open>at least one digit\<close>
  "jdigits s = (let ds = takeWhile is_digit s in
     if ds = [] then None else Some (ds, dropWhile is_digit s))"

definition jint :: "string \<Rightarrow> (string \<times> string) option" where
  \<comment> \<open>\<open>0\<close> or digits without a leading zero\<close>
  "jint s = (case s of
     [] \<Rightarrow> None
   | c # cs \<Rightarrow> if c = CHR ''0'' then Some (''0'', cs) else jdigits s)"

definition jfrac :: "string \<Rightarrow> (string \<times> string) option" where
  "jfrac s = (case s of
     [] \<Rightarrow> Some ([], [])
   | c # cs \<Rightarrow>
       if c = CHR ''.'' then map_option (\<lambda>(d, r). (c # d, r)) (jdigits cs)
       else Some ([], s))"

definition jexp :: "string \<Rightarrow> (string \<times> string) option" where
  "jexp s = (case s of
     [] \<Rightarrow> Some ([], [])
   | c # cs \<Rightarrow>
       if c = CHR ''e'' \<or> c = CHR ''E'' then
         (case cs of
            [] \<Rightarrow> None
          | d # ds \<Rightarrow>
              if d = CHR ''+'' \<or> d = CHR ''-''
              then map_option (\<lambda>(x, r). (c # d # x, r)) (jdigits ds)
              else map_option (\<lambda>(x, r). (c # x, r)) (jdigits cs))
       else Some ([], s))"

definition jnumber :: "string \<Rightarrow> (string \<times> string) option" where
  "jnumber s =
     (let (sign, s0) = (case s of [] \<Rightarrow> ([], s) | c # cs \<Rightarrow> if c = CHR ''-'' then (''-'', cs) else ([], s))
      in (case jint s0 of
            None \<Rightarrow> None
          | Some (i, s1) \<Rightarrow>
              (case jfrac s1 of
                 None \<Rightarrow> None
               | Some (fr, s2) \<Rightarrow>
                   (case jexp s2 of
                      None \<Rightarrow> None
                    | Some (e, s3) \<Rightarrow> Some (sign @ i @ fr @ e, s3)))))"

text \<open>
  Values, by recursive descent; the fuel bounds the number of values, members and
  elements on the path, and twice the length of the input is enough (\<open>jvalue_enough\<close>).
\<close>

fun jvalue :: "nat \<Rightarrow> string \<Rightarrow> (json \<times> string) option"
  and jelems :: "nat \<Rightarrow> json list \<Rightarrow> string \<Rightarrow> (json \<times> string) option"
  and jmembers :: "nat \<Rightarrow> (string \<times> json) list \<Rightarrow> string \<Rightarrow> (json \<times> string) option" where
  "jvalue 0 s = None"
| "jvalue (Suc f) s =
     (case jws s of
        [] \<Rightarrow> None
      | c # cs \<Rightarrow>
          if c = CHR ''{'' then
            (if has_prefix (jws cs) ''}'' then Some (JObj [], drop 1 (jws cs)) else jmembers f [] cs)
          else if c = CHR ''['' then
            (if has_prefix (jws cs) '']'' then Some (JArr [], drop 1 (jws cs)) else jelems f [] cs)
          else if c = dquote then map_option (\<lambda>(t, r). (JStr t, r)) (jstring (Suc (length cs)) cs)
          else if has_prefix (c # cs) ''null'' then Some (JNull, drop 4 (c # cs))
          else if has_prefix (c # cs) ''true'' then Some (JBool True, drop 4 (c # cs))
          else if has_prefix (c # cs) ''false'' then Some (JBool False, drop 5 (c # cs))
          else map_option (\<lambda>(n, r). (JNum n, r)) (jnumber (c # cs)))"
| "jelems 0 acc s = None"
| "jelems (Suc f) acc s =
     (case jvalue f s of
        None \<Rightarrow> None
      | Some (v, r) \<Rightarrow>
          (case jws r of
             [] \<Rightarrow> None
           | c # cs \<Rightarrow>
               if c = CHR '','' then jelems f (acc @ [v]) cs
               else if c = CHR '']'' then Some (JArr (acc @ [v]), cs)
               else None))"
| "jmembers 0 acc s = None"
| "jmembers (Suc f) acc s =
     (case jws s of
        [] \<Rightarrow> None
      | q # s1 \<Rightarrow>
          if q \<noteq> dquote then None
          else (case jstring (Suc (length s1)) s1 of
             None \<Rightarrow> None
           | Some (k, s2) \<Rightarrow>
               (case jws s2 of
                  [] \<Rightarrow> None
                | q2 # s3 \<Rightarrow>
                    if q2 \<noteq> CHR '':'' then None
                    else (case jvalue f s3 of
                       None \<Rightarrow> None
                     | Some (v, r) \<Rightarrow>
                         (case jws r of
                            [] \<Rightarrow> None
                          | c # cs \<Rightarrow>
                              if c = CHR '','' then jmembers f (acc @ [(k, v)]) cs
                              else if c = CHR ''}'' then Some (JObj (acc @ [(k, v)]), cs)
                              else None)))))"

text \<open>The scanner refuses a nesting deeper than 10000.\<close>

fun json_depth :: "json \<Rightarrow> nat" where
  "json_depth (JArr js) = Suc (fold max (map json_depth js) 0)"
| "json_depth (JObj ms) = Suc (fold max (map (\<lambda>(k, v). json_depth v) ms) 0)"
| "json_depth _ = 0"

text \<open>\<open>json.Decoder.Decode\<close>: the first value of the input, whatever follows it.\<close>

definition json_decode_first :: "string \<Rightarrow> json option" where
  "json_decode_first s =
     (case jvalue (2 * length s + 2) s of
        Some (v, r) \<Rightarrow> if json_depth v \<le> 10000 then Some v else None
      | None \<Rightarrow> None)"

text \<open>\<open>json.Unmarshal\<close>: the whole input is one value and white space.\<close>

definition json_unmarshal :: "string \<Rightarrow> json option" where
  "json_unmarshal s =
     (case jvalue (2 * length s + 2) s of
        Some (v, r) \<Rightarrow> if jws r = [] \<and> json_depth v \<le> 10000 then Some v else None
      | None \<Rightarrow> None)"

subsection \<open>What is printed is read back\<close>

definition ascii :: "string \<Rightarrow> bool" where
  "ascii s = list_all (\<lambda>c. byte_nat c < 128) s"

lemma ascii_simps [simp]:
  "ascii []" "ascii (c # s) \<longleftrightarrow> byte_nat c < 128 \<and> ascii s"
  "ascii (s @ t) \<longleftrightarrow> ascii s \<and> ascii t"
  by (auto simp: ascii_def)

lemma decode_rune_ascii [simp]: "byte_nat c < 128 \<Longrightarrow> decode_rune (c # s) = (byte_nat c, 1)"
  by (simp add: decode_rune.simps)

lemma json_escape_Nil [simp]: "json_escape [] = []"
  by (simp add: json_escape.simps)

lemma json_escape_ascii [simp]:
  "byte_nat c < 128 \<Longrightarrow> json_escape (c # s) = json_rune (c # s) (byte_nat c) 1 @ json_escape s"
  by (subst json_escape.simps) simp

lemma encode_rune_ascii [simp]: "r < 128 \<Longrightarrow> encode_rune r = [nat_byte r]"
  by (simp add: encode_rune_def)

lemma hex_pad_4: "hex_pad 4 n =
  [hex_digit (n div 16 div 16 div 16 mod 16), hex_digit (n div 16 div 16 mod 16),
   hex_digit (n div 16 mod 16), hex_digit (n mod 16)]"
proof -
  have "(4::nat) = Suc (Suc (Suc (Suc 0)))" by simp
  then show ?thesis by (simp only: hex_pad.simps) simp
qed

lemma hex4_pad [simp]:
  assumes "n < 65536"
  shows "hex4 (hex_pad 4 n @ r) = Some n"
proof -
  have *: "m div 16 * 16 + m mod 16 = m" for m :: nat by simp
  have "n div 16 div 16 div 16 < 16" using assms by linarith
  then have "((n div 16 div 16 div 16 mod 16 * 16 + n div 16 div 16 mod 16) * 16
      + n div 16 mod 16) * 16 + n mod 16 = n"
    using *[of "n div 16 div 16"] *[of "n div 16"] *[of n] by simp
  then show ?thesis by (simp add: hex_pad_4 mult.commute)
qed

lemma drop_4_pad [simp]: "drop 4 (hex_pad 4 n @ r) = r"
  by simp

lemma eq_nat_byte: "n < 256 \<Longrightarrow> c = nat_byte n \<longleftrightarrow> byte_nat c = n"
  by auto

lemma byte_nat_Char: "byte_nat (Char a b c d e f g h) = of_char (Char a b c d e f g h)"
  by (simp add: byte_nat_def)

lemma eq_nat_byte': "n < 256 \<Longrightarrow> nat_byte n = c \<longleftrightarrow> byte_nat c = n"
  by auto

lemma unescape_short_vals:
  "unescape_short dquote = Some 34" "unescape_short (nat_byte 92) = Some 92"
  "unescape_short (CHR ''b'') = Some 8" "unescape_short (CHR ''f'') = Some 12"
  "unescape_short (CHR ''n'') = Some 10" "unescape_short (CHR ''r'') = Some 13"
  "unescape_short (CHR ''t'') = Some 9"
  by (simp_all add: unescape_short_def dquote_def eq_nat_byte eq_nat_byte' byte_nat_Char)

lemma json_short_Some: "json_short r = Some e \<Longrightarrow> unescape_short e = Some r"
  unfolding json_short_def
  by (simp split: if_split_asm add: unescape_short_vals; hypsubst; rule unescape_short_vals)

lemma u_no_short [simp]: "unescape_short (CHR ''u'') = None"
  by (simp add: unescape_short_def dquote_def eq_nat_byte byte_nat_Char)

lemma bslash_byte [simp]: "byte_nat (nat_byte 92) = 92" "nat_byte 92 \<noteq> dquote"
  by (simp_all add: dquote_def nat_byte_inject)

lemma jstring_escape:
  "ascii s \<Longrightarrow> length s < f \<Longrightarrow> jstring f (json_escape s @ dquote # r) = Some (s, r)"
proof (induction s arbitrary: f)
  case Nil
  then show ?case by (cases f) auto
next
  case (Cons c s)
  then obtain g where f: "f = Suc g" and g: "length s < g" by (cases f) auto
  from Cons.prems have c: "byte_nat c < 128" and s: "ascii s" by auto
  have IH: "jstring g (json_escape s @ dquote # r) = Some (s, r)"
    using Cons.IH[OF s g] .
  let ?n = "byte_nat c"
  show ?case
  proof (cases "json_short ?n")
    case (Some e)
    then have "unescape_short e = Some ?n" by (rule json_short_Some)
    then show ?thesis using c IH Some by (simp add: f json_rune_def bslash_def)
  next
    case None
    then have n: "?n \<noteq> 34" "?n \<noteq> 92" by (auto simp: json_short_def)
    then have cc: "c \<noteq> dquote" "c \<noteq> nat_byte 92" by (auto simp: dquote_def)
    show ?thesis
    proof (cases "?n < 32 \<or> ?n = 38 \<or> ?n = 60 \<or> ?n = 62")
      case True
      then have "?n < 65536" "?n < 128" using c by auto
      then show ?thesis using True c IH None
        by (simp add: f json_rune_def bslash_def)
    next
      case False
      then show ?thesis using c IH None cc by (simp add: f json_rune_def)
    qed
  qed
qed

text \<open>The trees the round trip covers: ASCII strings and keys, unsigned integers.\<close>

definition plain_num :: "string \<Rightarrow> bool" where
  "plain_num n = (n \<noteq> [] \<and> list_all is_digit n \<and> (hd n = CHR ''0'' \<longrightarrow> tl n = []))"

fun plain :: "json \<Rightarrow> bool" where
  "plain JNull = True"
| "plain (JBool _) = True"
| "plain (JNum n) = plain_num n"
| "plain (JStr s) = ascii s"
| "plain (JArr js) = list_all plain js"
| "plain (JObj ms) = list_all (\<lambda>(k, v). ascii k \<and> plain v) ms"

lemma plain_num_dec [simp]: "plain_num (dec n)"
proof -
  have "list_all is_digit (dec n)"
    using dec_digits[of _ n] by (fastforce simp: list_all_iff is_digit_def)
  moreover have "hd (dec n) = CHR ''0'' \<longrightarrow> tl (dec n) = []"
  proof (cases "n = 0")
    case False
    then show ?thesis using dec_hd[of n] by (auto simp: digit_char_def eq_nat_byte byte_nat_Char)
  qed (simp add: dec.simps)
  ultimately show ?thesis by (simp add: plain_num_def)
qed

definition stops :: "string \<Rightarrow> bool" where
  "stops r = (r = [] \<or> hd r \<in> {CHR '','', CHR ''}'', CHR '']''})"

lemma not_digit [simp]: "\<not> is_digit (CHR '','')" "\<not> is_digit (CHR ''}'')" "\<not> is_digit (CHR '']'')"
  by (simp_all add: is_digit_def digit_val_def byte_nat_Char)

lemma jnumber_plain:
  assumes "plain_num n" "stops r"
  shows "jnumber (n @ r) = Some (n, r)"
proof -
  obtain c cs where n: "n = c # cs" "is_digit c" "list_all is_digit cs"
    using assms(1) by (cases n) (auto simp: plain_num_def)
  have c: "c \<noteq> CHR ''-''" using n(2) by (auto simp: is_digit_def)
  have tw: "takeWhile is_digit r = []" "dropWhile is_digit r = r"
    using assms(2) by (cases r; auto simp: stops_def)+
  have "jint (n @ r) = Some (n, r)"
  proof (cases "c = CHR ''0''")
    case True
    with assms(1) n show ?thesis by (simp add: jint_def plain_num_def)
  next
    case False
    have "takeWhile is_digit (n @ r) = n" "dropWhile is_digit (n @ r) = r"
      using n tw by (auto simp: takeWhile_append dropWhile_append list_all_iff)
    then show ?thesis using False n by (simp add: jint_def jdigits_def)
  qed
  moreover have "jfrac r = Some ([], r)" "jexp r = Some ([], r)"
    using assms(2) by (cases r; auto simp: jfrac_def jexp_def stops_def)+
  ultimately show ?thesis using n c by (simp add: jnumber_def)
qed

lemma is_ws_simps [simp]: "\<not> is_ws (CHR ''{'')" "\<not> is_ws (CHR ''['')" "\<not> is_ws dquote"
  "\<not> is_ws (CHR '','')" "\<not> is_ws (CHR ''}'')" "\<not> is_ws (CHR '']'')" "\<not> is_ws (CHR '':'')"
  "\<not> is_ws (CHR ''n'')" "\<not> is_ws (CHR ''t'')" "\<not> is_ws (CHR ''f'')"
  by (simp_all add: is_ws_def eq_nat_byte byte_nat_Char dquote_def)

lemma is_ws_digit [simp]: "is_digit c \<Longrightarrow> \<not> is_ws c"
  by (auto simp: is_ws_def is_digit_def digit_val_def)

lemma jws_cons [simp]: "\<not> is_ws c \<Longrightarrow> jws (c # s) = c # s"
  by (simp add: jws_def)

lemma dquote_neq [simp]: "dquote \<noteq> CHR ''{''" "dquote \<noteq> CHR ''[''" "dquote \<noteq> CHR ''}''"
  "dquote \<noteq> CHR '']''" "CHR ''n'' \<noteq> dquote" "CHR ''t'' \<noteq> dquote" "CHR ''f'' \<noteq> dquote"
  by (simp_all add: eq_nat_byte eq_nat_byte' byte_nat_Char dquote_def)

lemma jws_print [simp]: "plain j \<Longrightarrow> jws (json_print j @ r) = json_print j @ r"
  by (cases j) (auto simp: json_quote_def plain_num_def neq_Nil_conv)

lemma print_not_close: "plain j \<Longrightarrow> \<not> has_prefix (json_print j @ r) '']''"
  by (cases j)
     (auto simp: json_quote_def plain_num_def neq_Nil_conv has_prefix_def is_digit_def digit_val_def
        byte_nat_Char)

lemma length_escape: "ascii s \<Longrightarrow> length s \<le> length (json_escape s)"
proof (induction s)
  case (Cons c s)
  have "1 \<le> length (json_rune (c # s) (byte_nat c) 1)"
    by (auto simp: json_rune_def bslash_def split: option.splits)
  with Cons show ?case by simp
qed simp

lemma jstring_quote:
  "ascii s \<Longrightarrow> jstring (Suc (length (json_escape s @ dquote # r))) (json_escape s @ dquote # r) = Some (s, r)"
  using length_escape[of s] by (intro jstring_escape) auto

lemma digit_val_letters [simp]: "digit_val (CHR ''{'') = None" "digit_val (CHR ''['') = None"
  "digit_val dquote = None" "digit_val (CHR ''n'') = None" "digit_val (CHR ''t'') = None"
  "digit_val (CHR ''f'') = None"
  by (simp_all add: digit_val_def byte_nat_Char dquote_def)

lemma join_Cons: "join sep (x # xs) = (if xs = [] then x else x @ sep @ join sep xs)"
  by (cases xs) auto

lemma jelems_print:
  assumes IH: "\<And>j f r. j \<in> set js \<Longrightarrow> stops r \<Longrightarrow> 2 * length (json_print j) \<le> f \<Longrightarrow>
      jvalue f (json_print j @ r) = Some (j, r)"
    and "js \<noteq> []" and "2 * length (join '','' (map json_print js)) + 1 \<le> f"
  shows "jelems f acc (join '','' (map json_print js) @ '']'' @ r) = Some (JArr (acc @ js), r)"
  using assms
proof (induction js arbitrary: f acc)
  case (Cons j js)
  then obtain g where f: "f = Suc g" by (cases f) auto
  show ?case
  proof (cases "js = []")
    case True
    have "jvalue g (json_print j @ '']'' @ r) = Some (j, '']'' @ r)"
      using Cons.prems True by (auto simp: f stops_def)
    with True show ?thesis by (simp add: f)
  next
    case False
    let ?t = "'','' @ join '','' (map json_print js) @ '']'' @ r"
    have "jvalue g (json_print j @ ?t) = Some (j, ?t)"
      using Cons.prems False by (auto simp: f stops_def join_Cons)
    moreover have "jelems g (acc @ [j]) (join '','' (map json_print js) @ '']'' @ r)
        = Some (JArr ((acc @ [j]) @ js), r)"
    proof (rule Cons.IH)
      show "2 * length (join '','' (map json_print js)) + 1 \<le> g"
        using Cons.prems(3) False by (simp add: f join_Cons)
    qed (use Cons.prems False in auto)
    ultimately show ?thesis using False by (simp add: f join_Cons)
  qed
qed simp

lemma jmembers_print:
  assumes IH: "\<And>k j f r. (k, j) \<in> set ms \<Longrightarrow> stops r \<Longrightarrow> 2 * length (json_print j) \<le> f \<Longrightarrow>
      jvalue f (json_print j @ r) = Some (j, r)"
    and "ms \<noteq> []" and "list_all (\<lambda>(k, v). ascii k) ms"
    and "2 * length (join '','' (map (\<lambda>(k, v). json_quote k @ '':'' @ json_print v) ms)) + 1 \<le> f"
  shows "jmembers f acc (join '','' (map (\<lambda>(k, v). json_quote k @ '':'' @ json_print v) ms) @ ''}'' @ r)
    = Some (JObj (acc @ ms), r)"
  using assms
proof (induction ms arbitrary: f acc)
  case (Cons kv ms)
  obtain k j where kv: "kv = (k, j)" by force
  have k: "ascii k" using Cons.prems by (simp add: kv)
  obtain g where f: "f = Suc g" using Cons.prems by (cases f) auto
  let ?rest = "join '','' (map (\<lambda>(k, v). json_quote k @ '':'' @ json_print v) ms)"
  let ?t = "if ms = [] then ''}'' @ r else '','' @ ?rest @ ''}'' @ r"
  have v: "jvalue g (json_print j @ ?t) = Some (j, ?t)"
  proof (rule Cons.prems(1))
    show "(k, j) \<in> set (kv # ms)" by (simp add: kv)
    show "stops ?t" by (simp add: stops_def)
    show "2 * length (json_print j) \<le> g"
      using Cons.prems(4) by (auto simp: f kv join_Cons json_quote_def split: if_splits)
  qed
  have q: "jstring (Suc (length (json_escape k @ dquote # '':'' @ json_print j @ ?t)))
      (json_escape k @ dquote # '':'' @ json_print j @ ?t) = Some (k, '':'' @ json_print j @ ?t)"
    using k by (rule jstring_quote)
  have eq: "join '','' (map (\<lambda>(k, v). json_quote k @ '':'' @ json_print v) (kv # ms)) @ ''}'' @ r
      = dquote # json_escape k @ dquote # '':'' @ json_print j @ ?t"
    by (simp add: kv join_Cons json_quote_def)
  have "jmembers g (acc @ [(k, j)]) (?rest @ ''}'' @ r) = Some (JObj ((acc @ [(k, j)]) @ ms), r)"
    if "ms \<noteq> []"
  proof (rule Cons.IH)
    show "2 * length ?rest + 1 \<le> g"
      using Cons.prems(4) that by (simp add: f join_Cons)
  qed (use Cons.prems that in \<open>auto simp: kv\<close>)
  then show ?case
    unfolding eq using q v by (auto simp: f kv)
qed simp

lemma jvalue_print:
  "plain j \<Longrightarrow> stops r \<Longrightarrow> 2 * length (json_print j) \<le> f \<Longrightarrow>
   jvalue f (json_print j @ r) = Some (j, r)"
proof (induction j arbitrary: f r)
  case JNull
  then obtain g where f: "f = Suc g" by (cases f) auto
  then show ?case by (simp add: has_prefix_def)
next
  case (JBool b)
  then obtain g where f: "f = Suc g" by (cases f) (auto split: if_splits)
  then show ?case by (simp add: has_prefix_def)
next
  case (JNum n)
  then obtain c cs where n: "n = c # cs" "is_digit c" by (cases n) (auto simp: plain_num_def)
  then obtain g where f: "f = Suc g" using JNum by (cases f) auto
  have "jnumber (n @ r) = Some (n, r)" using JNum by (intro jnumber_plain) auto
  moreover have "c \<noteq> CHR ''{''" "c \<noteq> CHR ''[''" "c \<noteq> dquote" "c \<noteq> CHR ''n''" "c \<noteq> CHR ''t''" "c \<noteq> CHR ''f''"
    using n(2) digit_val_letters by (auto simp: is_digit_def)
  ultimately show ?case using n by (simp add: f has_prefix_def)
next
  case (JStr s)
  then obtain g where f: "f = Suc g" by (cases f) (auto simp: json_quote_def)
  show ?case using JStr.prems jstring_quote[of s r] by (simp add: f json_quote_def)
next
  case (JArr js)
  then obtain g where f: "f = Suc g" by (cases f) auto
  show ?case
  proof (cases js)
    case Nil
    then show ?thesis by (simp add: f has_prefix_def jws_def is_ws_simps)
  next
    case (Cons j js')
    have el: "jelems g [] (join '','' (map json_print js) @ '']'' @ r) = Some (JArr ([] @ js), r)"
    proof (rule jelems_print)
      fix j f r
      assume "j \<in> set js" "stops r" "2 * length (json_print j) \<le> f"
      then show "jvalue f (json_print j @ r) = Some (j, r)"
        using JArr by (auto simp: list_all_iff)
    qed (use JArr.prems Cons f in auto)
    have "plain j" using JArr.prems Cons by simp
    obtain t where t: "join '','' (map json_print js) @ '']'' @ r = json_print j @ t"
      by (cases "js' = []") (auto simp: Cons join_Cons)
    with \<open>plain j\<close> have "jws (join '','' (map json_print js) @ '']'' @ r) = json_print j @ t"
      by simp
    then show ?thesis using el print_not_close[OF \<open>plain j\<close>, of t] by (simp add: f)
  qed
next
  case (JObj ms)
  then obtain g where f: "f = Suc g" by (cases f) auto
  let ?p = "map (\<lambda>(k, v). json_quote k @ '':'' @ json_print v) ms"
  show ?case
  proof (cases ms)
    case Nil
    then show ?thesis by (simp add: f has_prefix_def jws_def is_ws_simps)
  next
    case (Cons kv ms')
    have el: "jmembers g [] (join '','' ?p @ ''}'' @ r) = Some (JObj ([] @ ms), r)"
    proof (rule jmembers_print)
      fix k j f r
      assume "(k, j) \<in> set ms" "stops r" "2 * length (json_print j) \<le> f"
      then show "jvalue f (json_print j @ r) = Some (j, r)"
        using JObj by (fastforce simp: list_all_iff)
    qed (use JObj.prems Cons f in \<open>auto simp: list_all_iff\<close>)
    obtain t where t: "join '','' ?p @ ''}'' @ r = dquote # t"
      by (cases kv; cases "ms' = []") (auto simp: Cons join_Cons json_quote_def)
    have "jws (join '','' ?p @ ''}'' @ r) = dquote # t" unfolding t by simp
    then show ?thesis using el by (simp add: f has_prefix_def)
  qed
qed


text \<open>Enough fuel, hence the round trip through \<open>json.Unmarshal\<close>.\<close>

theorem json_unmarshal_print:
  "plain j \<Longrightarrow> json_depth j \<le> 10000 \<Longrightarrow> json_unmarshal (json_print j) = Some j"
  using jvalue_print[of j "[]" "2 * length (json_print j) + 2"]
  by (simp add: json_unmarshal_def stops_def jws_def)

subsection \<open>The indented form of a flat object\<close>

lemma jws_nl [simp]: "jws (json_nl d @ s) = jws s"
proof -
  have "is_ws (nat_byte 10)" "is_ws (CHR '' '')"
    by (simp_all add: is_ws_def eq_nat_byte byte_nat_Char)
  then show ?thesis by (simp add: jws_def json_nl_def dropWhile_append)
qed

lemma jws_space [simp]: "jws (CHR '' '' # s) = jws s"
  by (simp add: jws_def is_ws_def eq_nat_byte byte_nat_Char)

lemma jmembers_nl [simp]: "jmembers f acc (json_nl d @ s) = jmembers f acc s"
  by (cases f) simp_all

definition flat_member :: "string \<times> string \<Rightarrow> string" where
  "flat_member = (\<lambda>(k, v). json_quote k @ '': '' @ json_quote v)"

lemma jvalue_space_str:
  "ascii v \<Longrightarrow> jvalue (Suc f) (CHR '' '' # json_quote v @ r) = Some (JStr v, r)"
  using jstring_quote[of v r] by (simp add: json_quote_def)

lemma jmembers_flat_one:
  assumes "ascii k" "ascii v" "jws t = c # cs"
  shows "jmembers (Suc (Suc f)) acc (flat_member (k, v) @ t) =
    (if c = CHR '','' then jmembers (Suc f) (acc @ [(k, JStr v)]) cs
     else if c = CHR ''}'' then Some (JObj (acc @ [(k, JStr v)]), cs) else None)"
proof -
  have q: "jstring (Suc (length (json_escape k @ dquote # '': '' @ json_quote v @ t)))
      (json_escape k @ dquote # '': '' @ json_quote v @ t) = Some (k, '': '' @ json_quote v @ t)"
    using assms(1) by (rule jstring_quote)
  have eq: "flat_member (k, v) @ t = dquote # json_escape k @ dquote # '': '' @ json_quote v @ t"
    by (simp add: flat_member_def json_quote_def)
  show ?thesis
    unfolding eq using q jvalue_space_str[OF assms(2), of f t] assms(3)
    by (simp del: jvalue.simps)
qed

lemma jmembers_flat:
  assumes "ms \<noteq> []" and "list_all (\<lambda>(k, v). ascii k \<and> ascii v) ms" and "length ms < f"
  shows "jmembers f acc (join ('','' @ json_nl d) (map flat_member ms) @ json_nl d' @ ''}'' @ r)
    = Some (JObj (acc @ map (\<lambda>(k, v). (k, JStr v)) ms), r)"
  using assms
proof (induction ms arbitrary: f acc)
  case (Cons kv ms)
  obtain k v where kv: "kv = (k, v)" by force
  obtain g where f: "f = Suc (Suc g)" using Cons.prems(3) by (cases f; cases "f - 1") auto
  have a: "ascii k" "ascii v" using Cons.prems by (simp_all add: kv)
  show ?case
  proof (cases "ms = []")
    case True
    have "jws (json_nl d' @ ''}'' @ r) = CHR ''}'' # r" by simp
    from jmembers_flat_one[OF a this, of g acc] True show ?thesis
      by (simp add: f kv del: jmembers.simps jvalue.simps)
  next
    case False
    let ?t = "join ('','' @ json_nl d) (map flat_member ms) @ json_nl d' @ ''}'' @ r"
    have "jws ('','' @ json_nl d @ ?t) = CHR '','' # json_nl d @ ?t" by simp
    from jmembers_flat_one[OF a this, of g acc]
    have "jmembers f acc (flat_member kv @ '','' @ json_nl d @ ?t) =
        jmembers (Suc g) (acc @ [(k, JStr v)]) ?t"
      by (simp add: f kv del: jmembers.simps jvalue.simps)
    also have "\<dots> = Some (JObj ((acc @ [(k, JStr v)]) @ map (\<lambda>(k, v). (k, JStr v)) ms), r)"
      using Cons.prems False by (intro Cons.IH) (simp_all add: f)
    finally show ?thesis using False by (simp add: kv join_Cons)
  qed
qed simp

theorem json_unmarshal_indent_flat:
  assumes "ms \<noteq> []" and "list_all (\<lambda>(k, v). ascii k \<and> ascii v) ms"
  shows "json_unmarshal (json_indent 0 (JObj (map (\<lambda>(k, v). (k, JStr v)) ms)))
    = Some (JObj (map (\<lambda>(k, v). (k, JStr v)) ms))"
proof -
  let ?j = "JObj (map (\<lambda>(k, v). (k, JStr v)) ms)"
  let ?b = "join ('','' @ json_nl (Suc 0)) (map flat_member ms) @ json_nl 0 @ ''}'' @ []"
  have p: "json_indent 0 ?j = CHR ''{'' # json_nl (Suc 0) @ ?b"
    using assms(1) by (simp add: flat_member_def comp_def case_prod_unfold)
  have len: "length ms \<le> length (join sep (map flat_member ms))" for sep
    by (induction ms) (auto simp: join_Cons flat_member_def json_quote_def)
  have m: "jmembers f [] ?b = Some (?j, [])" if "length ms < f" for f
    using jmembers_flat[OF assms that, of "[]" "Suc 0" 0 "[]"] by simp
  have "length ms < 2 * length (json_indent 0 ?j) + 1"
    unfolding p using len[of "'','' @ json_nl (Suc 0)"] by simp
  then obtain f where f: "2 * length (json_indent 0 ?j) + 2 = Suc f" "length ms < f"
    by (metis Suc_eq_plus1 add_2_eq_Suc')
  obtain t where "?b = dquote # t"
    using assms(1) by (cases ms; cases "tl ms = []") (auto simp: join_Cons flat_member_def json_quote_def)
  then have c: "\<not> has_prefix (jws (json_nl (Suc 0) @ ?b)) ''}''" by (simp add: has_prefix_def)
  have "jvalue (Suc f) (json_indent 0 ?j) = Some (?j, [])"
    unfolding p using c m[OF f(2)] by (simp del: jmembers.simps)
  moreover have "json_depth ?j = Suc 0"
  proof -
    have "map (\<lambda>(k, v). json_depth v) (map (\<lambda>(k, v). (k, JStr v)) ms) = replicate (length ms) 0"
      by (induction ms) auto
    moreover have "fold max (replicate n 0) (0::nat) = 0" for n by (induction n) auto
    ultimately show ?thesis by simp
  qed
  ultimately show ?thesis using f(1) by (simp add: json_unmarshal_def jws_def)
qed

subsection \<open>Decoding into structs\<close>

text \<open>
  A key of the input selects a struct field when it equals the field's name up to
  case folding. \<open>encoding/json\<close> folds ASCII letters, and the Kelvin sign and the
  long s fold to \<open>K\<close> and \<open>S\<close>.
\<close>

fun fold_name :: "string \<Rightarrow> string" where
  "fold_name s =
     (case s of
        [] \<Rightarrow> []
      | c # cs \<Rightarrow>
          if has_prefix s (map nat_byte [226, 132, 170]) then CHR ''K'' # fold_name (drop 2 cs)
          else if has_prefix s (map nat_byte [197, 191]) then CHR ''S'' # fold_name (drop 1 cs)
          else if 97 \<le> byte_nat c \<and> byte_nat c \<le> 122 then nat_byte (byte_nat c - 32) # fold_name cs
          else c # fold_name cs)"

declare fold_name.simps [simp del]

text \<open>
  The members of the input in order, each with the field it selects: the exact name
  first, else the first field equal up to folding; \<open>None\<close> for an unknown key.
\<close>

definition find_field :: "string list \<Rightarrow> string \<Rightarrow> string option" where
  "find_field names k =
     (if k \<in> set names then Some k
      else find (\<lambda>n. fold_name n = fold_name k) names)"

text \<open>A member decoded into a string field or a \<open>uint64\<close> field; \<open>null\<close> leaves the field
  alone, another kind of value is a type error.\<close>

fun into_string :: "json \<Rightarrow> string \<Rightarrow> string option" where
  "into_string (JStr s) old = Some s"
| "into_string JNull old = Some old"
| "into_string _ old = None"

fun into_u64 :: "json \<Rightarrow> u64 \<Rightarrow> u64 option" where
  "into_u64 (JNum n) old =
     (case parse_uint64 n of (v, None) \<Rightarrow> Some v | (v, Some e) \<Rightarrow> None)"
| "into_u64 JNull old = Some old"
| "into_u64 _ old = None"

subsection \<open>Enough fuel\<close>

text \<open>Every part of the parser leaves less than it was given.\<close>

lemma jws_Cons_less: "jws s = c # cs \<Longrightarrow> length cs < length s"
  using length_dropWhile_le[of is_ws s] by (simp add: jws_def)

lemma jstring_less: "jstring f s = Some (v, r) \<Longrightarrow> length r < length s"
proof (induction f arbitrary: s v r)
  case (Suc f)
  have d: "length r < Suc n" if "jstring f (drop k ds) = Some (v', r)" "length ds \<le> Suc n" for k ds v' n
    using Suc.IH[OF that(1)] that(2) by simp
  show ?case using Suc.prems
    by (cases s) (auto simp: Let_def split: if_splits option.splits list.splits intro: d dest: Suc.IH)
qed simp

lemma jdigits_le: "jdigits s = Some (v, r) \<Longrightarrow> length r < length s"
proof -
  assume a: "jdigits s = Some (v, r)"
  then have "takeWhile is_digit s \<noteq> []" and r: "r = dropWhile is_digit s"
    by (auto simp: jdigits_def Let_def split: if_splits)
  then obtain c cs where "s = c # cs" "is_digit c" by (cases s) (auto split: if_splits)
  then show ?thesis using length_dropWhile_le[of is_digit cs] by (simp add: r)
qed

lemma jnumber_less: "jnumber s = Some (v, r) \<Longrightarrow> length r < length s"
proof -
  assume a: "jnumber s = Some (v, r)"
  let ?t = "case s of [] \<Rightarrow> ([], s) | c # cs \<Rightarrow> if c = CHR ''-'' then (''-'', cs) else ([], s)"
  from a obtain i s1 fr s2 e where p: "jint (snd ?t) = Some (i, s1)" "jfrac s1 = Some (fr, s2)" "jexp s2 = Some (e, r)"
    by (auto simp: jnumber_def Let_def split: prod.splits option.splits)
  have "length s1 < length (snd ?t)" using p(1)
    by (auto simp: jint_def split: list.splits if_splits dest: jdigits_le)
  moreover have "length (snd ?t) \<le> length s" by (simp split: list.splits)
  moreover have "length s2 \<le> length s1" using p(2)
    by (auto simp: jfrac_def split: list.splits if_splits dest: jdigits_le)
  moreover have "length r \<le> length s2" using p(3)
    by (auto simp: jexp_def split: list.splits if_splits dest: jdigits_le)
  ultimately show ?thesis by linarith
qed

lemma parse_less:
  "(\<forall>s v r. jvalue f s = Some (v, r) \<longrightarrow> length r < length s)
   \<and> (\<forall>acc s v r. jelems f acc s = Some (v, r) \<longrightarrow> length r < length s)
   \<and> (\<forall>acc s v r. jmembers f acc s = Some (v, r) \<longrightarrow> length r < length s)"
proof (induction f)
  case (Suc f)
  have v: "length r < length s" if "jvalue f s = Some (v, r)" for s v r using Suc that by blast
  have el: "length r < length s" if "jelems f acc s = Some (v, r)" for acc s v r using Suc that by blast
  have me: "length r < length s" if "jmembers f acc s = Some (v, r)" for acc s v r using Suc that by blast
  have d: "length (drop k (c # cs)) < length s" if "jws s = c # cs" "0 < k" for k c s cs
    using jws_Cons_less[OF that(1)] that(2) by simp
  have w: "length (drop k (jws cs)) < length s" if "jws s = c # cs" for k c s cs
    using jws_Cons_less[OF that] length_dropWhile_le[of is_ws cs] by (simp add: jws_def)
  have vl: "length r < length s" if "jvalue (Suc f) s = Some (v, r)" for s v r
  proof (cases "jws s")
    case (Cons c cs)
    note l = jws_Cons_less[OF Cons]
    have "(\<exists>v. jmembers f [] cs = Some (v, r)) \<or> (\<exists>v. jelems f [] cs = Some (v, r))
        \<or> (\<exists>t. jstring (Suc (length cs)) cs = Some (t, r)) \<or> (\<exists>n. jnumber (c # cs) = Some (n, r))
        \<or> r = drop 1 (jws cs) \<or> r = drop 3 cs \<or> r = drop 4 cs"
      using that by (auto simp: Cons split: if_splits)
    moreover have "length (drop 1 (jws cs)) \<le> length cs"
      using length_dropWhile_le[of is_ws cs] by (simp add: jws_def)
    ultimately have "length r \<le> length cs"
      by (auto dest: me el jstring_less jnumber_less)
    then show ?thesis using l by simp
  qed (use that in simp)
  have elems: "length r < length s" if "jelems (Suc f) acc s = Some (v, r)" for acc s v r
    using that by (fastforce split: option.splits list.splits if_splits dest!: v el jws_Cons_less)
  have members: "length r < length s" if "jmembers (Suc f) acc s = Some (v, r)" for acc s v r
    using that by (fastforce split: option.splits list.splits if_splits dest!: v me jws_Cons_less jstring_less)
  show ?case using vl elems members by blast
qed simp

lemma jstring_enough:
  "length s < f \<Longrightarrow> length s < g \<Longrightarrow> jstring f s = jstring g s"
proof (induction f arbitrary: s g)
  case (Suc f)
  then obtain g' where g: "g = Suc g'" by (cases g) auto
  show ?case
  proof (cases s)
    case (Cons c cs)
    have e: "jstring f t = jstring g' t" if "length t < length s" for t
      using Suc.IH[of t g'] Suc.prems that g by simp
    have w: "length (drop (snd (decode_rune (c # cs))) (c # cs)) < length s"
      using decode_rune_width[of "c # cs"] Cons by simp
    have d: "length (drop k ds) < length s" if "cs = x # ds" for k x ds
      using that Cons by simp
    show ?thesis unfolding g Cons jstring.simps Let_def
      using e[OF w] e[OF d] e[OF d[where k = 0, unfolded drop_0]] by (auto split: list.splits option.splits)
  qed (simp add: g)
qed simp

text \<open>More fuel than twice the length of the input changes nothing.\<close>

lemma parse_enough:
  "(\<forall>s g. 2 * length s < f \<and> 2 * length s < g \<longrightarrow> jvalue f s = jvalue g s)
   \<and> (\<forall>acc s g. 2 * length s + 1 < f \<and> 2 * length s + 1 < g \<longrightarrow> jelems f acc s = jelems g acc s)
   \<and> (\<forall>acc s g. 2 * length s < f \<and> 2 * length s < g \<longrightarrow> jmembers f acc s = jmembers g acc s)"
proof (induction f)
  case (Suc f)
  have v: "jvalue f s = jvalue g s" if "2 * length s < f" "2 * length s < g" for s g using Suc that by blast
  have el: "jelems f acc s = jelems g acc s" if "2 * length s + 1 < f" "2 * length s + 1 < g" for acc s g
    using Suc that by blast
  have me: "jmembers f acc s = jmembers g acc s" if "2 * length s < f" "2 * length s < g" for acc s g
    using Suc that by blast
  have vl: "jvalue (Suc f) s = jvalue (Suc g) s" if "2 * length s < Suc f" "2 * length s < Suc g" for s g
  proof (cases "jws s")
    case (Cons c cs)
    have "jmembers f [] cs = jmembers g [] cs" "jelems f [] cs = jelems g [] cs"
      using jws_Cons_less[OF Cons] that by (auto intro!: me el)
    then show ?thesis by (simp only: jvalue.simps Cons list.case)
  qed simp
  have elems: "jelems (Suc f) acc s = jelems (Suc g) acc s"
    if "2 * length s + 1 < Suc f" "2 * length s + 1 < Suc g" for acc s g
  proof -
    have e: "jvalue f s = jvalue g s" using that by (intro v) simp_all
    have r: "jelems f (acc @ [x]) cs = jelems g (acc @ [x]) cs" if j: "jvalue g s = Some (x, r)" "jws r = c # cs" for x r c cs
    proof -
      have "length r < length s" using j(1) parse_less by blast
      with jws_Cons_less[OF j(2)] \<open>2 * length s + 1 < Suc f\<close> \<open>2 * length s + 1 < Suc g\<close>
      show ?thesis by (intro el) simp_all
    qed
    show ?thesis unfolding jelems.simps e using r by (auto split: option.splits list.splits)
  qed
  have members: "jmembers (Suc f) acc s = jmembers (Suc g) acc s"
    if "2 * length s < Suc f" "2 * length s < Suc g" for acc s g
  proof -
    have e: "jvalue f s3 = jvalue g s3" if "length s3 < length s" for s3
      using that \<open>2 * length s < Suc f\<close> \<open>2 * length s < Suc g\<close> by (intro v) simp_all
    have m: "jmembers f acc' cs = jmembers g acc' cs" if "length cs < length s" for acc' cs
      using that \<open>2 * length s < Suc f\<close> \<open>2 * length s < Suc g\<close> by (intro me) simp_all
    show ?thesis
    proof (cases "jws s")
      case (Cons q s1)
      note l1 = jws_Cons_less[OF Cons]
      show ?thesis
      proof (cases "jstring (Suc (length s1)) s1")
        case (Some ks)
        obtain k s2 where ks: "ks = (k, s2)" by (cases ks)
        have l2: "length s2 < length s1" using jstring_less Some ks by blast
        show ?thesis
        proof (cases "jws s2")
          case s3: (Cons q2 s3)
          have "length s3 < length s" using jws_Cons_less[OF s3] l1 l2 by linarith
          note e3 = e[OF this]
          have "jmembers f acc' cs = jmembers g acc' cs" if j: "jvalue g s3 = Some (x, r)" "jws r = c # cs" for acc' x r c cs
          proof -
            have "length r < length s3" using j(1) parse_less by blast
            with jws_Cons_less[OF j(2)] \<open>length s3 < length s\<close> show ?thesis by (intro m) simp
          qed
          then show ?thesis
            by (auto simp: Cons Some ks s3 e3 split: option.splits list.splits)
        qed (simp add: Cons Some ks)
      qed (simp add: Cons)
    qed simp
  qed
  show ?case
  proof (intro conjI allI impI)
    fix s :: string and g assume "2 * length s < Suc f \<and> 2 * length s < (g :: nat)"
    then show "jvalue (Suc f) s = jvalue g s" using vl[of s "g - 1"] by (cases g) simp_all
  next
    fix acc and s :: string and g assume "2 * length s + 1 < Suc f \<and> 2 * length s + 1 < (g :: nat)"
    then show "jelems (Suc f) acc s = jelems g acc s" using elems[of s "g - 1" acc] by (cases g) simp_all
  next
    fix acc and s :: string and g assume "2 * length s < Suc f \<and> 2 * length s < (g :: nat)"
    then show "jmembers (Suc f) acc s = jmembers g acc s" using members[of s "g - 1" acc] by (cases g) simp_all
  qed
qed simp

theorem jvalue_enough:
  assumes "2 * length s + 2 \<le> f"
  shows "jvalue f s = jvalue (2 * length s + 2) s"
proof -
  have "2 * length s < f" using assms by simp
  moreover have "2 * length s < 2 * length s + 2" by simp
  ultimately show ?thesis using parse_enough[of f] by blast
qed

end
