(* ===== verification/GuardTypes.thy ===== *)
theory GuardTypes
  imports GoJson
begin

text \<open>
  \<open>tee/go/pkg/types/types.go\<close> and \<open>tee/go/internal/config/config.go\<close>: the request and
  response types of the guard, their JSON form (struct tags, field order,
  \<open>omitempty\<close>), and the configured ports.
\<close>

subsection \<open>Constants and configuration\<close>

definition action_heartbeat :: "8 word" where "action_heartbeat = 0"
definition action_vault_top_up :: "8 word" where "action_vault_top_up = 1"
definition action_redemption_handled :: "8 word" where "action_redemption_handled = 2"

definition op_type_guard :: string where "op_type_guard = ''GUARD''"
definition op_command_check_vault :: string where "op_command_check_vault = ''CHECK_VAULT''"
definition op_command_top_up :: string where "op_command_top_up = ''EXECUTE_TOP_UP''"
definition version :: string where "version = ''0.1.0-praesidio''"

text \<open>The package's \<open>init\<close>: a variable that is set and parses overrides its default.\<close>

definition port_override :: "string \<Rightarrow> int \<Rightarrow> int" where
  "port_override v dflt =
     (if v \<noteq> [] then (case atoi v of Some p \<Rightarrow> p | None \<Rightarrow> dflt) else dflt)"

definition config_ports :: "env \<Rightarrow> int \<times> int" where
  "config_ports e =
     (port_override (e ''EXTENSION_PORT'') 8080, port_override (e ''SIGN_PORT'') 9090)"

subsection \<open>Requests, responses, state\<close>

record check_vault_request =
  agent_vault :: string
  guard_id :: u64

record vault_health =
  vault :: string
  vault_collateral_wei :: string
  liq_factor_vault_bips :: string
  liq_factor_pool_bips :: string
  max_liquidation_amount :: string
  xrp_usd :: string
  collateral_ratio_bips :: u64
  liquidatable :: bool
  below_policy_threshold :: bool

record signed_action =
  sa_guard_id :: u64
  sa_action_type :: "8 word"
  sa_amount :: string
  sa_nonce :: u64
  sa_chain_id :: u64
  sa_digest :: string
  sa_signature :: string
  sa_signer :: string

record check_vault_response =
  healthy :: bool
  health :: vault_health
  decision :: string
  signed :: "signed_action option"

text \<open>Go's zero values.\<close>

definition zero_request :: check_vault_request where
  "zero_request = \<lparr>agent_vault = [], guard_id = 0\<rparr>"

definition zero_health :: vault_health where
  "zero_health = \<lparr>vault = [], vault_collateral_wei = [], liq_factor_vault_bips = [],
     liq_factor_pool_bips = [], max_liquidation_amount = [], xrp_usd = [],
     collateral_ratio_bips = 0, liquidatable = False, below_policy_threshold = False\<rparr>"

text \<open>The \<open>Extension\<close> struct (without the server and the lock).\<close>

record extension =
  last_check_vault :: string
  last_decision :: string
  checks_performed :: u64
  actions_signed :: u64

definition new_extension :: extension where
  "new_extension = \<lparr>last_check_vault = [], last_decision = [], checks_performed = 0, actions_signed = 0\<rparr>"

subsection \<open>JSON forms\<close>

definition jword :: "'a::len word \<Rightarrow> json" where
  "jword w = JNum (dec (unat w))"

definition json_health :: "vault_health \<Rightarrow> json" where
  "json_health h = JObj
     [(''vault'', JStr (vault h)),
      (''vaultCollateralWei'', JStr (vault_collateral_wei h)),
      (''liqFactorVaultBIPS'', JStr (liq_factor_vault_bips h)),
      (''liqFactorPoolBIPS'', JStr (liq_factor_pool_bips h)),
      (''maxLiquidationAmountUBA'', JStr (max_liquidation_amount h)),
      (''xrpUsd'', JStr (xrp_usd h)),
      (''collateralRatioBIPS'', jword (collateral_ratio_bips h)),
      (''liquidatable'', JBool (liquidatable h)),
      (''belowPolicyThreshold'', JBool (below_policy_threshold h))]"

definition json_signed :: "signed_action \<Rightarrow> json" where
  "json_signed s = JObj
     [(''guardId'', jword (sa_guard_id s)),
      (''actionType'', jword (sa_action_type s)),
      (''amount'', JStr (sa_amount s)),
      (''nonce'', jword (sa_nonce s)),
      (''chainId'', jword (sa_chain_id s)),
      (''digest'', JStr (sa_digest s)),
      (''signature'', JStr (sa_signature s)),
      (''signer'', JStr (sa_signer s))]"

definition json_response :: "check_vault_response \<Rightarrow> json" where
  "json_response r = JObj
     ([(''healthy'', JBool (healthy r)),
       (''health'', json_health (health r)),
       (''decision'', JStr (decision r))]
      @ (case signed r of None \<Rightarrow> [] | Some s \<Rightarrow> [(''signed'', json_signed s)]))"

definition json_state :: "extension \<Rightarrow> json" where
  "json_state e = JObj
     [(''lastCheckVault'', JStr (last_check_vault e)),
      (''lastDecision'', JStr (last_decision e)),
      (''checksPerformed'', jword (checks_performed e)),
      (''actionsSigned'', jword (actions_signed e))]"

text \<open>The envelope of \<open>GET /state\<close>; the argument is the JSON text of the version hash.\<close>

definition json_state_response :: "string \<Rightarrow> extension \<Rightarrow> json" where
  "json_state_response version_hash e = JObj
     [(''stateVersion'', JStr version_hash), (''state'', json_state e)]"

text \<open>
  Decoding a \<open>CheckVaultRequest\<close>. The first offending member decides: the decoder
  goes on, but reports the error it saw first, and every caller drops the struct.
\<close>

fun decode_request_members ::
    "bool \<Rightarrow> (string \<times> json) list \<Rightarrow> check_vault_request \<Rightarrow> check_vault_request option" where
  "decode_request_members strict [] q = Some q"
| "decode_request_members strict ((k, v) # ms) q =
     (case find_field [''agentVault'', ''guardId''] k of
        None \<Rightarrow> if strict then None else decode_request_members strict ms q
      | Some n \<Rightarrow>
          if n = ''agentVault'' then
            (case into_string v (agent_vault q) of
               None \<Rightarrow> None
             | Some s \<Rightarrow> decode_request_members strict ms (q\<lparr>agent_vault := s\<rparr>))
          else
            (case into_u64 v (guard_id q) of
               None \<Rightarrow> None
             | Some w \<Rightarrow> decode_request_members strict ms (q\<lparr>guard_id := w\<rparr>)))"

definition decode_request :: "bool \<Rightarrow> string \<Rightarrow> check_vault_request option" where
  \<comment> \<open>\<open>strict\<close> is \<open>DisallowUnknownFields\<close>\<close>
  "decode_request strict body =
     (case json_decode_first body of
        Some (JObj ms) \<Rightarrow> decode_request_members strict ms zero_request
      | Some JNull \<Rightarrow> Some zero_request
      | _ \<Rightarrow> None)"

text \<open>A request as a client writes it; no code of the extension prints one.\<close>

definition json_request :: "check_vault_request \<Rightarrow> json" where
  "json_request q = JObj
     [(''agentVault'', JStr (agent_vault q)), (''guardId'', jword (guard_id q))]"

lemma into_u64_jword [simp]: "into_u64 (jword w) old = Some (w :: u64)"
proof -
  have "unat w < 2 ^ 64" using unsigned_less[of w] by simp
  then show ?thesis by (simp add: jword_def parse_uint64_dec)
qed

lemma decode_request_json:
  assumes "ascii (agent_vault q)"
  shows "decode_request strict (json_print (json_request q)) = Some q"
proof -
  let ?j = "json_request q"
  have "plain ?j" using assms by (simp add: json_request_def jword_def ascii_def byte_nat_Char)
  moreover have "stops []" by (simp add: stops_def)
  ultimately have "jvalue (2 * length (json_print ?j) + 2) (json_print ?j @ []) = Some (?j, [])"
    by (rule jvalue_print) simp
  then have "json_decode_first (json_print ?j) = Some ?j"
    by (simp add: json_decode_first_def json_request_def jword_def)
  then show ?thesis
    by (simp add: decode_request_def json_request_def find_field_def zero_request_def)
qed

end
