(* ===== verification/GuardRpc.thy ===== *)
theory GuardRpc
  imports GuardTypes
begin

text \<open>
  \<open>tee/go/internal/extension/guard_rpc.go\<close>: the JSON-RPC reads the guard bases its
  decision on, the price formatting, and the digest it signs. go-ethereum (address
  and hex helpers, ABI packing, Keccak, ECDSA), the tee-node helpers and the network
  are the fields of \<open>guard_env\<close>, arguments of every definition that uses them.
\<close>

subsection \<open>What the guard is given\<close>

text \<open>One unpacked ABI value, with the Go type go-ethereum gives it.\<close>

datatype abi_value =
    AbiBig int
  | AbiAddress address
  | AbiUint64 u64
  | AbiInt8 "8 word"
  | AbiBool bool
  | AbiFixedBytes bytes

text \<open>
  \<open>g_http_post\<close> is \<open>http.Post\<close> with a JSON content type: a transport error, or the body
  of the response whatever its status; one snapshot of the network answers all calls of
  a request. \<open>g_json_error\<close> is the error \<open>encoding/json\<close> reports for a body it cannot
  decode. \<open>g_abi_pack\<close> takes the name of the method and its arguments.
\<close>

record 'key guard_env =
  g_getenv :: env
  g_http_post :: "string \<Rightarrow> string \<Rightarrow> string rpc"
  g_json_error :: "string \<Rightarrow> go_error"
  g_is_hex_address :: "string \<Rightarrow> bool"
  g_hex_to_address :: "string \<Rightarrow> address"
  g_hex2bytes :: "string \<Rightarrow> bytes"
  g_bytes2hex :: "bytes \<Rightarrow> string"
  g_abi_pack :: "string \<Rightarrow> abi_value list \<Rightarrow> bytes rpc"
  g_abi_unpack :: "string \<Rightarrow> bytes \<Rightarrow> abi_value list rpc"
  g_keccak256 :: "bytes \<Rightarrow> bytes"
  g_keccak256_hash :: "bytes \<Rightarrow> hash"
  g_hash_bytes :: "hash \<Rightarrow> bytes"
  g_hash_hex :: "hash \<Rightarrow> string"
  g_addr_hex :: "address \<Rightarrow> string"
  g_hex_to_ecdsa :: "string \<Rightarrow> 'key rpc"
  g_sign :: "bytes \<Rightarrow> 'key \<Rightarrow> bytes rpc"
  g_pubkey_to_address :: "'key \<Rightarrow> address"
  g_to_hash :: "string \<Rightarrow> hash"

subsection \<open>The eth_call\<close>

text \<open>The request body: a Go map marshals with its keys in sorted order.\<close>

definition eth_call_body :: "'key guard_env \<Rightarrow> string \<Rightarrow> bytes \<Rightarrow> string" where
  "eth_call_body g to data = json_print (JObj
     [(''id'', JNum ''1''), (''jsonrpc'', JStr ''2.0''), (''method'', JStr ''eth_call''),
      (''params'', JArr [JObj [(''data'', JStr (''0x'' @ g_bytes2hex g data)), (''to'', JStr to)],
                         JStr ''latest''])])"

text \<open>The response struct: \<open>result\<close>, and \<open>error\<close> as a pointer to a struct with
  \<open>message\<close>. \<open>None\<close> is a decoding error.\<close>

record rpc_response =
  rpc_result :: string
  rpc_error :: "string option"

fun decode_rpc_error :: "(string \<times> json) list \<Rightarrow> string \<Rightarrow> string option" where
  "decode_rpc_error [] msg = Some msg"
| "decode_rpc_error ((k, v) # ms) msg =
     (case find_field [''message''] k of
        None \<Rightarrow> decode_rpc_error ms msg
      | Some n \<Rightarrow>
          (case into_string v msg of None \<Rightarrow> None | Some s \<Rightarrow> decode_rpc_error ms s))"

fun decode_rpc_members :: "(string \<times> json) list \<Rightarrow> rpc_response \<Rightarrow> rpc_response option" where
  "decode_rpc_members [] r = Some r"
| "decode_rpc_members ((k, v) # ms) r =
     (case find_field [''result'', ''error''] k of
        None \<Rightarrow> decode_rpc_members ms r
      | Some n \<Rightarrow>
          if n = ''result'' then
            (case into_string v (rpc_result r) of
               None \<Rightarrow> None
             | Some s \<Rightarrow> decode_rpc_members ms (r\<lparr>rpc_result := s\<rparr>))
          else
            (case v of
               JNull \<Rightarrow> decode_rpc_members ms (r\<lparr>rpc_error := None\<rparr>)
             | JObj es \<Rightarrow>
                 (case decode_rpc_error es (case rpc_error r of None \<Rightarrow> [] | Some m \<Rightarrow> m) of
                    None \<Rightarrow> None
                  | Some m \<Rightarrow> decode_rpc_members ms (r\<lparr>rpc_error := Some m\<rparr>))
             | _ \<Rightarrow> None))"

definition decode_rpc :: "string \<Rightarrow> rpc_response option" where
  "decode_rpc body =
     (case json_decode_first body of
        Some (JObj ms) \<Rightarrow> decode_rpc_members ms \<lparr>rpc_result = [], rpc_error = None\<rparr>
      | Some JNull \<Rightarrow> Some \<lparr>rpc_result = [], rpc_error = None\<rparr>
      | _ \<Rightarrow> None)"

definition eth_call :: "'key guard_env \<Rightarrow> string \<Rightarrow> string \<Rightarrow> bytes \<Rightarrow> bytes res" where
  "eth_call g rpc to data =
     (case g_http_post g rpc (eth_call_body g to data) of
        Inl e \<Rightarrow> Err e
      | Inr body \<Rightarrow>
          (case decode_rpc body of
             None \<Rightarrow> Err (g_json_error g body)
           | Some out \<Rightarrow>
               (case rpc_error out of
                  Some msg \<Rightarrow> Err (ErrorString (''rpc error: '' @ msg))
                | None \<Rightarrow> Ok (g_hex2bytes g (trim_prefix (rpc_result out) ''0x'')))))"

subsection \<open>Formatting a price\<close>

text \<open>The loop that pads the fraction on the left.\<close>

function pad_zeros :: "string \<Rightarrow> int \<Rightarrow> string" where
  "pad_zeros frac n = (if int (length frac) < n then pad_zeros (CHR ''0'' # frac) n else frac)"
  by pat_completeness auto
termination
  by (relation "measure (\<lambda>(frac, n). nat (n - int (length frac)))") auto

declare pad_zeros.simps [simp del]

text \<open>\<open>big.Int.QuoRem\<close>: division that truncates towards zero.\<close>

definition quo :: "int \<Rightarrow> int \<Rightarrow> int" where
  "quo a b = sgn a * sgn b * (\<bar>a\<bar> div \<bar>b\<bar>)"

definition rem :: "int \<Rightarrow> int \<Rightarrow> int" where
  "rem a b = sgn a * (\<bar>a\<bar> mod \<bar>b\<bar>)"

definition big_exp10 :: "int \<Rightarrow> int" where
  \<comment> \<open>\<open>Exp(10, y, nil)\<close>: 1 when \<open>y \<le> 0\<close>\<close>
  "big_exp10 y = (if y \<le> 0 then 1 else 10 ^ nat y)"

definition format_price :: "int \<Rightarrow> 8 word \<Rightarrow> string" where
  "format_price value decimals =
     (if decimals = 0 then dec_int value
      else
        (let pow = big_exp10 (sint decimals);
             q = quo value pow; r = rem value pow;
             frac = pad_zeros (dec_int r) (sint decimals)
         in dec_int q @ ''.'' @ frac))"

subsection \<open>Reading the vault and the policy\<close>

definition as_value :: "(abi_value \<Rightarrow> 'a option) \<Rightarrow> abi_value list \<Rightarrow> nat \<Rightarrow> 'a res" where
  \<comment> \<open>\<open>out[i].(T)\<close>: panics out of range and on another dynamic type\<close>
  "as_value sel out i =
     (if i < length out then
        (case sel (out ! i) of Some v \<Rightarrow> Ok v | None \<Rightarrow> Panic ''interface conversion'')
      else Panic ''index out of range'')"

fun sel_big :: "abi_value \<Rightarrow> int option" where
  "sel_big (AbiBig v) = Some v" | "sel_big _ = None"
fun sel_address :: "abi_value \<Rightarrow> address option" where
  "sel_address (AbiAddress v) = Some v" | "sel_address _ = None"
fun sel_u64 :: "abi_value \<Rightarrow> u64 option" where
  "sel_u64 (AbiUint64 v) = Some v" | "sel_u64 _ = None"
fun sel_int8 :: "abi_value \<Rightarrow> 8 word option" where
  "sel_int8 (AbiInt8 v) = Some v" | "sel_int8 _ = None"
fun sel_bool :: "abi_value \<Rightarrow> bool option" where
  "sel_bool (AbiBool v) = Some v" | "sel_bool _ = None"

definition default_rpc :: string where
  "default_rpc = ''https://coston2-api.flare.network/ext/C/rpc''"

definition coston2_rpc :: "'key guard_env \<Rightarrow> string" where
  "coston2_rpc g = (let rpc = g_getenv g ''COSTON2_RPC'' in if rpc = [] then default_rpc else rpc)"

definition xrp_usd_feed_id :: string where
  "xrp_usd_feed_id = ''0x015852502f55534400000000000000000000000000''"

text \<open>\<open>copy(feedID[:], b)\<close> into a zeroed \<open>[21]byte\<close>.\<close>

definition copy_fixed :: "nat \<Rightarrow> bytes \<Rightarrow> bytes" where
  "copy_fixed n b = take n b @ replicate (n - length b) (nat_byte 0)"

text \<open>Pack, call, unpack, with the three wrapped errors of each of the reads.\<close>

definition read_call ::
    "'key guard_env \<Rightarrow> string \<Rightarrow> string \<Rightarrow> string \<Rightarrow> string \<Rightarrow> abi_value list
      \<Rightarrow> abi_value list res" where
  "read_call g what rpc to method args =
     res_bind (map_err (wrapf (''packing '' @ what @ '' call'')) (of_rpc (g_abi_pack g method args)))
       (\<lambda>data. res_bind (map_err (wrapf (what @ '' eth_call'')) (eth_call g rpc to data))
         (\<lambda>raw. map_err (wrapf (''unpacking '' @ what)) (of_rpc (g_abi_unpack g method raw))))"

definition read_vault_health :: "'key guard_env \<Rightarrow> string \<Rightarrow> vault_health res" where
  "read_vault_health g av =
     (let rpc = coston2_rpc g;
          asset_manager = g_getenv g ''ASSET_MANAGER'';
          ftso = g_getenv g ''FTSO_V2'';
          vault_arg = [AbiAddress (g_hex_to_address g av)];
          feed_id = copy_fixed 21 (g_hex2bytes g (trim_prefix xrp_usd_feed_id ''0x''))
      in res_bind (err_unless (asset_manager \<noteq> [] \<and> ftso \<noteq> [])
                     ''ASSET_MANAGER and FTSO_V2 env required'')
       (\<lambda>_. res_bind (read_call g ''factors'' rpc asset_manager
                        ''getAgentLiquidationFactorsAndMaxAmount'' vault_arg)
       (\<lambda>factors. res_bind (as_value sel_big factors 0)
       (\<lambda>f0. res_bind (as_value sel_big factors 1)
       (\<lambda>f1. res_bind (as_value sel_big factors 2)
       (\<lambda>f2. res_bind (read_call g ''collateral'' rpc asset_manager
                        ''getAgentFullVaultCollateral'' vault_arg)
       (\<lambda>coll. res_bind (as_value sel_big coll 0)
       (\<lambda>c0. res_bind (read_call g ''feed'' rpc ftso ''getFeedById'' [AbiFixedBytes feed_id])
       (\<lambda>feed. res_bind (as_value sel_big feed 0)
       (\<lambda>value. res_bind (as_value sel_int8 feed 1)
       (\<lambda>decimals. Ok (zero_health\<lparr>
          vault := av,
          liq_factor_vault_bips := dec_int f0,
          liq_factor_pool_bips := dec_int f1,
          max_liquidation_amount := dec_int f2,
          vault_collateral_wei := dec_int c0,
          xrp_usd := format_price value decimals,
          liquidatable := (0 < f0 \<or> 0 < f1)\<rparr>))))))))))))"

record guard_policy =
  gp_agent_vault :: address
  gp_owner :: address
  gp_ratio_bips :: u64
  gp_top_up_amount_wei :: int
  gp_last_action_nonce :: u64
  gp_created_at :: u64
  gp_active :: bool

definition read_guard :: "'key guard_env \<Rightarrow> u64 \<Rightarrow> guard_policy res" where
  "read_guard g gid =
     (let registry = g_getenv g ''GUARDIAN_REGISTRY''; rpc = coston2_rpc g in
      res_bind (err_unless (registry \<noteq> []) ''GUARDIAN_REGISTRY env required'')
       (\<lambda>_. res_bind (map_err (wrapf ''packing guards call'')
                        (of_rpc (g_abi_pack g ''guards'' [AbiBig (uint gid)])))
       (\<lambda>data. res_bind (map_err (wrapf ''guards eth_call'') (eth_call g rpc registry data))
       (\<lambda>raw. res_bind (map_err (wrapf ''unpacking guards'') (of_rpc (g_abi_unpack g ''guards'' raw)))
       (\<lambda>out. res_bind (as_value sel_address out 0)
       (\<lambda>o0. res_bind (as_value sel_address out 1)
       (\<lambda>o1. res_bind (as_value sel_u64 out 2)
       (\<lambda>o2. res_bind (as_value sel_big out 3)
       (\<lambda>o3. res_bind (as_value sel_u64 out 4)
       (\<lambda>o4. res_bind (as_value sel_u64 out 5)
       (\<lambda>o5. res_bind (as_value sel_bool out 6)
       (\<lambda>o6. Ok \<lparr>gp_agent_vault = o0, gp_owner = o1, gp_ratio_bips = o2,
          gp_top_up_amount_wei = o3, gp_last_action_nonce = o4, gp_created_at = o5,
          gp_active = o6\<rparr>))))))))))))"

subsection \<open>The registry's digest\<close>

text \<open>\<open>big.Int.Bytes\<close>: the absolute value, big-endian, without leading zeros.\<close>

fun be_bytes :: "nat \<Rightarrow> bytes" where
  "be_bytes n = (if n = 0 then [] else be_bytes (n div 256) @ [nat_byte (n mod 256)])"

declare be_bytes.simps [simp del]

definition be_val :: "bytes \<Rightarrow> nat" where
  "be_val bs = foldl (\<lambda>a b. a * 256 + byte_nat b) 0 bs"

definition left_pad_word :: "int \<Rightarrow> bytes res" where
  \<comment> \<open>\<open>out[32-len(b):]\<close> panics when the number needs more than 32 bytes\<close>
  "left_pad_word v =
     (let b = be_bytes (nat \<bar>v\<bar>) in
      if 32 < length b then Panic ''slice bounds out of range''
      else Ok (replicate (32 - length b) (nat_byte 0) @ b))"

definition uint_word :: "u64 \<Rightarrow> bytes res" where
  "uint_word v = left_pad_word (uint v)"

definition eip191_prefix :: bytes where
  "eip191_prefix = nat_byte 25 # ''Ethereum Signed Message:'' @ [nat_byte 10] @ ''32''"

definition digest_words :: "u64 \<Rightarrow> u64 \<Rightarrow> u64 \<Rightarrow> u64 \<Rightarrow> string \<Rightarrow> bytes res" where
  "digest_words chain_id gid action_type nonce amount =
     (let a = (case big_set_string amount of Some v \<Rightarrow> v | None \<Rightarrow> 0) in
      res_bind (uint_word chain_id) (\<lambda>w1.
      res_bind (uint_word gid) (\<lambda>w2.
      res_bind (uint_word action_type) (\<lambda>w3.
      res_bind (left_pad_word a) (\<lambda>w4.
      res_bind (uint_word nonce) (\<lambda>w5.
      Ok (w1 @ w2 @ w3 @ w4 @ w5)))))))"

definition registry_digest ::
    "'key guard_env \<Rightarrow> u64 \<Rightarrow> u64 \<Rightarrow> u64 \<Rightarrow> u64 \<Rightarrow> string \<Rightarrow> hash res" where
  "registry_digest g chain_id gid action_type nonce amount =
     res_bind (digest_words chain_id gid action_type nonce amount) (\<lambda>words.
       (let inner = g_keccak256 g words; prefixed = eip191_prefix @ inner
        in Ok (g_keccak256_hash g prefixed)))"

subsection \<open>Facts: big-endian words\<close>

lemma be_val_append [simp]: "be_val (xs @ [b]) = be_val xs * 256 + byte_nat b"
  by (simp add: be_val_def)

lemma be_val_Nil [simp]: "be_val [] = 0"
  by (simp add: be_val_def)

lemma be_val_be_bytes [simp]: "be_val (be_bytes n) = n"
proof (induction n rule: be_bytes.induct)
  case (1 n)
  show ?case
  proof (cases "n = 0")
    case True
    then show ?thesis by (simp add: be_bytes.simps[of 0])
  next
    case False
    then show ?thesis using 1 by (simp add: be_bytes.simps[of n])
  qed
qed

lemma be_val_zeros [simp]: "be_val (replicate k (nat_byte 0) @ bs) = be_val bs"
proof (induction bs rule: rev_induct)
  case Nil
  show ?case by (induction k) (auto simp: be_val_def simp flip: replicate_append_same)
next
  case (snoc b bs)
  then show ?case by (metis append_assoc be_val_append)
qed

lemma length_be_bytes: "length (be_bytes n) \<le> k \<longleftrightarrow> n < 256 ^ k"
proof (induction k arbitrary: n)
  case 0
  then show ?case by (cases "n = 0") (simp_all add: be_bytes.simps[of n] be_bytes.simps[of 0])
next
  case (Suc k)
  show ?case
  proof (cases "n = 0")
    case True
    then show ?thesis by (simp add: be_bytes.simps[of 0])
  next
    case False
    then have "length (be_bytes n) \<le> Suc k \<longleftrightarrow> n div 256 < 256 ^ k"
      by (simp add: be_bytes.simps[of n] Suc)
    also have "\<dots> \<longleftrightarrow> n < 256 ^ Suc k"
      by (simp add: div_less_iff_less_mult mult.commute)
    finally show ?thesis .
  qed
qed

text \<open>The 32-byte word of a number, as the code builds it.\<close>

definition be32 :: "nat \<Rightarrow> bytes" where
  "be32 n = replicate (32 - length (be_bytes n)) (nat_byte 0) @ be_bytes n"

lemma be_val_be32 [simp]: "be_val (be32 n) = n"
  by (simp add: be32_def)

lemma pow256: "(256::nat) ^ 32 = 2 ^ 256"
  by simp

lemma length_be32 [simp]: "n < 2 ^ 256 \<Longrightarrow> length (be32 n) = 32"
  using length_be_bytes[of n 32] by (simp add: be32_def)

lemma left_pad_word_eq:
  "left_pad_word v =
     (if \<bar>v\<bar> < 2 ^ 256 then Ok (be32 (nat \<bar>v\<bar>)) else Panic ''slice bounds out of range'')"
proof -
  have "\<bar>v\<bar> < 2 ^ 256 \<longleftrightarrow> nat \<bar>v\<bar> < 2 ^ 256" by (simp add: nat_less_iff)
  then show ?thesis
    using length_be_bytes[of "nat \<bar>v\<bar>" 32] by (auto simp: left_pad_word_def be32_def Let_def)
qed

lemma uint_word_eq: "uint_word w = Ok (be32 (unat w))"
proof -
  have "uint w < 2 ^ 64" using uint_bounded[of w] by simp
  then have "\<bar>uint w\<bar> < 2 ^ 256" by simp
  then show ?thesis by (simp add: uint_word_def left_pad_word_eq)
qed

interpretation wordc: codec be32 be_val "\<lambda>n. n < 2 ^ 256" "\<lambda>n::nat. n"
  by unfold_locales auto

lemma be32_inject: "m < 2 ^ 256 \<Longrightarrow> n < 2 ^ 256 \<Longrightarrow> be32 m = be32 n \<longleftrightarrow> m = n"
  by (rule wordc.enc_inject)

lemma unat_u64_less: "unat (w :: u64) < 2 ^ 256"
proof -
  have "unat w < 2 ^ 64" using unsigned_less[of w] by simp
  then show ?thesis by simp
qed

text \<open>The reference: byte \<open>i\<close> of the big-endian 32-byte word (\<open>abi.encode\<close> of a uint).\<close>

definition abi_word :: "nat \<Rightarrow> bytes" where
  "abi_word n = map (\<lambda>i. nat_byte (n div 256 ^ (31 - i) mod 256)) [0..<32]"

definition abi_encode_uints :: "nat list \<Rightarrow> bytes" where
  "abi_encode_uints ns = concat (map abi_word ns)"

lemma be_val_inj: "length xs = length ys \<Longrightarrow> be_val xs = be_val ys \<Longrightarrow> xs = ys"
proof (induction xs arbitrary: ys rule: rev_induct)
  case (snoc x xs)
  then obtain y zs where ys: "ys = zs @ [y]" by (cases ys rule: rev_cases) auto
  have eq: "be_val xs * 256 + byte_nat x = be_val zs * 256 + byte_nat y"
    using snoc.prems ys by simp
  have "(be_val xs * 256 + byte_nat x) mod 256 = (be_val zs * 256 + byte_nat y) mod 256"
    "(be_val xs * 256 + byte_nat x) div 256 = (be_val zs * 256 + byte_nat y) div 256"
    using eq by simp_all
  then have "byte_nat x = byte_nat y" "be_val xs = be_val zs" by simp_all
  then show ?case using snoc ys by simp
qed simp

lemma be_val_map_upt:
  "be_val (map (\<lambda>i. nat_byte (n div 256 ^ (k - Suc i) mod 256)) [0..<k]) = n mod 256 ^ k"
proof (induction k arbitrary: n)
  case (Suc k)
  have "map (\<lambda>i. nat_byte (n div 256 ^ (Suc k - Suc i) mod 256)) [0..<Suc k] =
      map (\<lambda>i. nat_byte (n div 256 div 256 ^ (k - Suc i) mod 256)) [0..<k] @ [nat_byte (n mod 256)]"
  proof -
    have "n div 256 ^ (k - i) = n div 256 div 256 ^ (k - Suc i)" if "i < k" for i
    proof -
      have "k - i = Suc (k - Suc i)" using that by simp
      then show ?thesis by (simp add: div_mult2_eq)
    qed
    then show ?thesis by (auto simp: upt_Suc)
  qed
  then have "be_val (map (\<lambda>i. nat_byte (n div 256 ^ (Suc k - Suc i) mod 256)) [0..<Suc k]) =
      (n div 256) mod 256 ^ k * 256 + n mod 256"
    by (simp only: be_val_append Suc) simp
  also have "\<dots> = n mod 256 ^ Suc k"
    by (simp add: mod_mult2_eq mult.commute)
  finally show ?case .
qed (simp add: be_val_def)

lemma be32_abi_word: "n < 2 ^ 256 \<Longrightarrow> be32 n = abi_word n"
proof (rule be_val_inj)
  assume n: "n < 2 ^ 256"
  show "length (be32 n) = length (abi_word n)" using n by (simp add: abi_word_def)
  have "be_val (abi_word n) = n mod 256 ^ 32"
    using be_val_map_upt[of n 32] by (simp add: abi_word_def)
  then show "be_val (be32 n) = be_val (abi_word n)" using n by (simp only: be_val_be32 pow256 mod_less)
qed

subsection \<open>Facts: the digest\<close>

lemma digest_words_eq:
  "digest_words c i t n amount =
     (let a = (case big_set_string amount of Some v \<Rightarrow> v | None \<Rightarrow> 0) in
      if \<bar>a\<bar> < 2 ^ 256
      then Ok (be32 (unat c) @ be32 (unat i) @ be32 (unat t) @ be32 (nat \<bar>a\<bar>) @ be32 (unat n))
      else Panic ''slice bounds out of range'')"
  by (simp add: digest_words_def uint_word_eq left_pad_word_eq Let_def)

lemma digest_words_dec:
  "v < 2 ^ 256 \<Longrightarrow>
   digest_words c i t n (dec v) =
     Ok (be32 (unat c) @ be32 (unat i) @ be32 (unat t) @ be32 v @ be32 (unat n))"
  by (simp add: digest_words_eq)

lemma be32_u64 [simp]:
  "length (be32 (unat (w :: u64))) = 32"
  "be32 (unat (w :: u64)) = be32 (unat (w' :: u64)) \<longleftrightarrow> w = w'"
   apply (rule length_be32[OF unat_u64_less])
  using be32_inject[OF unat_u64_less unat_u64_less, of w w'] by (metis unsigned_word_eqI)

lemma be32_abi_word_u64: "be32 (unat (w :: u64)) = abi_word (unat w)"
  by (rule be32_abi_word) (rule unat_u64_less)

lemma digest_words_length:
  "digest_words c i t n amount = Ok ws \<Longrightarrow> length ws = 160"
  by (auto simp: digest_words_eq Let_def nat_less_iff split: if_splits)

text \<open>The packing is injective: the digest's preimage fixes the five values.\<close>

lemma digest_words_inject:
  assumes "v < 2 ^ 256" "v' < 2 ^ 256"
  shows "digest_words c i t n (dec v) = digest_words c' i' t' n' (dec v') \<longleftrightarrow>
    c = c' \<and> i = i' \<and> t = t' \<and> n = n' \<and> v = v'"
  using assms by (auto simp: digest_words_dec be32_inject unat_u64_less)

lemma digest_words_reference:
  assumes "v < 2 ^ 256"
  shows "digest_words c i t n (dec v) =
    Ok (abi_encode_uints [unat c, unat i, unat t, v, unat n])"
  using assms by (simp add: digest_words_dec abi_encode_uints_def be32_abi_word be32_abi_word_u64)

subsection \<open>Facts: prices\<close>

lemma pad_zeros_eq: "pad_zeros s n = replicate (nat n - length s) (CHR ''0'') @ s"
proof (induction s n rule: pad_zeros.induct)
  case (1 s n)
  show ?case
  proof (cases "int (length s) < n")
    case True
    then have "nat n - length s = Suc (nat n - Suc (length s))" by simp
    then show ?thesis
      using 1 True by (simp add: pad_zeros.simps[of s n] replicate_append_same[symmetric])
  next
    case False
    then have "nat n - length s = 0" by simp
    with False show ?thesis by (simp add: pad_zeros.simps[of s n])
  qed
qed

lemma digits_val_zeros: "digits_val 0 (replicate k (CHR ''0'') @ s) = digits_val 0 s"
  by (induction k) (simp_all add: digit_val_def byte_nat_Char)

lemma quo_rem_nonneg:
  "0 \<le> v \<Longrightarrow> 0 < p \<Longrightarrow> quo v p = v div p"
  "0 \<le> v \<Longrightarrow> 0 < p \<Longrightarrow> rem v p = v mod p"
  by (cases "v = 0"; simp add: quo_def rem_def)+

lemma dec_int_nonneg: "0 \<le> i \<Longrightarrow> dec_int i = dec (nat i)"
  by (simp add: dec_int_def)

text \<open>A non-negative value with \<open>d > 0\<close> decimals: whole part, point, \<open>d\<close> digits.\<close>

lemma format_price_pos:
  assumes "0 \<le> v" and "0 < sint d"
  shows "\<exists>frac. format_price v d = dec (nat (v div 10 ^ nat (sint d))) @ ''.'' @ frac
     \<and> length frac = nat (sint d)
     \<and> digits_val 0 frac = Some (nat (v mod 10 ^ nat (sint d)))"
proof -
  let ?k = "nat (sint d)" let ?p = "10 ^ ?k :: int"
  have k: "0 < ?k" and d: "d \<noteq> 0" using assms(2) by auto
  have q: "0 \<le> v div ?p" and r: "0 \<le> v mod ?p" "v mod ?p < ?p"
    using assms(1) by (simp_all add: pos_imp_zdiv_nonneg_iff)
  let ?f = "pad_zeros (dec (nat (v mod ?p))) (sint d)"
  have "nat (v mod ?p) < 10 ^ ?k"
    using r by (simp add: nat_less_iff)
  then have "length (dec (nat (v mod ?p))) \<le> ?k" using length_dec_bound k by blast
  then have "length ?f = ?k" by (simp add: pad_zeros_eq)
  moreover have "digits_val 0 ?f = Some (nat (v mod ?p))"
    by (simp add: pad_zeros_eq digits_val_zeros)
  moreover have "format_price v d = dec (nat (v div ?p)) @ ''.'' @ ?f"
    using assms d quo_rem_nonneg[of v ?p] dec_int_nonneg[OF q] dec_int_nonneg[OF r(1)]
    by (simp add: format_price_def big_exp10_def Let_def)
  ultimately show ?thesis by blast
qed

text \<open>Otherwise the value is printed unscaled; with negative decimals a spurious fraction follows.\<close>

lemma format_price_nonpos:
  assumes "0 \<le> v" and "sint d \<le> 0"
  shows "format_price v d = dec (nat v) @ (if d = 0 then [] else ''.0'')"
  using assms by (auto simp: format_price_def big_exp10_def Let_def quo_rem_nonneg dec_int_def
      pad_zeros_eq dec.simps[of 0] digit_char_def eq_nat_byte' byte_nat_Char)

subsection \<open>Facts: the reads\<close>

lemma parse_uint64_dec_int_pos: "0 < fst (parse_uint64 (dec_int f)) \<longleftrightarrow> 0 < f"
proof (cases "f < 0")
  case True
  then show ?thesis by (simp add: dec_int_def parse_uint64_def)
next
  case False
  then show ?thesis by (simp add: dec_int_def parse_uint64_dec_pos)
qed

lemma read_vault_health_ok:
  assumes "read_vault_health g av = Ok h"
  shows "\<exists>f0 f1. vault h = av \<and> liq_factor_vault_bips h = dec_int f0
    \<and> liq_factor_pool_bips h = dec_int f1 \<and> (liquidatable h \<longleftrightarrow> 0 < f0 \<or> 0 < f1)"
  using assms by (auto simp: read_vault_health_def Let_def res_bind_Ok_iff) blast

lemma as_value_no_Err: "as_value sel out i \<noteq> Err e"
  by (simp add: as_value_def split: option.splits)

end
