(* ===== verification/Extension.thy ===== *)
theory Extension
  imports GuardRpc
begin

text \<open>
  \<open>tee/go/internal/extension/extension.go\<close> and \<open>utils.go\<close>: the decision on a vault,
  the signed action, and the HTTP handlers over the extension's state. The handlers
  take the state and return it with the response; a panic of a handler is kept apart
  (net/http drops the connection and the process goes on).
\<close>

subsection \<open>Signing\<close>

definition sign_top_up_action ::
    "'key guard_env \<Rightarrow> u64 \<Rightarrow> 8 word \<Rightarrow> string \<Rightarrow> u64 \<Rightarrow> signed_action res" where
  "sign_top_up_action g gid action_type amount nonce =
     (let key_hex = g_getenv g ''GUARDIAN_KEY'' in
      res_bind (err_unless (key_hex \<noteq> []) ''GUARDIAN_KEY not set inside the enclave'') (\<lambda>_.
      res_bind (map_err (wrapf ''parsing enclave key'')
                  (of_rpc (g_hex_to_ecdsa g (trim_prefix key_hex ''0x'')))) (\<lambda>priv.
        (let parsed = parse_uint64 (g_getenv g ''CHAIN_ID'');
             chain_id = (if snd parsed \<noteq> None \<or> fst parsed = 0 then 114 else fst parsed)
         in res_bind (registry_digest g chain_id gid (ucast action_type) nonce amount) (\<lambda>digest.
            res_bind (map_err (wrapf ''signing digest'')
                        (of_rpc (g_sign g (g_hash_bytes g digest) priv))) (\<lambda>sig.
            Ok \<lparr>sa_guard_id = gid, sa_action_type = action_type, sa_amount = amount,
                sa_nonce = nonce, sa_chain_id = chain_id, sa_digest = g_hash_hex g digest,
                sa_signature = ''0x'' @ hex_encode sig,
                sa_signer = g_addr_hex g (g_pubkey_to_address g priv)\<rparr>))))))"

subsection \<open>The check\<close>

text \<open>The two critical sections of \<open>checkVaultJSON\<close>.\<close>

definition record_check :: "string \<Rightarrow> string \<Rightarrow> extension \<Rightarrow> extension" where
  "record_check v d e =
     e\<lparr>last_check_vault := v, last_decision := d, checks_performed := checks_performed e + 1\<rparr>"

definition record_signed :: "extension \<Rightarrow> extension" where
  "record_signed e = e\<lparr>actions_signed := actions_signed e + 1\<rparr>"

definition decide :: "vault_health \<Rightarrow> string \<times> bool" where
  \<comment> \<open>(decision, healthy); the errors of the two \<open>ParseUint\<close> calls are ignored\<close>
  "decide h =
     (let liq = fst (parse_uint64 (liq_factor_vault_bips h));
          pool_liq = fst (parse_uint64 (liq_factor_pool_bips h))
      in if 0 < liq \<or> 0 < pool_liq then (''TOP_UP_REQUIRED'', False) else (''WATCH'', True))"

text \<open>The reads that come before the first critical section.\<close>

definition check_reads ::
    "'key guard_env \<Rightarrow> check_vault_request \<Rightarrow> (vault_health \<times> guard_policy) res" where
  "check_reads g req =
     res_bind (err_unless (g_is_hex_address g (agent_vault req)) ''agentVault must be a valid address'')
       (\<lambda>_. res_bind (map_err (wrapf ''reading vault health'') (read_vault_health g (agent_vault req)))
       (\<lambda>h. res_bind (map_err (wrapf ''reading guard policy'') (read_guard g (guard_id req)))
       (\<lambda>p. Ok (h, p))))"

definition check_vault_json ::
    "'key guard_env \<Rightarrow> check_vault_request \<Rightarrow> extension \<Rightarrow> extension \<times> check_vault_response res" where
  "check_vault_json g req e =
     (case check_reads g req of
        Err er \<Rightarrow> (e, Err er)
      | Panic m \<Rightarrow> (e, Panic m)
      | Ok (h, guard) \<Rightarrow>
          (let (d, ok) = decide h;
               resp = \<lparr>healthy = ok, health = h, decision = d, signed = None\<rparr>;
               e1 = record_check (agent_vault req) d e
           in if \<not> ok \<and> gp_active guard then
                (let nonce = gp_last_action_nonce guard + 1 in
                 case sign_top_up_action g (guard_id req) action_vault_top_up
                        (dec_int (gp_top_up_amount_wei guard)) nonce of
                   Err er \<Rightarrow> (e1, Err (wrapf ''signing action'' er))
                 | Panic m \<Rightarrow> (e1, Panic m)
                 | Ok s \<Rightarrow> (record_signed e1, Ok (resp\<lparr>signed := Some s\<rparr>)))
              else (e1, Ok resp)))"

subsection \<open>The tee-node protocol path\<close>

text \<open>
  The types of tee-node and go-flare-common the handlers use, with the fields they
  read and write; their codecs are arguments (\<open>node_env\<close>).
\<close>

record action =
  act_id :: hash
  act_submission_tag :: string
  act_message :: bytes

record data_fixed =
  df_op_type :: hash
  df_op_command :: hash
  df_original_message :: bytes

record action_result =
  ar_id :: hash
  ar_submission_tag :: string
  ar_version :: string
  ar_op_type :: hash
  ar_op_command :: hash
  ar_data :: "bytes option"
  ar_status :: "8 word"
  ar_log :: string

record node_env =
  n_decode_action :: "string \<Rightarrow> action rpc"
  n_parse_fixed :: "bytes \<Rightarrow> data_fixed rpc"
  n_marshal_result :: "action_result \<Rightarrow> string"
  n_unmarshal_log :: "string \<Rightarrow> string option"
  n_hash_json :: "hash \<Rightarrow> string"

definition build_result ::
    "action \<Rightarrow> data_fixed \<Rightarrow> bytes option \<Rightarrow> 8 word \<Rightarrow> go_error option \<Rightarrow> action_result" where
  "build_result a df data st err =
     \<lparr>ar_id = act_id a, ar_submission_tag = act_submission_tag a, ar_version = version,
      ar_op_type = df_op_type df, ar_op_command = df_op_command df, ar_data = data,
      ar_status = st,
      ar_log =
        (if st = 0 then ''error: '' @ (case err of None \<Rightarrow> ''<nil>'' | Some e \<Rightarrow> err_msg e)
         else if st = 1 then ''ok''
         else ''pending'')\<rparr>"

definition get_log_from_body :: "node_env \<Rightarrow> string \<Rightarrow> string" where
  "get_log_from_body n body =
     (case n_unmarshal_log n body of None \<Rightarrow> body | Some l \<Rightarrow> l)"

text \<open>A handler's result: the new state, and the response's body or result or a panic.\<close>

definition check_vault ::
    "'key guard_env \<Rightarrow> action \<Rightarrow> data_fixed \<Rightarrow> extension \<Rightarrow> extension \<times> action_result res" where
  "check_vault g a df e =
     (case decode_request True (df_original_message df) of
        None \<Rightarrow>
          (e, Ok (build_result a df None 0
                (Some (wrapf ''decoding request'' (g_json_error g (df_original_message df))))))
      | Some req \<Rightarrow>
          (case check_vault_json g req e of
             (e', Err er) \<Rightarrow> (e', Ok (build_result a df None 0 (Some er)))
           | (e', Panic m) \<Rightarrow> (e', Panic m)
           | (e', Ok resp) \<Rightarrow>
               (e', Ok (build_result a df (Some (json_print (json_response resp))) 1 None))))"

definition process_guard ::
    "'key guard_env \<Rightarrow> node_env \<Rightarrow> action \<Rightarrow> data_fixed \<Rightarrow> extension \<Rightarrow> extension \<times> (nat \<times> string) res" where
  "process_guard g n a df e =
     (if df_op_command df = g_to_hash g op_command_check_vault then
        (case check_vault g a df e of
           (e', Ok ar) \<Rightarrow> (e', Ok (200, n_marshal_result n ar))
         | (e', Err er) \<Rightarrow> (e', Err er)
         | (e', Panic m) \<Rightarrow> (e', Panic m))
      else
        (e, Ok (501, ''unsupported op command: received '' @ g_hash_hex g (df_op_command df)
          @ '', expected '' @ g_hash_hex g (g_to_hash g op_command_check_vault))))"

definition process_action ::
    "'key guard_env \<Rightarrow> node_env \<Rightarrow> action \<Rightarrow> extension \<Rightarrow> extension \<times> (nat \<times> string) res" where
  "process_action g n a e =
     (case n_parse_fixed n (act_message a) of
        Inl er \<Rightarrow> (e, Ok (400, ''decoding fixed data: '' @ err_msg er))
      | Inr df \<Rightarrow>
          if df_op_type df = g_to_hash g op_type_guard then process_guard g n a df e
          else
            (e, Ok (501, ''unsupported op type: received '' @ g_hash_hex g (df_op_type df)
              @ '', expected '' @ g_hash_hex g (g_to_hash g op_type_guard))))"

subsection \<open>The HTTP surface\<close>

record response =
  code :: nat
  body :: string

definition http_error :: "string \<Rightarrow> nat \<Rightarrow> response" where
  \<comment> \<open>\<open>http.Error\<close>: the text and a newline\<close>
  "http_error msg c = \<lparr>code = c, body = msg @ [nat_byte 10]\<rparr>"

definition state_handler :: "'key guard_env \<Rightarrow> node_env \<Rightarrow> extension \<Rightarrow> response" where
  "state_handler g n e =
     \<lparr>code = 200,
      body = json_print (json_state_response (n_hash_json n (g_to_hash g version)) e) @ [nat_byte 10]\<rparr>"

definition guard_check_handler ::
    "'key guard_env \<Rightarrow> string \<Rightarrow> extension \<Rightarrow> extension \<times> response res" where
  "guard_check_handler g b e =
     (case decode_request False b of
        None \<Rightarrow> (e, Ok (http_error (''decoding request: '' @ err_msg (g_json_error g b)) 400))
      | Some req \<Rightarrow>
          (case check_vault_json g req e of
             (e', Err er) \<Rightarrow> (e', Ok (http_error (''check vault: '' @ err_msg er) 422))
           | (e', Panic m) \<Rightarrow> (e', Panic m)
           | (e', Ok resp) \<Rightarrow>
               (e', Ok \<lparr>code = 200, body = json_print (json_response resp) @ [nat_byte 10]\<rparr>)))"

definition action_handler ::
    "'key guard_env \<Rightarrow> node_env \<Rightarrow> string \<Rightarrow> extension \<Rightarrow> extension \<times> response res" where
  "action_handler g n b e =
     (case n_decode_action n b of
        Inl er \<Rightarrow> (e, Ok (http_error (''decoding action: '' @ err_msg er) 400))
      | Inr a \<Rightarrow>
          (case process_action g n a e of
             (e', Ok (c, out)) \<Rightarrow> (e', Ok \<lparr>code = c, body = out\<rparr>)
           | (e', Err er) \<Rightarrow> (e', Err er)
           | (e', Panic m) \<Rightarrow> (e', Panic m)))"

text \<open>
  The routes \<open>New\<close> registers, for request paths in clean form. A \<open>GET\<close> pattern of
  \<open>http.ServeMux\<close> also takes \<open>HEAD\<close>; a known path with another method is 405, an
  unknown path 404.
\<close>

record request =
  rmethod :: string
  rpath :: string
  rbody :: string

definition serve ::
    "'key guard_env \<Rightarrow> node_env \<Rightarrow> request \<Rightarrow> extension \<Rightarrow> extension \<times> response res" where
  "serve g n q e =
     (if rpath q = ''/state'' then
        (if rmethod q = ''GET'' \<or> rmethod q = ''HEAD'' then (e, Ok (state_handler g n e))
         else (e, Ok (http_error ''Method Not Allowed'' 405)))
      else if rpath q = ''/action'' then
        (if rmethod q = ''POST'' then action_handler g n (rbody q) e
         else (e, Ok (http_error ''Method Not Allowed'' 405)))
      else if rpath q = ''/guard/check'' then
        (if rmethod q = ''POST'' then guard_check_handler g (rbody q) e
         else (e, Ok (http_error ''Method Not Allowed'' 405)))
      else (e, Ok (http_error ''404 page not found'' 404)))"

subsection \<open>Facts: the decision\<close>

lemma decide_cases:
  "decide h = (''TOP_UP_REQUIRED'', False) \<or> decide h = (''WATCH'', True)"
  by (simp add: decide_def Let_def)

lemma decide_liquidatable:
  assumes "read_vault_health g av = Ok h"
  shows "decide h = (if liquidatable h then (''TOP_UP_REQUIRED'', False) else (''WATCH'', True))"
proof -
  obtain f0 f1 where "liq_factor_vault_bips h = dec_int f0" "liq_factor_pool_bips h = dec_int f1"
    "liquidatable h \<longleftrightarrow> 0 < f0 \<or> 0 < f1"
    using read_vault_health_ok[OF assms] by blast
  then show ?thesis by (simp add: decide_def parse_uint64_dec_int_pos)
qed

lemma check_reads_Ok:
  "check_reads g req = Ok (h, p) \<longleftrightarrow>
     g_is_hex_address g (agent_vault req) \<and> read_vault_health g (agent_vault req) = Ok h
     \<and> read_guard g (guard_id req) = Ok p"
  by (auto simp: check_reads_def res_bind_Ok_iff)

text \<open>A check that returns: what was read, what was decided, what was signed.\<close>

lemma check_vault_json_Ok:
  assumes "check_vault_json g req e = (e', Ok resp)"
  obtains h p where "check_reads g req = Ok (h, p)" and "health resp = h"
    and "healthy resp \<longleftrightarrow> \<not> liquidatable h"
    and "decision resp = (if liquidatable h then ''TOP_UP_REQUIRED'' else ''WATCH'')"
    and "liquidatable h \<and> gp_active p \<Longrightarrow>
      \<exists>s. signed resp = Some s
        \<and> sign_top_up_action g (guard_id req) action_vault_top_up
            (dec_int (gp_top_up_amount_wei p)) (gp_last_action_nonce p + 1) = Ok s
        \<and> e' = record_signed (record_check (agent_vault req) (decision resp) e)"
    and "\<not> (liquidatable h \<and> gp_active p) \<Longrightarrow>
      signed resp = None \<and> e' = record_check (agent_vault req) (decision resp) e"
proof -
  obtain h p where hp: "check_reads g req = Ok (h, p)"
    using assms by (auto simp: check_vault_json_def split: res.splits)
  have d: "decide h = (if liquidatable h then (''TOP_UP_REQUIRED'', False) else (''WATCH'', True))"
    using decide_liquidatable[of g "agent_vault req" h] hp by (simp add: check_reads_Ok)
  show thesis
  proof (rule that[OF hp])
    show "health resp = h" "healthy resp \<longleftrightarrow> \<not> liquidatable h"
      "decision resp = (if liquidatable h then ''TOP_UP_REQUIRED'' else ''WATCH'')"
      using assms hp d by (auto simp: check_vault_json_def Let_def split: res.splits if_splits)
    show "\<exists>s. signed resp = Some s
        \<and> sign_top_up_action g (guard_id req) action_vault_top_up
            (dec_int (gp_top_up_amount_wei p)) (gp_last_action_nonce p + 1) = Ok s
        \<and> e' = record_signed (record_check (agent_vault req) (decision resp) e)"
      if "liquidatable h \<and> gp_active p"
      using assms hp d that by (auto simp: check_vault_json_def Let_def split: res.splits if_splits)
    show "signed resp = None \<and> e' = record_check (agent_vault req) (decision resp) e"
      if "\<not> (liquidatable h \<and> gp_active p)"
      using assms hp d that by (auto simp: check_vault_json_def Let_def split: res.splits if_splits)
  qed
qed

lemma sign_top_up_action_Ok:
  assumes "sign_top_up_action g gid t amount nonce = Ok s"
  obtains digest key sig where "sa_guard_id s = gid" "sa_action_type s = t" "sa_amount s = amount"
    "sa_nonce s = nonce" "sa_chain_id s \<noteq> 0"
    "registry_digest g (sa_chain_id s) gid (ucast t) nonce amount = Ok digest"
    "sa_digest s = g_hash_hex g digest"
    "g_hex_to_ecdsa g (trim_prefix (g_getenv g ''GUARDIAN_KEY'') ''0x'') = Inr key"
    "g_sign g (g_hash_bytes g digest) key = Inr sig" "sa_signature s = ''0x'' @ hex_encode sig"
    "sa_signer s = g_addr_hex g (g_pubkey_to_address g key)"
  using assms
  by (auto simp: sign_top_up_action_def Let_def res_bind_Ok_iff split: if_splits)

end
