(* ===== verification/GuardMachine.thy ===== *)
theory GuardMachine
  imports Extension
begin

text \<open>
  The guard under concurrent requests. net/http runs every handler in a goroutine of
  its own; the only shared state is the \<open>Extension\<close> struct, which
  \<open>checkVaultJSON\<close> (\<open>tee/go/internal/extension/extension.go\<close>) writes in two critical
  sections under \<open>mu\<close>: one after the decision, one after a signature. Between them a
  request works on data of its own, so an interleaving is a sequence of the steps
  below, one for each section, in any order between the requests. Every request
  carries its own environment: the network may answer each of them differently.
  A section is one step, so the mutex is not a part of the state, and a read of the network
  that never returns is a request that takes no step.
\<close>

subsection \<open>Jobs and steps\<close>

datatype phase =
    Reading
  | Signing vault_health guard_policy
  | Done "check_vault_response res"

record 'key job =
  job_env :: "'key guard_env"
  job_req :: check_vault_request
  job_phase :: phase

type_synonym 'key sys = "extension \<times> 'key job list"

definition spawn :: "'key guard_env \<Rightarrow> check_vault_request \<Rightarrow> 'key job" where
  "spawn g q = \<lparr>job_env = g, job_req = q, job_phase = Reading\<rparr>"

text \<open>The response as it stands before a signature is attached.\<close>

definition plain_response :: "vault_health \<Rightarrow> check_vault_response" where
  "plain_response h =
     \<lparr>healthy = snd (decide h), health = h, decision = fst (decide h), signed = None\<rparr>"

text \<open>From the request to the end of the first critical section.\<close>

definition job_check :: "'key job \<Rightarrow> extension \<Rightarrow> extension \<times> 'key job" where
  "job_check j e =
     (case check_reads (job_env j) (job_req j) of
        Err er \<Rightarrow> (e, j\<lparr>job_phase := Done (Err er)\<rparr>)
      | Panic m \<Rightarrow> (e, j\<lparr>job_phase := Done (Panic m)\<rparr>)
      | Ok (h, p) \<Rightarrow>
          (record_check (agent_vault (job_req j)) (fst (decide h)) e,
           j\<lparr>job_phase :=
               (if \<not> snd (decide h) \<and> gp_active p then Signing h p
                else Done (Ok (plain_response h)))\<rparr>))"

text \<open>From there to the end of the second.\<close>

definition job_sign :: "vault_health \<Rightarrow> guard_policy \<Rightarrow> 'key job \<Rightarrow> extension \<Rightarrow> extension \<times> 'key job" where
  "job_sign h p j e =
     (case sign_top_up_action (job_env j) (guard_id (job_req j)) action_vault_top_up
             (dec_int (gp_top_up_amount_wei p)) (gp_last_action_nonce p + 1) of
        Err er \<Rightarrow> (e, j\<lparr>job_phase := Done (Err (wrapf ''signing action'' er))\<rparr>)
      | Panic m \<Rightarrow> (e, j\<lparr>job_phase := Done (Panic m)\<rparr>)
      | Ok s \<Rightarrow>
          (record_signed e, j\<lparr>job_phase := Done (Ok ((plain_response h)\<lparr>signed := Some s\<rparr>))\<rparr>))"

inductive guard_step :: "'key sys \<Rightarrow> 'key sys \<Rightarrow> bool" where
  arrive: "guard_step (e, js) (e, js @ [spawn g q])"
| check: "i < length js \<Longrightarrow> job_phase (js ! i) = Reading \<Longrightarrow> job_check (js ! i) e = (e', j)
    \<Longrightarrow> guard_step (e, js) (e', js[i := j])"
| sign: "i < length js \<Longrightarrow> job_phase (js ! i) = Signing h p \<Longrightarrow> job_sign h p (js ! i) e = (e', j)
    \<Longrightarrow> guard_step (e, js) (e', js[i := j])"

inductive guard_reachable :: "'key sys \<Rightarrow> bool" where
  start: "guard_reachable (new_extension, [])"
| step: "guard_reachable s \<Longrightarrow> guard_step s s' \<Longrightarrow> guard_reachable s'"

inductive_cases guard_stepE: "guard_step (e, js) s'"

subsection \<open>One request at a time\<close>

text \<open>The requests of the jobs, served one after the other by the code's own function.\<close>

definition serial :: "'key job list \<Rightarrow> extension \<Rightarrow> extension" where
  "serial js e = foldl (\<lambda>e j. fst (check_vault_json (job_env j) (job_req j) e)) e js"

definition job_result :: "'key job \<Rightarrow> check_vault_response res" where
  "job_result j = snd (check_vault_json (job_env j) (job_req j) new_extension)"

fun has_signature :: "check_vault_response res \<Rightarrow> bool" where
  "has_signature (Ok r) = (signed r \<noteq> None)"
| "has_signature (Err _) = False"
| "has_signature (Panic _) = False"

text \<open>What a job has added to the two counters so far.\<close>

definition checks_of :: "'key job \<Rightarrow> nat" where
  "checks_of j = (if job_phase j \<noteq> Reading \<and> is_ok (check_reads (job_env j) (job_req j)) then 1 else 0)"

definition signs_of :: "'key job \<Rightarrow> nat" where
  "signs_of j = (case job_phase j of Done r \<Rightarrow> if has_signature r then 1 else 0 | _ \<Rightarrow> 0)"

lemma check_vault_json_phases:
  "check_vault_json g q e =
     (case job_check (spawn g q) e of
        (e1, j) \<Rightarrow>
          (case job_phase j of
             Reading \<Rightarrow> (e1, Panic [])
           | Done r \<Rightarrow> (e1, r)
           | Signing h p \<Rightarrow>
               (case job_sign h p j e1 of
                  (e2, j') \<Rightarrow> (case job_phase j' of Done r \<Rightarrow> (e2, r) | _ \<Rightarrow> (e2, Panic [])))))"
proof (cases "check_reads g q")
  case (Ok hp)
  then show ?thesis
    by (cases hp; cases "decide (fst hp)")
      (auto simp: check_vault_json_def job_check_def job_sign_def spawn_def plain_response_def
        Let_def split: res.splits)
qed (simp_all add: check_vault_json_def job_check_def spawn_def)

text \<open>The outcome of a check does not depend on the shared state.\<close>

lemma check_vault_json_result: "snd (check_vault_json g q e) = snd (check_vault_json g q e')"
  by (auto simp: check_vault_json_def Let_def split: res.splits prod.splits)

lemma check_vault_json_checks:
  "checks_performed (fst (check_vault_json g q e)) =
     checks_performed e + (if is_ok (check_reads g q) then 1 else 0)"
  by (auto simp: check_vault_json_def Let_def record_check_def record_signed_def
      split: res.splits prod.splits)

lemma check_vault_json_signs:
  "actions_signed (fst (check_vault_json g q e)) =
     actions_signed e + (if has_signature (snd (check_vault_json g q e)) then 1 else 0)"
  by (auto simp: check_vault_json_def Let_def record_check_def record_signed_def
      split: res.splits prod.splits)

lemma serial_counters:
  "checks_performed (serial js e) =
     checks_performed e + of_nat (length (filter (\<lambda>j. is_ok (check_reads (job_env j) (job_req j))) js))"
  "actions_signed (serial js e) =
     actions_signed e + of_nat (length (filter (\<lambda>j. has_signature (job_result j)) js))"
proof (induction js arbitrary: e)
  case (Cons j js)
  have r: "has_signature (snd (check_vault_json (job_env j) (job_req j) e)) = has_signature (job_result j)" for e
    unfolding job_result_def using check_vault_json_result by metis
  { case 1 then show ?case
      using Cons(1) by (simp add: serial_def check_vault_json_checks) }
  { case 2 then show ?case
      using Cons(2) r by (simp add: serial_def check_vault_json_signs) }
qed (simp_all add: serial_def)

subsection \<open>The invariant\<close>

definition job_ok :: "'key job \<Rightarrow> bool" where
  "job_ok j =
     (case job_phase j of
        Reading \<Rightarrow> True
      | Signing h p \<Rightarrow> check_reads (job_env j) (job_req j) = Ok (h, p)
          \<and> \<not> snd (decide h) \<and> gp_active p
      | Done r \<Rightarrow> r = job_result j)"

text \<open>The last vault and decision come from one and the same finished check.\<close>

definition last_from :: "extension \<Rightarrow> 'key job \<Rightarrow> bool" where
  "last_from e j \<longleftrightarrow> checks_of j = 1 \<and> last_check_vault e = agent_vault (job_req j)
     \<and> (\<exists>h p. check_reads (job_env j) (job_req j) = Ok (h, p) \<and> last_decision e = fst (decide h))"

definition guard_inv :: "'key sys \<Rightarrow> bool" where
  "guard_inv s =
     (case s of (e, js) \<Rightarrow>
        list_all job_ok js
        \<and> checks_performed e = of_nat (sum_list (map checks_of js))
        \<and> actions_signed e = of_nat (sum_list (map signs_of js))
        \<and> ((last_check_vault e, last_decision e) = ([], []) \<and> (\<forall>j\<in>set js. checks_of j = 0)
           \<or> (\<exists>j\<in>set js. last_from e j)))"

lemma signs_le_checks: "job_ok j \<Longrightarrow> signs_of j \<le> checks_of j"
  by (auto simp: job_ok_def signs_of_def checks_of_def job_result_def check_vault_json_def Let_def
      split: phase.splits res.splits prod.splits)

lemma job_check_cases:
  assumes "job_phase j = Reading" and "job_check j e = (e', j')"
  shows "job_env j' = job_env j \<and> job_req j' = job_req j \<and> job_ok j' \<and> signs_of j' = 0
    \<and> ((\<exists>h p. check_reads (job_env j) (job_req j) = Ok (h, p) \<and> checks_of j' = 1
           \<and> e' = record_check (agent_vault (job_req j)) (fst (decide h)) e)
        \<or> checks_of j' = 0 \<and> e' = e)"
  using assms
  by (auto simp: job_check_def job_ok_def checks_of_def signs_of_def job_result_def
      check_vault_json_def plain_response_def Let_def
      split: res.splits prod.splits phase.splits if_splits)

lemma job_sign_cases:
  assumes "job_phase j = Signing h p" and "job_ok j" and "job_sign h p j e = (e', j')"
  shows "job_env j' = job_env j \<and> job_req j' = job_req j \<and> job_ok j' \<and> checks_of j' = checks_of j
    \<and> (signs_of j' = 1 \<and> e' = record_signed e \<or> signs_of j' = 0 \<and> e' = e)"
  using assms
  by (auto simp: job_sign_def job_ok_def checks_of_def signs_of_def job_result_def
      check_vault_json_def plain_response_def Let_def
      split: res.splits prod.splits phase.splits if_splits)

lemma guard_inv_start: "guard_inv (new_extension, [])"
  by (simp add: guard_inv_def new_extension_def)

lemma checks_of_01: "checks_of j = 0 \<or> checks_of j = 1"
  by (simp add: checks_of_def)

lemma checks_of_spawn [simp]: "checks_of (spawn g q) = 0"
  by (simp add: checks_of_def spawn_def)

lemma signs_of_spawn [simp]: "signs_of (spawn g q) = 0"
  by (simp add: signs_of_def spawn_def)

lemma job_ok_spawn [simp]: "job_ok (spawn g q)"
  by (simp add: job_ok_def spawn_def)

lemma guard_inv_iff:
  "guard_inv (e, js) \<longleftrightarrow> list_all job_ok js
     \<and> checks_performed e = of_nat (sum_list (map checks_of js))
     \<and> actions_signed e = of_nat (sum_list (map signs_of js))
     \<and> ((last_check_vault e, last_decision e) = ([], []) \<and> (\<forall>j\<in>set js. checks_of j = 0)
        \<or> (\<exists>j\<in>set js. last_from e j))"
  by (simp add: guard_inv_def)

lemma guard_inv_check:
  assumes inv: "guard_inv (e, js)" and i: "i < length js" and ph: "job_phase (js ! i) = Reading"
    and st: "job_check (js ! i) e = (e', j)"
  shows "guard_inv (e', js[i := j])"
proof -
  note c = job_check_cases[OF ph st]
  have z: "checks_of (js ! i) = 0" "signs_of (js ! i) = 0"
    using ph by (simp_all add: checks_of_def signs_of_def)
  have cs: "sum_list (map checks_of (js[i := j])) = sum_list (map checks_of js) + checks_of j"
    and ss: "sum_list (map signs_of (js[i := j])) = sum_list (map signs_of js)"
    using sum_map_update[OF i, of checks_of j] sum_map_update[OF i, of signs_of j] z c by simp_all
  have ok: "list_all job_ok (js[i := j])"
    using inv c by (simp add: guard_inv_iff list_all_update)
  consider (recorded) h p where "check_reads (job_env (js ! i)) (job_req (js ! i)) = Ok (h, p)"
      "checks_of j = 1" "e' = record_check (agent_vault (job_req (js ! i))) (fst (decide h)) e"
    | (failed) "checks_of j = 0" "e' = e"
    using c by fast
  then show ?thesis
  proof cases
    case recorded
    have "last_from e' j" using recorded c by (simp add: last_from_def record_check_def)
    then have "\<exists>j\<in>set (js[i := j]). last_from e' j" using i by (metis set_update_memI)
    then show ?thesis
      using inv ok recorded cs ss by (simp add: guard_inv_iff record_check_def)
  next
    case failed
    have "\<exists>y\<in>set (js[i := j]). last_from e y" if "y \<in> set js" "last_from e y" for y
      using that z by (intro ex_update[OF i]) (auto simp: last_from_def)
    moreover have "\<forall>y\<in>set (js[i := j]). checks_of y = 0" if "\<forall>y\<in>set js. checks_of y = 0"
      using that failed(1) set_update_subset_insert[of js i j] by auto
    ultimately show ?thesis using inv ok failed cs ss by (auto simp: guard_inv_iff)
  qed
qed

lemma guard_inv_sign:
  assumes inv: "guard_inv (e, js)" and i: "i < length js"
    and ph: "job_phase (js ! i) = Signing h p" and st: "job_sign h p (js ! i) e = (e', j)"
  shows "guard_inv (e', js[i := j])"
proof -
  have "job_ok (js ! i)" using inv i by (simp add: guard_inv_iff list_all_at)
  note c = job_sign_cases[OF ph this st]
  have z: "signs_of (js ! i) = 0" using ph by (simp add: signs_of_def)
  have cs: "sum_list (map checks_of (js[i := j])) = sum_list (map checks_of js)"
    and ss: "sum_list (map signs_of (js[i := j])) = sum_list (map signs_of js) + signs_of j"
    using sum_map_update[OF i, of checks_of j] sum_map_update[OF i, of signs_of j] z c by simp_all
  have ok: "list_all job_ok (js[i := j])"
    using inv c by (simp add: guard_inv_iff list_all_update)
  have e': "last_check_vault e' = last_check_vault e" "last_decision e' = last_decision e"
    "checks_performed e' = checks_performed e"
    "actions_signed e' = actions_signed e + of_nat (signs_of j)"
    using c by (auto simp: record_signed_def)
  have "\<exists>y\<in>set (js[i := j]). last_from e' y" if "y \<in> set js" "last_from e y" for y
    using that c e' by (intro ex_update[OF i, of y]) (auto simp: last_from_def)
  moreover have "\<forall>y\<in>set (js[i := j]). checks_of y = 0" if "\<forall>y\<in>set js. checks_of y = 0"
    using that c i set_update_subset_insert[of js i j] by auto
  ultimately show ?thesis using inv ok cs ss e' by (auto simp: guard_inv_iff)
qed

lemma guard_inv_step:
  assumes "guard_inv s" and "guard_step s s'"
  shows "guard_inv s'"
  using assms(2,1)
proof cases
  case (arrive e js g q)
  then show ?thesis using assms(1) by (auto simp: guard_inv_iff)
qed (use assms(1) guard_inv_check guard_inv_sign in blast)+

lemma guard_reachable_inv: "guard_reachable s \<Longrightarrow> guard_inv s"
proof (induction rule: guard_reachable.induct)
  case start
  show ?case by (rule guard_inv_start)
next
  case (step s s')
  then show ?case using guard_inv_step by blast
qed

subsection \<open>Runs with their order\<close>

text \<open>A run, with the requests in the order in which they pass their first critical section.\<close>

inductive guard_run :: "'key sys \<Rightarrow> nat list \<Rightarrow> 'key sys \<Rightarrow> bool" for s where
  idle: "guard_run s [] s"
| arrive: "guard_run s l (e, js) \<Longrightarrow> guard_run s l (e, js @ [spawn g q])"
| check: "guard_run s l (e, js) \<Longrightarrow> i < length js \<Longrightarrow> job_phase (js ! i) = Reading
    \<Longrightarrow> job_check (js ! i) e = (e', j) \<Longrightarrow> guard_run s (l @ [i]) (e', js[i := j])"
| sign: "guard_run s l (e, js) \<Longrightarrow> i < length js \<Longrightarrow> job_phase (js ! i) = Signing h p
    \<Longrightarrow> job_sign h p (js ! i) e = (e', j) \<Longrightarrow> guard_run s l (e', js[i := j])"

lemmas guard_run_induct = guard_run.induct[split_format(complete), consumes 1, case_names idle arrive check sign]

text \<open>These are the runs of the step relation.\<close>

lemma guard_run_steps: "guard_run s l t \<Longrightarrow> rtranclp guard_step s t"
proof (induction rule: guard_run.induct)
  case (arrive l e js g q)
  then show ?case using guard_step.arrive by (metis rtranclp.rtrancl_into_rtrancl)
next
  case (check l e js i e' j)
  then show ?case using guard_step.check by (metis rtranclp.rtrancl_into_rtrancl)
next
  case (sign l e js i h p e' j)
  then show ?case using guard_step.sign by (metis rtranclp.rtrancl_into_rtrancl)
qed simp

lemma guard_steps_run: "rtranclp guard_step s t \<Longrightarrow> \<exists>l. guard_run s l t"
proof (induction rule: rtranclp_induct)
  case base
  show ?case using guard_run.idle by blast
next
  case (step t u)
  from step(2,3) show ?case by cases (blast intro: guard_run.intros)+
qed

lemma guard_run_reachable:
  assumes "guard_run (new_extension, []) l s"
  shows "guard_reachable s"
  using guard_run_steps[OF assms]
  by (induction rule: rtranclp_induct) (auto intro: guard_reachable.intros)

lemma guard_run_append: "guard_run t k u \<Longrightarrow> guard_run s l t \<Longrightarrow> guard_run s (l @ k) u"
proof (induction rule: guard_run.induct)
  case (check k e js i e' j)
  from guard_run.check[OF check(5)[OF check(6)] check(2-4)] show ?case by simp
qed (auto intro: guard_run.intros)

end
