(* ===== verification/GuardDemo.thy ===== *)
theory GuardDemo
  imports GuardMachine
begin

text \<open>
  A concrete environment on which the guard's theorems are evaluated: a liquidatable
  vault, an active policy that was made for another vault, and libraries that answer
  constants.
\<close>

definition demo_env :: "unit guard_env" where
  "demo_env =
     \<lparr>g_getenv = (\<lambda>v. if v = ''CHAIN_ID'' then [] else ''0x11''),
      g_http_post = (\<lambda>_ _. Inr ''{}''),
      g_json_error = (\<lambda>_. ErrorString ''EOF''),
      g_is_hex_address = (\<lambda>s. s \<noteq> []),
      g_hex_to_address = (\<lambda>_. 7),
      g_hex2bytes = (\<lambda>_. []),
      g_bytes2hex = hex_encode,
      g_abi_pack = (\<lambda>_ _. Inr []),
      g_abi_unpack = (\<lambda>f _.
        if f = ''getAgentLiquidationFactorsAndMaxAmount'' then Inr [AbiBig 5, AbiBig 0, AbiBig 9]
        else if f = ''getAgentFullVaultCollateral'' then Inr [AbiBig 3]
        else if f = ''getFeedById'' then Inr [AbiBig 12, AbiInt8 1, AbiUint64 0]
        else Inr [AbiAddress 8, AbiAddress 1, AbiUint64 0, AbiBig 4, AbiUint64 6, AbiUint64 0, AbiBool True]),
      g_keccak256 = (\<lambda>_. replicate 32 (nat_byte 0)),
      g_keccak256_hash = (\<lambda>_. 0),
      g_hash_bytes = (\<lambda>_. replicate 32 (nat_byte 0)),
      g_hash_hex = (\<lambda>_. ''0x00''),
      g_addr_hex = (\<lambda>_. ''0x01''),
      g_hex_to_ecdsa = (\<lambda>_. Inr ()),
      g_sign = (\<lambda>_ _. Inr (replicate 65 (nat_byte 0))),
      g_pubkey_to_address = (\<lambda>_. 1),
      g_to_hash = (\<lambda>s. of_nat (length s))\<rparr>"

definition demo_request :: check_vault_request where
  "demo_request = \<lparr>agent_vault = ''0xA'', guard_id = 2\<rparr>"


lemma demo_decode: "decode_rpc ''{}'' = Some \<lparr>rpc_result = [], rpc_error = None\<rparr>"
  by code_simp

lemma demo_eth_call [simp]: "eth_call demo_env r t d = Ok []"
  by (simp add: eth_call_def demo_decode demo_env_def)

lemma demo_reads [simp]:
  "read_vault_health demo_env ''0xA'' =
     Ok (zero_health\<lparr>vault := ''0xA'', liq_factor_vault_bips := dec_int 5,
       liq_factor_pool_bips := dec_int 0, max_liquidation_amount := dec_int 9,
       vault_collateral_wei := dec_int 3, xrp_usd := format_price 12 1, liquidatable := True\<rparr>)"
  "read_guard demo_env 2 = Ok \<lparr>gp_agent_vault = 8, gp_owner = 1, gp_ratio_bips = 0,
     gp_top_up_amount_wei = 4, gp_last_action_nonce = 6, gp_created_at = 0, gp_active = True\<rparr>"
  by (simp_all add: read_vault_health_def read_guard_def read_call_def Let_def coston2_rpc_def as_value_def err_unless_def)
     (simp_all add: demo_env_def)

lemma demo_sign [simp]:
  "sign_top_up_action demo_env 2 1 (dec_int 4) 7 =
     Ok \<lparr>sa_guard_id = 2, sa_action_type = 1, sa_amount = dec_int 4, sa_nonce = 7, sa_chain_id = 114,
       sa_digest = ''0x00'', sa_signature = ''0x'' @ hex_encode (replicate 65 (nat_byte 0)), sa_signer = ''0x01''\<rparr>"
  by (simp add: sign_top_up_action_def registry_digest_def digest_words_eq Let_def dec_int_nonneg err_unless_def)
     (simp add: demo_env_def parse_uint64_def)
definition demo_signed :: signed_action where
  "demo_signed = \<lparr>sa_guard_id = 2, sa_action_type = 1, sa_amount = dec_int 4, sa_nonce = 7,
     sa_chain_id = 114, sa_digest = ''0x00'', sa_signature = ''0x'' @ hex_encode (replicate 65 (nat_byte 0)), sa_signer = ''0x01''\<rparr>"

definition demo_health :: vault_health where
  "demo_health = zero_health\<lparr>vault := ''0xA'', liq_factor_vault_bips := dec_int 5,
     liq_factor_pool_bips := dec_int 0, max_liquidation_amount := dec_int 9,
     vault_collateral_wei := dec_int 3, xrp_usd := format_price 12 1, liquidatable := True\<rparr>"

definition demo_response :: check_vault_response where
  "demo_response = \<lparr>healthy = False, health = demo_health, decision = ''TOP_UP_REQUIRED'',
     signed = Some demo_signed\<rparr>"

definition demo_after :: "extension \<Rightarrow> extension" where
  "demo_after e = record_signed (record_check ''0xA'' ''TOP_UP_REQUIRED'' e)"

lemma demo_check_reads [simp]:
  "check_reads demo_env demo_request =
     Ok (demo_health, \<lparr>gp_agent_vault = 8, gp_owner = 1, gp_ratio_bips = 0,
       gp_top_up_amount_wei = 4, gp_last_action_nonce = 6, gp_created_at = 0, gp_active = True\<rparr>)"
  by (simp add: check_reads_Ok demo_request_def demo_health_def) (simp add: demo_env_def)

lemma demo_check: "check_vault_json demo_env demo_request e = (demo_after e, Ok demo_response)"
proof -
  have "decide demo_health = (''TOP_UP_REQUIRED'', False)"
    using parse_uint64_dec_int_pos[of 5] by (simp add: decide_def demo_health_def Let_def)
  then show ?thesis
    by (simp add: check_vault_json_def action_vault_top_up_def demo_after_def demo_response_def
        demo_signed_def) (simp add: demo_request_def)
qed

definition demo_action :: action where
  "demo_action = \<lparr>act_id = 3, act_submission_tag = ''submit'', act_message = []\<rparr>"

definition demo_fixed :: data_fixed where
  "demo_fixed = \<lparr>df_op_type = 5, df_op_command = 11,
     df_original_message = json_print (json_request demo_request)\<rparr>"

lemma demo_request_ascii: "ascii (agent_vault demo_request)"
  by (simp add: demo_request_def byte_nat_Char)

lemma demo_decoded: "decode_request strict (df_original_message demo_fixed) = Some demo_request"
  by (simp add: demo_fixed_def decode_request_json[OF demo_request_ascii])

definition demo_node :: node_env where
  "demo_node = \<lparr>n_decode_action = (\<lambda>_. Inr demo_action), n_parse_fixed = (\<lambda>_. Inr demo_fixed),
     n_marshal_result = ar_log, n_unmarshal_log = Some, n_hash_json = (\<lambda>_. ''0x00'')\<rparr>"


end
