(* ===== verification/GuardClaims.thy ===== *)
theory GuardClaims
  imports GuardDemo
begin

text \<open>
  What the guard promises: the decision, the signed action, the effect of a check on the
  shared state, the two HTTP paths, and the digest. Every property with a hypothesis is
  applied to the concrete environment of \<open>GuardDemo\<close>.
\<close>

subsection \<open>Helpers\<close>

lemma as_value_Ok: "as_value sel out i = Ok v \<longleftrightarrow> i < length out \<and> sel (out ! i) = Some v"
  by (auto simp: as_value_def split: option.splits)

lemma sel_big_Some: "sel_big x = Some v \<longleftrightarrow> x = AbiBig v"
  by (cases x) auto

lemma three_bigs:
  assumes "as_value sel_big xs 0 = Ok a" "as_value sel_big xs 1 = Ok b" "as_value sel_big xs 2 = Ok c"
  shows "\<exists>rest. xs = AbiBig a # AbiBig b # AbiBig c # rest"
proof -
  have len: "2 < length xs" using assms by (simp add: as_value_Ok)
  then obtain x y z rest where xs: "xs = x # y # z # rest"
    by (metis (no_types, lifting) Suc_lessD list.size(3) neq_Nil_conv length_Cons numeral_2_eq_2
        not_less_zero Suc_less_eq)
  then show ?thesis using assms by (simp add: as_value_Ok sel_big_Some)
qed

lemma read_vault_health_factors:
  assumes "read_vault_health g av = Ok h"
  shows "\<exists>f0 f1 f2 rest.
    read_call g ''factors'' (coston2_rpc g) (g_getenv g ''ASSET_MANAGER'')
      ''getAgentLiquidationFactorsAndMaxAmount'' [AbiAddress (g_hex_to_address g av)]
      = Ok (AbiBig f0 # AbiBig f1 # AbiBig f2 # rest)
    \<and> (liquidatable h \<longleftrightarrow> 0 < f0 \<or> 0 < f1)"
  using assms three_bigs
  by (auto simp: read_vault_health_def Let_def res_bind_Ok_iff) blast

lemma decode_request_lax:
  "decode_request_members True ms q = Some q' \<Longrightarrow> decode_request_members False ms q = Some q'"
  by (induction ms arbitrary: q) (auto split: option.splits if_splits)

lemma decode_request_strict_lax: "decode_request True b = Some q \<Longrightarrow> decode_request False b = Some q"
  by (auto simp: decode_request_def decode_request_lax split: option.splits json.splits)

lemma build_result_sel [simp]:
  "ar_id (build_result a df d st e) = act_id a" "ar_submission_tag (build_result a df d st e) = act_submission_tag a"
  "ar_version (build_result a df d st e) = version" "ar_op_type (build_result a df d st e) = df_op_type df"
  "ar_op_command (build_result a df d st e) = df_op_command df" "ar_data (build_result a df d st e) = d"
  "ar_status (build_result a df d st e) = st"
  by (simp_all add: build_result_def)

subsection \<open>The decision\<close>

text \<open>
  C1. A check that succeeds answers WATCH exactly when both liquidation factors the asset
  manager returned are not positive, of whatever size, and TOP_UP_REQUIRED otherwise; the
  healthy flag and the liquidatable flag of the health say the same.
\<close>
theorem check_decision:
  assumes "check_vault_json g req e = (e', Ok resp)"
  shows "\<exists>f0 f1 f2 rest.
    read_call g ''factors'' (coston2_rpc g) (g_getenv g ''ASSET_MANAGER'')
      ''getAgentLiquidationFactorsAndMaxAmount'' [AbiAddress (g_hex_to_address g (agent_vault req))]
      = Ok (AbiBig f0 # AbiBig f1 # AbiBig f2 # rest)
    \<and> (healthy resp \<longleftrightarrow> f0 \<le> 0 \<and> f1 \<le> 0)
    \<and> decision resp = (if f0 \<le> 0 \<and> f1 \<le> 0 then ''WATCH'' else ''TOP_UP_REQUIRED'')
    \<and> (liquidatable (health resp) \<longleftrightarrow> \<not> healthy resp)"
proof -
  obtain h p where hp: "check_reads g req = Ok (h, p)" and resp: "health resp = h"
    "healthy resp \<longleftrightarrow> \<not> liquidatable h"
    "decision resp = (if liquidatable h then ''TOP_UP_REQUIRED'' else ''WATCH'')"
    using check_vault_json_Ok[OF assms] by blast
  then have "read_vault_health g (agent_vault req) = Ok h" by (simp add: check_reads_Ok)
  from read_vault_health_factors[OF this] obtain f0 f1 f2 rest where
    "read_call g ''factors'' (coston2_rpc g) (g_getenv g ''ASSET_MANAGER'')
       ''getAgentLiquidationFactorsAndMaxAmount'' [AbiAddress (g_hex_to_address g (agent_vault req))]
       = Ok (AbiBig f0 # AbiBig f1 # AbiBig f2 # rest)"
    "liquidatable h \<longleftrightarrow> 0 < f0 \<or> 0 < f1"
    by blast
  then show ?thesis using resp by (intro exI[of _ f0] exI[of _ f1] exI[of _ f2]) auto
qed

theorem check_decision_witness:
  "\<exists>f0 f1 f2 rest.
    read_call demo_env ''factors'' (coston2_rpc demo_env) (g_getenv demo_env ''ASSET_MANAGER'')
      ''getAgentLiquidationFactorsAndMaxAmount'' [AbiAddress (g_hex_to_address demo_env (agent_vault demo_request))]
      = Ok (AbiBig f0 # AbiBig f1 # AbiBig f2 # rest)
    \<and> \<not> (f0 \<le> 0 \<and> f1 \<le> 0)"
  using check_decision[OF demo_check[of new_extension]] by (auto simp: demo_response_def)

text \<open>
  C2. A successful check carries a signed action exactly when the vault is not healthy and
  the guard is active. The action names the requested guard, the top-up type, the policy's
  amount, the successor of the policy's nonce; its digest is the registry's digest of these
  values and its signature is the enclave key's over that digest.
\<close>
theorem check_signs:
  assumes "check_vault_json g req e = (e', Ok resp)"
  shows "\<exists>p. read_guard g (guard_id req) = Ok p
    \<and> (signed resp \<noteq> None \<longleftrightarrow> \<not> healthy resp \<and> gp_active p)
    \<and> (\<forall>s. signed resp = Some s \<longrightarrow>
         sa_guard_id s = guard_id req \<and> sa_action_type s = 1
         \<and> sa_amount s = dec_int (gp_top_up_amount_wei p)
         \<and> sa_nonce s = gp_last_action_nonce p + 1 \<and> sa_chain_id s \<noteq> 0
         \<and> (\<exists>d k sig. registry_digest g (sa_chain_id s) (guard_id req) 1 (sa_nonce s) (sa_amount s) = Ok d
              \<and> sa_digest s = g_hash_hex g d
              \<and> g_hex_to_ecdsa g (trim_prefix (g_getenv g ''GUARDIAN_KEY'') ''0x'') = Inr k
              \<and> g_sign g (g_hash_bytes g d) k = Inr sig \<and> sa_signature s = ''0x'' @ hex_encode sig
              \<and> sa_signer s = g_addr_hex g (g_pubkey_to_address g k)))"
proof -
  obtain h p where hp: "check_reads g req = Ok (h, p)" and hl: "healthy resp \<longleftrightarrow> \<not> liquidatable h"
    and yes: "liquidatable h \<and> gp_active p \<Longrightarrow>
      \<exists>s. signed resp = Some s
        \<and> sign_top_up_action g (guard_id req) action_vault_top_up
            (dec_int (gp_top_up_amount_wei p)) (gp_last_action_nonce p + 1) = Ok s"
    and no: "\<not> (liquidatable h \<and> gp_active p) \<Longrightarrow> signed resp = None"
    using check_vault_json_Ok[OF assms] by metis
  have u: "ucast (1 :: 8 word) = (1 :: u64)" by simp
  show ?thesis
  proof (cases "liquidatable h \<and> gp_active p")
    case True
    then obtain s where s: "signed resp = Some s"
      "sign_top_up_action g (guard_id req) 1 (dec_int (gp_top_up_amount_wei p))
         (gp_last_action_nonce p + 1) = Ok s"
      using yes by (auto simp: action_vault_top_up_def)
    from s(2) show ?thesis
      by (rule sign_top_up_action_Ok)
         (use s(1) True hp hl in \<open>auto simp: check_reads_Ok u intro!: exI[of _ p]\<close>)
  next
    case False
    then show ?thesis using hp hl no by (auto simp: check_reads_Ok intro!: exI[of _ p])
  qed
qed

theorem check_signs_witness:
  "\<exists>p. read_guard demo_env (guard_id demo_request) = Ok p \<and> gp_active p
    \<and> sa_nonce demo_signed = gp_last_action_nonce p + 1"
  using check_signs[OF demo_check[of new_extension]] by (auto simp: demo_response_def)

subsection \<open>The digest\<close>

text \<open>
  C6. The digest that is signed is the EIP-191 hash of the Keccak hash of
  \<open>abi.encode(chainId, guardId, actionType, amount, nonce)\<close>, byte for byte, for every
  amount that fits a 256-bit word.
\<close>
theorem digest_is_abi_encode:
  assumes "v < 2 ^ 256"
  shows "registry_digest g c i t n (dec v) =
    Ok (g_keccak256_hash g (eip191_prefix @ g_keccak256 g (abi_encode_uints [unat c, unat i, unat t, v, unat n])))"
  by (simp add: registry_digest_def digest_words_reference[OF assms] Let_def)

theorem digest_is_abi_encode_witness:
  "registry_digest demo_env 114 2 1 7 (dec 4) =
     Ok (g_keccak256_hash demo_env (eip191_prefix @ g_keccak256 demo_env (abi_encode_uints [114, 2, 1, 4, 7])))"
  using digest_is_abi_encode[of 4 demo_env 114 2 1 7] by simp

text \<open>
  C14. The preimage of the digest determines the five values: two actions with the same
  160 bytes have the same chain, guard, type, amount and nonce.
\<close>
theorem digest_preimage_injective:
  assumes "v < 2 ^ 256" and "v' < 2 ^ 256"
  shows "digest_words c i t n (dec v) = digest_words c' i' t' n' (dec v') \<longleftrightarrow>
    c = c' \<and> i = i' \<and> t = t' \<and> n = n' \<and> v = v'"
  using assms by (rule digest_words_inject)

theorem digest_preimage_injective_witness:
  "digest_words 114 2 1 7 (dec 4) \<noteq> digest_words 114 2 1 8 (dec 4)"
  using digest_preimage_injective[of 4 4 114 2 1 7 114 2 1 8] by simp

text \<open>
  Building the digest panics exactly for an amount whose absolute value needs more
  than 256 bits; a text that is no number counts as the amount zero. It never returns an
  error.
\<close>
lemma digest_panics:
  "(is_panic (registry_digest g c i t n amount) \<longleftrightarrow>
     (\<exists>v. big_set_string amount = Some v \<and> 2 ^ 256 \<le> \<bar>v\<bar>))
   \<and> (is_ok (registry_digest g c i t n amount) \<longleftrightarrow> \<not> is_panic (registry_digest g c i t n amount))"
  by (auto simp: registry_digest_def digest_words_eq Let_def not_less split: option.splits)

subsection \<open>The effect on the state\<close>

text \<open>
  C15. A check whose reads fail leaves the state as it was. One whose reads succeed records
  the vault and the decision and counts itself, also when signing then fails; the second
  counter moves exactly when the response carries a signature.
\<close>
theorem check_effect:
  "case check_vault_json g req e of (e', r) \<Rightarrow>
     (case check_reads g req of
        Ok (h, p) \<Rightarrow>
          last_check_vault e' = agent_vault req \<and> last_decision e' = fst (decide h)
          \<and> checks_performed e' = checks_performed e + 1
          \<and> actions_signed e' = actions_signed e + (if has_signature r then 1 else 0)
      | Err er \<Rightarrow> e' = e \<and> r = Err er
      | Panic m \<Rightarrow> e' = e \<and> r = Panic m)"
  by (auto simp: check_vault_json_def Let_def record_check_def record_signed_def
      split: res.splits prod.splits)

subsection \<open>The HTTP paths\<close>

lemma wrap_has_prefix: "has_prefix (''error: '' @ s) ''error: ''"
  by (rule has_prefix_append)

lemma build_result_log:
  "ar_log (build_result a df d 0 (Some e)) = ''error: '' @ err_msg e"
  "ar_log (build_result a df d 1 None) = ''ok''"
  by (simp_all add: build_result_def)

text \<open>
  C23. The result of the tee-node path echoes the action's id, tag, type and command and
  the version; its status is 0 or 1; status 1 comes with data and the log \<open>ok\<close>, status 0
  without data and with an \<open>error:\<close> log.
\<close>
theorem tee_result_contract:
  assumes "check_vault g a df e = (e', Ok ar)"
  shows "ar_id ar = act_id a \<and> ar_submission_tag ar = act_submission_tag a \<and> ar_version ar = version
    \<and> ar_op_type ar = df_op_type df \<and> ar_op_command ar = df_op_command df
    \<and> (ar_status ar = 1 \<and> ar_data ar \<noteq> None \<and> ar_log ar = ''ok''
       \<or> ar_status ar = 0 \<and> ar_data ar = None \<and> has_prefix (ar_log ar) ''error: '')"
proof -
  consider (bad) "decode_request True (df_original_message df) = None"
      "ar = build_result a df None 0
         (Some (wrapf ''decoding request'' (g_json_error g (df_original_message df))))"
    | (err) q er where "check_vault_json g q e = (e', Err er)" "ar = build_result a df None 0 (Some er)"
    | (ok) q resp where "check_vault_json g q e = (e', Ok resp)"
      "ar = build_result a df (Some (json_print (json_response resp))) 1 None"
    using assms by (auto simp: check_vault_def split: option.splits prod.splits res.splits)
  then show ?thesis
    by cases (simp_all only: build_result_sel build_result_log wrap_has_prefix, simp_all)
qed

lemma demo_check_vault:
  "check_vault demo_env demo_action demo_fixed e =
     (demo_after e, Ok (build_result demo_action demo_fixed
        (Some (json_print (json_response demo_response))) 1 None))"
  by (simp add: check_vault_def demo_decoded demo_check)

theorem tee_result_contract_witness:
  "ar_status (build_result demo_action demo_fixed (Some (json_print (json_response demo_response))) 1 None) = 1
   \<and> ar_id (build_result demo_action demo_fixed (Some (json_print (json_response demo_response))) 1 None) = 3"
  using tee_result_contract[OF demo_check_vault[of new_extension]] by (simp add: demo_action_def)

text \<open>
  C24. The relay endpoint answers 400 exactly for a body that does not decode, with the
  decoding error, and then leaves the state alone; 200 exactly when the check succeeds, with the
  response as JSON and a line feed; 422 with the check's error otherwise.
\<close>
theorem guard_check_codes:
  assumes "guard_check_handler g b e = (e', Ok r)"
  shows "(code r = 400 \<longleftrightarrow> decode_request False b = None)
    \<and> (code r = 400 \<longrightarrow> e' = e \<and> body r = ''decoding request: '' @ err_msg (g_json_error g b) @ [nat_byte 10])
    \<and> (code r = 200 \<longleftrightarrow> (\<exists>q resp. decode_request False b = Some q \<and> check_vault_json g q e = (e', Ok resp)
          \<and> body r = json_print (json_response resp) @ [nat_byte 10]))
    \<and> (code r \<in> {200, 400} \<or> (\<exists>q er. decode_request False b = Some q \<and> check_vault_json g q e = (e', Err er)
          \<and> r = http_error (''check vault: '' @ err_msg er) 422))"
proof -
  consider (bad) "decode_request False b = None" "e' = e"
        "r = http_error (''decoding request: '' @ err_msg (g_json_error g b)) 400"
    | (err) q er where "decode_request False b = Some q" "check_vault_json g q e = (e', Err er)"
        "r = http_error (''check vault: '' @ err_msg er) 422"
    | (ok) q resp where "decode_request False b = Some q" "check_vault_json g q e = (e', Ok resp)"
        "r = \<lparr>code = 200, body = json_print (json_response resp) @ [nat_byte 10]\<rparr>"
    using assms by (auto simp: guard_check_handler_def split: option.splits prod.splits res.splits)
  then show ?thesis by cases (simp_all add: http_error_def)
qed

theorem guard_check_codes_witness:
  "\<exists>e' r. guard_check_handler demo_env (json_print (json_request demo_request)) new_extension = (e', Ok r)
     \<and> code r \<noteq> 400"
proof -
  have d: "decode_request False (json_print (json_request demo_request)) = Some demo_request"
    by (rule decode_request_json[OF demo_request_ascii])
  have run: "guard_check_handler demo_env (json_print (json_request demo_request)) new_extension =
      (demo_after new_extension, Ok \<lparr>code = 200, body = json_print (json_response demo_response) @ [nat_byte 10]\<rparr>)"
    by (simp add: guard_check_handler_def d demo_check)
  show ?thesis using run guard_check_codes[OF run] d by auto
qed


text \<open>
  C25. Routing of the tee-node path: 400 exactly when the fixed data do not parse, 200
  exactly for the GUARD type with the CHECK_VAULT command, 501 otherwise; only a 200 can
  change the state.
\<close>
theorem action_routing:
  assumes "process_action g n a e = (e', Ok (c, out))"
  shows "(c = 400 \<longleftrightarrow> (\<exists>er. n_parse_fixed n (act_message a) = Inl er))
    \<and> (c = 200 \<longleftrightarrow> (\<exists>df. n_parse_fixed n (act_message a) = Inr df
          \<and> df_op_type df = g_to_hash g ''GUARD'' \<and> df_op_command df = g_to_hash g ''CHECK_VAULT''))
    \<and> (c = 200 \<or> e' = e \<and> (c = 400 \<or> c = 501))"
  using assms
  by (auto simp: process_action_def process_guard_def op_type_guard_def op_command_check_vault_def
      split: sum.splits if_splits prod.splits res.splits)

lemma demo_process:
  "process_action demo_env demo_node demo_action e = (demo_after e, Ok (200, ''ok''))"
proof -
  have [simp]: "df_op_type demo_fixed = g_to_hash demo_env op_type_guard"
    "df_op_command demo_fixed = g_to_hash demo_env op_command_check_vault"
    by (simp_all add: demo_fixed_def demo_env_def op_type_guard_def op_command_check_vault_def)
  have [simp]: "n_parse_fixed demo_node m = Inr demo_fixed" "n_marshal_result demo_node = ar_log" for m
    by (simp_all add: demo_node_def)
  show ?thesis
    by (simp add: process_action_def process_guard_def demo_check_vault build_result_log)
qed

theorem action_routing_witness:
  "(200::nat) \<noteq> 400 \<and> (\<exists>df. n_parse_fixed demo_node (act_message demo_action) = Inr df
     \<and> df_op_type df = g_to_hash demo_env ''GUARD'' \<and> df_op_command df = g_to_hash demo_env ''CHECK_VAULT'')"
  using action_routing[OF demo_process[of new_extension]] by simp

text \<open>
  C26. The two paths agree: for a message both accept, the relay endpoint and the tee-node
  path leave the same state; the endpoint answers 200 exactly when the result's status is
  1, and its body is the result's data and a line feed.
\<close>
theorem paths_agree:
  assumes "decode_request True (df_original_message df) = Some q"
  shows "fst (check_vault g a df e) = fst (guard_check_handler g (df_original_message df) e)
    \<and> (case snd (guard_check_handler g (df_original_message df) e) of
         Ok r \<Rightarrow> (case snd (check_vault g a df e) of
            Ok ar \<Rightarrow> (code r = 200 \<longleftrightarrow> ar_status ar = 1)
               \<and> (case ar_data ar of None \<Rightarrow> code r = 422 | Some d \<Rightarrow> body r = d @ [nat_byte 10])
          | _ \<Rightarrow> False)
       | Err _ \<Rightarrow> False
       | Panic m \<Rightarrow> snd (check_vault g a df e) = Panic m)"
  using assms decode_request_strict_lax[OF assms]
  by (simp add: check_vault_def guard_check_handler_def http_error_def split: res.splits prod.splits)

theorem paths_agree_witness:
  "fst (check_vault demo_env demo_action demo_fixed new_extension) =
   fst (guard_check_handler demo_env (df_original_message demo_fixed) new_extension)"
  using paths_agree[OF demo_decoded, of demo_env demo_action new_extension] by simp

subsection \<open>The reads\<close>

lemma decode_first_print:
  assumes "plain j" and "json_depth j \<le> 10000"
  shows "json_decode_first (json_print j) = Some j"
  using jvalue_print[OF assms(1), of "[]" "2 * length (json_print j) + 2"] assms(2)
  by (simp add: json_decode_first_def stops_def)

text \<open>
  The call of a node: a transport error is the call's error; an answer with an error
  object is an error with its message, whatever result it also carries; an answer with a
  result alone is the bytes of the result without its \<open>0x\<close>.
\<close>
lemma eth_call_answers:
  assumes "ascii res" and "ascii msg"
  shows "(g_http_post g rpc (eth_call_body g to data) = Inl er \<longrightarrow> eth_call g rpc to data = Err er)
    \<and> (g_http_post g rpc (eth_call_body g to data) =
         Inr (json_print (JObj [(''result'', JStr res), (''error'', JObj [(''message'', JStr msg)])]))
       \<longrightarrow> eth_call g rpc to data = Err (ErrorString (''rpc error: '' @ msg)))
    \<and> (g_http_post g rpc (eth_call_body g to data) =
         Inr (json_print (JObj [(''id'', JNum ''1''), (''result'', JStr (''0x'' @ res))]))
       \<longrightarrow> eth_call g rpc to data = Ok (g_hex2bytes g res))"
proof -
  have a: "ascii ''result''" "ascii ''error''" "ascii ''message''" "ascii ''id''" "plain_num ''1''"
    by (simp_all add: byte_nat_Char plain_num_def is_digit_def digit_val_def)
  have z: "ascii (''0x'' @ res)" using assms(1) by (simp add: byte_nat_Char)
  have idf: "find_field [''result'', ''error''] ''id'' = None"
    and rf: "find_field [''result'', ''error''] ''result'' = Some ''result''" by code_simp+
  have 1: "decode_rpc (json_print (JObj [(''result'', JStr res), (''error'', JObj [(''message'', JStr msg)])]))
      = Some \<lparr>rpc_result = res, rpc_error = Some msg\<rparr>"
    unfolding decode_rpc_def
    by (subst decode_first_print) (use assms a in \<open>simp_all add: find_field_def del: ascii_simps json_print.simps\<close>)
  have 2: "decode_rpc (json_print (JObj [(''id'', JNum ''1''), (''result'', JStr (''0x'' @ res))]))
      = Some \<lparr>rpc_result = ''0x'' @ res, rpc_error = None\<rparr>"
    unfolding decode_rpc_def
    by (subst decode_first_print)
       (use z a in \<open>simp_all add: idf rf del: ascii_simps json_print.simps\<close>)
  have t: "trim_prefix (''0x'' @ res) ''0x'' = res" by (rule trim_prefix_append)
  show ?thesis
  proof (intro conjI impI)
    assume "g_http_post g rpc (eth_call_body g to data) = Inl er"
    then show "eth_call g rpc to data = Err er" by (simp add: eth_call_def)
  next
    assume h: "g_http_post g rpc (eth_call_body g to data) =
      Inr (json_print (JObj [(''result'', JStr res), (''error'', JObj [(''message'', JStr msg)])]))"
    show "eth_call g rpc to data = Err (ErrorString (''rpc error: '' @ msg))"
      unfolding eth_call_def h sum.case 1 by simp
  next
    assume h: "g_http_post g rpc (eth_call_body g to data) =
      Inr (json_print (JObj [(''id'', JNum ''1''), (''result'', JStr (''0x'' @ res))]))"
    show "eth_call g rpc to data = Ok (g_hex2bytes g res)"
      unfolding eth_call_def h sum.case 2 using t by simp
  qed
qed

text \<open>
  C27. A price of at least zero with \<open>d > 0\<close> decimals is printed as the whole part, a
  point, and exactly \<open>d\<close> digits of the remainder: the text denotes \<open>v / 10 ^ d\<close> exactly. With
  none it is the integer, without a point. With negative decimals the printed price is wrong: the
  number is printed unscaled, with \<open>.0\<close> appended, where it should be multiplied by a power of ten.
\<close>
theorem price_text:
  assumes "0 \<le> v"
  shows "if 0 < sint d
    then \<exists>frac. format_price v d = dec (nat (v div 10 ^ nat (sint d))) @ ''.'' @ frac
       \<and> length frac = nat (sint d)
       \<and> (\<exists>r. digits_val 0 frac = Some r
            \<and> v = (v div 10 ^ nat (sint d)) * 10 ^ nat (sint d) + int r)
    else format_price v d = dec (nat v) @ (if d = 0 then [] else ''.0'')"
proof (cases "0 < sint d")
  case True
  let ?p = "10 ^ nat (sint d) :: int"
  obtain frac where f: "format_price v d = dec (nat (v div ?p)) @ ''.'' @ frac"
    "length frac = nat (sint d)" "digits_val 0 frac = Some (nat (v mod ?p))"
    using format_price_pos[OF assms True] by blast
  have "int (nat (v mod ?p)) = v mod ?p" by simp
  then have "v = (v div ?p) * ?p + int (nat (v mod ?p))"
    using div_mult_mod_eq[of v ?p] by simp
  with f True show ?thesis by (simp only: if_True) blast
next
  case False
  then show ?thesis using format_price_nonpos[OF assms] by simp
qed

theorem price_text_witness:
  "(\<exists>frac. format_price 1234 3 = dec 1 @ ''.'' @ frac \<and> length frac = 3)
   \<and> format_price 5 (-2) = dec 5 @ ''.0'' \<and> dec (5 * 10 ^ 2) \<noteq> dec 5"
  using price_text[of 1234 3] price_text[of 5 "-2"] by auto

subsection \<open>What the guard does not read\<close>

text \<open>The registry answering for a policy of another vault, owner, ratio and date.\<close>

definition other_policy :: "address \<Rightarrow> address \<Rightarrow> u64 \<Rightarrow> u64 \<Rightarrow> 'key guard_env \<Rightarrow> 'key guard_env" where
  "other_policy v ow q t g = g\<lparr>g_abi_unpack := (\<lambda>f b.
     if f = ''guards''
     then map_sum id (\<lambda>vs. vs[0 := AbiAddress v, 1 := AbiAddress ow, 2 := AbiUint64 q, 5 := AbiUint64 t]) (g_abi_unpack g f b)
     else g_abi_unpack g f b)\<rparr>"

lemma other_policy_fields [simp]:
  "g_getenv (other_policy v ow q t g) = g_getenv g"
  "g_http_post (other_policy v ow q t g) = g_http_post g"
  "g_json_error (other_policy v ow q t g) = g_json_error g"
  "g_is_hex_address (other_policy v ow q t g) = g_is_hex_address g"
  "g_hex_to_address (other_policy v ow q t g) = g_hex_to_address g"
  "g_hex2bytes (other_policy v ow q t g) = g_hex2bytes g"
  "g_bytes2hex (other_policy v ow q t g) = g_bytes2hex g"
  "g_abi_pack (other_policy v ow q t g) = g_abi_pack g"
  "g_keccak256 (other_policy v ow q t g) = g_keccak256 g"
  "g_keccak256_hash (other_policy v ow q t g) = g_keccak256_hash g"
  "g_hash_bytes (other_policy v ow q t g) = g_hash_bytes g"
  "g_hash_hex (other_policy v ow q t g) = g_hash_hex g"
  "g_addr_hex (other_policy v ow q t g) = g_addr_hex g"
  "g_hex_to_ecdsa (other_policy v ow q t g) = g_hex_to_ecdsa g"
  "g_sign (other_policy v ow q t g) = g_sign g"
  "g_pubkey_to_address (other_policy v ow q t g) = g_pubkey_to_address g"
  by (simp_all add: other_policy_def)

lemma other_policy_unpack:
  "g_abi_unpack (other_policy v ow q t g) f b =
     (if f = ''guards''
      then map_sum id (\<lambda>vs. vs[0 := AbiAddress v, 1 := AbiAddress ow, 2 := AbiUint64 q, 5 := AbiUint64 t]) (g_abi_unpack g f b)
      else g_abi_unpack g f b)"
  by (simp add: other_policy_def)

lemma other_policy_reads:
  "eth_call (other_policy v ow q t g) = eth_call g"
  "coston2_rpc (other_policy v ow q t g) = coston2_rpc g"
  "read_vault_health (other_policy v ow q t g) = read_vault_health g"
  "sign_top_up_action (other_policy v ow q t g) = sign_top_up_action g"
proof -
  show e: "eth_call (other_policy v ow q t g) = eth_call g"
    by (intro ext) (simp only: eth_call_def eth_call_body_def other_policy_fields)
  show c: "coston2_rpc (other_policy v ow q t g) = coston2_rpc g"
    by (simp only: coston2_rpc_def other_policy_fields)
  have r: "read_call (other_policy v ow q t g) w rpc to f args = read_call g w rpc to f args" if "f \<noteq> ''guards''" for w rpc to f args
    using that by (simp only: read_call_def e other_policy_fields other_policy_unpack if_False)
  show "read_vault_health (other_policy v ow q t g) = read_vault_health g"
    by (intro ext) (simp add: read_vault_health_def r c)
  show "sign_top_up_action (other_policy v ow q t g) = sign_top_up_action g"
    by (intro ext) (simp only: sign_top_up_action_def registry_digest_def other_policy_fields)
qed

lemma other_policy_read_guard:
  assumes "read_guard g i = Ok p"
  shows "read_guard (other_policy v ow q t g) i = Ok (p\<lparr>gp_agent_vault := v, gp_owner := ow, gp_ratio_bips := q, gp_created_at := t\<rparr>)"
proof -
  from assms obtain data raw out o0 o1 o2 o3 o4 o5 o6 where
    e: "g_getenv g ''GUARDIAN_REGISTRY'' \<noteq> []" and
    c: "g_abi_pack g ''guards'' [AbiBig (uint i)] = Inr data"
      "eth_call g (coston2_rpc g) (g_getenv g ''GUARDIAN_REGISTRY'') data = Ok raw" and
    u: "g_abi_unpack g ''guards'' raw = Inr out" and
    s: "as_value sel_address out 0 = Ok o0" "as_value sel_address out 1 = Ok o1" "as_value sel_u64 out 2 = Ok o2"
      "as_value sel_big out 3 = Ok o3" "as_value sel_u64 out 4 = Ok o4" "as_value sel_u64 out 5 = Ok o5"
      "as_value sel_bool out 6 = Ok o6" and
    p: "p = \<lparr>gp_agent_vault = o0, gp_owner = o1, gp_ratio_bips = o2, gp_top_up_amount_wei = o3,
      gp_last_action_nonce = o4, gp_created_at = o5, gp_active = o6\<rparr>"
    unfolding read_guard_def Let_def res_bind_Ok_iff err_unless_Ok map_err_Ok_iff of_rpc_iff by auto
  let ?out = "out[0 := AbiAddress v, 1 := AbiAddress ow, 2 := AbiUint64 q, 5 := AbiUint64 t]"
  have "as_value sel_address ?out 0 = Ok v" "as_value sel_address ?out 1 = Ok ow" "as_value sel_u64 ?out 2 = Ok q"
    "as_value sel_big ?out 3 = Ok o3" "as_value sel_u64 ?out 4 = Ok o4" "as_value sel_u64 ?out 5 = Ok t"
    "as_value sel_bool ?out 6 = Ok o6"
    using s by (simp_all add: as_value_Ok)
  moreover have "g_abi_unpack (other_policy v ow q t g) ''guards'' raw = Inr ?out"
    by (simp only: other_policy_unpack u if_True refl map_sum.simps)
  ultimately show ?thesis using e c p
    by (simp add: read_guard_def other_policy_reads err_unless_def)
qed

text \<open>
  C39. The guard never compares the policy's vault with the requested one, nor the ratio with
  anything: whatever vault, owner, ratio and date the registry gives for the guard's policy, the
  answer to a request, the action it signs and the effect on the state are the same.
\<close>
theorem policy_vault_ignored:
  assumes "read_guard g (guard_id req) = Ok p"
  shows "read_guard (other_policy v ow q t g) (guard_id req)
      = Ok (p\<lparr>gp_agent_vault := v, gp_owner := ow, gp_ratio_bips := q, gp_created_at := t\<rparr>)
    \<and> check_vault_json (other_policy v ow q t g) req e = check_vault_json g req e"
proof -
  let ?p = "p\<lparr>gp_agent_vault := v, gp_owner := ow, gp_ratio_bips := q, gp_created_at := t\<rparr>"
  let ?m = "res_bind (err_unless (g_is_hex_address g (agent_vault req)) ''agentVault must be a valid address'')
      (\<lambda>_. map_err (wrapf ''reading vault health'') (read_vault_health g (agent_vault req)))"
  have r: "check_reads g req = res_bind ?m (\<lambda>h. Ok (h, p))"
      "check_reads (other_policy v ow q t g) req = res_bind ?m (\<lambda>h. Ok (h, ?p))"
    using other_policy_read_guard[OF assms] assms
    by (simp_all add: check_reads_def other_policy_reads err_unless_def)
  have "check_vault_json (other_policy v ow q t g) req e = check_vault_json g req e"
    unfolding check_vault_json_def r other_policy_reads by (cases ?m) (simp_all add: Let_def split: prod.split)
  then show ?thesis using other_policy_read_guard[OF assms] by simp
qed

theorem policy_vault_ignored_witness:
  "check_vault_json (other_policy 9 2 77 1 demo_env) demo_request new_extension = (demo_after new_extension, Ok demo_response)
   \<and> signed demo_response \<noteq> None"
proof -
  have "read_guard demo_env (guard_id demo_request) = Ok \<lparr>gp_agent_vault = 8, gp_owner = 1,
      gp_ratio_bips = 0, gp_top_up_amount_wei = 4, gp_last_action_nonce = 6, gp_created_at = 0,
      gp_active = True\<rparr>"
    by (simp add: demo_request_def)
  from policy_vault_ignored[OF this, of 9 2 77 1 new_extension] show ?thesis
    by (simp add: demo_check) (simp add: demo_response_def)
qed

end
