(* ===== verification/GuardAbi.thy ===== *)
theory GuardAbi
  imports Extension
begin

text \<open>
  The ABIs that \<open>tee/go/internal/extension/guard_rpc.go\<close> declares as JSON, and what follows
  when \<open>Unpack\<close> returns values of the declared types: none of the type assertions on its
  results can fail, so no request makes the server panic. The names of parameters, which the
  code does not use, and the mutability are left out.
\<close>

subsection \<open>The declared methods\<close>

datatype abi_type = TUint256 | TUint64 | TInt8 | TAddress | TBool | TBytes21

record abi_method =
  am_name :: string
  am_inputs :: "abi_type list"
  am_outputs :: "abi_type list"

definition asset_manager_abi :: "abi_method list" where
  "asset_manager_abi =
     [\<lparr>am_name = ''getAgentLiquidationFactorsAndMaxAmount'', am_inputs = [TAddress],
       am_outputs = [TUint256, TUint256, TUint256]\<rparr>,
      \<lparr>am_name = ''getAgentFullVaultCollateral'', am_inputs = [TAddress], am_outputs = [TUint256]\<rparr>]"

definition ftso_abi :: "abi_method list" where
  "ftso_abi =
     [\<lparr>am_name = ''getFeedById'', am_inputs = [TBytes21], am_outputs = [TUint256, TInt8, TUint64]\<rparr>]"

definition registry_abi :: "abi_method list" where
  "registry_abi =
     [\<lparr>am_name = ''guards'', am_inputs = [TUint256],
       am_outputs = [TAddress, TAddress, TUint64, TUint256, TUint64, TUint64, TBool]\<rparr>]"

text \<open>The Go value go-ethereum gives for a Solidity type.\<close>

fun abi_typed :: "abi_type \<Rightarrow> abi_value \<Rightarrow> bool" where
  "abi_typed TUint256 (AbiBig v) = (0 \<le> v \<and> v < 2 ^ 256)"
| "abi_typed TUint64 (AbiUint64 _) = True"
| "abi_typed TInt8 (AbiInt8 _) = True"
| "abi_typed TAddress (AbiAddress _) = True"
| "abi_typed TBool (AbiBool _) = True"
| "abi_typed TBytes21 (AbiFixedBytes b) = (length b = 21)"
| "abi_typed _ _ = False"

definition unpack_typed :: "'key guard_env \<Rightarrow> abi_method list \<Rightarrow> bool" where
  "unpack_typed g ms \<longleftrightarrow>
     (\<forall>m\<in>set ms. \<forall>raw vs. g_abi_unpack g (am_name m) raw = Inr vs
        \<longrightarrow> list_all2 abi_typed (am_outputs m) vs)"

definition guard_abi :: "abi_method list" where
  "guard_abi = asset_manager_abi @ ftso_abi @ registry_abi"

subsection \<open>Facts: typed values\<close>

lemma abi_typed_simps [simp]:
  "abi_typed TUint256 v \<longleftrightarrow> (\<exists>n. v = AbiBig (int n) \<and> n < 2 ^ 256)"
  "abi_typed TUint64 v \<longleftrightarrow> (\<exists>w. v = AbiUint64 w)"
  "abi_typed TInt8 v \<longleftrightarrow> (\<exists>w. v = AbiInt8 w)"
  "abi_typed TAddress v \<longleftrightarrow> (\<exists>w. v = AbiAddress w)"
  "abi_typed TBool v \<longleftrightarrow> (\<exists>b. v = AbiBool b)"
proof -
  show "abi_typed TUint256 v \<longleftrightarrow> (\<exists>n. v = AbiBig (int n) \<and> n < 2 ^ 256)"
  proof (cases v)
    case (AbiBig x)
    show ?thesis
    proof (cases "0 \<le> x")
      case True
      then obtain n where "x = int n" using nonneg_int_cases by blast
      moreover have "int n < 2 ^ 256 \<longleftrightarrow> n < 2 ^ 256" for n
        by (metis of_nat_less_iff of_nat_numeral of_nat_power)
      ultimately show ?thesis using AbiBig by simp
    qed (auto simp: AbiBig)
  qed simp_all
qed (cases v; simp)+

lemma as_value_typed [simp]:
  "as_value sel (v # vs) 0 = (case sel v of Some x \<Rightarrow> Ok x | None \<Rightarrow> Panic ''interface conversion'')"
  "as_value sel (v # vs) (Suc i) = as_value sel vs i"
  by (simp_all add: as_value_def)

lemma read_call_unpack:
  "read_call g what rpc to m args = Ok vs \<Longrightarrow> \<exists>raw. g_abi_unpack g m raw = Inr vs"
  by (auto simp: read_call_def res_bind_Ok_iff of_rpc_iff)

lemma unpack_typedD:
  assumes "unpack_typed g guard_abi" and "g_abi_unpack g n raw = Inr vs"
  shows "n = ''getAgentLiquidationFactorsAndMaxAmount'' \<Longrightarrow> list_all2 abi_typed [TUint256, TUint256, TUint256] vs"
    and "n = ''getAgentFullVaultCollateral'' \<Longrightarrow> list_all2 abi_typed [TUint256] vs"
    and "n = ''getFeedById'' \<Longrightarrow> list_all2 abi_typed [TUint256, TInt8, TUint64] vs"
    and "n = ''guards'' \<Longrightarrow>
      list_all2 abi_typed [TAddress, TAddress, TUint64, TUint256, TUint64, TUint64, TBool] vs"
  using assms
  by (auto simp: unpack_typed_def guard_abi_def asset_manager_abi_def ftso_abi_def registry_abi_def
      simp del: abi_typed_simps list_all2_Cons1)

lemma typed_outputs:
  "list_all2 abi_typed [TUint256, TUint256, TUint256] vs \<longleftrightarrow>
     (\<exists>a b c. vs = [AbiBig (int a), AbiBig (int b), AbiBig (int c)]
        \<and> a < 2 ^ 256 \<and> b < 2 ^ 256 \<and> c < 2 ^ 256)"
  "list_all2 abi_typed [TUint256] vs \<longleftrightarrow> (\<exists>a. vs = [AbiBig (int a)] \<and> a < 2 ^ 256)"
  "list_all2 abi_typed [TUint256, TInt8, TUint64] vs \<longleftrightarrow>
     (\<exists>a d t. vs = [AbiBig (int a), AbiInt8 d, AbiUint64 t] \<and> a < 2 ^ 256)"
  "list_all2 abi_typed [TAddress, TAddress, TUint64, TUint256, TUint64, TUint64, TBool] vs \<longleftrightarrow>
     (\<exists>a ow r m n c b. vs = [AbiAddress a, AbiAddress ow, AbiUint64 r, AbiBig (int m), AbiUint64 n,
        AbiUint64 c, AbiBool b] \<and> m < 2 ^ 256)"
  by (auto simp: list_all2_Cons1)

subsection \<open>Facts: no panic\<close>

lemma is_panic_bind:
  "is_panic (res_bind m f) \<longleftrightarrow> is_panic m \<or> (\<exists>x. m = Ok x \<and> is_panic (f x))"
  by (cases m) auto

lemma is_panic_of_rpc: "\<not> is_panic (of_rpc r)"
  by (cases r) simp_all

lemma is_panic_reads [simp]:
  "\<not> is_panic (of_rpc r)" "\<not> is_panic (err_unless b msg)" "\<not> is_panic (eth_call g rpc to data)"
  "\<not> is_panic (read_call g what rpc to m args)"
  by (cases r; simp)
     (auto simp: is_panic_bind read_call_def eth_call_def err_unless_def is_panic_of_rpc
       split: option.splits sum.splits)

definition health_typed :: "vault_health \<Rightarrow> bool" where
  "health_typed h \<longleftrightarrow>
     (\<exists>f0 f1 f2 c p d. liq_factor_vault_bips h = dec f0 \<and> liq_factor_pool_bips h = dec f1
        \<and> max_liquidation_amount h = dec f2 \<and> vault_collateral_wei h = dec c
        \<and> xrp_usd h = format_price (int p) d
        \<and> f0 < 2 ^ 256 \<and> f1 < 2 ^ 256 \<and> f2 < 2 ^ 256 \<and> c < 2 ^ 256 \<and> p < 2 ^ 256)"

lemma dec_int_int [simp]: "dec_int (int n) = dec n"
  by (simp add: dec_int_def)

lemma read_vault_health_typed:
  assumes "unpack_typed g guard_abi"
  shows "\<not> is_panic (read_vault_health g av)"
    and "read_vault_health g av = Ok h \<Longrightarrow> health_typed h"
proof -
  note typed = unpack_typedD[OF assms]
  have f: "read_call g what rpc to ''getAgentLiquidationFactorsAndMaxAmount'' args = Ok vs \<Longrightarrow>
      \<exists>a b c. vs = [AbiBig (int a), AbiBig (int b), AbiBig (int c)] \<and> a < 2 ^ 256 \<and> b < 2 ^ 256 \<and> c < 2 ^ 256"
    for what rpc to args vs
    using typed(1) read_call_unpack unfolding typed_outputs by blast
  have c: "read_call g what rpc to ''getAgentFullVaultCollateral'' args = Ok vs \<Longrightarrow>
      \<exists>a. vs = [AbiBig (int a)] \<and> a < 2 ^ 256" for what rpc to args vs
    using typed(2) read_call_unpack unfolding typed_outputs by blast
  have p: "read_call g what rpc to ''getFeedById'' args = Ok vs \<Longrightarrow>
      \<exists>a d t. vs = [AbiBig (int a), AbiInt8 d, AbiUint64 t] \<and> a < 2 ^ 256" for what rpc to args vs
    using typed(3) read_call_unpack unfolding typed_outputs by blast
  show "\<not> is_panic (read_vault_health g av)"
    by (auto simp: read_vault_health_def Let_def is_panic_bind numeral_2_eq_2 dest!: f c p)
  show "health_typed h" if "read_vault_health g av = Ok h"
    using that unfolding health_typed_def
    by (auto simp: read_vault_health_def Let_def res_bind_Ok_iff numeral_2_eq_2 dest!: f c p) blast
qed

lemma read_guard_typed:
  assumes "unpack_typed g guard_abi"
  shows "\<not> is_panic (read_guard g gid)"
    and "read_guard g gid = Ok p \<Longrightarrow> \<exists>m. gp_top_up_amount_wei p = int m \<and> m < 2 ^ 256"
proof -
  have u: "g_abi_unpack g ''guards'' raw = Inr vs \<Longrightarrow>
      \<exists>a ow r m n c b. vs = [AbiAddress a, AbiAddress ow, AbiUint64 r, AbiBig (int m), AbiUint64 n,
        AbiUint64 c, AbiBool b] \<and> m < 2 ^ 256" for raw vs
    using unpack_typedD(4)[OF assms] unfolding typed_outputs by blast
  have n: "as_value sel vs (numeral k) = as_value sel (tl vs) (pred_numeral k)" if "vs \<noteq> []"
    for sel :: "abi_value \<Rightarrow> 'z option" and vs k
    using that by (cases vs) (simp_all add: numeral_eq_Suc)
  show "\<not> is_panic (read_guard g gid)"
    by (auto simp: read_guard_def Let_def is_panic_bind of_rpc_iff n dest!: u)
  show "\<exists>m. gp_top_up_amount_wei p = int m \<and> m < 2 ^ 256" if "read_guard g gid = Ok p"
    using that by (auto simp: read_guard_def Let_def res_bind_Ok_iff of_rpc_iff n dest!: u)
qed

lemma sign_no_panic:
  assumes "m < 2 ^ 256"
  shows "\<not> is_panic (sign_top_up_action g gid t (dec m) n)"
  by (auto simp: sign_top_up_action_def Let_def is_panic_bind registry_digest_def
      digest_words_dec[OF assms] is_panic_of_rpc)

lemma check_reads_typed:
  assumes "unpack_typed g guard_abi"
  shows "\<not> is_panic (check_reads g req)"
    and "check_reads g req = Ok (h, p) \<Longrightarrow>
      health_typed h \<and> (\<exists>m. gp_top_up_amount_wei p = int m \<and> m < 2 ^ 256)"
  using read_vault_health_typed[OF assms] read_guard_typed[OF assms]
  by (auto simp: check_reads_def is_panic_bind res_bind_Ok_iff)

lemma check_no_panic:
  assumes "unpack_typed g guard_abi"
  shows "\<not> is_panic (snd (check_vault_json g req e))"
proof (cases "check_reads g req")
  case (Ok hp)
  obtain h p where hp: "hp = (h, p)" by (cases hp)
  obtain m where m: "gp_top_up_amount_wei p = int m" "m < 2 ^ 256"
    using check_reads_typed(2)[OF assms] Ok hp by blast
  show ?thesis
    using sign_no_panic[OF m(2), of g "guard_id req" action_vault_top_up "gp_last_action_nonce p + 1"]
    by (auto simp: check_vault_json_def Ok hp m(1) Let_def split: res.splits prod.splits)
next
  case (Panic x)
  then show ?thesis using check_reads_typed(1)[OF assms, of req] by simp
qed (simp add: check_vault_json_def)

lemma handlers_no_panic:
  assumes "unpack_typed g guard_abi"
  shows "\<not> is_panic (snd (guard_check_handler g b e))" "\<not> is_panic (snd (action_handler g n b e))"
proof -
  have c: "snd (check_vault_json g req e) \<noteq> Panic m" for req m
    using check_no_panic[OF assms, of req e] by auto
  show "\<not> is_panic (snd (guard_check_handler g b e))"
    using c by (auto simp: guard_check_handler_def split: option.splits prod.splits res.splits)
      (metis snd_conv)
  show "\<not> is_panic (snd (action_handler g n b e))"
    using c by (auto simp: action_handler_def process_action_def process_guard_def check_vault_def
        split: option.splits prod.splits res.splits sum.splits if_splits) (metis snd_conv)
qed

end
