(* ===== verification/GuardAbiClaims.thy ===== *)
theory GuardAbiClaims
  imports GuardAbi GuardDemo
begin

text \<open>
  The guard over well-typed answers: what its responses carry, and that it never panics.
\<close>

lemma demo_typed: "unpack_typed demo_env guard_abi"
  by (auto simp: unpack_typed_def guard_abi_def asset_manager_abi_def ftso_abi_def registry_abi_def
      demo_env_def)

text \<open>
  C17. When \<open>Unpack\<close> returns values of the types the code's ABIs declare, every number in a
  successful response is the decimal text of an unsigned 256-bit value, and the digest that
  was signed is the EIP-191 hash of \<open>abi.encode\<close> of chain, guard, action type, the amount
  the response shows and the nonce it shows.
\<close>
theorem check_well_typed:
  assumes "unpack_typed g guard_abi" and "check_vault_json g req e = (e', Ok resp)"
  shows "health_typed (health resp)
    \<and> (\<forall>s. signed resp = Some s \<longrightarrow>
         (\<exists>m. m < 2 ^ 256 \<and> sa_amount s = dec m
            \<and> sa_digest s = g_hash_hex g (g_keccak256_hash g (eip191_prefix @ g_keccak256 g
                (abi_encode_uints [unat (sa_chain_id s), unat (sa_guard_id s),
                   unat (sa_action_type s), m, unat (sa_nonce s)])))))"
proof -
  obtain h p where hp: "check_reads g req = Ok (h, p)" and h: "health resp = h"
    and yes: "liquidatable h \<and> gp_active p \<Longrightarrow>
      \<exists>s. signed resp = Some s
        \<and> sign_top_up_action g (guard_id req) action_vault_top_up
            (dec_int (gp_top_up_amount_wei p)) (gp_last_action_nonce p + 1) = Ok s"
    and no: "\<not> (liquidatable h \<and> gp_active p) \<Longrightarrow> signed resp = None"
    using check_vault_json_Ok[OF assms(2)] by metis
  obtain m where t: "health_typed h" "gp_top_up_amount_wei p = int m" "m < 2 ^ 256"
    using check_reads_typed(2)[OF assms(1) hp] by blast
  have "\<exists>m. m < 2 ^ 256 \<and> sa_amount s = dec m
      \<and> sa_digest s = g_hash_hex g (g_keccak256_hash g (eip191_prefix @ g_keccak256 g
          (abi_encode_uints [unat (sa_chain_id s), unat (sa_guard_id s),
             unat (sa_action_type s), m, unat (sa_nonce s)])))" if s: "signed resp = Some s" for s
  proof -
    have "sign_top_up_action g (guard_id req) action_vault_top_up (dec m) (gp_last_action_nonce p + 1) = Ok s"
      using yes no s t(2) by fastforce
    moreover have "unat (ucast (a :: 8 word) :: u64) = unat a" for a
      by (simp add: unsigned_ucast_eq take_bit_nat_eq_self less_trans[OF unsigned_less[of a]])
    ultimately show ?thesis
      using t(3) by (elim sign_top_up_action_Ok)
        (auto simp: registry_digest_def digest_words_reference intro!: exI[of _ m])
  qed
  then show ?thesis using h t(1) by blast
qed

theorem check_well_typed_witness:
  "health_typed demo_health \<and> sa_amount demo_signed = dec 4"
  using check_well_typed[OF demo_typed demo_check[of new_extension]]
  by (simp add: demo_response_def demo_signed_def dec_int_def)

text \<open>
  C13. When \<open>Unpack\<close> returns values of the declared types no request, whatever its method,
  path and body, makes the server panic: no type assertion fails and no amount is too large
  for the digest.
\<close>
theorem server_never_panics:
  assumes "unpack_typed g guard_abi"
  shows "\<not> is_panic (snd (serve g n q e))"
  using handlers_no_panic[OF assms] by (simp add: serve_def)

theorem server_never_panics_witness:
  "\<not> is_panic (snd (serve demo_env demo_node
     \<lparr>rmethod = ''POST'', rpath = ''/guard/check'', rbody = json_print (json_request demo_request)\<rparr> new_extension))"
  by (rule server_never_panics[OF demo_typed])

end
