(* ===== verification/GuardianRegistry.thy ===== *)
theory GuardianRegistry
  imports GuardRpc
begin

text \<open>
  \<open>contracts/src/GuardianRegistry.sol\<close>: the contract whose policies the guard reads and whose
  ledger accepts what the guard signs. Every external function is a definition from the
  caller's context and the storage to a revert or the new storage; events, and the mapping
  \<open>_nonceUsed\<close> that nothing uses, are left out. Keccak,
  the recovery precompile and the asset manager are parameters; a revert of the asset manager's
  read is \<open>RevertCall\<close>, an arithmetic panic \<open>RevertPanic\<close>.
\<close>

subsection \<open>Storage\<close>

datatype registry_error =
    NotOwner | NotGuardianSigner | NotAgentOwner | UnknownGuard | DuplicateGuard | IsPaused
  | InvalidNonce | InvalidSignature | InvalidActionType | ZeroAddress | ZeroAmount

datatype revert = RevertError registry_error | RevertCall | RevertPanic

record guard_entry =
  ge_agent_vault :: address
  ge_owner :: address
  ge_ratio_bips :: u64
  ge_top_up_wei :: "256 word"
  ge_last_nonce :: u64
  ge_created_at :: u64
  ge_active :: bool

record ledger_entry =
  le_type :: "8 word"
  le_amount :: "256 word"
  le_nonce :: u64
  le_timestamp :: u64

record registry =
  rg_asset_manager :: address
  rg_owner :: address
  rg_signer :: address
  rg_paused :: bool
  rg_count :: "256 word"
  rg_guards :: "256 word \<Rightarrow> guard_entry"
  rg_id_of_vault :: "address \<Rightarrow> 256 word"
  rg_actions :: "256 word \<Rightarrow> ledger_entry list"

definition zero_guard :: guard_entry where
  "zero_guard = \<lparr>ge_agent_vault = 0, ge_owner = 0, ge_ratio_bips = 0, ge_top_up_wei = 0,
     ge_last_nonce = 0, ge_created_at = 0, ge_active = False\<rparr>"

text \<open>What a call is made with, and the two functions of the machine.\<close>

record call_ctx =
  cx_sender :: address
  cx_timestamp :: "256 word"
  cx_chain_id :: "256 word"
  cx_vault_owner :: "address \<Rightarrow> address option"

record evm =
  ev_keccak :: "bytes \<Rightarrow> bytes"
  ev_recover :: "bytes \<Rightarrow> nat \<Rightarrow> bytes \<Rightarrow> bytes \<Rightarrow> address"

subsection \<open>Owner's functions\<close>

definition deploy_registry :: "call_ctx \<Rightarrow> address \<Rightarrow> revert + registry" where
  "deploy_registry x am =
     (if am = 0 then Inl (RevertError ZeroAddress)
      else Inr \<lparr>rg_asset_manager = am, rg_owner = cx_sender x, rg_signer = 0, rg_paused = False,
        rg_count = 0, rg_guards = (\<lambda>_. zero_guard), rg_id_of_vault = (\<lambda>_. 0), rg_actions = (\<lambda>_. [])\<rparr>)"

definition set_guardian_signer :: "call_ctx \<Rightarrow> address \<Rightarrow> registry \<Rightarrow> revert + registry" where
  "set_guardian_signer x signer r =
     (if cx_sender x \<noteq> rg_owner r then Inl (RevertError NotOwner)
      else if signer = 0 then Inl (RevertError ZeroAddress)
      else Inr (r\<lparr>rg_signer := signer\<rparr>))"

definition set_paused :: "call_ctx \<Rightarrow> bool \<Rightarrow> registry \<Rightarrow> revert + registry" where
  "set_paused x p r =
     (if cx_sender x \<noteq> rg_owner r then Inl (RevertError NotOwner) else Inr (r\<lparr>rg_paused := p\<rparr>))"

subsection \<open>Policies\<close>

definition register_agent_vault ::
    "call_ctx \<Rightarrow> address \<Rightarrow> u64 \<Rightarrow> 256 word \<Rightarrow> registry \<Rightarrow> revert + (256 word \<times> registry)" where
  "register_agent_vault x vlt ratio top_up r =
     (if rg_paused r then Inl (RevertError IsPaused)
      else if vlt = 0 then Inl (RevertError ZeroAddress)
      else if rg_id_of_vault r vlt \<noteq> 0 then Inl (RevertError DuplicateGuard)
      else (case cx_vault_owner x vlt of
          None \<Rightarrow> Inl RevertCall
        | Some o' \<Rightarrow>
            if o' \<noteq> cx_sender x then Inl (RevertError NotAgentOwner)
            else if ratio = 0 then Inl (RevertError ZeroAmount)
            else if top_up = 0 then Inl (RevertError ZeroAmount)
            else if rg_count r = - 1 then Inl RevertPanic
            else
              (let i = rg_count r + 1 in
               Inr (i, r\<lparr>rg_count := i,
                 rg_guards := (rg_guards r)(i := \<lparr>ge_agent_vault = vlt, ge_owner = cx_sender x,
                    ge_ratio_bips = ratio, ge_top_up_wei = top_up, ge_last_nonce = 0,
                    ge_created_at = ucast (cx_timestamp x), ge_active = True\<rparr>),
                 rg_id_of_vault := (rg_id_of_vault r)(vlt := i)\<rparr>))))"

definition set_policy ::
    "call_ctx \<Rightarrow> 256 word \<Rightarrow> u64 \<Rightarrow> 256 word \<Rightarrow> registry \<Rightarrow> revert + registry" where
  "set_policy x i ratio top_up r =
     (if rg_paused r then Inl (RevertError IsPaused)
      else if ge_agent_vault (rg_guards r i) = 0 then Inl (RevertError UnknownGuard)
      else if cx_sender x \<noteq> ge_owner (rg_guards r i) then Inl (RevertError NotAgentOwner)
      else if ratio = 0 \<or> top_up = 0 then Inl (RevertError ZeroAmount)
      else Inr (r\<lparr>rg_guards := (rg_guards r)(i := (rg_guards r i)
        \<lparr>ge_ratio_bips := ratio, ge_top_up_wei := top_up\<rparr>)\<rparr>))"

definition set_guard_active :: "call_ctx \<Rightarrow> 256 word \<Rightarrow> bool \<Rightarrow> registry \<Rightarrow> revert + registry" where
  "set_guard_active x i active r =
     (if rg_paused r then Inl (RevertError IsPaused)
      else if ge_agent_vault (rg_guards r i) = 0 then Inl (RevertError UnknownGuard)
      else if cx_sender x \<noteq> ge_owner (rg_guards r i) then Inl (RevertError NotAgentOwner)
      else Inr (r\<lparr>rg_guards := (rg_guards r)(i := (rg_guards r i)\<lparr>ge_active := active\<rparr>)\<rparr>))"

subsection \<open>The ledger\<close>

definition half_order :: nat where
  "half_order = 57896044618658097711785492504343953926418782139537452191302581570759080747168"

definition recover_signer :: "evm \<Rightarrow> bytes \<Rightarrow> bytes \<Rightarrow> revert + address" where
  \<comment> \<open>\<open>_recover\<close>\<close>
  "recover_signer ev digest sig =
     (if length sig \<noteq> 65 then Inl (RevertError InvalidSignature)
      else
        (let r = take 32 sig; s = take 32 (drop 32 sig); v = byte_nat (sig ! 64);
             v' = (if v < 27 then v + 27 else v) in
         if half_order < be_val s then Inl (RevertError InvalidSignature)
         else if v' \<noteq> 27 \<and> v' \<noteq> 28 then Inl (RevertError InvalidSignature)
         else Inr (ev_recover ev digest v' r s)))"

definition action_digest ::
    "evm \<Rightarrow> 256 word \<Rightarrow> 256 word \<Rightarrow> 8 word \<Rightarrow> 256 word \<Rightarrow> u64 \<Rightarrow> bytes" where
  "action_digest ev chain i t amount nonce =
     ev_keccak ev (eip191_prefix
       @ ev_keccak ev (abi_encode_uints [unat chain, unat i, unat t, unat amount, unat nonce]))"

definition post_action ::
    "evm \<Rightarrow> call_ctx \<Rightarrow> 256 word \<Rightarrow> 8 word \<Rightarrow> 256 word \<Rightarrow> u64 \<Rightarrow> bytes \<Rightarrow> registry \<Rightarrow> revert + registry"
  where
  "post_action ev x i t amount nonce sig r =
     (if rg_paused r then Inl (RevertError IsPaused)
      else if ge_agent_vault (rg_guards r i) = 0 then Inl (RevertError UnknownGuard)
      else if 2 < t then Inl (RevertError InvalidActionType)
      else if nonce \<le> ge_last_nonce (rg_guards r i) then Inl (RevertError InvalidNonce)
      else
        (case recover_signer ev (action_digest ev (cx_chain_id x) i t amount nonce) sig of
           Inl e \<Rightarrow> Inl e
         | Inr a \<Rightarrow>
             if a \<noteq> rg_signer r then Inl (RevertError InvalidSignature)
             else Inr (r\<lparr>rg_guards := (rg_guards r)(i := (rg_guards r i)\<lparr>ge_last_nonce := nonce\<rparr>),
               rg_actions := (rg_actions r)(i := rg_actions r i @
                 [\<lparr>le_type = t, le_amount = amount, le_nonce = nonce,
                   le_timestamp = ucast (cx_timestamp x)\<rparr>])\<rparr>)))"

definition get_actions :: "256 word \<Rightarrow> registry \<Rightarrow> ledger_entry list" where
  "get_actions i r = rg_actions r i"

definition actions_count :: "256 word \<Rightarrow> registry \<Rightarrow> nat" where
  "actions_count i r = length (rg_actions r i)"

subsection \<open>Runs\<close>

datatype registry_call =
    CallSetSigner address
  | CallSetPaused bool
  | CallRegister address u64 "256 word"
  | CallSetPolicy "256 word" u64 "256 word"
  | CallSetActive "256 word" bool
  | CallPost "256 word" "8 word" "256 word" u64 bytes

fun execute :: "evm \<Rightarrow> call_ctx \<Rightarrow> registry_call \<Rightarrow> registry \<Rightarrow> revert + registry" where
  "execute ev x (CallSetSigner a) r = set_guardian_signer x a r"
| "execute ev x (CallSetPaused b) r = set_paused x b r"
| "execute ev x (CallRegister a q t) r =
     (case register_agent_vault x a q t r of Inl e \<Rightarrow> Inl e | Inr (_, r') \<Rightarrow> Inr r')"
| "execute ev x (CallSetPolicy i q t) r = set_policy x i q t r"
| "execute ev x (CallSetActive i b) r = set_guard_active x i b r"
| "execute ev x (CallPost i t a n sig) r = post_action ev x i t a n sig r"

text \<open>A call that reverts leaves the storage as it was.\<close>

definition transact :: "evm \<Rightarrow> call_ctx \<times> registry_call \<Rightarrow> registry \<Rightarrow> registry" where
  "transact ev xc r = (case execute ev (fst xc) (snd xc) r of Inl _ \<Rightarrow> r | Inr r' \<Rightarrow> r')"

definition registry_run :: "evm \<Rightarrow> (call_ctx \<times> registry_call) list \<Rightarrow> registry \<Rightarrow> registry" where
  "registry_run ev cs r = fold (transact ev) cs r"

lemma registry_run_simps [simp]:
  "registry_run ev [] r = r"
  "registry_run ev (c # cs) r = registry_run ev cs (transact ev c r)"
  "registry_run ev (cs @ ds) r = registry_run ev ds (registry_run ev cs r)"
  by (simp_all add: registry_run_def)

subsection \<open>What a call changes\<close>

definition known :: "registry \<Rightarrow> 256 word \<Rightarrow> bool" where
  "known r i \<longleftrightarrow> ge_agent_vault (rg_guards r i) \<noteq> 0"

lemma post_action_Ok:
  assumes "post_action ev x i t a n sig r = Inr r'"
  shows "\<not> rg_paused r \<and> known r i \<and> t \<le> 2 \<and> ge_last_nonce (rg_guards r i) < n
    \<and> recover_signer ev (action_digest ev (cx_chain_id x) i t a n) sig = Inr (rg_signer r)
    \<and> r' = r\<lparr>rg_guards := (rg_guards r)(i := (rg_guards r i)\<lparr>ge_last_nonce := n\<rparr>),
          rg_actions := (rg_actions r)(i := rg_actions r i @
            [\<lparr>le_type = t, le_amount = a, le_nonce = n, le_timestamp = ucast (cx_timestamp x)\<rparr>])\<rparr>"
  using assms by (auto simp: post_action_def known_def not_less not_le split: if_splits sum.splits)

lemma register_agent_vault_Ok:
  assumes "register_agent_vault x v q t r = Inr (i, r')"
  shows "\<not> rg_paused r \<and> v \<noteq> 0 \<and> rg_id_of_vault r v = 0 \<and> cx_vault_owner x v = Some (cx_sender x)
    \<and> q \<noteq> 0 \<and> t \<noteq> 0 \<and> rg_count r \<noteq> - 1 \<and> i = rg_count r + 1
    \<and> r' = r\<lparr>rg_count := i, rg_guards := (rg_guards r)(i := \<lparr>ge_agent_vault = v, ge_owner = cx_sender x,
          ge_ratio_bips = q, ge_top_up_wei = t, ge_last_nonce = 0,
          ge_created_at = ucast (cx_timestamp x), ge_active = True\<rparr>),
        rg_id_of_vault := (rg_id_of_vault r)(v := i)\<rparr>"
  using assms by (auto simp: register_agent_vault_def Let_def split: if_splits option.splits)

lemma policy_calls_Ok:
  "set_policy x i q t r = Inr r' \<Longrightarrow> known r i \<and> cx_sender x = ge_owner (rg_guards r i) \<and> q \<noteq> 0 \<and> t \<noteq> 0
     \<and> r' = r\<lparr>rg_guards := (rg_guards r)(i := (rg_guards r i)\<lparr>ge_ratio_bips := q, ge_top_up_wei := t\<rparr>)\<rparr>"
  "set_guard_active x i b r = Inr r' \<Longrightarrow> known r i \<and> cx_sender x = ge_owner (rg_guards r i)
     \<and> r' = r\<lparr>rg_guards := (rg_guards r)(i := (rg_guards r i)\<lparr>ge_active := b\<rparr>)\<rparr>"
  by (auto simp: set_policy_def set_guard_active_def known_def split: if_splits)

lemma owner_calls_Ok:
  "set_guardian_signer x a r = Inr r' \<Longrightarrow> cx_sender x = rg_owner r \<and> a \<noteq> 0 \<and> r' = r\<lparr>rg_signer := a\<rparr>"
  "set_paused x b r = Inr r' \<Longrightarrow> cx_sender x = rg_owner r \<and> r' = r\<lparr>rg_paused := b\<rparr>"
  by (auto simp: set_guardian_signer_def set_paused_def split: if_splits)

subsection \<open>The invariant\<close>

text \<open>The nonces of a ledger increase from a positive one, and the last is the guard's.\<close>

definition ledger_ok :: "u64 \<Rightarrow> ledger_entry list \<Rightarrow> bool" where
  "ledger_ok n les \<longleftrightarrow> sorted_wrt (<) (0 # map le_nonce les) \<and> n = last (0 # map le_nonce les)"

definition vaults_ok :: "registry \<Rightarrow> bool" where
  "vaults_ok r \<longleftrightarrow>
     (\<forall>i. known r i \<longleftrightarrow> i \<noteq> 0 \<and> i \<le> rg_count r)
     \<and> (\<forall>i. known r i \<longrightarrow> rg_id_of_vault r (ge_agent_vault (rg_guards r i)) = i)
     \<and> (\<forall>a. rg_id_of_vault r a \<noteq> 0 \<longrightarrow> known r (rg_id_of_vault r a)
          \<and> ge_agent_vault (rg_guards r (rg_id_of_vault r a)) = a)"

definition ledgers_ok :: "registry \<Rightarrow> bool" where
  "ledgers_ok r \<longleftrightarrow>
     (\<forall>i. ledger_ok (ge_last_nonce (rg_guards r i)) (rg_actions r i))
     \<and> (\<forall>i. \<not> known r i \<longrightarrow> rg_actions r i = [])
     \<and> (\<forall>i. known r i \<longrightarrow> ge_ratio_bips (rg_guards r i) \<noteq> 0 \<and> ge_top_up_wei (rg_guards r i) \<noteq> 0)"

lemma ledger_ok_empty [simp]: "ledger_ok n [] \<longleftrightarrow> n = 0"
  by (simp add: ledger_ok_def)

lemma sorted_le_last:
  "sorted_wrt (<) ns \<Longrightarrow> m \<in> set ns \<Longrightarrow> m \<le> last (ns :: u64 list)"
  by (cases ns rule: rev_cases) (auto simp: sorted_wrt_append)

lemma ledger_ok_snoc:
  assumes "ledger_ok n les" and "n < le_nonce e"
  shows "ledger_ok (le_nonce e) (les @ [e])"
proof -
  let ?ns = "0 # map le_nonce les"
  have s: "sorted_wrt (<) ?ns" and l: "n = last ?ns" using assms(1) by (simp_all only: ledger_ok_def)
  have "\<forall>x\<in>set ?ns. x < le_nonce e"
    using sorted_le_last[OF s] l assms(2) by (meson le_less_trans)
  then have "sorted_wrt (<) (?ns @ [le_nonce e])" using s unfolding sorted_wrt_append by simp
  then show ?thesis by (simp add: ledger_ok_def)
qed

lemma vaults_ok_cong:
  assumes "vaults_ok r" and "rg_count r' = rg_count r" and "rg_id_of_vault r' = rg_id_of_vault r"
    and vlt: "\<And>i. ge_agent_vault (rg_guards r' i) = ge_agent_vault (rg_guards r i)"
  shows "vaults_ok r'"
proof -
  have kn: "known r' = known r" by (simp add: known_def vlt fun_eq_iff)
  show ?thesis using assms(1) unfolding vaults_ok_def kn assms(2,3) vlt .
qed

lemma word_suc_le:
  assumes "c \<noteq> - 1"
  shows "i \<le> c + 1 \<longleftrightarrow> i \<le> c \<or> i = c + (1 :: 256 word)" and "\<not> c + 1 \<le> c"
proof -
  have "1 + c \<noteq> 0" using assms by (metis add.commute add_eq_0_iff)
  then have "unat (c + 1) = Suc (unat c)" by (metis unatSuc add.commute)
  then show "i \<le> c + 1 \<longleftrightarrow> i \<le> c \<or> i = c + 1" and "\<not> c + 1 \<le> c"
    unfolding word_le_nat_alt word_unat_eq_iff by auto
qed

lemma vaults_ok_register:
  assumes "vaults_ok r" and "register_agent_vault x v q t r = Inr (i, r')"
  shows "vaults_ok r' \<and> \<not> known r i \<and> i \<noteq> 0 \<and> rg_actions r' = rg_actions r
    \<and> rg_guards r' = (rg_guards r)(i := rg_guards r' i) \<and> ge_last_nonce (rg_guards r' i) = 0"
proof -
  note o = register_agent_vault_Ok[OF assms(2)]
  have i0: "i \<noteq> 0" using o by (metis add.commute add_eq_0_iff)
  have k: "\<And>j. known r j \<longleftrightarrow> j \<noteq> 0 \<and> j \<le> rg_count r"
    and b: "\<And>j. known r j \<Longrightarrow> rg_id_of_vault r (ge_agent_vault (rg_guards r j)) = j"
    and c: "\<And>a. rg_id_of_vault r a \<noteq> 0 \<Longrightarrow> known r (rg_id_of_vault r a)
          \<and> ge_agent_vault (rg_guards r (rg_id_of_vault r a)) = a"
    using assms(1) unfolding vaults_ok_def by blast+
  have "\<not> i \<le> rg_count r" using o word_suc_le(2)[of "rg_count r"] by blast
  then have ni: "\<not> known r i" using k by blast
  have kn: "known r' j \<longleftrightarrow> j = i \<or> known r j" for j using o by (auto simp: known_def)
  have gv: "rg_guards r' j = rg_guards r j" if "j \<noteq> i" for j using o that by simp
  have rc: "rg_count r' = rg_count r + 1" "i = rg_count r + 1" "rg_count r \<noteq> - 1" using o by simp_all
  have "known r' j \<longleftrightarrow> j \<noteq> 0 \<and> j \<le> rg_count r'" for j
    unfolding kn k rc(1) word_suc_le(1)[OF rc(3)] using i0 rc(2) by blast
  moreover have "rg_id_of_vault r' (ge_agent_vault (rg_guards r' j)) = j" if "known r' j" for j
  proof (cases "j = i")
    case True
    then show ?thesis using o by simp
  next
    case False
    then have "known r j" using that kn by simp
    then have "rg_id_of_vault r (ge_agent_vault (rg_guards r j)) = j" "j \<noteq> 0" using b k by auto
    then have "ge_agent_vault (rg_guards r j) \<noteq> v" using o by auto
    then show ?thesis using o False b[OF \<open>known r j\<close>] by simp
  qed
  moreover have "known r' (rg_id_of_vault r' a) \<and> ge_agent_vault (rg_guards r' (rg_id_of_vault r' a)) = a"
    if "rg_id_of_vault r' a \<noteq> 0" for a
  proof (cases "a = v")
    case True
    then show ?thesis using o kn by simp
  next
    case False
    then have e: "rg_id_of_vault r' a = rg_id_of_vault r a" using o by simp
    then have "known r (rg_id_of_vault r a)" "ge_agent_vault (rg_guards r (rg_id_of_vault r a)) = a"
      using c that by auto
    then show ?thesis using e kn ni gv by metis
  qed
  ultimately show ?thesis using i0 ni o unfolding vaults_ok_def by (auto simp: fun_eq_iff)
qed

text \<open>What every successful call keeps: the guards known, their nonces and their ledgers grow.\<close>

definition grows :: "registry \<Rightarrow> registry \<Rightarrow> bool" where
  "grows r r' \<longleftrightarrow>
     (\<forall>i. known r i \<longrightarrow> known r' i \<and> ge_last_nonce (rg_guards r i) \<le> ge_last_nonce (rg_guards r' i))
     \<and> (\<forall>i. prefix (rg_actions r i) (rg_actions r' i))"

lemma grows_refl [simp]: "grows r r"
  by (simp add: grows_def)

lemma grows_trans: "grows r s \<Longrightarrow> grows s t \<Longrightarrow> grows r t"
  unfolding grows_def by (meson order_trans prefix_order.order_trans)

definition registry_ok :: "registry \<Rightarrow> bool" where
  "registry_ok r \<longleftrightarrow> vaults_ok r \<and> ledgers_ok r"

lemma deploy_registry_ok: "deploy_registry x am = Inr r \<Longrightarrow> registry_ok r"
  by (auto simp: deploy_registry_def registry_ok_def vaults_ok_def ledgers_ok_def known_def zero_guard_def
      split: if_splits)

text \<open>A call that changes one guard and keeps its vault and its ledger in order.\<close>

lemma registry_ok_update:
  assumes "registry_ok r" and "known r i"
    and g: "ge_agent_vault ge = ge_agent_vault (rg_guards r i)" "ge_ratio_bips ge \<noteq> 0" "ge_top_up_wei ge \<noteq> 0"
    and l: "ledger_ok (ge_last_nonce ge) les" "prefix (rg_actions r i) les"
      "ge_last_nonce (rg_guards r i) \<le> ge_last_nonce ge"
  shows "registry_ok (r\<lparr>rg_guards := (rg_guards r)(i := ge), rg_actions := (rg_actions r)(i := les)\<rparr>)
    \<and> grows r (r\<lparr>rg_guards := (rg_guards r)(i := ge), rg_actions := (rg_actions r)(i := les)\<rparr>)"
proof -
  let ?r = "r\<lparr>rg_guards := (rg_guards r)(i := ge), rg_actions := (rg_actions r)(i := les)\<rparr>"
  have "vaults_ok ?r"
    by (rule vaults_ok_cong[of r]) (use assms(1) g(1) in \<open>auto simp: registry_ok_def\<close>)
  moreover have k: "known ?r = known r" using g(1) by (auto simp: known_def fun_eq_iff)
  moreover have "ledgers_ok ?r"
    using assms(1,2) g(2,3) l(1) unfolding registry_ok_def ledgers_ok_def k by simp
  moreover have "grows r ?r" using l(2,3) unfolding grows_def k by simp
  ultimately show ?thesis by (simp add: registry_ok_def)
qed

lemma execute_ok:
  assumes "registry_ok r" and "execute ev x c r = Inr r'"
  shows "registry_ok r' \<and> grows r r'"
proof -
  have v: "vaults_ok r" and l: "ledgers_ok r" using assms(1) by (simp_all add: registry_ok_def)
  have le: "\<And>i. ledger_ok (ge_last_nonce (rg_guards r i)) (rg_actions r i)"
    and pol: "\<And>i. known r i \<Longrightarrow> ge_ratio_bips (rg_guards r i) \<noteq> 0 \<and> ge_top_up_wei (rg_guards r i) \<noteq> 0"
    using l by (simp_all add: ledgers_ok_def)
  note upd = registry_ok_update[OF assms(1)]
  show ?thesis
  proof (cases c)
    case (CallSetSigner a)
    then have r': "r' = r\<lparr>rg_signer := a\<rparr>" using assms(2) owner_calls_Ok(1) by fastforce
    have k: "known r' = known r" by (simp add: r' known_def fun_eq_iff)
    have "vaults_ok r'" by (rule vaults_ok_cong[OF v]) (simp_all add: r')
    moreover have "ledgers_ok r'" using l unfolding ledgers_ok_def k by (simp add: r')
    moreover have "grows r r'" unfolding grows_def k by (simp add: r')
    ultimately show ?thesis by (simp add: registry_ok_def)
  next
    case (CallSetPaused b)
    then have r': "r' = r\<lparr>rg_paused := b\<rparr>" using assms(2) owner_calls_Ok(2) by fastforce
    have k: "known r' = known r" by (simp add: r' known_def fun_eq_iff)
    have "vaults_ok r'" by (rule vaults_ok_cong[OF v]) (simp_all add: r')
    moreover have "ledgers_ok r'" using l unfolding ledgers_ok_def k by (simp add: r')
    moreover have "grows r r'" unfolding grows_def k by (simp add: r')
    ultimately show ?thesis by (simp add: registry_ok_def)
  next
    case (CallRegister a q t)
    then obtain i where reg: "register_agent_vault x a q t r = Inr (i, r')"
      using assms(2) by (auto split: sum.splits)
    note o = register_agent_vault_Ok[OF reg] and u = vaults_ok_register[OF v reg]
    have kn: "known r' j \<longleftrightarrow> j = i \<or> known r j" for j using o by (auto simp: known_def)
    have g: "rg_guards r' j = rg_guards r j" if "j \<noteq> i" for j using u that by (metis fun_upd_other)
    have li: "rg_actions r i = []" using l u by (simp add: ledgers_ok_def)
    have "ledger_ok (ge_last_nonce (rg_guards r' j)) (rg_actions r' j)" for j
      using le[of j] li u g[of j] by (cases "j = i") simp_all
    moreover have "known r' j \<Longrightarrow> ge_ratio_bips (rg_guards r' j) \<noteq> 0 \<and> ge_top_up_wei (rg_guards r' j) \<noteq> 0" for j
      using pol[of j] o g[of j] kn[of j] by (cases "j = i") simp_all
    moreover have "\<not> known r' j \<Longrightarrow> rg_actions r' j = []" for j
      using l u kn[of j] by (simp add: ledgers_ok_def)
    moreover have "grows r r'"
      unfolding grows_def using u kn g by (metis order_refl prefix_order.order_refl)
    ultimately show ?thesis using u by (simp add: registry_ok_def ledgers_ok_def)
  next
    case (CallSetPolicy i q t)
    then have o: "known r i" "q \<noteq> 0" "t \<noteq> 0"
      "r' = r\<lparr>rg_guards := (rg_guards r)(i := (rg_guards r i)\<lparr>ge_ratio_bips := q, ge_top_up_wei := t\<rparr>)\<rparr>"
      using assms(2) policy_calls_Ok(1) by fastforce+
    show ?thesis
      using upd[OF o(1), of "(rg_guards r i)\<lparr>ge_ratio_bips := q, ge_top_up_wei := t\<rparr>" "rg_actions r i"] o le[of i]
      by simp
  next
    case (CallSetActive i b)
    then have o: "known r i" "r' = r\<lparr>rg_guards := (rg_guards r)(i := (rg_guards r i)\<lparr>ge_active := b\<rparr>)\<rparr>"
      using assms(2) policy_calls_Ok(2) by fastforce+
    show ?thesis
      using upd[OF o(1), of "(rg_guards r i)\<lparr>ge_active := b\<rparr>" "rg_actions r i"] o le[of i] pol[of i] by simp
  next
    case (CallPost i t a n sig)
    then have p: "post_action ev x i t a n sig r = Inr r'" using assms(2) by simp
    note o = post_action_Ok[OF p]
    let ?e = "\<lparr>le_type = t, le_amount = a, le_nonce = n, le_timestamp = ucast (cx_timestamp x)\<rparr>"
    have "ledger_ok n (rg_actions r i @ [?e])" using ledger_ok_snoc[OF le[of i], of ?e] o by simp
    then show ?thesis
      using upd[of i "(rg_guards r i)\<lparr>ge_last_nonce := n\<rparr>" "rg_actions r i @ [?e]"] o pol[of i]
      by (simp add: less_imp_le)
  qed
qed

lemma transact_ok: "registry_ok r \<Longrightarrow> registry_ok (transact ev xc r) \<and> grows r (transact ev xc r)"
  by (auto simp: transact_def dest: execute_ok split: sum.splits)

lemma registry_run_ok: "registry_ok r \<Longrightarrow> registry_ok (registry_run ev cs r) \<and> grows r (registry_run ev cs r)"
proof (induction cs arbitrary: r)
  case (Cons c cs)
  then show ?case using transact_ok[of r ev c] grows_trans by (metis registry_run_simps(2))
qed simp

end
