(* ===== verification/RegistryClaims.thy ===== *)
theory RegistryClaims
  imports GuardianRegistry GuardDemo
begin

text \<open>
  The guard and the contract together: the contract's ledger, and what becomes of an action
  the guard has signed when it is posted.
\<close>

subsection \<open>The ledger\<close>

text \<open>
  C8. After any calls, successful or not, by anyone: the guards are numbered from one without
  gaps, no vault has two of them and each has a policy that is not zero; the nonces in a
  guard's ledger are positive and increase strictly, the last one is the nonce the guard reads,
  and the ledger of a number without a guard is empty.
\<close>
theorem registry_invariant:
  assumes "deploy_registry x am = Inr r0" and "r = registry_run ev cs r0"
  shows "(\<forall>i. known r i \<longleftrightarrow> i \<noteq> 0 \<and> i \<le> rg_count r)
    \<and> (\<forall>i j. known r i \<and> ge_agent_vault (rg_guards r i) = ge_agent_vault (rg_guards r j) \<longrightarrow> i = j)
    \<and> (\<forall>i. known r i \<longrightarrow> ge_ratio_bips (rg_guards r i) \<noteq> 0 \<and> ge_top_up_wei (rg_guards r i) \<noteq> 0)
    \<and> (\<forall>i. sorted_wrt (<) (0 # map le_nonce (get_actions i r))
         \<and> ge_last_nonce (rg_guards r i) = last (0 # map le_nonce (get_actions i r))
         \<and> (\<not> known r i \<longrightarrow> actions_count i r = 0))"
proof -
  have "registry_ok r" using registry_run_ok[OF deploy_registry_ok[OF assms(1)]] assms(2) by simp
  then have v: "vaults_ok r" and l: "ledgers_ok r" by (simp_all add: registry_ok_def)
  have "\<forall>i j. known r i \<and> ge_agent_vault (rg_guards r i) = ge_agent_vault (rg_guards r j) \<longrightarrow> i = j"
    using v unfolding vaults_ok_def by (metis known_def)
  moreover have "\<forall>i. known r i \<longleftrightarrow> i \<noteq> 0 \<and> i \<le> rg_count r" using v unfolding vaults_ok_def by blast
  ultimately show ?thesis
    using l unfolding ledgers_ok_def ledger_ok_def get_actions_def actions_count_def by simp
qed

text \<open>
  C9. The ledger is append-only, and an action is accepted once: once an action is posted, no
  action of the guard with the same nonce or a lower one is accepted, whatever calls come in
  between; so of two actions the guard signs on the same policy at most one is recorded.
\<close>
theorem posted_once:
  assumes "deploy_registry x0 am = Inr r0" and "r = registry_run ev cs r0"
    and "post_action ev x i t a n sig r = Inr r1" and "r2 = registry_run ev ds r1"
  shows "(\<forall>j. prefix (get_actions j r) (get_actions j r1) \<and> prefix (get_actions j r1) (get_actions j r2))
    \<and> actions_count i r1 = actions_count i r + 1
    \<and> (\<forall>x' t' a' n' sig'. n' \<le> n \<longrightarrow> (\<exists>e. post_action ev x' i t' a' n' sig' r2 = Inl e))"
proof -
  have ok: "registry_ok r" using registry_run_ok[OF deploy_registry_ok[OF assms(1)]] assms(2) by simp
  have "execute ev x (CallPost i t a n sig) r = Inr r1" using assms(3) by simp
  from execute_ok[OF ok this] have ok1: "registry_ok r1" and g: "grows r r1" by simp_all
  from registry_run_ok[OF ok1] have g2: "grows r1 r2" using assms(4) by simp
  note o = post_action_Ok[OF assms(3)]
  have "known r1 i" "ge_last_nonce (rg_guards r1 i) = n" using o by (simp_all add: known_def)
  then have n: "n \<le> ge_last_nonce (rg_guards r2 i)" using g2 unfolding grows_def by metis
  have "\<exists>e. post_action ev x' i t' a' n' sig' r2 = Inl e" if "n' \<le> n" for x' t' a' n' sig'
  proof (cases "post_action ev x' i t' a' n' sig' r2")
    case (Inr r3)
    from post_action_Ok[OF this] have "ge_last_nonce (rg_guards r2 i) < n'" by blast
    with n that show ?thesis by (meson leD order_trans)
  qed simp
  moreover have "actions_count i r1 = actions_count i r + 1" using o by (simp add: actions_count_def)
  ultimately show ?thesis using g g2 by (simp add: grows_def get_actions_def)
qed

lemma recover_zeros:
  "recover_signer ev d (replicate 65 (nat_byte 0)) =
     Inr (ev_recover ev d 27 (replicate 32 (nat_byte 0)) (replicate 32 (nat_byte 0)))"
proof -
  have z: "replicate 65 (nat_byte 0) ! 64 = nat_byte 0" "take 32 (replicate 65 (nat_byte 0)) = replicate 32 (nat_byte 0)"
    "take 32 (drop 32 (replicate 65 (nat_byte 0))) = replicate 32 (nat_byte 0)" by simp_all
  have "be_val (replicate 32 (nat_byte 0)) = 0" using be_val_zeros[of 32 "[]"] by simp
  then show ?thesis unfolding recover_signer_def Let_def z by simp
qed

text \<open>
  C16. Until the owner has set the enclave's key anyone can write the ledger: the stored key is
  the zero address, which is what the recovery precompile's failure reads as, so a signature
  of zeros is accepted for any known guard, any of the three types, any amount and any nonce
  above the last.
\<close>
theorem unset_signer_forgery:
  assumes "deploy_registry x0 am = Inr r0" and "r = registry_run ev cs r0"
    and unset: "\<forall>xc\<in>set cs. \<forall>a. snd xc \<noteq> CallSetSigner a"
    and fails: "\<And>d v s. ev_recover ev d v (replicate 32 (nat_byte 0)) s = 0"
    and "known r i" and "\<not> rg_paused r" and "t \<le> 2" and "ge_last_nonce (rg_guards r i) < n"
  shows "\<exists>r'. post_action ev x i t a n (replicate 65 (nat_byte 0)) r = Inr r'
    \<and> get_actions i r' = get_actions i r @
        [\<lparr>le_type = t, le_amount = a, le_nonce = n, le_timestamp = ucast (cx_timestamp x)\<rparr>]"
proof -
  have "rg_signer (transact ev xc q) = rg_signer q" if "\<forall>a. snd xc \<noteq> CallSetSigner a" for xc q
    using that
    by (cases "snd xc") (auto simp: transact_def dest: policy_calls_Ok owner_calls_Ok register_agent_vault_Ok
        post_action_Ok split: sum.splits)
  then have "rg_signer (registry_run ev cs q) = rg_signer q" for q
    using unset by (induction cs arbitrary: q) simp_all
  then have s: "rg_signer r = 0" using assms(1,2) by (auto simp: deploy_registry_def split: if_splits)
  have "recover_signer ev d (replicate 65 (nat_byte 0)) = Inr 0" for d
    by (simp add: recover_zeros fails)
  then show ?thesis
    using assms(5-8) s by (simp add: post_action_def known_def get_actions_def not_less not_le)
qed

subsection \<open>What the guard signs\<close>

text \<open>
  What the documentation of the libraries says: the contract's machine and go-ethereum have the
  same Keccak; \<open>crypto.Sign\<close> gives 65 bytes \<open>r\<close>, \<open>s\<close>, \<open>v\<close> with \<open>v\<close> zero or one and a low \<open>s\<close>,
  from which the precompile recovers the address of the key.
\<close>

definition crypto_agrees :: "evm \<Rightarrow> 'key guard_env \<Rightarrow> bool" where
  "crypto_agrees ev g \<longleftrightarrow>
     (\<forall>b. ev_keccak ev b = g_keccak256 g b \<and> g_hash_bytes g (g_keccak256_hash g b) = g_keccak256 g b)
     \<and> (\<forall>d k sig. g_sign g d k = Inr sig \<longrightarrow>
          length sig = 65 \<and> byte_nat (sig ! 64) \<le> 1 \<and> be_val (take 32 (drop 32 sig)) \<le> half_order
          \<and> ev_recover ev d (27 + byte_nat (sig ! 64)) (take 32 sig) (take 32 (drop 32 sig))
              = g_pubkey_to_address g k)"

text \<open>The policy as \<open>readGuard\<close> gets it, and the call that posts an action.\<close>

definition policy_of :: "guard_entry \<Rightarrow> guard_policy" where
  "policy_of ge = \<lparr>gp_agent_vault = ge_agent_vault ge, gp_owner = ge_owner ge,
     gp_ratio_bips = ge_ratio_bips ge, gp_top_up_amount_wei = uint (ge_top_up_wei ge),
     gp_last_action_nonce = ge_last_nonce ge, gp_created_at = ge_created_at ge, gp_active = ge_active ge\<rparr>"

definition signed_call :: "signed_action \<Rightarrow> registry_call option" where
  "signed_call s =
     (case (big_set_string (sa_amount s), hex_decode (trim_prefix (sa_signature s) ''0x'')) of
        (Some a, Some sig) \<Rightarrow>
          Some (CallPost (ucast (sa_guard_id s)) (sa_action_type s) (word_of_int a) (sa_nonce s) sig)
      | _ \<Rightarrow> None)"

lemma recover_signed:
  assumes "crypto_agrees ev g" and "g_sign g d k = Inr sig"
  shows "recover_signer ev d sig = Inr (g_pubkey_to_address g k)"
proof -
  have s: "length sig = 65" "byte_nat (sig ! 64) \<le> 1" "be_val (take 32 (drop 32 sig)) \<le> half_order"
    "ev_recover ev d (27 + byte_nat (sig ! 64)) (take 32 sig) (take 32 (drop 32 sig)) = g_pubkey_to_address g k"
    using assms unfolding crypto_agrees_def by blast+
  consider "byte_nat (sig ! 64) = 0" | "byte_nat (sig ! 64) = 1" using s(2) by linarith
  then show ?thesis using s by cases (simp_all add: recover_signer_def Let_def)
qed

lemma digest_agrees:
  assumes "crypto_agrees ev g" and "registry_digest g c i (ucast t) n (dec (unat a)) = Ok d"
  shows "g_hash_bytes g d = action_digest ev (ucast c) (ucast i) t a n"
proof -
  have a: "unat (a :: 256 word) < 2 ^ 256" using unsigned_less[of a, where 'a = nat] by simp
  have u: "unat (ucast w :: 256 word) = unat w" "unat (ucast t :: u64) = unat t" for w :: u64
    by (transfer, simp)+
  have "d = g_keccak256_hash g (eip191_prefix
      @ g_keccak256 g (abi_encode_uints [unat c, unat i, unat t, unat a, unat n]))"
    using assms(2) by (simp add: registry_digest_def digest_words_reference[OF a] Let_def u)
  then show ?thesis using assms(1) by (simp add: crypto_agrees_def action_digest_def u)
qed

text \<open>What a check signs on a policy, as the call that posts it.\<close>

lemma check_signed_call:
  assumes "check_vault_json g req e = (e', Ok resp)" and "signed resp = Some s"
    and "read_guard g (guard_id req) = Ok (policy_of ge)"
  obtains k sig d where "g_hex_to_ecdsa g (trim_prefix (g_getenv g ''GUARDIAN_KEY'') ''0x'') = Inr k"
    and "registry_digest g (sa_chain_id s) (guard_id req) (ucast (1 :: 8 word)) (ge_last_nonce ge + 1)
        (dec (unat (ge_top_up_wei ge))) = Ok d"
    and "g_sign g (g_hash_bytes g d) k = Inr sig"
    and "signed_call s = Some (CallPost (ucast (guard_id req)) 1 (ge_top_up_wei ge) (ge_last_nonce ge + 1) sig)"
    and "sa_guard_id s = guard_id req" and "sa_action_type s = 1"
    and "sa_amount s = dec (unat (ge_top_up_wei ge))" and "sa_nonce s = ge_last_nonce ge + 1"
proof -
  have "sign_top_up_action g (guard_id req) 1 (dec (unat (ge_top_up_wei ge))) (ge_last_nonce ge + 1) = Ok s"
    using assms(1,2,3)
    by (elim check_vault_json_Ok)
       (auto simp: check_reads_Ok policy_of_def action_vault_top_up_def dec_int_nonneg)
  then obtain d k sig where s: "sa_guard_id s = guard_id req" "sa_action_type s = 1"
      "sa_amount s = dec (unat (ge_top_up_wei ge))" "sa_nonce s = ge_last_nonce ge + 1"
      "g_hex_to_ecdsa g (trim_prefix (g_getenv g ''GUARDIAN_KEY'') ''0x'') = Inr k"
      "sa_signature s = ''0x'' @ hex_encode sig"
    and d: "registry_digest g (sa_chain_id s) (guard_id req) (ucast (1 :: 8 word)) (ge_last_nonce ge + 1)
        (dec (unat (ge_top_up_wei ge))) = Ok d" "g_sign g (g_hash_bytes g d) k = Inr sig"
    by (elim sign_top_up_action_Ok) blast
  have "signed_call s = Some (CallPost (ucast (guard_id req)) 1 (ge_top_up_wei ge) (ge_last_nonce ge + 1) sig)"
    unfolding signed_call_def s trim_prefix_append hex_decode_encode by simp
  from that[OF s(5) d this s(1-4)] show thesis .
qed

text \<open>
  C3. The action a check signs is made for the contract. When the contract and the guard's
  chain id agree, the call that posts it, made at any later time, goes through exactly when
  the contract is not paused, the guard exists, its nonce is still below the signed one and
  the stored key is the enclave's; it then records the amount of the policy that was read under
  the successor of the nonce that was read. Otherwise it reverts with the error of the first
  condition that fails.
\<close>
theorem signed_action_posts:
  assumes "check_vault_json g req e = (e', Ok resp)" and "signed resp = Some s"
    and "read_guard g (guard_id req) = Ok (policy_of ge)"
    and "crypto_agrees ev g" and "cx_chain_id x = ucast (sa_chain_id s)"
  shows "\<exists>k sig. g_hex_to_ecdsa g (trim_prefix (g_getenv g ''GUARDIAN_KEY'') ''0x'') = Inr k
    \<and> signed_call s = Some (CallPost (ucast (guard_id req)) 1 (ge_top_up_wei ge) (ge_last_nonce ge + 1) sig)
    \<and> execute ev x (CallPost (ucast (guard_id req)) 1 (ge_top_up_wei ge) (ge_last_nonce ge + 1) sig) r =
        (let i = ucast (guard_id req); n = ge_last_nonce ge + 1 in
         if rg_paused r then Inl (RevertError IsPaused)
         else if \<not> known r i then Inl (RevertError UnknownGuard)
         else if n \<le> ge_last_nonce (rg_guards r i) then Inl (RevertError InvalidNonce)
         else if g_pubkey_to_address g k \<noteq> rg_signer r then Inl (RevertError InvalidSignature)
         else Inr (r\<lparr>rg_guards := (rg_guards r)(i := (rg_guards r i)\<lparr>ge_last_nonce := n\<rparr>),
           rg_actions := (rg_actions r)(i := rg_actions r i @
             [\<lparr>le_type = 1, le_amount = ge_top_up_wei ge, le_nonce = n,
               le_timestamp = ucast (cx_timestamp x)\<rparr>])\<rparr>))"
proof -
  obtain k sig d where s: "g_hex_to_ecdsa g (trim_prefix (g_getenv g ''GUARDIAN_KEY'') ''0x'') = Inr k"
      "signed_call s = Some (CallPost (ucast (guard_id req)) 1 (ge_top_up_wei ge) (ge_last_nonce ge + 1) sig)"
    and d: "registry_digest g (sa_chain_id s) (guard_id req) (ucast (1 :: 8 word)) (ge_last_nonce ge + 1)
        (dec (unat (ge_top_up_wei ge))) = Ok d" "g_sign g (g_hash_bytes g d) k = Inr sig"
    by (rule check_signed_call[OF assms(1-3)])
  have "recover_signer ev (action_digest ev (cx_chain_id x) (ucast (guard_id req)) 1 (ge_top_up_wei ge)
      (ge_last_nonce ge + 1)) sig = Inr (g_pubkey_to_address g k)"
    using recover_signed[OF assms(4) d(2)] digest_agrees[OF assms(4) d(1)] assms(5) by simp
  then show ?thesis using s by (simp add: post_action_def known_def Let_def not_less)
qed

subsection \<open>Witnesses\<close>

definition demo_evm :: evm where
  "demo_evm = \<lparr>ev_keccak = (\<lambda>_. replicate 32 (nat_byte 0)),
     ev_recover = (\<lambda>_ _ r _. if r = replicate 32 (nat_byte 0) then 0 else 1)\<rparr>"

definition demo_ctx :: call_ctx where
  "demo_ctx = \<lparr>cx_sender = 5, cx_timestamp = 1000, cx_chain_id = 114, cx_vault_owner = (\<lambda>_. Some 5)\<rparr>"

text \<open>A contract with one guard, before its owner has set a key, and after.\<close>

definition demo_calls :: "(call_ctx \<times> registry_call) list" where
  "demo_calls = [(demo_ctx, CallRegister 8 15000 4)]"

definition demo_registry0 :: registry where
  "demo_registry0 = \<lparr>rg_asset_manager = 3, rg_owner = 5, rg_signer = 0, rg_paused = False, rg_count = 0,
     rg_guards = (\<lambda>_. zero_guard), rg_id_of_vault = (\<lambda>_. 0), rg_actions = (\<lambda>_. [])\<rparr>"

lemma demo_deploy: "deploy_registry demo_ctx 3 = Inr demo_registry0"
  by (simp add: deploy_registry_def demo_registry0_def demo_ctx_def)

definition demo_registry1 :: registry where
  "demo_registry1 = \<lparr>rg_asset_manager = 3, rg_owner = 5, rg_signer = 0, rg_paused = False, rg_count = 1,
     rg_guards = (\<lambda>_. zero_guard)(1 := \<lparr>ge_agent_vault = 8, ge_owner = 5, ge_ratio_bips = 15000,
       ge_top_up_wei = 4, ge_last_nonce = 0, ge_created_at = 1000, ge_active = True\<rparr>),
     rg_id_of_vault = (\<lambda>_. 0)(8 := 1), rg_actions = (\<lambda>_. [])\<rparr>"

lemma demo_registry_run: "registry_run ev demo_calls demo_registry0 = demo_registry1"
  by (simp add: demo_calls_def transact_def register_agent_vault_def demo_registry0_def demo_ctx_def Let_def
      demo_registry1_def)

theorem registry_invariant_witness:
  "known demo_registry1 1 \<and> actions_count 2 demo_registry1 = 0
   \<and> ge_agent_vault (rg_guards demo_registry1 2) \<noteq> ge_agent_vault (rg_guards demo_registry1 1)"
proof -
  have c: "rg_count demo_registry1 = 1" "\<not> 2 \<le> (1 :: 256 word)" "(1 :: 256 word) \<noteq> 2"
    by (simp_all add: demo_registry1_def word_le_nat_alt)
  note i = registry_invariant[OF demo_deploy demo_registry_run[symmetric, of demo_evm]]
  have "known demo_registry1 1" using i c(1) by simp
  moreover have "\<not> known demo_registry1 2" using conjunct1[OF i] c(1,2) by simp
  ultimately show ?thesis using i c(3) by metis
qed

theorem unset_signer_forgery_witness:
  "\<exists>r'. post_action demo_evm demo_ctx 1 1 9999 77 (replicate 65 (nat_byte 0)) demo_registry1 = Inr r'
     \<and> actions_count 1 r' = 1"
proof -
  have k: "known demo_registry1 1" "\<not> rg_paused demo_registry1" "(1 :: 8 word) \<le> 2"
    "ge_last_nonce (rg_guards demo_registry1 1) < 77"
    and e: "get_actions 1 demo_registry1 = []"
    by (simp_all add: known_def demo_registry1_def get_actions_def)
  have u: "\<forall>xc\<in>set demo_calls. \<forall>a. snd xc \<noteq> CallSetSigner a" by (simp add: demo_calls_def)
  have f: "\<And>d v s. ev_recover demo_evm d v (replicate 32 (nat_byte 0)) s = 0" by (simp add: demo_evm_def)
  from unset_signer_forgery[OF demo_deploy demo_registry_run[symmetric] u f k, of demo_ctx 9999]
  show ?thesis using e by (auto simp: actions_count_def get_actions_def)
qed

theorem posted_once_witness:
  "\<exists>r1. post_action demo_evm demo_ctx 1 1 9999 77 (replicate 65 (nat_byte 0)) demo_registry1 = Inr r1
     \<and> actions_count 1 r1 = 1
     \<and> (\<exists>e. post_action demo_evm demo_ctx 1 1 9999 77 (replicate 65 (nat_byte 0)) r1 = Inl e)"
proof -
  have rec: "recover_signer demo_evm d (replicate 65 (nat_byte 0)) = Inr 0" for d
    by (simp add: recover_zeros) (simp add: demo_evm_def)
  obtain r1 where r1: "post_action demo_evm demo_ctx 1 1 9999 77 (replicate 65 (nat_byte 0)) demo_registry1 = Inr r1"
    by (simp add: post_action_def rec demo_registry1_def)
  note p = posted_once[OF demo_deploy demo_registry_run[symmetric] r1 registry_run_simps(1)[symmetric, of r1 demo_evm]]
  have "actions_count 1 demo_registry1 = 0" by (simp add: actions_count_def demo_registry1_def)
  with p have "actions_count 1 r1 = 1" by simp
  moreover have "\<exists>e. post_action demo_evm demo_ctx 1 1 9999 77 (replicate 65 (nat_byte 0)) r1 = Inl e"
    using p by blast
  ultimately show ?thesis using r1 by blast
qed

text \<open>The contract as the guard of \<open>GuardDemo\<close> sees it: guard two with the nonce six.\<close>

definition demo_entry :: guard_entry where
  "demo_entry = \<lparr>ge_agent_vault = 8, ge_owner = 1, ge_ratio_bips = 0, ge_top_up_wei = 4,
     ge_last_nonce = 6, ge_created_at = 0, ge_active = True\<rparr>"

definition demo_evm1 :: evm where
  "demo_evm1 = \<lparr>ev_keccak = (\<lambda>_. replicate 32 (nat_byte 0)), ev_recover = (\<lambda>_ _ _ _. 1)\<rparr>"

lemma demo_crypto: "crypto_agrees demo_evm1 demo_env"
proof -
  have z: "take 32 (drop 32 (replicate 65 (nat_byte 0))) = replicate 32 (nat_byte 0)" by simp
  have "be_val (replicate 32 (nat_byte 0)) = 0" using be_val_zeros[of 32 "[]"] by simp
  then show ?thesis unfolding crypto_agrees_def
    by (simp add: demo_evm1_def demo_env_def z del: take_replicate drop_replicate)
qed

theorem signed_action_posts_witness:
  "\<exists>sig r'. signed_call demo_signed = Some (CallPost 2 1 4 7 sig)
    \<and> execute demo_evm1 demo_ctx (CallPost 2 1 4 7 sig)
        (demo_registry0\<lparr>rg_signer := 1, rg_guards := (\<lambda>_. demo_entry)\<rparr>) = Inr r'
    \<and> actions_count 2 r' = 1"
proof -
  have r: "read_guard demo_env (guard_id demo_request) = Ok (policy_of demo_entry)"
    by (simp add: demo_request_def policy_of_def demo_entry_def)
  have c: "cx_chain_id demo_ctx = ucast (sa_chain_id demo_signed)"
    by (simp add: demo_ctx_def demo_signed_def)
  have s: "signed demo_response = Some demo_signed" by (simp add: demo_response_def)
  have k: "g_pubkey_to_address demo_env k = 1" for k by (simp add: demo_env_def)
  from signed_action_posts[OF demo_check[of new_extension] s r demo_crypto c,
      of "demo_registry0\<lparr>rg_signer := 1, rg_guards := (\<lambda>_. demo_entry)\<rparr>"]
  show ?thesis
    by (auto simp: demo_request_def demo_entry_def demo_registry0_def known_def Let_def k actions_count_def)
qed

end
