(* ===== verification/AuditTrail.thy ===== *)
theory AuditTrail
  imports RegistryClaims
begin

text \<open>
  The guard and the contract over time. Anyone calls the contract, with any values and any
  signature, any number of times and in any order; checks read the contract's state, or an
  older one, and sign. What is assumed is cryptographic: a signature that recovers to the
  enclave's address is over a digest the enclave has signed, and no two messages of a history
  have the same digest. The owner stores no other key than the enclave's, and stores it before
  the first post; \<open>unset_signer_forgery\<close> is what happens otherwise.
\<close>

subsection \<open>The system\<close>














subsection \<open>The invariant\<close>


















subsection \<open>The trail\<close>


subsection \<open>A history\<close>





























end
