(* ===== verification/ConcurrencyClaims.thy ===== *)
theory ConcurrencyClaims
  imports GuardDemo "HOL-Library.Multiset"
begin

text \<open>
  The guard under concurrent requests: the shared state is that of a serial run. The steps and
  the invariant are those of \<open>GuardMachine\<close>.
\<close>

subsection \<open>Helpers\<close>

lemma job_req_env:
  "job_check j e = (e', j') \<Longrightarrow> job_env j' = job_env j \<and> job_req j' = job_req j"
  "job_sign h p j e = (e', j') \<Longrightarrow> job_env j' = job_env j \<and> job_req j' = job_req j"
  by (auto simp: job_check_def job_sign_def split: res.splits prod.splits)

lemma checks_of_done:
  "\<exists>r. job_phase j = Done r \<Longrightarrow> checks_of j = (if is_ok (check_reads (job_env j) (job_req j)) then 1 else 0)"
  by (auto simp: checks_of_def)

lemma signs_of_done:
  "job_ok j \<Longrightarrow> \<exists>r. job_phase j = Done r \<Longrightarrow> signs_of j = (if has_signature (job_result j) then 1 else 0)"
  by (auto simp: signs_of_def job_ok_def)

lemma sum_list_count: "sum_list (map (\<lambda>x. if P x then 1 else 0) xs) = length (filter P xs)"
  by (induction xs) auto

lemma serial_last:
  assumes "last_from e j" "checks_performed e = checks_performed (serial (js @ [j]) e0)"
    "actions_signed e = actions_signed (serial (js @ [j]) e0)"
  shows "e = serial (js @ [j]) e0"
proof -
  let ?e = "serial js e0"
  obtain h p where r: "check_reads (job_env j) (job_req j) = Ok (h, p)" "last_decision e = fst (decide h)"
    "last_check_vault e = agent_vault (job_req j)"
    using assms(1) by (auto simp: last_from_def)
  have "serial (js @ [j]) e0 = fst (check_vault_json (job_env j) (job_req j) ?e)"
    by (simp add: serial_def)
  moreover have "last_check_vault \<dots> = agent_vault (job_req j) \<and> last_decision \<dots> = fst (decide h)"
    using r(1) by (auto simp: check_vault_json_def Let_def record_check_def record_signed_def
        split: res.splits prod.splits)
  ultimately show ?thesis using assms r by (simp add: extension.equality)
qed

lemma serial_nothing:
  assumes "\<forall>j\<in>set js. \<not> is_ok (check_reads (job_env j) (job_req j))"
  shows "serial js e = e"
  using assms
proof (induction js arbitrary: e)
  case (Cons j js)
  then have "fst (check_vault_json (job_env j) (job_req j) e) = e"
    by (auto simp: check_vault_json_def split: res.splits)
  then show ?case using Cons by (simp add: serial_def)
qed (simp add: serial_def)

subsection \<open>A run of the demo environment\<close>

definition demo_done :: "unit job" where
  "demo_done = (spawn demo_env demo_request)\<lparr>job_phase := Done (Ok demo_response)\<rparr>"

text \<open>Serving one more request of the demo environment, from any state.\<close>

lemma demo_serve: "guard_run (e, js) [length js] (demo_after e, js @ [demo_done])"
proof -
  let ?j = "spawn demo_env demo_request"
  let ?p = "\<lparr>gp_agent_vault = 8, gp_owner = 1, gp_ratio_bips = 0, gp_top_up_amount_wei = 4,
      gp_last_action_nonce = 6, gp_created_at = 0, gp_active = True\<rparr>"
  let ?e1 = "record_check ''0xA'' ''TOP_UP_REQUIRED'' e"
  let ?j1 = "?j\<lparr>job_phase := Signing demo_health ?p\<rparr>"
  have d: "decide demo_health = (''TOP_UP_REQUIRED'', False)"
    using parse_uint64_dec_int_pos[of 5] by (simp add: decide_def demo_health_def Let_def)
  have c: "job_check ?j e = (?e1, ?j1)"
    by (simp add: job_check_def spawn_def d) (simp add: demo_request_def)
  have s: "job_sign demo_health ?p ?j1 ?e1 = (demo_after e, demo_done)"
    by (simp add: job_sign_def spawn_def demo_done_def demo_after_def demo_response_def
        action_vault_top_up_def demo_signed_def)
       (simp add: demo_request_def plain_response_def d)
  have 1: "guard_run (e, js) [] (e, js @ [?j])"
    by (rule guard_run.arrive[OF guard_run.idle])
  have "guard_run (e, js) ([] @ [length js]) (?e1, (js @ [?j])[length js := ?j1])"
    by (rule guard_run.check[OF 1]) (use c in \<open>simp_all add: spawn_def\<close>)
  then have 2: "guard_run (e, js) [length js] (?e1, js @ [?j1])" by simp
  have "guard_run (e, js) [length js] (demo_after e, (js @ [?j1])[length js := demo_done])"
    by (rule guard_run.sign[OF 2]) (use s in simp_all)
  then show ?thesis by simp
qed

text \<open>Both counters are those of any serial run of the same requests.\<close>

lemma quiescent_counters:
  assumes "guard_reachable (e, js)" and "\<forall>j\<in>set js. \<exists>r. job_phase j = Done r" and "mset js' = mset js"
  shows "checks_performed e = checks_performed (serial js' new_extension)"
    and "actions_signed e = actions_signed (serial js' new_extension)"
proof -
  have inv: "guard_inv (e, js)" using guard_reachable_inv[OF assms(1)] .
  have cs: "map checks_of js = map (\<lambda>j. if is_ok (check_reads (job_env j) (job_req j)) then 1 else 0) js"
    using assms(2) by (simp add: checks_of_done)
  have ss: "map signs_of js = map (\<lambda>j. if has_signature (job_result j) then 1 else 0) js"
    using assms(2) inv by (simp add: guard_inv_iff list_all_iff signs_of_done)
  have "length (filter P js') = length (filter P js)" for P
    using assms(3) by (metis mset_filter size_mset)
  then show "checks_performed e = checks_performed (serial js' new_extension)"
    "actions_signed e = actions_signed (serial js' new_extension)"
    using inv by (simp_all add: guard_inv_iff cs ss sum_list_count serial_counters new_extension_def)
qed

text \<open>
  In every state the server can reach in which all requests have been answered, the shared
  state is the one that serving the same requests one at a time, in some order, leaves: both
  counters, the last vault and the last decision.
\<close>

lemma quiescent_linearizable:
  assumes "guard_reachable (e, js)" and "\<forall>j\<in>set js. \<exists>r. job_phase j = Done r"
  shows "\<exists>js'. mset js' = mset js \<and> e = serial js' new_extension"
proof -
  have inv: "guard_inv (e, js)" using guard_reachable_inv[OF assms(1)] .
  note cnt = quiescent_counters[OF assms]
  consider (none) "last_check_vault e = []" "last_decision e = []" "\<forall>j\<in>set js. checks_of j = 0"
    | (some) j where "j \<in> set js" "last_from e j"
    using inv by (auto simp: guard_inv_iff)
  then show ?thesis
  proof cases
    case none
    then have "\<forall>j\<in>set js. \<not> is_ok (check_reads (job_env j) (job_req j))"
      using assms(2) by (metis checks_of_done zero_neq_one)
    then have "serial js new_extension = new_extension" by (rule serial_nothing)
    then show ?thesis
      using none cnt[OF refl] by (intro exI[of _ js]) (simp add: new_extension_def extension.equality)
  next
    case some
    then have m: "mset (remove1 j js @ [j]) = mset js" by simp
    show ?thesis
      using serial_last[OF some(2) cnt[OF m]] m by (intro exI[of _ "remove1 j js @ [j]"]) simp
  qed
qed

text \<open>
  The counters in every reachable state: the number of actions signed never exceeds the
  number of checks, which never exceeds the number of requests, as long as fewer than
  \<open>2 ^ 64\<close> requests have arrived.
\<close>
lemma counters_ordered:
  assumes "guard_reachable (e, js)" and "length js < 2 ^ 64"
  shows "actions_signed e \<le> checks_performed e \<and> unat (checks_performed e) \<le> length js"
proof -
  have inv: "guard_inv (e, js)" using guard_reachable_inv[OF assms(1)] .
  have c: "sum_list (map checks_of js) \<le> length js"
    by (induction js) (auto simp: checks_of_def)
  have s: "sum_list (map signs_of js) \<le> sum_list (map checks_of js)"
    using inv by (intro sum_list_mono signs_le_checks) (simp add: guard_inv_iff list_all_iff)
  have "unat (checks_performed e) = sum_list (map checks_of js)"
    "unat (actions_signed e) = sum_list (map signs_of js)"
    using inv c s assms(2) by (simp_all add: guard_inv_iff unat_of_nat take_bit_nat_eq_self)
  then show ?thesis using c s by (simp add: word_le_nat_alt)
qed

end
