(* ===== verification/Linearization.thy ===== *)
theory Linearization
  imports ConcurrencyClaims
begin

text \<open>
  Linearizability in real time. A run is recorded with the order in which the requests pass
  their first critical section; serving them one at a time in that order leaves the same
  state, gives the same answers, and puts a request that was answered before another one
  arrived before it.
\<close>

subsection \<open>The order explains the state\<close>

definition last_check :: "extension \<Rightarrow> string \<times> string" where
  "last_check e = (last_check_vault e, last_decision e)"

definition checked_last :: "'key job \<Rightarrow> string \<times> string \<Rightarrow> string \<times> string" where
  "checked_last j x =
     (case check_reads (job_env j) (job_req j) of
        Ok (h, p) \<Rightarrow> (agent_vault (job_req j), fst (decide h)) | _ \<Rightarrow> x)"

lemma last_check_steps:
  "last_check (fst (check_vault_json (job_env j) (job_req j) e)) = checked_last j (last_check e)"
  "job_check j e = (e', j') \<Longrightarrow> last_check e' = checked_last j (last_check e)"
  "job_sign h p j e = (e', j') \<Longrightarrow> last_check e' = last_check e"
  by (auto simp: check_vault_json_def job_check_def job_sign_def last_check_def checked_last_def
      record_check_def record_signed_def Let_def split: res.splits prod.splits)

lemma serial_snoc:
  "serial (js @ [j]) e = fst (check_vault_json (job_env j) (job_req j) (serial js e))"
  by (simp add: serial_def)

definition job_input :: "'key job \<Rightarrow> 'key guard_env \<times> check_vault_request" where
  "job_input j = (job_env j, job_req j)"

lemma serial_input: "map job_input js = map job_input js' \<Longrightarrow> serial js e = serial js' e"
proof (induction js js' arbitrary: e rule: list_induct2')
  case (4 x xs y ys)
  then show ?case by (simp add: serial_def job_input_def)
qed (auto simp: serial_def)

lemma inputs_kept:
  "job_check j e = (e', j') \<Longrightarrow> job_input j' = job_input j"
  "job_sign h p j e = (e', j') \<Longrightarrow> job_input j' = job_input j"
  by (auto simp: job_input_def dest: job_req_env)

lemma serial_update:
  assumes "i < length js" and "job_input j = job_input (js ! i)" and "set l \<subseteq> {..<length js}"
  shows "serial (map ((!) (js[i := j])) l) e = serial (map ((!) js) l) e"
proof (rule serial_input)
  show "map job_input (map ((!) (js[i := j])) l) = map job_input (map ((!) js) l)"
    using assms by (auto simp: nth_list_update)
qed

lemma phases_after:
  "job_check j e = (e', j') \<Longrightarrow> job_phase j' \<noteq> Reading"
  "job_sign h p j e = (e', j') \<Longrightarrow> job_phase j' \<noteq> Reading"
  by (auto simp: job_check_def job_sign_def split: res.splits prod.splits if_splits)

definition order_ok :: "nat list \<Rightarrow> 'key sys \<Rightarrow> bool" where
  "order_ok l s = (case s of (e, js) \<Rightarrow>
     distinct l \<and> set l = {i. i < length js \<and> job_phase (js ! i) \<noteq> Reading}
     \<and> last_check e = last_check (serial (map ((!) js) l) new_extension))"

abbreviation started :: "'key job list \<Rightarrow> nat set" where
  "started js \<equiv> {i. i < length js \<and> job_phase (js ! i) \<noteq> Reading}"

lemma started_update:
  "i < length js \<Longrightarrow> job_phase j \<noteq> Reading \<Longrightarrow> started (js[i := j]) = insert i (started js)"
  by (auto simp: nth_list_update)

lemma started_arrive: "started (js @ [spawn g q]) = started js"
  by (auto simp: nth_append spawn_def less_Suc_eq)

lemma order_ok_iff:
  "order_ok l (e, js) \<longleftrightarrow> distinct l \<and> set l = started js
     \<and> last_check e = last_check (serial (map ((!) js) l) new_extension)"
  by (simp add: order_ok_def)

lemma order_ok_run:
  assumes "guard_run (new_extension, []) l s"
  shows "order_ok l s"
  using assms
proof (induction rule: guard_run.induct)
  case idle
  show ?case by (simp add: order_ok_def serial_def)
next
  case (arrive l e js g q)
  have m: "map ((!) (js @ [spawn g q])) l = map ((!) js) l"
    using arrive(2) by (auto simp: order_ok_iff nth_append)
  have "serial (map ((!) (js @ [spawn g q])) l) new_extension = serial (map ((!) js) l) new_extension"
    by (simp only: m)
  then show ?case using arrive(2) by (simp only: order_ok_iff started_arrive)
next
  case (check l e js i e' j)
  have l: "distinct l" "set l = started js" and i: "i \<notin> started js"
    using check(3,5) by (simp_all add: order_ok_iff)
  have sub: "set (l @ [i]) \<subseteq> {..<length js}" using l check(2) by auto
  have "last_check e' = checked_last (js ! i) (last_check (serial (map ((!) js) l) new_extension))"
    using last_check_steps(2)[OF check(4)] check(5) by (simp add: order_ok_iff)
  also have "\<dots> = last_check (serial (map ((!) js) (l @ [i])) new_extension)"
    by (simp add: serial_snoc last_check_steps(1))
  also have "\<dots> = last_check (serial (map ((!) (js[i := j])) (l @ [i])) new_extension)"
    by (simp only: serial_update[OF check(2) inputs_kept(1)[OF check(4)] sub])
  finally have e: "last_check e' = last_check (serial (map ((!) (js[i := j])) (l @ [i])) new_extension)" .
  have "started (js[i := j]) = insert i (started js)"
    by (rule started_update[OF check(2) phases_after(1)[OF check(4)]])
  then show ?case unfolding order_ok_iff using l i e by simp
next
  case (sign l e js i h p e' j)
  have l: "distinct l" "set l = started js" and i: "i \<in> started js"
    using sign(2,3,5) by (simp_all add: order_ok_iff)
  have sub: "set l \<subseteq> {..<length js}" using l by auto
  have "last_check e' = last_check (serial (map ((!) (js[i := j])) l) new_extension)"
    using last_check_steps(3)[OF sign(4)] sign(5)
    by (simp add: order_ok_iff serial_update[OF sign(2) inputs_kept(2)[OF sign(4)] sub])
  moreover have "started (js[i := j]) = started js"
    unfolding started_update[OF sign(2) phases_after(2)[OF sign(4)]] using i by (rule insert_absorb)
  ultimately show ?case unfolding order_ok_iff using l by simp
qed

text \<open>
  C7. Linearizability in real time. Split any run from the start at any point, and let all
  requests have been answered at its end. Serving them one at a time, in the order in which
  they passed their first critical section, leaves the same shared state; every request is
  served once and gets the answer it gets alone; and a request that had been answered at the
  split is served before every request that arrived after it.
\<close>
theorem linearizable_in_real_time:
  assumes "guard_run (new_extension, []) l1 (e1, js1)" and "guard_run (e1, js1) l2 (e2, js2)"
    and fin: "\<forall>j\<in>set js2. \<exists>r. job_phase j = Done r"
  shows "mset (l1 @ l2) = mset [0..<length js2]
    \<and> e2 = serial (map ((!) js2) (l1 @ l2)) new_extension
    \<and> (\<forall>j\<in>set js2. job_phase j = Done (job_result j))
    \<and> (\<forall>i k r. i < length js1 \<and> job_phase (js1 ! i) = Done r \<and> length js1 \<le> k \<and> k < length js2
        \<longrightarrow> i \<in> set l1 \<and> k \<in> set l2 \<and> k \<notin> set l1)"
proof -
  have run: "guard_run (new_extension, []) (l1 @ l2) (e2, js2)"
    by (rule guard_run_append[OF assms(2,1)])
  note o1 = order_ok_run[OF assms(1)] and o2 = order_ok_run[OF run] and r = guard_run_reachable[OF run]
  have all: "set (l1 @ l2) = set [0..<length js2]" "distinct (l1 @ l2)"
    using o2 fin by (auto simp: order_ok_def) (metis nth_mem phase.distinct(3))+
  then have perm: "mset (l1 @ l2) = mset [0..<length js2]"
    by (metis distinct_upt set_eq_iff_mset_eq_distinct)
  then have m: "mset (map ((!) js2) (l1 @ l2)) = mset js2"
    by (metis map_nth mset_map)
  have "e2 = serial (map ((!) js2) (l1 @ l2)) new_extension"
    using quiescent_counters[OF r fin m] o2
    by (simp add: order_ok_def last_check_def extension.equality)
  moreover have "job_phase j = Done (job_result j)" if "j \<in> set js2" for j
    using guard_reachable_inv[OF r] fin that by (fastforce simp: guard_inv_iff list_all_iff job_ok_def)
  moreover have "i \<in> set l1 \<and> k \<in> set l2 \<and> k \<notin> set l1"
    if "i < length js1" "job_phase (js1 ! i) = Done r" "length js1 \<le> k" "k < length js2" for i k r
  proof -
    have "i \<in> set l1" "k \<notin> set l1" using o1 that by (auto simp: order_ok_def)
    moreover have "k \<in> set (l1 @ l2)" using all(1) that(4) by simp
    ultimately show ?thesis by simp
  qed
  ultimately show ?thesis using perm by blast
qed

theorem linearizable_in_real_time_witness:
  "demo_after (demo_after new_extension) = serial [demo_done, demo_done] new_extension"
proof -
  have r: "guard_run (new_extension, []) [0] (demo_after new_extension, [demo_done])"
    using demo_serve[of new_extension "[]"] by simp
  have "guard_run (demo_after new_extension, [demo_done]) [1]
      (demo_after (demo_after new_extension), [demo_done, demo_done])"
    using demo_serve[of "demo_after new_extension" "[demo_done]"] by simp
  from linearizable_in_real_time[OF r this] show ?thesis by (simp add: demo_done_def)
qed

end
