(* ===== verification/Validate.thy ===== *)
theory Validate
  imports Report
begin

text \<open>
  \<open>tee/tools/pkg/validate/validate.go\<close> and the parts of \<open>checks.go\<close> that read the
  environment and \<open>config/extension.env\<close>: what the checks see of the machine they
  run on, the elementary validators, and the two readers of the env file.
\<close>

subsection \<open>What the checks see\<close>

text \<open>
  The reads are one snapshot: environment variables, files, HTTP probes, the
  reachability of a local port, the chain, the two contracts. go-ethereum's
  address functions and the Unicode table of \<open>strconv.IsPrint\<close> are arguments too.
  \<open>open_file\<close> is \<open>None\<close> when \<open>os.Open\<close> fails and \<open>file_missing\<close> is
  \<open>os.IsNotExist(os.Stat(path))\<close>; \<open>http_get\<close> is the status code, \<open>None\<close> on a
  transport error. A read over RPC gives an error (\<open>Inl\<close>) or a value (\<open>Inr\<close>).
\<close>

record 'key machine =
  getenv :: env
  open_file :: "string \<Rightarrow> string option"
  file_missing :: "string \<Rightarrow> bool"
  http_get :: "string \<Rightarrow> nat option"
  dial_tcp :: "string \<Rightarrow> bool"
  is_print :: "nat \<Rightarrow> bool"
  addr_hex :: "address \<Rightarrow> string"
  hex_to_address :: "string \<Rightarrow> address"
  key_address :: "'key \<Rightarrow> address"
  evm_type :: hash

record chain_client =
  code_at :: "address \<Rightarrow> bytes rpc"
  balance_at :: "address \<Rightarrow> int rpc"
  client_chain_id :: "int rpc"

record extension_registry =
  next_public_extension_id :: "int rpc"
  instructions_sender :: "int \<Rightarrow> address rpc"
  key_type_supported :: "int \<Rightarrow> hash \<Rightarrow> bool rpc"

record owner_allowlist =
  allowed_machine_owner :: "int \<Rightarrow> address \<Rightarrow> bool rpc"

subsection \<open>Elementary validators\<close>

definition min_deploy_balance :: int where
  "min_deploy_balance = 10000000000000000"

definition address_not_zero :: "'key machine \<Rightarrow> address \<Rightarrow> string \<Rightarrow> go_error option" where
  "address_not_zero m addr label =
     (if addr = 0 then
        Some (ErrorString (label @ '' is the zero address ('' @ addr_hex m addr
          @ '') in the addresses file''))
      else None)"

definition address_has_code ::
    "'key machine \<Rightarrow> chain_client option \<Rightarrow> address \<Rightarrow> string \<Rightarrow> go_error option" where
  "address_has_code m client addr label =
     (case client of
        None \<Rightarrow> Some (ErrorString (''cannot check '' @ label @ '': no chain client connected''))
      | Some c \<Rightarrow>
          (case code_at c addr of
             Inl e \<Rightarrow> Some (wrapf (''cannot check '' @ label) e)
           | Inr code \<Rightarrow>
               if length code = 0 then
                 Some (ErrorString (label @ '' at '' @ addr_hex m addr @ '' has no deployed code. ''
                   @ ''This address will be set as immutable in the contract constructor and cannot be changed. ''
                   @ ''Check your deployed-addresses.json file '' @ em_dash
                   @ '' are you on the right network?''))
               else None))"

definition key_has_funds ::
    "'key machine \<Rightarrow> chain_client option \<Rightarrow> 'key \<Rightarrow> int \<Rightarrow> go_error option" where
  "key_has_funds m client key min_wei =
     (case client of
        None \<Rightarrow> Some (ErrorString ''cannot check deployer balance: no chain client connected'')
      | Some c \<Rightarrow>
          (let addr = key_address m key in
           case balance_at c addr of
             Inl e \<Rightarrow> Some (wrapf ''cannot check deployer balance'' e)
           | Inr balance \<Rightarrow>
               if balance < min_wei then
                 Some (ErrorString (''deployer '' @ addr_hex m addr
                   @ '' has insufficient funds (balance: '' @ dec_int balance
                   @ '' wei, minimum required: '' @ dec_int min_wei
                   @ '' wei). Fund this account before deploying''))
               else None))"

definition is_using_dev_key :: "env \<Rightarrow> bool" where
  "is_using_dev_key e = (e ''DEPLOYMENT_PRIVATE_KEY'' = [])"

lemma address_not_zero_None [report_simps]: "address_not_zero m addr l = None \<longleftrightarrow> addr \<noteq> 0"
  by (simp add: address_not_zero_def)

lemma address_has_code_None [report_simps]:
  "address_has_code m client addr l = None \<longleftrightarrow>
     (\<exists>c code. client = Some c \<and> code_at c addr = Inr code \<and> code \<noteq> [])"
  by (auto simp: address_has_code_def split: option.splits sum.splits)

lemma key_has_funds_None [report_simps]:
  "key_has_funds m client k w = None \<longleftrightarrow>
     (\<exists>c b. client = Some c \<and> balance_at c (key_address m k) = Inr b \<and> w \<le> b)"
  by (auto simp: key_has_funds_def Let_def split: option.splits sum.splits)

subsection \<open>The env file\<close>

text \<open>
  One line of \<open>config/extension.env\<close>: blank lines and comments are skipped, a line
  without \<open>=\<close> is ignored, key and value are trimmed. Both readers of the program use
  the same line discipline, written twice.
\<close>

definition env_line :: "string \<Rightarrow> (string \<times> string) option" where
  "env_line raw =
     (let line = trim_space raw in
      if line = [] \<or> has_prefix line ''#'' then None
      else map_option (\<lambda>(k, v). (trim_space k, trim_space v)) (split2 (CHR ''='') line))"

text \<open>\<open>CheckExtensionEnvFormat\<close> collects a map.\<close>

fun env_vars :: "(string \<rightharpoonup> string) \<Rightarrow> string list \<Rightarrow> (string \<rightharpoonup> string)" where
  "env_vars vars [] = vars"
| "env_vars vars (l # ls) =
     (case env_line l of
        None \<Rightarrow> env_vars vars ls
      | Some (k, v) \<Rightarrow> env_vars (vars(k \<mapsto> v)) ls)"

text \<open>\<open>parseExtensionEnv\<close> keeps two variables and switches on the key.\<close>

fun parse_env_lines :: "string \<times> string \<Rightarrow> string list \<Rightarrow> string \<times> string" where
  "parse_env_lines (ext, sender) [] = (ext, sender)"
| "parse_env_lines (ext, sender) (l # ls) =
     (case env_line l of
        None \<Rightarrow> parse_env_lines (ext, sender) ls
      | Some (k, v) \<Rightarrow>
          parse_env_lines
            (if k = ''EXTENSION_ID'' then (v, sender)
             else if k = ''INSTRUCTION_SENDER'' then (ext, v)
             else (ext, sender)) ls)"

definition parse_extension_env :: "'key machine \<Rightarrow> string \<Rightarrow> string \<times> string \<times> go_error option" where
  \<comment> \<open>(extension id, instruction sender, error); a file that cannot be opened gives
      empty strings and no error\<close>
  "parse_extension_env m path =
     (case open_file m path of
        None \<Rightarrow> ([], [], None)
      | Some content \<Rightarrow>
          (let (ext, sender) = parse_env_lines ([], []) (scan_lines content) in (ext, sender, None)))"

definition address_regex :: "string \<Rightarrow> bool" where
  "address_regex s = matches_0x_hex 40 s"

definition extension_id_regex :: "string \<Rightarrow> bool" where
  "extension_id_regex s = matches_0x_hex 64 s"

definition prebuild_fix :: string where
  "prebuild_fix = ''Delete config/extension.env and re-run scripts/pre-build.sh''"

text \<open>One of the two entries of the file, as \<open>CheckExtensionEnvFormat\<close> reports it.\<close>

definition env_entry_result ::
    "'key machine \<Rightarrow> (string \<Rightarrow> bool) \<Rightarrow> (string \<rightharpoonup> string) \<Rightarrow> string \<Rightarrow> check_result" where
  "env_entry_result m rx vars name =
     (case vars name of
        None \<Rightarrow>
          mk_result ''deploy'' ''D7'' (name @ '' in extension.env'') FAIL
            (name @ '' not found in extension.env'') prebuild_fix
      | Some v \<Rightarrow>
          if \<not> rx v then
            mk_result ''deploy'' ''D7'' (name @ '' in extension.env'') FAIL
              (name @ '' has invalid format: '' @ go_quote (is_print m) v) prebuild_fix
          else mk_result ''deploy'' ''D7'' (name @ '' in extension.env'') PASS v [])"

definition check_extension_env_format :: "'key machine \<Rightarrow> string \<Rightarrow> check_result list" where
  "check_extension_env_format m path =
     (case open_file m path of
        None \<Rightarrow>
          [mk_result ''deploy'' ''D7'' ''extension.env exists'' SKIP (''file not found: '' @ path) []]
      | Some content \<Rightarrow>
          (let vars = env_vars Map.empty (scan_lines content) in
           [env_entry_result m address_regex vars ''INSTRUCTION_SENDER'',
            env_entry_result m extension_id_regex vars ''EXTENSION_ID'']))"

text \<open>The two readers agree: the pair holds what the map holds, absent as empty.\<close>

lemma parse_env_lines_vars:
  "parse_env_lines (e, s) ls =
     ((case env_vars Map.empty ls ''EXTENSION_ID'' of None \<Rightarrow> e | Some v \<Rightarrow> v),
      (case env_vars Map.empty ls ''INSTRUCTION_SENDER'' of None \<Rightarrow> s | Some v \<Rightarrow> v))"
proof -
  have gen: "parse_env_lines
      (case vars ''EXTENSION_ID'' of None \<Rightarrow> e | Some v \<Rightarrow> v,
       case vars ''INSTRUCTION_SENDER'' of None \<Rightarrow> s | Some v \<Rightarrow> v) ls =
     ((case env_vars vars ls ''EXTENSION_ID'' of None \<Rightarrow> e | Some v \<Rightarrow> v),
      (case env_vars vars ls ''INSTRUCTION_SENDER'' of None \<Rightarrow> s | Some v \<Rightarrow> v))"
    for vars :: "string \<rightharpoonup> string"
  proof (induction ls arbitrary: vars)
    case (Cons l ls)
    show ?case
    proof (cases "env_line l")
      case None
      then show ?thesis using Cons.IH[of vars] by simp
    next
      case (Some kv)
      then obtain k v where kv: "env_line l = Some (k, v)" by (cases kv) auto
      let ?w = "vars(k \<mapsto> v)"
      have "(if k = ''EXTENSION_ID'' then (v, case vars ''INSTRUCTION_SENDER'' of None \<Rightarrow> s | Some v \<Rightarrow> v)
             else if k = ''INSTRUCTION_SENDER'' then (case vars ''EXTENSION_ID'' of None \<Rightarrow> e | Some v \<Rightarrow> v, v)
             else (case vars ''EXTENSION_ID'' of None \<Rightarrow> e | Some v \<Rightarrow> v,
                   case vars ''INSTRUCTION_SENDER'' of None \<Rightarrow> s | Some v \<Rightarrow> v))
          = (case ?w ''EXTENSION_ID'' of None \<Rightarrow> e | Some v \<Rightarrow> v,
             case ?w ''INSTRUCTION_SENDER'' of None \<Rightarrow> s | Some v \<Rightarrow> v)"
        by auto
      with kv show ?thesis using Cons.IH[of ?w]
        by (simp only: parse_env_lines.simps env_vars.simps option.case prod.case)
    qed
  qed simp
  from gen[of Map.empty] show ?thesis by simp
qed

lemma parse_extension_env_file:
  "open_file m path = Some content \<Longrightarrow>
   parse_extension_env m path =
     (case env_vars Map.empty (scan_lines content) ''EXTENSION_ID'' of None \<Rightarrow> [] | Some v \<Rightarrow> v,
      case env_vars Map.empty (scan_lines content) ''INSTRUCTION_SENDER'' of None \<Rightarrow> [] | Some v \<Rightarrow> v,
      None)"
  by (simp add: parse_extension_env_def parse_env_lines_vars)

lemma parse_extension_env_no_error [simp]:
  "parse_extension_env m path = (a, b, e) \<Longrightarrow> e = None"
  "snd (snd (parse_extension_env m path)) = None"
  by (auto simp: parse_extension_env_def split: option.splits prod.splits)

lemma env_vars_append: "env_vars vars (xs @ ys) = env_vars (env_vars vars xs) ys"
  by (induction xs arbitrary: vars) (auto split: option.splits)

end
