(* ===== verification/DeployChecks.thy ===== *)
theory DeployChecks
  imports Validate
begin

text \<open>
  The checks of \<open>tee/tools/pkg/validate/checks.go\<close> that talk to the chain:
  \<open>RegisterDeployChecks\<close> (D1, D3, D5, D6, D7) and \<open>RegisterRegistrationChecks\<close>
  (R1 to R4, R7). Each check is a function that gives its result; a registrar is the
  report transformer that adds them in the code's order, with its early returns.
  The contract of a registrar (it only appends, under its own step, and gives a
  fix hint on failures and warnings only) is the locale \<open>registrar\<close>.
\<close>

subsection \<open>The contract of a registrar\<close>

locale appender =
  fixes run :: "report \<Rightarrow> report"
  assumes run_appends: "results (run r) = results r @ results (run empty_report)"
begin

lemma keeps_results: "x \<in> set (results r) \<Longrightarrow> x \<in> set (results (run r))"
  by (simp add: run_appends[of r])

lemma has_failures_run:
  "has_failures (run r) \<longleftrightarrow> has_failures r \<or> has_failures (run empty_report)"
  by (simp add: has_failures_def run_appends[of r])

end

locale registrar = appender +
  fixes label :: string
  assumes step_label_run: "x \<in> set (results (run empty_report)) \<Longrightarrow> step x = label"
    and hint_law:
      "x \<in> set (results (run empty_report)) \<Longrightarrow> fixhint x \<noteq> [] \<Longrightarrow>
       status x = FAIL \<or> status x = WARN"
begin

lemma step_results_run:
  "step_results (run r) l =
     step_results r l @ (if l = label then results (run empty_report) else [])"
proof -
  have "filter (\<lambda>x. step x = l) (results (run empty_report)) =
      (if l = label then results (run empty_report) else [])"
    using step_label_run by (auto simp: filter_empty_conv intro: filter_True)
  then show ?thesis by (simp add: step_results_def run_appends[of r])
qed

end

text \<open>Two registrars in a row are a report transformer of the same kind.\<close>

lemma appender_comp:
  assumes "appender f" and "appender g"
  shows "appender (\<lambda>r. g (f r))"
proof
  fix r
  have "results (g (f r)) = results (f r) @ results (g empty_report)"
    using appender.run_appends[OF assms(2)] .
  moreover have "results (f r) = results r @ results (f empty_report)"
    using appender.run_appends[OF assms(1)] .
  moreover have "results (g (f empty_report)) = results (f empty_report) @ results (g empty_report)"
    using appender.run_appends[OF assms(2)] .
  ultimately show "results (g (f r)) = results r @ results (g (f empty_report))" by simp
qed

definition add_opt :: "report \<Rightarrow> check_result option \<Rightarrow> report" where
  \<comment> \<open>a check under an \<open>if\<close>: added when its condition holds\<close>
  "add_opt r x = (case x of None \<Rightarrow> r | Some x \<Rightarrow> add r x)"

lemma results_add_opt [simp, report_simps]:
  "results (add_opt r x) = results r @ (case x of None \<Rightarrow> [] | Some x \<Rightarrow> [x])"
  by (simp add: add_opt_def split: option.splits)

subsection \<open>Step 1: deployment\<close>

definition check_d3 :: "'key machine \<Rightarrow> string \<Rightarrow> address \<Rightarrow> check_result" where
  "check_d3 m label addr =
     (case address_not_zero m addr label of
        Some e \<Rightarrow>
          mk_result ''deploy'' ''D3'' (label @ '' address not zero'') FAIL (err_msg e)
            ''Re-run the deploy script or check deployed-addresses.json''
      | None \<Rightarrow>
          mk_result ''deploy'' ''D3'' (label @ '' address not zero'') PASS (addr_hex m addr) [])"

definition check_d1 ::
    "'key machine \<Rightarrow> chain_client option \<Rightarrow> string \<Rightarrow> address \<Rightarrow> check_result" where
  "check_d1 m client label addr =
     (case address_has_code m client addr label of
        Some e \<Rightarrow>
          mk_result ''deploy'' ''D1'' (label @ '' has deployed code'') FAIL (err_msg e)
            ''Deploy contracts or check CHAIN_URL / deployed-addresses.json''
      | None \<Rightarrow>
          mk_result ''deploy'' ''D1'' (label @ '' has deployed code'') PASS
            (''code found at '' @ addr_hex m addr) [])"

text \<open>The two loops over the Go map \<open>addresses\<close>; the lists are the orders in which the
  runtime happens to iterate, \<open>zero\<close> is the map \<open>zeroAddrs\<close>.\<close>

fun d3_loop ::
    "'key machine \<Rightarrow> report \<Rightarrow> (string \<Rightarrow> bool) \<Rightarrow> (string \<times> address) list
      \<Rightarrow> report \<times> (string \<Rightarrow> bool)" where
  "d3_loop m r zero [] = (r, zero)"
| "d3_loop m r zero ((label, addr) # rest) =
     d3_loop m (add r (check_d3 m label addr))
       (if address_not_zero m addr label \<noteq> None then zero(label := True) else zero) rest"

fun d1_loop ::
    "'key machine \<Rightarrow> chain_client option \<Rightarrow> (string \<Rightarrow> bool) \<Rightarrow> report
      \<Rightarrow> (string \<times> address) list \<Rightarrow> report" where
  "d1_loop m client zero r [] = r"
| "d1_loop m client zero r ((label, addr) # rest) =
     (if zero label then d1_loop m client zero r rest
      else d1_loop m client zero (add r (check_d1 m client label addr)) rest)"

definition check_deployer_key_source :: "env \<Rightarrow> check_result" where
  "check_deployer_key_source e =
     (if e ''DEPLOYMENT_PRIVATE_KEY'' \<noteq> [] then
        mk_result ''deploy'' ''D5'' ''deployer key source'' PASS
          ''DEPLOYMENT_PRIVATE_KEY is set'' []
      else (let local_mode = e ''LOCAL_MODE'' in
        if local_mode = ''true'' \<or> local_mode = [] then
          mk_result ''deploy'' ''D5'' ''deployer key source'' PASS
            ''using Hardhat dev key (LOCAL_MODE)'' []
        else
          mk_result ''deploy'' ''D5'' ''deployer key source'' WARN
            (''DEPLOYMENT_PRIVATE_KEY not set '' @ em_dash
             @ '' using Hardhat dev key which has no funds on Coston2'')
            ''Set DEPLOYMENT_PRIVATE_KEY in .env to a funded account on the target network''))"

definition check_deployer_funds ::
    "'key machine \<Rightarrow> chain_client option \<Rightarrow> 'key option \<Rightarrow> check_result option" where
  "check_deployer_funds m client key =
     (case (key, client) of
        (Some k, Some c) \<Rightarrow>
          Some (case key_has_funds m client k min_deploy_balance of
            Some e \<Rightarrow>
              mk_result ''deploy'' ''D5'' ''deployer has sufficient funds'' FAIL (err_msg e)
                ''Fund the deployer account before deploying''
          | None \<Rightarrow>
              mk_result ''deploy'' ''D5'' ''deployer has sufficient funds'' PASS
                ''balance above minimum threshold'' [])
      | _ \<Rightarrow> None)"

definition chain_name :: "int \<Rightarrow> string" where
  "chain_name i =
     (let s = dec_int i in
      if s = ''31337'' then ''Hardhat/Anvil (local devnet)''
      else if s = ''114'' then ''Coston2 (testnet)''
      else if s = ''14'' then ''Flare (mainnet)''
      else ''unknown network'')"

definition check_chain_id :: "chain_client \<Rightarrow> check_result" where
  "check_chain_id c =
     (case client_chain_id c of
        Inl e \<Rightarrow>
          mk_result ''deploy'' ''D6'' ''chain ID'' FAIL
            (''failed to get chain ID: '' @ err_msg e) ''Check CHAIN_URL''
      | Inr i \<Rightarrow>
          mk_result ''deploy'' ''D6'' ''chain ID'' PASS
            (''chain ID '' @ dec_int i @ '' ('' @ chain_name i @ '')'') [])"

definition register_deploy_checks ::
    "'key machine \<Rightarrow> report \<Rightarrow> chain_client option \<Rightarrow> 'key option
      \<Rightarrow> (string \<times> address) list \<Rightarrow> (string \<times> address) list \<Rightarrow> string \<Rightarrow> report" where
  "register_deploy_checks m r client key addrs addrs' path =
     (let (r1, zero) = d3_loop m r (\<lambda>_. False) addrs;
          r2 = d1_loop m client zero r1 addrs';
          r3 = add r2 (check_deployer_key_source (getenv m));
          r4 = add_opt r3 (check_deployer_funds m client key);
          r5 = (case client of None \<Rightarrow> r4 | Some c \<Rightarrow> add r4 (check_chain_id c))
      in if path \<noteq> [] then add_all r5 (check_extension_env_format m path) else r5)"

lemma d3_loop_eq:
  "d3_loop m r zero addrs =
     (add_all r (map (\<lambda>(l, a). check_d3 m l a) addrs),
      \<lambda>l. zero l \<or> (l, 0) \<in> set addrs)"
proof (induction addrs arbitrary: r zero)
  case Nil
  then show ?case by (simp add: add_all_def)
next
  case (Cons la addrs)
  obtain l a where la: "la = (l, a)" by force
  have z: "address_not_zero m a l \<noteq> None \<longleftrightarrow> a = 0" by (simp add: address_not_zero_def)
  have "(\<lambda>l'. (if a = 0 then zero(l := True) else zero) l' \<or> (l', 0) \<in> set addrs)
      = (\<lambda>l'. zero l' \<or> (l', 0) \<in> set (la # addrs))"
    unfolding la by (rule ext) auto
  then show ?case
    unfolding la d3_loop.simps z Cons.IH by (simp only: add_all_def list.map foldl_Cons prod.case)
qed

lemma d1_loop_eq:
  "d1_loop m client zero r addrs =
     add_all r (map (\<lambda>(l, a). check_d1 m client l a) (filter (\<lambda>(l, a). \<not> zero l) addrs))"
  by (induction m client zero r addrs rule: d1_loop.induct) (auto simp: add_all_def)

text \<open>What \<open>RegisterDeployChecks\<close> appends, as one list.\<close>

lemma results_deploy:
  "results (register_deploy_checks m r client key addrs addrs' path) =
     results r @ map (\<lambda>(l, a). check_d3 m l a) addrs
     @ map (\<lambda>(l, a). check_d1 m client l a) (filter (\<lambda>(l, a). (l, 0) \<notin> set addrs) addrs')
     @ check_deployer_key_source (getenv m)
     # (case check_deployer_funds m client key of None \<Rightarrow> [] | Some x \<Rightarrow> [x])
     @ (case client of None \<Rightarrow> [] | Some c \<Rightarrow> [check_chain_id c])
     @ (if path \<noteq> [] then check_extension_env_format m path else [])"
  by (simp add: register_deploy_checks_def d3_loop_eq d1_loop_eq Let_def split: option.splits)

text \<open>Every single deploy check is well formed: its step, and hints on FAIL and WARN only.\<close>

definition check_ok :: "string \<Rightarrow> check_result \<Rightarrow> bool" where
  "check_ok l x = (step x = l \<and> (fixhint x \<noteq> [] \<longrightarrow> status x = FAIL \<or> status x = WARN))"

lemma check_ok_mk [simp]:
  "check_ok l (mk_result st i n s m f) \<longleftrightarrow> st = l \<and> (f \<noteq> [] \<longrightarrow> s = FAIL \<or> s = WARN)"
  by (simp add: check_ok_def)

lemma registrarI:
  assumes "\<And>r. results (f r) = results r @ results (f empty_report)"
    and "\<And>x. x \<in> set (results (f empty_report)) \<Longrightarrow> check_ok l x"
  shows "registrar f l"
proof
  show "results (f r) = results r @ results (f empty_report)" for r by (rule assms(1))
qed (use assms(2) in \<open>auto simp: check_ok_def\<close>)

lemma check_ok_deploy:
  "check_ok ''deploy'' (check_d3 m l a)"
  "check_ok ''deploy'' (check_d1 m client l a)"
  "check_ok ''deploy'' (check_deployer_key_source e)"
  "check_deployer_funds m client key = Some x \<Longrightarrow> check_ok ''deploy'' x"
  "check_ok ''deploy'' (check_chain_id c)"
  "x \<in> set (check_extension_env_format m path) \<Longrightarrow> check_ok ''deploy'' x"
       apply (simp add: check_d3_def split: option.splits)
      apply (simp add: check_d1_def split: option.splits)
     apply (simp add: check_deployer_key_source_def Let_def)
    apply (auto simp: check_deployer_funds_def split: option.splits)[1]
   apply (simp add: check_chain_id_def split: sum.splits)
  apply (auto simp: check_extension_env_format_def env_entry_result_def Let_def
      split: option.splits if_splits)
  done

interpretation deploy: registrar
  "\<lambda>r. register_deploy_checks m r client key addrs addrs' path" "''deploy''"
  for m :: "'key machine" and client key addrs addrs' path
  by (rule registrarI)
     (auto simp: results_deploy check_ok_deploy split: option.splits if_splits)

end
