(* ===== verification/RegistrationChecks.thy ===== *)
theory RegistrationChecks
  imports DeployChecks
begin

text \<open>
  \<open>RegisterRegistrationChecks\<close> of \<open>tee/tools/pkg/validate/checks.go\<close>: the checks R1
  to R7 on the extension's registration. A nil pointer of the code (client, key,
  registry, allowlist) is \<open>None\<close>.
\<close>

text \<open>\<open>new(big.Int).SetString(s, 16)\<close>; the caller has matched \<open>s\<close> against the
  extension-id expression, so every character is a hex digit.\<close>

fun hex_num :: "nat \<Rightarrow> string \<Rightarrow> nat" where
  "hex_num acc [] = acc"
| "hex_num acc (c # cs) =
     hex_num (acc * 16 + (case hex_val c of None \<Rightarrow> 0 | Some d \<Rightarrow> d)) cs"

text \<open>\<open>big.Int.Int64\<close>: the low 64 bits, read as a signed number.\<close>

definition big_int64 :: "int \<Rightarrow> int" where
  "big_int64 v = sint (word_of_int v :: u64)"

definition r1_counter :: "extension_registry option \<Rightarrow> chain_client option \<Rightarrow> int option" where
  \<comment> \<open>the variable \<open>counter\<close>: nil unless the query was made and succeeded\<close>
  "r1_counter registry client =
     (case (registry, client) of
        (Some g, Some c) \<Rightarrow> (case next_public_extension_id g of Inl e \<Rightarrow> None | Inr n \<Rightarrow> Some n)
      | _ \<Rightarrow> None)"

definition check_r1 ::
    "extension_registry option \<Rightarrow> chain_client option \<Rightarrow> check_result option" where
  "check_r1 registry client =
     (case (registry, client) of
        (Some g, Some c) \<Rightarrow>
          Some (case next_public_extension_id g of
            Inl e \<Rightarrow>
              mk_result ''register'' ''R1'' ''next public extension id'' FAIL
                (''failed to query nextPublicExtensionId: '' @ err_msg e) []
          | Inr n \<Rightarrow>
              if n = 0 then
                mk_result ''register'' ''R1'' ''next public extension id'' WARN
                  (''nextPublicExtensionId is 0 '' @ em_dash @ '' no public extensions registered yet'') []
              else
                mk_result ''register'' ''R1'' ''next public extension id'' PASS
                  (''nextPublicExtensionId = '' @ dec_int n) [])
      | _ \<Rightarrow> None)"

definition check_r2 ::
    "'key machine \<Rightarrow> extension_registry option \<Rightarrow> chain_client option \<Rightarrow> int \<Rightarrow> string
      \<Rightarrow> check_result option" where
  "check_r2 m registry client extension_id sender =
     (case (registry, client) of
        (Some g, Some c) \<Rightarrow>
          if address_regex sender then
            Some (case instructions_sender g extension_id of
              Inl e \<Rightarrow>
                mk_result ''register'' ''R2'' ''instruction sender matches on-chain'' FAIL
                  (''failed to query instruction sender: '' @ err_msg e) []
            | Inr on_chain \<Rightarrow>
                if on_chain = hex_to_address m sender then
                  mk_result ''register'' ''R2'' ''instruction sender matches on-chain'' PASS
                    (''on-chain sender '' @ addr_hex m on_chain @ '' matches extension.env'') []
                else
                  mk_result ''register'' ''R2'' ''instruction sender matches on-chain'' FAIL
                    (''on-chain sender '' @ addr_hex m on_chain @ '' != extension.env '' @ sender)
                    ''Re-register the extension or update extension.env'')
          else None
      | _ \<Rightarrow> None)"

definition check_r3 ::
    "'key machine \<Rightarrow> owner_allowlist option \<Rightarrow> chain_client option \<Rightarrow> 'key option \<Rightarrow> int
      \<Rightarrow> check_result option" where
  "check_r3 m allowlist client key extension_id =
     (case (key, allowlist, client) of
        (Some k, Some l, Some c) \<Rightarrow>
          Some (case allowed_machine_owner l extension_id (key_address m k) of
            Inl e \<Rightarrow>
              mk_result ''register'' ''R3'' ''deployer is allowed TEE machine owner'' FAIL
                (''failed to query allowlist: '' @ err_msg e) []
          | Inr allowed \<Rightarrow>
              if allowed then
                mk_result ''register'' ''R3'' ''deployer is allowed TEE machine owner'' PASS
                  ''deployer is on the TEE machine owner allowlist'' []
              else
                mk_result ''register'' ''R3'' ''deployer is allowed TEE machine owner'' FAIL
                  ''deployer is NOT on the TEE machine owner allowlist''
                  ''Run the register step to add the deployer as a TEE machine owner'')
      | _ \<Rightarrow> None)"

definition check_r4 ::
    "'key machine \<Rightarrow> extension_registry option \<Rightarrow> chain_client option \<Rightarrow> int
      \<Rightarrow> check_result option" where
  "check_r4 m registry client extension_id =
     (case (registry, client) of
        (Some g, Some c) \<Rightarrow>
          Some (case key_type_supported g extension_id (evm_type m) of
            Inl e \<Rightarrow>
              mk_result ''register'' ''R4'' ''EVM key type supported'' FAIL
                (''failed to query key type support: '' @ err_msg e) []
          | Inr supported \<Rightarrow>
              if supported then
                mk_result ''register'' ''R4'' ''EVM key type supported'' PASS
                  ''EVM key type is supported for this extension'' []
              else
                mk_result ''register'' ''R4'' ''EVM key type supported'' FAIL
                  ''EVM key type is NOT supported for this extension''
                  ''Run the register step to add EVM key type support'')
      | _ \<Rightarrow> None)"

text \<open>The loop of R7 over all public extensions; a failed query is skipped.\<close>

definition matching_ids :: "extension_registry \<Rightarrow> int \<Rightarrow> address \<Rightarrow> string list" where
  "matching_ids g counter expected =
     concat (map (\<lambda>i. case instructions_sender g (int i) of
         Inl e \<Rightarrow> []
       | Inr s \<Rightarrow> if s = expected then [dec_int (int i)] else [])
       [0..<nat (big_int64 counter)])"

definition check_r7 ::
    "'key machine \<Rightarrow> extension_registry option \<Rightarrow> chain_client option \<Rightarrow> int option \<Rightarrow> string
      \<Rightarrow> check_result option" where
  "check_r7 m registry client counter sender =
     (case (counter, registry, client) of
        (Some n, Some g, Some c) \<Rightarrow>
          if 0 < n \<and> address_regex sender then
            (let ids = matching_ids g n (hex_to_address m sender) in
             Some (if 1 < length ids then
               mk_result ''register'' ''R7'' ''unique instruction sender'' WARN
                 (''INSTRUCTION_SENDER '' @ sender @ '' is used by multiple extensions: ''
                  @ join '', '' ids) []
             else
               mk_result ''register'' ''R7'' ''unique instruction sender'' PASS
                 ''instruction sender is unique across registered extensions'' []))
          else None
      | _ \<Rightarrow> None)"

definition register_registration_checks ::
    "'key machine \<Rightarrow> report \<Rightarrow> chain_client option \<Rightarrow> 'key option \<Rightarrow> extension_registry option
      \<Rightarrow> owner_allowlist option \<Rightarrow> string \<Rightarrow> report" where
  "register_registration_checks m r client key registry allowlist path =
     (if path = [] then
        add r (mk_result ''register'' ''R1-R7'' ''registration checks'' SKIP
          ''no --config path provided'' [])
      else
        (let (ext, sender, err) = parse_extension_env m path in
         case err of
           Some e \<Rightarrow>
             add r (mk_result ''register'' ''R1-R7'' ''registration checks'' FAIL
               (''failed to parse extension.env: '' @ err_msg e) [])
         | None \<Rightarrow>
             if ext = [] \<and> sender = [] then
               add r (mk_result ''register'' ''R1-R7'' ''registration checks'' SKIP
                 (''config/extension.env not found '' @ em_dash @ '' run pre-build.sh first'') [])
             else
               (let r1 = add_opt r (check_r1 registry client);
                    counter = r1_counter registry client
                in if \<not> extension_id_regex ext then
                     add r1 (mk_result ''register'' ''R2'' ''EXTENSION_ID format'' FAIL
                       (''malformed EXTENSION_ID: '' @ go_quote (is_print m) ext) prebuild_fix)
                   else
                     (let extension_id = int (hex_num 0 (drop 2 ext));
                          r2 = add_opt r1 (check_r2 m registry client extension_id sender);
                          r3 = add_opt r2 (check_r3 m allowlist client key extension_id);
                          r4 = add_opt r3 (check_r4 m registry client extension_id)
                      in add_opt r4 (check_r7 m registry client counter sender)))))"

lemma check_ok_registration:
  "check_r1 registry client = Some x \<Longrightarrow> check_ok ''register'' x"
  "check_r2 m registry client i s = Some x \<Longrightarrow> check_ok ''register'' x"
  "check_r3 m allowlist client key i = Some x \<Longrightarrow> check_ok ''register'' x"
  "check_r4 m registry client i = Some x \<Longrightarrow> check_ok ''register'' x"
  "check_r7 m registry client n s = Some x \<Longrightarrow> check_ok ''register'' x"
      apply (auto simp: check_r1_def split: option.splits sum.splits)[1]
     apply (auto simp: check_r2_def split: option.splits sum.splits if_splits)[1]
    apply (auto simp: check_r3_def split: option.splits sum.splits)[1]
   apply (auto simp: check_r4_def split: option.splits sum.splits)[1]
  apply (auto simp: check_r7_def Let_def split: option.splits if_splits)[1]
  done

text \<open>
  The list of results \<open>RegisterRegistrationChecks\<close> appends. The reader of the env
  file never reports an error, so the branch for it is dead.
\<close>

definition registration_results ::
    "'key machine \<Rightarrow> chain_client option \<Rightarrow> 'key option \<Rightarrow> extension_registry option
      \<Rightarrow> owner_allowlist option \<Rightarrow> string \<Rightarrow> check_result list" where
  "registration_results m client key registry allowlist path =
     (let ext = fst (parse_extension_env m path); sender = fst (snd (parse_extension_env m path));
          i = int (hex_num 0 (drop 2 ext)) in
      if path = [] then
        [mk_result ''register'' ''R1-R7'' ''registration checks'' SKIP ''no --config path provided'' []]
      else if ext = [] \<and> sender = [] then
        [mk_result ''register'' ''R1-R7'' ''registration checks'' SKIP
           (''config/extension.env not found '' @ em_dash @ '' run pre-build.sh first'') []]
      else List.map_filter id [check_r1 registry client]
        @ (if \<not> extension_id_regex ext then
             [mk_result ''register'' ''R2'' ''EXTENSION_ID format'' FAIL
                (''malformed EXTENSION_ID: '' @ go_quote (is_print m) ext) prebuild_fix]
           else List.map_filter id
             [check_r2 m registry client i sender, check_r3 m allowlist client key i,
              check_r4 m registry client i,
              check_r7 m registry client (r1_counter registry client) sender]))"

lemma results_registration:
  "results (register_registration_checks m r client key registry allowlist path) =
     results r @ registration_results m client key registry allowlist path"
proof -
  obtain ext sender err where p: "parse_extension_env m path = (ext, sender, err)"
    by (metis prod.exhaust)
  then have "err = None" by simp
  with p show ?thesis
    by (simp add: register_registration_checks_def registration_results_def Let_def
        List.map_filter_def split: option.splits)
qed

lemma registration_results_ok:
  "x \<in> set (registration_results m client key registry allowlist path) \<Longrightarrow> check_ok ''register'' x"
  by (auto simp: registration_results_def Let_def List.map_filter_def check_ok_registration
      split: if_splits option.splits)

interpretation registration: registrar
  "\<lambda>r. register_registration_checks m r client key registry allowlist path" "''register''"
  for m :: "'key machine" and client key registry allowlist path
  by (rule registrarI) (simp_all add: results_registration registration_results_ok)

lemma set_matching_ids:
  "s \<in> set (matching_ids g n a) \<longleftrightarrow>
     (\<exists>i. i < nat (big_int64 n) \<and> s = dec_int (int i) \<and> instructions_sender g (int i) = Inr a)"
  by (auto simp: matching_ids_def split: sum.splits)

lemma big_int64_small: "0 \<le> n \<Longrightarrow> n < 2 ^ 63 \<Longrightarrow> big_int64 n = n"
  by (simp add: big_int64_def sint_sbintrunc' signed_take_bit_int_eq_self)

end
