(* ===== verification/ServiceChecks.thy ===== *)
theory ServiceChecks
  imports RegistrationChecks
begin

text \<open>
  The checks of \<open>tee/tools/pkg/validate/checks.go\<close> that need no chain:
  \<open>RegisterServicesChecks\<close> (S2 to S10), \<open>RegisterTeeVersionChecks\<close> (V2, V4, V6),
  \<open>RegisterTeeMachineChecks\<close> (T1, T5, T10), \<open>RegisterTestChecks\<close> (E1, E3, E6) and
  \<open>RegisterStubChecks\<close>. They read environment variables, the env file, a local port
  and HTTP endpoints.
\<close>

text \<open>\<open>httpClient.Get(url + "/info")\<close> succeeded with status 200.\<close>

definition info_ok :: "'key machine \<Rightarrow> string \<Rightarrow> bool" where
  "info_ok m url = (http_get m (url @ ''/info'') = Some 200)"

subsection \<open>Services\<close>

definition check_s2 :: "'key machine \<Rightarrow> string \<Rightarrow> check_result" where
  "check_s2 m path =
     (let name = ''EXTENSION_ID is set and well-formed'' in
      if path = [] then mk_result ''services'' ''S2'' name SKIP ''run pre-build.sh first'' []
      else (let ext = fst (parse_extension_env m path) in
        if ext = [] then
          mk_result ''services'' ''S2'' name FAIL
            ''EXTENSION_ID is empty or not found in extension.env'' prebuild_fix
        else if \<not> extension_id_regex ext then
          mk_result ''services'' ''S2'' name FAIL
            (''EXTENSION_ID has invalid format: '' @ go_quote (is_print m) ext) prebuild_fix
        else mk_result ''services'' ''S2'' name PASS ext []))"

definition check_s5 :: "'key machine \<Rightarrow> check_result" where
  "check_s5 m =
     (let p = getenv m ''EXTENSION_PORT''; port = (if p = [] then ''7702'' else p) in
      if dial_tcp m (''localhost:'' @ port) then
        mk_result ''services'' ''S5'' ''extension port not in use'' WARN
          (''port '' @ port @ '' is already in use '' @ em_dash @ '' extension server will fail to bind'')
          ''Stop the process using that port or change EXTENSION_PORT''
      else mk_result ''services'' ''S5'' ''extension port not in use'' PASS ''port available'' [])"

definition check_s7 :: "env \<Rightarrow> check_result" where
  "check_s7 e =
     (let ext_port = e ''EXTENSION_PORT''; sign_port = e ''SIGN_PORT'' in
      if ext_port \<noteq> [] \<or> sign_port \<noteq> [] then
        mk_result ''services'' ''S7'' ''port configuration'' PASS
          (''EXTENSION_PORT='' @ ext_port @ '', SIGN_PORT='' @ sign_port) []
      else
        mk_result ''services'' ''S7'' ''port configuration'' PASS
          ''using defaults (standalone: 8080/9090, Docker: 7702/7701)'' [])"

definition check_s9 :: "'key machine \<Rightarrow> check_result" where
  "check_s9 m =
     (let url = getenv m ''EXT_PROXY_URL'' in
      if url = [] then
        mk_result ''services'' ''S9'' ''EXT_PROXY_URL reachable'' SKIP ''EXT_PROXY_URL not set'' []
      else if info_ok m url then
        mk_result ''services'' ''S9'' ''EXT_PROXY_URL reachable'' PASS
          (''proxy reachable at '' @ url) []
      else
        mk_result ''services'' ''S9'' ''EXT_PROXY_URL reachable'' WARN
          (''proxy not reachable at '' @ url @ '' '' @ em_dash @ '' is the proxy running?'')
          ''Start the proxy or check EXT_PROXY_URL'')"

definition check_s10 :: "env \<Rightarrow> check_result" where
  "check_s10 e =
     (let local_mode = e ''LOCAL_MODE''; private_key = e ''PROXY_PRIVATE_KEY'' in
      if local_mode = ''true'' \<or> local_mode = [] then
        mk_result ''services'' ''S10'' ''PROXY_PRIVATE_KEY set on non-local'' PASS
          ''local mode, dev key OK'' []
      else if local_mode = ''false'' \<and> private_key = [] then
        mk_result ''services'' ''S10'' ''PROXY_PRIVATE_KEY set on non-local'' WARN
          (''PROXY_PRIVATE_KEY not set in non-local mode '' @ em_dash
           @ '' proxy will use default key'')
          ''Set PROXY_PRIVATE_KEY in .env for non-local deployments''
      else
        mk_result ''services'' ''S10'' ''PROXY_PRIVATE_KEY set on non-local'' PASS
          ''PROXY_PRIVATE_KEY is configured'' [])"

definition register_services_checks :: "'key machine \<Rightarrow> report \<Rightarrow> string \<Rightarrow> report" where
  "register_services_checks m r path =
     (let r1 = add r (check_s2 m path);
          r2 = add r1 (check_s5 m);
          r3 = add r2 (check_s7 (getenv m));
          r4 = add r3 (check_s9 m)
      in add r4 (check_s10 (getenv m)))"

subsection \<open>TEE version\<close>

definition check_v2 :: "env \<Rightarrow> check_result" where
  "check_v2 e =
     (let ext_owner_key = e ''EXTENSION_OWNER_KEY''; priv_key = e ''DEPLOYMENT_PRIVATE_KEY'';
          local_mode = e ''LOCAL_MODE'' in
      if ext_owner_key \<noteq> [] then
        mk_result ''tee-version'' ''V2'' ''extension owner key'' PASS
          ''EXTENSION_OWNER_KEY is configured'' []
      else if priv_key \<noteq> [] then
        mk_result ''tee-version'' ''V2'' ''extension owner key'' PASS
          ''using DEPLOYMENT_PRIVATE_KEY (EXTENSION_OWNER_KEY not set)'' []
      else if local_mode \<noteq> ''true'' \<and> local_mode \<noteq> [] then
        mk_result ''tee-version'' ''V2'' ''extension owner key'' WARN
          (''neither EXTENSION_OWNER_KEY nor DEPLOYMENT_PRIVATE_KEY set '' @ em_dash
           @ '' AddTeeVersion will use dev key which isn'' @ [nat_byte 39]
           @ ''t the extension owner on Coston2'')
          ''Set EXTENSION_OWNER_KEY or DEPLOYMENT_PRIVATE_KEY in .env''
      else
        mk_result ''tee-version'' ''V2'' ''extension owner key'' PASS
          ''using dev key (local mode)'' [])"

definition check_v4 :: "'key machine \<Rightarrow> string \<Rightarrow> check_result" where
  "check_v4 m path =
     (if path = [] then
        mk_result ''tee-version'' ''V4'' ''EXTENSION_ID valid'' SKIP ''no --config provided'' []
      else
        (let (ext, _, err) = parse_extension_env m path in
         case err of
           Some e \<Rightarrow>
             mk_result ''tee-version'' ''V4'' ''EXTENSION_ID valid'' FAIL
               (''failed to parse extension.env: '' @ err_msg e) []
         | None \<Rightarrow>
             if ext = [] then
               (if file_missing m path then
                  mk_result ''tee-version'' ''V4'' ''EXTENSION_ID valid'' SKIP
                    (''extension.env not found '' @ em_dash @ '' run pre-build.sh first'') []
                else
                  mk_result ''tee-version'' ''V4'' ''EXTENSION_ID valid'' FAIL
                    ''EXTENSION_ID not set'' prebuild_fix)
             else if \<not> extension_id_regex ext then
               mk_result ''tee-version'' ''V4'' ''EXTENSION_ID valid'' FAIL
                 ''EXTENSION_ID malformed'' prebuild_fix
             else mk_result ''tee-version'' ''V4'' ''EXTENSION_ID valid'' PASS ext []))"

definition check_v6 :: "'key machine \<Rightarrow> check_result" where
  "check_v6 m =
     (let url = getenv m ''EXT_PROXY_URL'' in
      if url = [] then
        mk_result ''tee-version'' ''V6'' ''proxy reachable'' SKIP
          (''EXT_PROXY_URL not set '' @ em_dash @ '' allow-tee-version uses -p flag'') []
      else if info_ok m url then
        mk_result ''tee-version'' ''V6'' ''proxy reachable'' PASS (''proxy reachable at '' @ url) []
      else
        mk_result ''tee-version'' ''V6'' ''proxy reachable'' WARN
          (''proxy not reachable at '' @ url @ '' '' @ em_dash @ '' start services first'')
          ''Start the proxy or check EXT_PROXY_URL'')"

definition register_tee_version_checks :: "'key machine \<Rightarrow> report \<Rightarrow> string \<Rightarrow> report" where
  "register_tee_version_checks m r path =
     (let r1 = add r (check_v2 (getenv m));
          r2 = add r1 (check_v4 m path)
      in add r2 (check_v6 m))"

subsection \<open>TEE machine\<close>

definition check_t1 :: "env \<Rightarrow> check_result" where
  "check_t1 e =
     (let simulated = e ''SIMULATED_TEE''; local_mode = e ''LOCAL_MODE'' in
      if simulated = ''true'' \<and> local_mode = ''false'' then
        mk_result ''tee-machine'' ''T1'' ''SIMULATED_TEE mode'' WARN
          (''SIMULATED_TEE=true on non-local deployment '' @ em_dash
           @ '' machine will be registered with test attestation values. ''
           @ ''Set SIMULATED_TEE=false for real TEE hardware'')
          ''Set SIMULATED_TEE=false in .env when deploying to a real GCP TEE''
      else if simulated = ''true'' then
        mk_result ''tee-machine'' ''T1'' ''SIMULATED_TEE mode'' PASS ''simulated TEE mode (local)'' []
      else mk_result ''tee-machine'' ''T1'' ''SIMULATED_TEE mode'' PASS ''real attestation mode'' [])"

definition check_t5 :: "'key machine \<Rightarrow> check_result" where
  "check_t5 m =
     (let url = getenv m ''NORMAL_PROXY_URL'' in
      if url = [] then
        mk_result ''tee-machine'' ''T5'' ''NORMAL_PROXY_URL reachable'' SKIP
          ''NORMAL_PROXY_URL not set'' []
      else if info_ok m url then
        mk_result ''tee-machine'' ''T5'' ''NORMAL_PROXY_URL reachable'' PASS
          (''normal proxy reachable at '' @ url) []
      else
        mk_result ''tee-machine'' ''T5'' ''NORMAL_PROXY_URL reachable'' WARN
          (''normal proxy not reachable at '' @ url @ '' '' @ em_dash
           @ '' required for FTDC availability check'')
          ''Ensure the normal/FTDC proxy is running and NORMAL_PROXY_URL is correct in .env'')"

definition check_t10 :: "'key machine \<Rightarrow> check_result" where
  "check_t10 m =
     (let url = getenv m ''EXT_PROXY_URL'' in
      if url = [] then
        mk_result ''tee-machine'' ''T10'' ''host URL reachable'' SKIP ''EXT_PROXY_URL not set'' []
      else if info_ok m url then
        mk_result ''tee-machine'' ''T10'' ''host URL reachable'' PASS
          (''host URL reachable at '' @ url) []
      else
        mk_result ''tee-machine'' ''T10'' ''host URL reachable'' WARN
          (''host URL not reachable at '' @ url @ '' '' @ em_dash
           @ '' machine will be registered with unreachable host. Data providers can''
           @ [nat_byte 39] @ ''t relay instructions'')
          ''Ensure the host is accessible and EXT_PROXY_URL or -h flag points to the right URL'')"

definition register_tee_machine_checks :: "'key machine \<Rightarrow> report \<Rightarrow> string \<Rightarrow> report" where
  "register_tee_machine_checks m r path =
     (let r1 = add r (check_t1 (getenv m));
          r2 = add r1 (check_t5 m)
      in add r2 (check_t10 m))"

subsection \<open>Testing\<close>

definition check_e1 :: "'key machine \<Rightarrow> string \<Rightarrow> check_result" where
  "check_e1 m path =
     (if path = [] then
        mk_result ''test'' ''E1'' ''INSTRUCTION_SENDER valid'' SKIP ''no --config provided'' []
      else
        (let sender = fst (snd (parse_extension_env m path)) in
         if file_missing m path then
           mk_result ''test'' ''E1'' ''INSTRUCTION_SENDER valid'' SKIP
             (''extension.env not found '' @ em_dash @ '' run pre-build.sh first'') []
         else if sender = [] then
           mk_result ''test'' ''E1'' ''INSTRUCTION_SENDER valid'' FAIL
             (''INSTRUCTION_SENDER not set '' @ em_dash @ '' run pre-build.sh'')
             ''Run scripts/pre-build.sh to deploy and register the extension''
         else if \<not> address_regex sender then
           mk_result ''test'' ''E1'' ''INSTRUCTION_SENDER valid'' FAIL
             ''INSTRUCTION_SENDER malformed'' prebuild_fix
         else mk_result ''test'' ''E1'' ''INSTRUCTION_SENDER valid'' PASS sender []))"

definition check_e3 :: "'key machine \<Rightarrow> check_result" where
  "check_e3 m =
     (let url = getenv m ''EXT_PROXY_URL'' in
      if url = [] then
        mk_result ''test'' ''E3'' ''proxy reachable for test results'' SKIP
          ''EXT_PROXY_URL not set'' []
      else if info_ok m url then
        mk_result ''test'' ''E3'' ''proxy reachable for test results'' PASS
          ''proxy reachable for test result polling'' []
      else
        mk_result ''test'' ''E3'' ''proxy reachable for test results'' WARN
          (''proxy not reachable '' @ em_dash @ '' test results cannot be polled'')
          ''Start the proxy or check EXT_PROXY_URL'')"

definition check_e6 :: check_result where
  "check_e6 =
     mk_result ''test'' ''E6'' ''OPType/OPCommand alignment info'' PASS
       (''OPType/OPCommand hashes are validated at runtime '' @ em_dash
        @ '' if a 501 error occurs, check the hash values in the error message'') []"

definition register_test_checks :: "'key machine \<Rightarrow> report \<Rightarrow> string \<Rightarrow> report" where
  "register_test_checks m r path =
     (let r1 = add r (check_e1 m path);
          r2 = add r1 (check_e3 m)
      in add r2 check_e6)"

definition register_stub_checks :: "report \<Rightarrow> string \<Rightarrow> string \<Rightarrow> string \<Rightarrow> report" where
  "register_stub_checks r st id_range name =
     add r (mk_result st id_range name SKIP ''not yet implemented'' [])"

subsection \<open>The registrars' contract\<close>

lemma check_ok_services:
  "check_ok ''services'' (check_s2 m path)" "check_ok ''services'' (check_s5 m)"
  "check_ok ''services'' (check_s7 e)" "check_ok ''services'' (check_s9 m)"
  "check_ok ''services'' (check_s10 e)"
  by (simp_all add: check_s2_def check_s5_def check_s7_def check_s9_def check_s10_def Let_def)

lemma check_ok_tee_version:
  "check_ok ''tee-version'' (check_v2 e)" "check_ok ''tee-version'' (check_v4 m path)"
  "check_ok ''tee-version'' (check_v6 m)"
  by (simp_all add: check_v2_def check_v4_def check_v6_def Let_def split: prod.splits option.splits)

lemma check_ok_tee_machine:
  "check_ok ''tee-machine'' (check_t1 e)" "check_ok ''tee-machine'' (check_t5 m)"
  "check_ok ''tee-machine'' (check_t10 m)"
  by (simp_all add: check_t1_def check_t5_def check_t10_def Let_def)

lemma check_ok_test:
  "check_ok ''test'' (check_e1 m path)" "check_ok ''test'' (check_e3 m)" "check_ok ''test'' check_e6"
  by (simp_all add: check_e1_def check_e3_def check_e6_def Let_def)

lemma results_services:
  "results (register_services_checks m r path) =
     results r @ [check_s2 m path, check_s5 m, check_s7 (getenv m), check_s9 m, check_s10 (getenv m)]"
  by (simp add: register_services_checks_def Let_def)

lemma results_tee_version:
  "results (register_tee_version_checks m r path) =
     results r @ [check_v2 (getenv m), check_v4 m path, check_v6 m]"
  by (simp add: register_tee_version_checks_def Let_def)

lemma results_tee_machine:
  "results (register_tee_machine_checks m r path) =
     results r @ [check_t1 (getenv m), check_t5 m, check_t10 m]"
  by (simp add: register_tee_machine_checks_def Let_def)

lemma results_test:
  "results (register_test_checks m r path) = results r @ [check_e1 m path, check_e3 m, check_e6]"
  by (simp add: register_test_checks_def Let_def)

interpretation services: registrar "\<lambda>r. register_services_checks m r path" "''services''"
  for m :: "'key machine" and path
  by (rule registrarI) (auto simp: results_services check_ok_services)

interpretation tee_version: registrar "\<lambda>r. register_tee_version_checks m r path" "''tee-version''"
  for m :: "'key machine" and path
  by (rule registrarI) (auto simp: results_tee_version check_ok_tee_version)

interpretation tee_machine: registrar "\<lambda>r. register_tee_machine_checks m r path" "''tee-machine''"
  for m :: "'key machine" and path
  by (rule registrarI) (auto simp: results_tee_machine check_ok_tee_machine)

interpretation tests: registrar "\<lambda>r. register_test_checks m r path" "''test''"
  for m :: "'key machine" and path
  by (rule registrarI) (auto simp: results_test check_ok_test)

interpretation stub: registrar "\<lambda>r. register_stub_checks r st i n" st
  for st i n
  by (rule registrarI) (auto simp: register_stub_checks_def)

end
