(* ===== verification/VerifyDeploy.thy ===== *)
theory VerifyDeploy
  imports ServiceChecks
begin

text \<open>
  \<open>tee/tools/cmd/verify-deploy/main.go\<close>: the command that runs the checks of one step
  or of all steps, filters the results by check id, prints the report and sets the
  exit status. What \<open>support.DefaultSupport\<close> connects to is the argument
  \<open>default_support\<close>.
\<close>

record 'key chain_support =
  sup_client :: "chain_client option"
  sup_prv :: "'key option"
  sup_registry :: "extension_registry option"
  sup_allowlist :: "owner_allowlist option"
  sup_flare_tee_manager :: address

record verify_flags =
  addresses_file :: string
  chain_url :: string
  config_path :: string
  vstep :: string
  checks_filter :: string
  json_out :: bool

record outcome =
  stdout :: string
  stderr :: string
  exit_code :: nat

subsection \<open>Filtering by check id\<close>

text \<open>The map \<open>allowed\<close> of the code: the trimmed, non-empty parts of the flag.\<close>

definition allowed_ids :: "string \<Rightarrow> string \<Rightarrow> bool" where
  "allowed_ids flag i =
     (\<exists>t\<in>set (filter (\<lambda>t. t \<noteq> []) (map trim_space (split_all (CHR '','') flag))). t = i)"

text \<open>
  \<open>filtered := report.Results[:0]\<close> shares the backing array with the slice the loop
  ranges over: result \<open>i\<close> is read, then written to position \<open>j\<close> of the same array.
\<close>

function filter_in_place ::
    "(string \<Rightarrow> bool) \<Rightarrow> check_result list \<Rightarrow> nat \<Rightarrow> nat \<Rightarrow> check_result list" where
  "filter_in_place allowed xs i j =
     (if i < length xs then
        (if allowed (cid (xs ! i)) then filter_in_place allowed (xs[j := xs ! i]) (Suc i) (Suc j)
         else filter_in_place allowed xs (Suc i) j)
      else take j xs)"
  by pat_completeness auto
termination
  by (relation "measure (\<lambda>(allowed, xs, i, j). length xs - i)") auto

declare filter_in_place.simps [simp del]

definition apply_filter :: "string \<Rightarrow> report \<Rightarrow> report" where
  "apply_filter flag r =
     (if flag = [] then r
      else r\<lparr>results := filter_in_place (allowed_ids flag) (results r) 0 0\<rparr>)"

lemma filter_in_place_eq:
  "j \<le> i \<Longrightarrow> i \<le> length xs \<Longrightarrow>
   filter_in_place allowed xs i j = take j xs @ filter (\<lambda>x. allowed (cid x)) (drop i xs)"
proof (induction allowed xs i j rule: filter_in_place.induct)
  case (1 allowed xs i j)
  show ?case
  proof (cases "i < length xs")
    case False
    then show ?thesis using "1.prems" by (simp add: filter_in_place.simps[of allowed xs "length xs" j])
  next
    case i: True
    have dr: "drop i xs = xs ! i # drop (Suc i) xs" using i by (simp add: Cons_nth_drop_Suc)
    show ?thesis
    proof (cases "allowed (cid (xs ! i))")
      case True
      have "filter_in_place allowed (xs[j := xs ! i]) (Suc i) (Suc j) =
          take (Suc j) (xs[j := xs ! i]) @ filter (\<lambda>x. allowed (cid x)) (drop (Suc i) (xs[j := xs ! i]))"
        using "1.IH"(1)[OF i True] "1.prems" i by simp
      moreover have "take (Suc j) (xs[j := xs ! i]) = take j xs @ [xs ! i]"
        using i "1.prems" by (simp add: take_Suc_conv_app_nth)
      moreover have "drop (Suc i) (xs[j := xs ! i]) = drop (Suc i) xs"
        using "1.prems" by simp
      ultimately show ?thesis using True i by (simp add: dr filter_in_place.simps[of allowed xs i j])
    next
      case False
      then show ?thesis using "1.IH"(2)[OF i False] "1.prems" i
        by (simp add: dr filter_in_place.simps[of allowed xs i j])
    qed
  qed
qed

lemma results_apply_filter:
  "results (apply_filter flag r) =
     (if flag = [] then results r else filter (\<lambda>x. allowed_ids flag (cid x)) (results r))"
  by (simp add: apply_filter_def filter_in_place_eq)

subsection \<open>The command\<close>

definition run_steps ::
    "'key machine \<Rightarrow> (string \<Rightarrow> string \<Rightarrow> 'key chain_support rpc) \<Rightarrow> verify_flags
      \<Rightarrow> string + report" where
  \<comment> \<open>\<open>Inl\<close>: what is written to stderr before \<open>os.Exit(1)\<close>\<close>
  "run_steps m default_support fl =
     (let st = vstep fl; path = config_path fl; r0 = empty_report in
      if st = ''deploy'' \<or> st = ''register'' \<or> st = ''all'' then
        (case default_support (addresses_file fl) (chain_url fl) of
           Inl e \<Rightarrow>
             Inl (''Error initializing support: '' @ err_msg e @ nl @ nl @ ''Hints:'' @ nl
               @ ''  - Check that the addresses file exists: '' @ addresses_file fl @ nl
               @ ''  - Check that the chain node is running: '' @ chain_url fl @ nl
               @ ''  - If using a custom key, ensure DEPLOYMENT_PRIVATE_KEY is set in .env'' @ nl)
         | Inr s \<Rightarrow>
             (let addrs = [(''FlareTeeManager'', sup_flare_tee_manager s)];
                  deploy = (\<lambda>r. register_deploy_checks m r (sup_client s) (sup_prv s) addrs addrs path);
                  register = (\<lambda>r. register_registration_checks m r (sup_client s) (sup_prv s)
                    (sup_registry s) (sup_allowlist s) path)
              in if st = ''deploy'' then Inr (deploy r0)
                 else if st = ''register'' then Inr (register r0)
                 else
                   (let r1 = deploy r0; r2 = register r1; r3 = register_services_checks m r2 path;
                        r4 = register_tee_version_checks m r3 path;
                        r5 = register_tee_machine_checks m r4 path
                    in Inr (register_test_checks m r5 path))))
      else if st = ''services'' then Inr (register_services_checks m r0 path)
      else if st = ''tee-version'' then Inr (register_tee_version_checks m r0 path)
      else if st = ''tee-machine'' then Inr (register_tee_machine_checks m r0 path)
      else if st = ''test'' then Inr (register_test_checks m r0 path)
      else Inl (''Unknown step: '' @ go_quote (is_print m) st @ nl
        @ ''Valid steps: deploy, register, services, tee-version, tee-machine, test, all'' @ nl))"

definition verify_deploy ::
    "'key machine \<Rightarrow> (string \<Rightarrow> string \<Rightarrow> 'key chain_support rpc) \<Rightarrow> verify_flags \<Rightarrow> outcome" where
  "verify_deploy m default_support fl =
     (case run_steps m default_support fl of
        Inl err \<Rightarrow> \<lparr>stdout = [], stderr = err, exit_code = 1\<rparr>
      | Inr r \<Rightarrow>
          (let r' = apply_filter (checks_filter fl) r;
               out = (if json_out fl then fprint_json r' else fprint r')
           in \<lparr>stdout = out, stderr = [], exit_code = (if has_failures r' then 1 else 0)\<rparr>))"

text \<open>The step names of the command are the labels of the results it makes.\<close>

definition known_steps :: "string list" where
  "known_steps = [''deploy'', ''register'', ''services'', ''tee-version'', ''tee-machine'', ''test'']"

lemma results_step_labels:
  "x \<in> set (results (register_deploy_checks m empty_report c k a a' p)) \<Longrightarrow> step x = ''deploy''"
  "x \<in> set (results (register_registration_checks m empty_report c k g l p)) \<Longrightarrow> step x = ''register''"
  "x \<in> set (results (register_services_checks m empty_report p)) \<Longrightarrow> step x = ''services''"
  "x \<in> set (results (register_tee_version_checks m empty_report p)) \<Longrightarrow> step x = ''tee-version''"
  "x \<in> set (results (register_tee_machine_checks m empty_report p)) \<Longrightarrow> step x = ''tee-machine''"
  "x \<in> set (results (register_test_checks m empty_report p)) \<Longrightarrow> step x = ''test''"
  by (rule deploy.step_label_run registration.step_label_run services.step_label_run
      tee_version.step_label_run tee_machine.step_label_run tests.step_label_run; assumption)+

lemma run_steps_all:
  assumes "vstep fl = ''all''" and "default_support (addresses_file fl) (chain_url fl) = Inr s"
  shows "run_steps m default_support fl =
    Inr (register_test_checks m (register_tee_machine_checks m (register_tee_version_checks m
      (register_services_checks m (register_registration_checks m (register_deploy_checks m
        empty_report (sup_client s) (sup_prv s)
        [(''FlareTeeManager'', sup_flare_tee_manager s)] [(''FlareTeeManager'', sup_flare_tee_manager s)]
        (config_path fl)) (sup_client s) (sup_prv s) (sup_registry s) (sup_allowlist s)
        (config_path fl)) (config_path fl)) (config_path fl)) (config_path fl)) (config_path fl))"
  using assms by (simp add: run_steps_def Let_def)

end
