(* ===== verification/ChecksDemo.thy ===== *)
theory ChecksDemo
  imports Validate
begin

text \<open>
  A concrete machine and chain client on which the theorems about the checks and the
  deployment tools are evaluated.
\<close>

text \<open>A machine with an empty environment, on which every probe fails.\<close>

definition demo_machine :: "unit machine" where
  "demo_machine =
     \<lparr>getenv = (\<lambda>_. []), open_file = (\<lambda>_. None), file_missing = (\<lambda>_. True), http_get = (\<lambda>_. None),
      dial_tcp = (\<lambda>_. False), is_print = (\<lambda>_. True), addr_hex = (\<lambda>_. ''0x01''),
      hex_to_address = (\<lambda>_. 7), key_address = (\<lambda>_. 1), evm_type = 0\<rparr>"

definition demo_client :: chain_client where
  "demo_client = \<lparr>code_at = (\<lambda>_. Inr ''code''), balance_at = (\<lambda>_. Inr min_deploy_balance),
     client_chain_id = Inr 114\<rparr>"

end
