(* ===== verification/ChecksClaims.thy ===== *)
theory ChecksClaims
  imports VerifyDeploy ChecksDemo "HOL-Library.Multiset"
begin

text \<open>
  What the deployment checks promise: the exit status of \<open>verify-deploy\<close>, the report and
  its rendering, the in-place filter, the readers of the env file, and when the deployment
  and registration steps pass.
\<close>

subsection \<open>A concrete deployment\<close>

definition demo_registry :: extension_registry where
  "demo_registry = \<lparr>next_public_extension_id = Inr 3,
     instructions_sender = (\<lambda>i. Inr (if i = 0 then 1 else 7)),
     key_type_supported = (\<lambda>_ _. Inr True)\<rparr>"

definition demo_flags :: verify_flags where
  "demo_flags = \<lparr>addresses_file = [], chain_url = [], config_path = [], vstep = ''all'',
     checks_filter = [], json_out = False\<rparr>"

definition demo_support :: "unit chain_support" where
  "demo_support = \<lparr>sup_client = Some demo_client, sup_prv = Some (), sup_registry = Some demo_registry,
     sup_allowlist = None, sup_flare_tee_manager = 5\<rparr>"

subsection \<open>The exit status\<close>






text \<open>
  C34. The step \<open>all\<close> is the six steps in a row: its report is the concatenation of the
  reports of the single steps, the results labelled with a step are exactly those of that
  step run alone, and it fails exactly when one of them fails.
\<close>
theorem all_is_every_step:
  assumes "vstep fl = ''all''" and "ds (addresses_file fl) (chain_url fl) = Inr s"
  shows "\<exists>r f. run_steps m ds fl = Inr r
     \<and> map (\<lambda>st. run_steps m ds (fl\<lparr>vstep := st\<rparr>)) known_steps = map (\<lambda>st. Inr (f st)) known_steps
     \<and> results r = concat (map (\<lambda>st. results (f st)) known_steps)
     \<and> map (step_results r) known_steps = map (\<lambda>st. results (f st)) known_steps
     \<and> (has_failures r \<longleftrightarrow> (\<exists>st\<in>set known_steps. has_failures (f st)))"
proof -
  let ?a = "[(''FlareTeeManager'', sup_flare_tee_manager s)]" and ?p = "config_path fl"
  let ?c = "sup_client s" and ?k = "sup_prv s" and ?g = "sup_registry s" and ?l = "sup_allowlist s"
  let ?d = "\<lambda>r. register_deploy_checks m r ?c ?k ?a ?a ?p"
  let ?g' = "\<lambda>r. register_registration_checks m r ?c ?k ?g ?l ?p"
  let ?s = "\<lambda>r. register_services_checks m r ?p" and ?v = "\<lambda>r. register_tee_version_checks m r ?p"
  let ?m = "\<lambda>r. register_tee_machine_checks m r ?p" and ?t = "\<lambda>r. register_test_checks m r ?p"
  define f where "f st =
    (if st = ''deploy'' then ?d empty_report else if st = ''register'' then ?g' empty_report
     else if st = ''services'' then ?s empty_report else if st = ''tee-version'' then ?v empty_report
     else if st = ''tee-machine'' then ?m empty_report else ?t empty_report)" for st
  let ?r = "?t (?m (?v (?s (?g' (?d empty_report)))))"
  have run: "run_steps m ds fl = Inr ?r" using run_steps_all[of fl ds s m, OF assms] .
  have one: "map (\<lambda>st. run_steps m ds (fl\<lparr>vstep := st\<rparr>)) known_steps = map (\<lambda>st. Inr (f st)) known_steps"
    using assms(2) by (simp add: known_steps_def f_def run_steps_def Let_def)
  have res: "results ?r = concat (map (\<lambda>st. results (f st)) known_steps)"
    by (simp add: known_steps_def f_def tests.run_appends[of m "?m _"] tee_machine.run_appends[of m "?v _"]
        tee_version.run_appends[of m "?s _"] services.run_appends[of m "?g' _"]
        registration.run_appends[of m "?d _"])
  have lab: "map (step_results ?r) known_steps = map (\<lambda>st. results (f st)) known_steps"
    unfolding tests.step_results_run[of m "?m _"] tee_machine.step_results_run[of m "?v _"]
      tee_version.step_results_run[of m "?s _"] services.step_results_run[of m "?g' _"]
      registration.step_results_run[of m "?d _"] deploy.step_results_run[of m empty_report]
    by (simp add: known_steps_def f_def step_results_def)
  have "has_failures ?r \<longleftrightarrow> (\<exists>st\<in>set known_steps. has_failures (f st))"
    unfolding has_failures_def res has_failures_in_iff by auto
  with run one res lab show ?thesis by blast
qed

theorem all_is_every_step_witness:
  "\<exists>r (f :: string \<Rightarrow> report). run_steps demo_machine (\<lambda>_ _. Inr demo_support) demo_flags = Inr r
     \<and> results r = concat (map (\<lambda>st. results (f st)) known_steps)"
proof -
  have "vstep demo_flags = ''all''" by (simp add: demo_flags_def)
  from all_is_every_step[of demo_flags "\<lambda>_ _. Inr demo_support", OF this refl, of demo_machine]
  show ?thesis by blast
qed

subsection \<open>The report\<close>

text \<open>
  The summary counts every result once: its four numbers are the numbers of results of
  each status, they add up to the number of results, and the report fails exactly when the
  third of them is positive.
\<close>
lemma summary_counts:
  "summary r = dec (n_status PASS (results r)) @ '' passed, '' @ dec (n_status WARN (results r))
      @ '' warning, '' @ dec (n_status FAIL (results r)) @ '' failed, ''
      @ dec (n_status SKIP (results r)) @ '' skipped''
   \<and> n_status PASS (results r) + n_status WARN (results r) + n_status FAIL (results r)
       + n_status SKIP (results r) = length (results r)
   \<and> (has_failures r \<longleftrightarrow> 0 < n_status FAIL (results r))"
  by (simp add: summary_def counts_eq Let_def n_status_sum has_failures_def has_failures_in_iff n_status_pos)

text \<open>
  The filter that reuses the array it reads from keeps exactly the results whose id is
  allowed, in their order: no result is overwritten before it has been read.
\<close>
lemma filter_in_place_is_filter:
  "filter_in_place allowed xs 0 0 = filter (\<lambda>x. allowed (cid x)) xs"
  using filter_in_place_eq[of 0 0 xs allowed] by simp

subsection \<open>The env file\<close>

lemma regex_not_Nil [simp]: "\<not> address_regex []" "\<not> extension_id_regex []"
  by (simp_all add: address_regex_def extension_id_regex_def matches_0x_hex_def)

lemma env_entry_PASS:
  "status (env_entry_result m rx vars n) = PASS \<longleftrightarrow> (\<exists>v. vars n = Some v \<and> rx v)"
  "status (env_entry_result m rx vars n) = FAIL \<longleftrightarrow> \<not> (\<exists>v. vars n = Some v \<and> rx v)"
  by (auto simp: env_entry_result_def split: option.splits)

lemma env_readers:
  assumes "open_file m path = Some content"
  shows "map status (check_extension_env_format m path) =
    [if address_regex (fst (snd (parse_extension_env m path))) then PASS else FAIL,
     if extension_id_regex (fst (parse_extension_env m path)) then PASS else FAIL]"
proof -
  let ?v = "env_vars Map.empty (scan_lines content)"
  have pass: "status (env_entry_result m rx ?v n) = (if rx (case ?v n of None \<Rightarrow> [] | Some v \<Rightarrow> v) then PASS else FAIL)"
    if "\<not> rx []" for rx n
    using that by (auto simp: env_entry_result_def split: option.splits)
  show ?thesis using assms
    by (simp add: check_extension_env_format_def Let_def parse_extension_env_file[OF assms] pass)
qed

text \<open>
  C35. The two readers of \<open>extension.env\<close>, written independently, agree: for a file that
  opens, D7 passes for both entries exactly when the values the registration checks read
  are a well-formed address and extension id, and otherwise one of its results is FAIL. A
  file that does not open is skipped by one and read as two empty values by the other.
\<close>
theorem env_readers_agree:
  "case open_file m path of
     Some content \<Rightarrow>
       (case parse_extension_env m path of (ext, sender, err) \<Rightarrow> err = None
          \<and> map status (check_extension_env_format m path) =
              [if address_regex sender then PASS else FAIL,
               if extension_id_regex ext then PASS else FAIL])
   | None \<Rightarrow> map status (check_extension_env_format m path) = [SKIP]
       \<and> parse_extension_env m path = ([], [], None)"
proof (cases "open_file m path")
  case None
  then show ?thesis by (simp add: check_extension_env_format_def parse_extension_env_def)
next
  case (Some content)
  then show ?thesis using env_readers[OF Some] by (simp split: prod.splits)
qed

subsection \<open>When a step passes\<close>

lemma check_d3_FAIL [simp]: "status (check_d3 m l a) = FAIL \<longleftrightarrow> a = 0"
  by (simp add: check_d3_def address_not_zero_def)

lemma check_d1_FAIL:
  "status (check_d1 m (Some c) l a) = FAIL \<longleftrightarrow> \<not> (\<exists>code. code_at c a = Inr code \<and> code \<noteq> [])"
  by (auto simp: check_d1_def address_has_code_def split: option.splits sum.splits)

lemma check_funds_FAIL:
  "(\<exists>x. check_deployer_funds m (Some c) (Some k) = Some x \<and> status x = FAIL) \<longleftrightarrow>
     \<not> (\<exists>b. balance_at c (key_address m k) = Inr b \<and> min_deploy_balance \<le> b)"
  by (auto simp: check_deployer_funds_def key_has_funds_def Let_def split: option.splits sum.splits)

lemma check_chain_id_FAIL: "status (check_chain_id c) = FAIL \<longleftrightarrow> \<not> (\<exists>i. client_chain_id c = Inr i)"
  by (auto simp: check_chain_id_def split: sum.splits)

lemma check_key_source_not_FAIL: "status (check_deployer_key_source e) \<noteq> FAIL"
  by (simp add: check_deployer_key_source_def Let_def)

lemma has_failures_in_map: "has_failures_in xs \<longleftrightarrow> FAIL \<in> set (map status xs)"
  by (induction xs) auto

text \<open>
  C19. The deployment step passes exactly when every address is set and has code, the
  deployer holds the minimal balance, the chain id can be read, and the env file, when one
  is given and exists, holds a well-formed sender and extension id. In whatever order the
  two loops range over the address map.
\<close>
theorem deploy_step_passes:
  assumes "set addrs' = set addrs"
  shows "\<not> has_failures (register_deploy_checks m empty_report (Some c) (Some k) addrs addrs' path) \<longleftrightarrow>
     list_all (\<lambda>(l, a). a \<noteq> 0) addrs
     \<and> list_all (\<lambda>(l, a). \<exists>code. code_at c a = Inr code \<and> code \<noteq> []) addrs
     \<and> (\<exists>b. balance_at c (key_address m k) = Inr b \<and> min_deploy_balance \<le> b)
     \<and> (\<exists>i. client_chain_id c = Inr i)
     \<and> (path = [] \<or> open_file m path = None
        \<or> address_regex (fst (snd (parse_extension_env m path)))
            \<and> extension_id_regex (fst (parse_extension_env m path)))"
proof -
  let ?z = "\<forall>(l, a)\<in>set addrs. a \<noteq> 0"
  let ?code = "\<lambda>a. \<exists>code. code_at c a = Inr code \<and> code \<noteq> []"
  have d3: "has_failures_in (map (\<lambda>(l, a). check_d3 m l a) addrs) \<longleftrightarrow> \<not> ?z"
    by (simp add: has_failures_in_iff case_prod_beta)
  have d1: "has_failures_in (map (\<lambda>(l, a). check_d1 m (Some c) l a)
        (filter (\<lambda>(l, a). (l, 0) \<notin> set addrs) addrs')) \<longleftrightarrow>
      (\<exists>(l, a)\<in>set addrs. (l, 0) \<notin> set addrs \<and> \<not> ?code a)"
    using assms by (auto simp: has_failures_in_iff check_d1_FAIL)
  have funds: "has_failures_in (case check_deployer_funds m (Some c) (Some k) of None \<Rightarrow> [] | Some x \<Rightarrow> [x]) \<longleftrightarrow>
      \<not> (\<exists>b. balance_at c (key_address m k) = Inr b \<and> min_deploy_balance \<le> b)"
    unfolding check_funds_FAIL[symmetric] by (simp split: option.splits)
  have env: "has_failures_in (if path \<noteq> [] then check_extension_env_format m path else []) \<longleftrightarrow>
      \<not> (path = [] \<or> open_file m path = None
        \<or> address_regex (fst (snd (parse_extension_env m path)))
            \<and> extension_id_regex (fst (parse_extension_env m path)))"
  proof (cases "open_file m path")
    case None
    then show ?thesis by (simp add: check_extension_env_format_def)
  next
    case (Some content)
    have "FAIL \<in> set (map status (check_extension_env_format m path)) \<longleftrightarrow>
        \<not> (address_regex (fst (snd (parse_extension_env m path)))
          \<and> extension_id_regex (fst (parse_extension_env m path)))"
      unfolding env_readers[OF Some] by simp
    then show ?thesis using Some by (cases "path = []") (simp_all only: has_failures_in_map, auto)
  qed
  have "has_failures (register_deploy_checks m empty_report (Some c) (Some k) addrs addrs' path) \<longleftrightarrow>
      \<not> ?z \<or> (\<exists>(l, a)\<in>set addrs. (l, 0) \<notin> set addrs \<and> \<not> ?code a)
      \<or> \<not> (\<exists>b. balance_at c (key_address m k) = Inr b \<and> min_deploy_balance \<le> b)
      \<or> \<not> (\<exists>i. client_chain_id c = Inr i)
      \<or> \<not> (path = [] \<or> open_file m path = None
        \<or> address_regex (fst (snd (parse_extension_env m path)))
            \<and> extension_id_regex (fst (parse_extension_env m path)))"
    unfolding has_failures_def results_deploy results_empty append_Nil has_failures_in_append
      has_failures_in.simps d3 d1 env funds option.case check_chain_id_FAIL
    using check_key_source_not_FAIL by auto
  then show ?thesis unfolding list_all_iff by fastforce
qed

theorem deploy_step_passes_witness:
  "\<not> has_failures (register_deploy_checks demo_machine empty_report (Some demo_client) (Some ())
      [(''FlareTeeManager'', 5)] [(''FlareTeeManager'', 5)] [])"
  using deploy_step_passes[of "[(''FlareTeeManager'', 5)]" "[(''FlareTeeManager'', 5)]" demo_machine
      demo_client "()" "[]"]
  by (simp add: demo_client_def)

lemma registration_FAIL:
  "(case check_r1 (Some g) (Some c) of None \<Rightarrow> False | Some x \<Rightarrow> status x = FAIL) \<longleftrightarrow>
     \<not> (\<exists>n. next_public_extension_id g = Inr n)"
  "(case check_r2 m (Some g) (Some c) i sender of None \<Rightarrow> False | Some x \<Rightarrow> status x = FAIL) \<longleftrightarrow>
     address_regex sender \<and> instructions_sender g i \<noteq> Inr (hex_to_address m sender)"
  "(case check_r3 m (Some l) (Some c) (Some k) i of None \<Rightarrow> False | Some x \<Rightarrow> status x = FAIL) \<longleftrightarrow>
     allowed_machine_owner l i (key_address m k) \<noteq> Inr True"
  "(case check_r4 m (Some g) (Some c) i of None \<Rightarrow> False | Some x \<Rightarrow> status x = FAIL) \<longleftrightarrow>
     key_type_supported g i (evm_type m) \<noteq> Inr True"
  "\<not> (case check_r7 m reg cl n sender of None \<Rightarrow> False | Some x \<Rightarrow> status x = FAIL)"
  by (auto simp: check_r1_def check_r2_def check_r3_def check_r4_def check_r7_def Let_def
      split: sum.splits option.splits)

lemma has_failures_in_filter:
  "has_failures_in (List.map_filter id os) \<longleftrightarrow>
     (\<exists>o'\<in>set os. case o' of None \<Rightarrow> False | Some x \<Rightarrow> status x = FAIL)"
  by (induction os) (auto simp: List.map_filter_def split: option.splits)

text \<open>
  C18. With a chain at hand the registration step passes exactly when the env file holds
  neither entry, or: the registry answers, the extension id is well formed, a well-formed
  instruction sender is the one on the chain, the deployer is an allowed machine owner and
  the EVM key type is supported. (A sender that is not well formed is not compared: the
  deployment step alone reports it.)
\<close>
theorem registration_step_passes:
  assumes "path \<noteq> []" and "parse_extension_env m path = (ext, sender, err)"
  shows "\<not> has_failures (register_registration_checks m empty_report (Some c) (Some k) (Some g) (Some l) path)
   \<longleftrightarrow> ext = [] \<and> sender = []
     \<or> (\<exists>n. next_public_extension_id g = Inr n) \<and> extension_id_regex ext
       \<and> (address_regex sender \<and> instructions_sender g (int (hex_num 0 (drop 2 ext))) = Inr (hex_to_address m sender)
          \<or> \<not> address_regex sender)
       \<and> allowed_machine_owner l (int (hex_num 0 (drop 2 ext))) (key_address m k) = Inr True
       \<and> key_type_supported g (int (hex_num 0 (drop 2 ext))) (evm_type m) = Inr True"
proof -
  have res: "has_failures (register_registration_checks m empty_report (Some c) (Some k) (Some g) (Some l) path)
      = has_failures_in (registration_results m (Some c) (Some k) (Some g) (Some l) path)"
    by (simp add: has_failures_def results_registration)
  have r1: "has_failures_in (List.map_filter id [check_r1 (Some g) (Some c)]) \<longleftrightarrow>
      \<not> (\<exists>n. next_public_extension_id g = Inr n)"
    unfolding has_failures_in_filter by (simp only: list.set bex_simps registration_FAIL simp_thms)
  have r2: "has_failures_in (List.map_filter id
        [check_r2 m (Some g) (Some c) i sender, check_r3 m (Some l) (Some c) (Some k) i,
         check_r4 m (Some g) (Some c) i, check_r7 m (Some g) (Some c) n sender]) \<longleftrightarrow>
      address_regex sender \<and> instructions_sender g i \<noteq> Inr (hex_to_address m sender)
      \<or> allowed_machine_owner l i (key_address m k) \<noteq> Inr True
      \<or> key_type_supported g i (evm_type m) \<noteq> Inr True" for i n
    unfolding has_failures_in_filter by (simp only: list.set bex_simps registration_FAIL simp_thms)
  show ?thesis
    unfolding res registration_results_def assms(2) Let_def fst_conv snd_conv
    using assms(1)
    by (cases "ext = [] \<and> sender = []"; cases "extension_id_regex ext")
       (simp_all only: if_False if_True has_failures_in_append r1 r2 has_failures_in.simps
          mk_result_sel simp_thms, auto)
qed

theorem registration_step_passes_witness:
  "\<not> has_failures (register_registration_checks demo_machine empty_report (Some demo_client) (Some ())
      (Some demo_registry) (Some \<lparr>allowed_machine_owner = \<lambda>_ _. Inr True\<rparr>) ''extension.env'')"
proof -
  have "parse_extension_env demo_machine ''extension.env'' = ([], [], None)"
    by (simp add: parse_extension_env_def demo_machine_def)
  from registration_step_passes[OF _ this] show ?thesis by simp
qed

lemma length_concat_filter:
  "(\<And>i. length (f i) = (if P i then 1 else 0)) \<Longrightarrow> length (concat (map f is)) = length (filter P is)"
  by (induction "is") auto

lemma length_filter_two:
  "1 < length (filter P [0..<n]) \<longleftrightarrow> (\<exists>i j. i < j \<and> j < n \<and> P i \<and> P j)"
proof (induction n)
  case (Suc n)
  have one: "0 < length (filter P [0..<n]) \<longleftrightarrow> (\<exists>i<n. P i)"
    by (auto simp: filter_empty_conv)
  show ?case
  proof (cases "P n")
    case True
    then have "1 < length (filter P [0..<Suc n]) \<longleftrightarrow> (\<exists>i<n. P i)" using one by simp
    also have "\<dots> \<longleftrightarrow> (\<exists>i j. i < j \<and> j < Suc n \<and> P i \<and> P j)"
      using True by (metis less_Suc_eq less_trans)
    finally show ?thesis .
  next
    case False
    then show ?thesis using Suc by (auto simp: less_Suc_eq)
  qed
qed simp

text \<open>
  C37. With a positive number of public extensions below \<open>2 ^ 63\<close>, a well-formed instruction
  sender in the env file, a registry and a client, R7 warns exactly when two different
  extensions have that sender, and passes otherwise; failed queries count for nothing.
\<close>
theorem r7_warns_on_duplicates:
  assumes "0 < n" and "n < 2 ^ 63" and "address_regex sender"
  shows "\<exists>x. check_r7 m (Some g) (Some c) (Some n) sender = Some x
     \<and> status x = (if \<exists>i j. 0 \<le> i \<and> i < j \<and> j < n
            \<and> instructions_sender g i = Inr (hex_to_address m sender)
            \<and> instructions_sender g j = Inr (hex_to_address m sender) then WARN else PASS)"
proof -
  let ?P = "\<lambda>i. instructions_sender g i = Inr (hex_to_address m sender)"
  have "length (matching_ids g n (hex_to_address m sender)) = length (filter (\<lambda>i. ?P (int i)) [0..<nat n])"
    unfolding matching_ids_def big_int64_small[OF less_imp_le[OF assms(1)] assms(2)]
    by (rule length_concat_filter) (auto split: sum.splits)
  then have two: "1 < length (matching_ids g n (hex_to_address m sender)) \<longleftrightarrow>
      (\<exists>i j. i < j \<and> j < nat n \<and> ?P (int i) \<and> ?P (int j))"
    by (simp only: length_filter_two)
  also have "\<dots> \<longleftrightarrow> (\<exists>i j. 0 \<le> i \<and> i < j \<and> j < n \<and> ?P i \<and> ?P j)"
  proof
    assume "\<exists>i j. i < j \<and> j < nat n \<and> ?P (int i) \<and> ?P (int j)"
    then obtain i j where "i < j" "j < nat n" "?P (int i)" "?P (int j)" by blast
    then show "\<exists>i j. 0 \<le> i \<and> i < j \<and> j < n \<and> ?P i \<and> ?P j"
      by (intro exI[of _ "int i"] exI[of _ "int j"]) simp
  next
    assume "\<exists>i j. 0 \<le> i \<and> i < j \<and> j < n \<and> ?P i \<and> ?P j"
    then obtain i j where "0 \<le> i" "i < j" "j < n" "?P i" "?P j" by blast
    then show "\<exists>i j. i < j \<and> j < nat n \<and> ?P (int i) \<and> ?P (int j)"
      by (intro exI[of _ "nat i"] exI[of _ "nat j"]) simp
  qed
  finally have e: "1 < length (matching_ids g n (hex_to_address m sender)) \<longleftrightarrow>
      (\<exists>i j. 0 \<le> i \<and> i < j \<and> j < n \<and> ?P i \<and> ?P j)" .
  show ?thesis unfolding check_r7_def option.case prod.case Let_def e using assms by simp blast
qed

theorem r7_warns_on_duplicates_witness:
  "(\<exists>x. check_r7 demo_machine (Some demo_registry) (Some demo_client) (Some 3) (CHR ''0'' # CHR ''x'' # replicate 40 (CHR ''1'')) = Some x
      \<and> status x = WARN)"
proof -
  have a: "address_regex (CHR ''0'' # CHR ''x'' # replicate 40 (CHR ''1''))" by code_simp
  have s: "instructions_sender demo_registry 1 = Inr (hex_to_address demo_machine i)"
    "instructions_sender demo_registry 2 = Inr (hex_to_address demo_machine i)" for i
    by (simp_all add: demo_registry_def demo_machine_def)
  have "\<exists>i j. 0 \<le> i \<and> i < j \<and> j < (3 :: int)
      \<and> instructions_sender demo_registry i = Inr (hex_to_address demo_machine (CHR ''0'' # CHR ''x'' # replicate 40 (CHR ''1'')))
      \<and> instructions_sender demo_registry j = Inr (hex_to_address demo_machine (CHR ''0'' # CHR ''x'' # replicate 40 (CHR ''1'')))"
    using s by (intro exI[of _ 1] exI[of _ 2]) simp
  with r7_warns_on_duplicates[OF _ _ a, of 3 demo_machine demo_registry demo_client] show ?thesis by simp
qed

end
