(* ===== verification/Support.thy ===== *)
theory Support
  imports GoJson
begin

text \<open>
  \<open>tee/tools/pkg/support/support.go\<close> and \<open>pkg/configs/configs.go\<close>: the deployer's key,
  the addresses file, and the wait for a transaction with its revert reason. It also
  holds the world the deployment tools act on: what lies outside the program (the
  chain, the HTTP servers, time) is a state of any type that every remote call
  transforms; the files the tools write, and the transactions they have sent, are
  kept explicitly.
\<close>

subsection \<open>Values of the chain bindings\<close>

record evm_log =
  log_address :: address
  log_topics :: "hash list"
  log_data :: bytes

record receipt =
  rc_status :: u64
  rc_logs :: "evm_log list"
  rc_tx_hash :: hash

record call_msg =
  cm_from :: address
  cm_to :: "address option"
  cm_gas :: u64
  cm_gas_price :: "int option"
  cm_value :: "int option"
  cm_data :: bytes

record mined_tx =
  mt_to :: "address option"
  mt_gas :: u64
  mt_gas_price :: int
  mt_value :: int
  mt_data :: bytes

record machine_data =
  md_extension_id :: hash
  md_initial_owner :: address
  md_code_hash :: hash
  md_platform :: hash
  md_public_key :: "hash \<times> hash"
  md_governance_hash :: hash

text \<open>The machine data as the registry takes it (\<open>IMachineManagerTeeMachineData\<close>).\<close>

record registry_machine =
  rm_extension_id :: int
  rm_initial_owner :: address
  rm_code_hash :: hash
  rm_platform :: hash
  rm_public_key :: "hash \<times> hash"
  rm_governance_hash :: hash

record vrs_signature =
  sig_v :: char
  sig_r :: bytes
  sig_s :: bytes

text \<open>
  The proof of an availability check. The header, the rest of the request and the
  state of the response are carried through unread.
\<close>

record availability_request =
  aq_tee_id :: address
  aq_rest :: bytes

record availability_response =
  ap_status :: "8 word"
  ap_timestamp :: u64
  ap_code_hash :: hash
  ap_platform :: hash
  ap_initial_policy :: "32 word"
  ap_last_policy :: "32 word"
  ap_state :: bytes

record availability_proof =
  pf_signatures :: "bytes list"
  pf_header :: bytes
  pf_request :: availability_request
  pf_response :: availability_response

text \<open>The state-changing calls of the tools, with their arguments and the value sent.\<close>

datatype tx =
    TxRegisterExtension address address
  | TxAddMachineOwners int "address list"
  | TxAddProjectOwners int "address list"
  | TxAddKeyTypes int "hash list"
  | TxAddTeeVersion int bytes hash "hash list"
  | TxSetGovernance int "address list" u64
  | TxRegisterMachine registry_machine vrs_signature address string address int
  | TxRequestAttestation address address int
  | TxAvailabilityCheck address hash address address address int
  | TxToProduction availability_proof
  | TxDeploySender address address
  | TxSetExtensionId address
  | TxSayHello address bytes int
  | TxSayGoodbye address string string int

subsection \<open>The world and the programs over it\<close>

record ('key, 'c) world =
  ext :: 'c
  files :: "string \<Rightarrow> string option"
  sent :: "('key \<times> tx) list"

type_synonym ('key, 'c, 'a) io = "('key, 'c) world \<Rightarrow> 'a res \<times> ('key, 'c) world"

definition io_ok :: "'a \<Rightarrow> ('key, 'c, 'a) io" where
  "io_ok x w = (Ok x, w)"

definition io_err :: "go_error \<Rightarrow> ('key, 'c, 'a) io" where
  "io_err e w = (Err e, w)"

definition io_res :: "'a res \<Rightarrow> ('key, 'c, 'a) io" where
  "io_res r w = (r, w)"

definition io_bind :: "('key, 'c, 'a) io \<Rightarrow> ('a \<Rightarrow> ('key, 'c, 'b) io) \<Rightarrow> ('key, 'c, 'b) io" where
  \<comment> \<open>\<open>x, err := m; if err != nil { return err }\<close>\<close>
  "io_bind m f w =
     (case m w of (Ok x, w') \<Rightarrow> f x w' | (Err e, w') \<Rightarrow> (Err e, w') | (Panic p, w') \<Rightarrow> (Panic p, w'))"

definition io_map_err :: "(go_error \<Rightarrow> go_error) \<Rightarrow> ('key, 'c, 'a) io \<Rightarrow> ('key, 'c, 'a) io" where
  "io_map_err f m w = (case m w of (r, w') \<Rightarrow> (map_err f r, w'))"

definition io_try :: "('key, 'c, 'a) io \<Rightarrow> ('a rpc \<Rightarrow> ('key, 'c, 'b) io) \<Rightarrow> ('key, 'c, 'b) io" where
  \<comment> \<open>\<open>x, err := m\<close> followed by code of its own for the error\<close>
  "io_try m f w =
     (case m w of (Ok x, w') \<Rightarrow> f (Inr x) w' | (Err e, w') \<Rightarrow> f (Inl e) w'
        | (Panic p, w') \<Rightarrow> (Panic p, w'))"

definition io_ext :: "('c \<Rightarrow> 'a rpc \<times> 'c) \<Rightarrow> ('key, 'c, 'a) io" where
  "io_ext f w = (case f (ext w) of (r, c) \<Rightarrow> (of_rpc r, w\<lparr>ext := c\<rparr>))"

lemmas io_defs = io_ok_def io_err_def io_res_def io_bind_def io_map_err_def io_try_def

lemma io_bind_Ok: "io_bind m f w = (Ok y, w'') \<longleftrightarrow> (\<exists>x w'. m w = (Ok x, w') \<and> f x w' = (Ok y, w''))"
  by (auto simp: io_bind_def split: prod.splits res.splits)

lemma io_map_err_Ok [simp]: "io_map_err f m w = (Ok y, w') \<longleftrightarrow> m w = (Ok y, w')"
  by (auto simp: io_map_err_def split: prod.splits)

lemma io_map_err_snd [simp]: "snd (io_map_err f m w) = snd (m w)"
  by (simp add: io_map_err_def split: prod.splits)

lemma io_ok_iff [simp]: "io_ok x w = (Ok y, w') \<longleftrightarrow> x = y \<and> w = w'"
  by (auto simp: io_ok_def)

lemma io_err_iff [simp]: "io_err e w \<noteq> (Ok y, w')"
  by (simp add: io_err_def)

text \<open>A program that only reads: it sends no transaction and writes no file.\<close>

definition reads_only :: "('key, 'c, 'a) io \<Rightarrow> bool" where
  "reads_only m \<longleftrightarrow> (\<forall>w. sent (snd (m w)) = sent w \<and> files (snd (m w)) = files w)"

named_theorems reads_intros "programs that only read"

lemma reads_only_basic [reads_intros]:
  "reads_only (io_ok x)" "reads_only (io_err e)" "reads_only (io_res r)"
  by (simp_all add: reads_only_def io_defs)

lemma reads_only_ext [reads_intros]: "reads_only (io_ext f)"
  by (simp add: reads_only_def io_ext_def split: prod.splits)

lemma reads_only_bind [reads_intros]:
  assumes "reads_only m" and "\<And>x. reads_only (f x)"
  shows "reads_only (io_bind m f)"
  unfolding reads_only_def
proof
  fix w
  show "sent (snd (io_bind m f w)) = sent w \<and> files (snd (io_bind m f w)) = files w"
    using assms unfolding reads_only_def io_bind_def
    by (cases "m w"; cases "fst (m w)") (auto dest: spec[of _ w])
qed

lemma reads_only_map_err [reads_intros]: "reads_only m \<Longrightarrow> reads_only (io_map_err f m)"
  by (simp add: reads_only_def)

lemma reads_only_try [reads_intros]:
  assumes "reads_only m" and "\<And>x. reads_only (f x)"
  shows "reads_only (io_try m f)"
  unfolding reads_only_def
proof
  fix w
  show "sent (snd (io_try m f w)) = sent w \<and> files (snd (io_try m f w)) = files w"
    using assms unfolding reads_only_def io_try_def
    by (cases "m w"; cases "fst (m w)") (auto dest: spec[of _ w])
qed

lemma reads_only_if [reads_intros]: "reads_only m \<Longrightarrow> reads_only n \<Longrightarrow> reads_only (if b then m else n)"
  by simp

lemma reads_onlyD:
  "reads_only m \<Longrightarrow> m w = (r, w') \<Longrightarrow> sent w' = sent w \<and> files w' = files w"
  unfolding reads_only_def by (metis snd_conv)

subsection \<open>What the tools are given\<close>

text \<open>
  \<open>chain\<close> holds the remote calls, each of which may find the outside world changed;
  \<open>lib\<close> holds the pure functions of go-ethereum, go-flare-common, tee-node and
  godotenv (\<open>l_getenv\<close> is the environment after the \<open>.env\<close> file has been loaded). A
  write that fails leaves the file with the given content.
\<close>

record action_response =
  an_status :: "8 word"
  an_log :: string
  an_data :: bytes

record tee_info =
  ti_public_key :: "hash \<times> hash"
  ti_chain_id :: u64
  ti_last_policy :: "32 word"
  ti_attestation :: bytes
  ti_machine :: machine_data
  ti_data_signature :: bytes
  ti_proxy_signature :: bytes

text \<open>An error of a contract ABI: its identifier, and \<open>Unpack\<close> of the whole payload and of
  its arguments alone, with the values printed by \<open>%v\<close>.\<close>

record abi_error =
  ae_id :: bytes
  ae_unpack :: "bytes \<Rightarrow> string rpc"
  ae_inputs :: "bytes \<Rightarrow> string rpc"

type_synonym abi_errors = "(string \<times> abi_error) list"

record ('key, 'c) chain =
  c_send :: "'key \<Rightarrow> tx \<Rightarrow> 'c \<Rightarrow> hash rpc \<times> 'c"
  c_wait_mined :: "nat option \<Rightarrow> hash \<Rightarrow> 'c \<Rightarrow> receipt rpc \<times> 'c"
  c_tx_by_hash :: "hash \<Rightarrow> 'c \<Rightarrow> mined_tx rpc \<times> 'c"
  c_call :: "call_msg \<Rightarrow> 'c \<Rightarrow> bytes rpc \<times> 'c"
  c_chain_id :: "'c \<Rightarrow> int rpc \<times> 'c"
  c_http_get :: "string \<Rightarrow> 'c \<Rightarrow> (nat \<times> string) rpc \<times> 'c"
  c_http_post :: "string \<Rightarrow> string \<Rightarrow> 'c \<Rightarrow> nat rpc \<times> 'c"
  c_sleep :: "nat \<Rightarrow> 'c \<Rightarrow> 'c"
  c_reward_epoch :: "'c \<Rightarrow> int option rpc \<times> 'c"
  c_get_machine :: "address \<Rightarrow> 'c \<Rightarrow> address rpc \<times> 'c"
  c_governance :: "int \<Rightarrow> 'c \<Rightarrow> hash rpc \<times> 'c"
  c_machine_owner :: "int \<Rightarrow> address \<Rightarrow> 'c \<Rightarrow> bool rpc \<times> 'c"
  c_project_owner :: "int \<Rightarrow> address \<Rightarrow> 'c \<Rightarrow> bool rpc \<times> 'c"
  c_key_type :: "int \<Rightarrow> hash \<Rightarrow> 'c \<Rightarrow> bool rpc \<times> 'c"
  c_version_supported :: "int \<Rightarrow> hash \<Rightarrow> hash \<Rightarrow> 'c \<Rightarrow> bool rpc \<times> 'c"
  c_code_at :: "address \<Rightarrow> 'c \<Rightarrow> bytes rpc \<times> 'c"
  c_read_error :: "string \<Rightarrow> 'c \<Rightarrow> go_error option"
  c_no_file :: "string \<Rightarrow> go_error"
  c_write_error :: "string \<Rightarrow> string \<Rightarrow> 'c \<Rightarrow> (go_error \<times> string option) option"
  c_remove_error :: "string \<Rightarrow> 'c \<Rightarrow> go_error option"

record 'key lib =
  l_getenv :: env
  l_bind :: "string \<Rightarrow> address \<Rightarrow> go_error option"
  l_transactor :: "'key \<Rightarrow> int \<Rightarrow> go_error option"
  l_key_address :: "'key \<Rightarrow> address"
  l_hex_to_ecdsa :: "string \<Rightarrow> 'key rpc"
  l_hex_to_address :: "string \<Rightarrow> address"
  l_hex_to_hash :: "string \<Rightarrow> hash"
  l_from_hex :: "string \<Rightarrow> bytes"
  l_addr_hex :: "address \<Rightarrow> string"
  l_hash_hex :: "hash \<Rightarrow> string"
  l_json_hash :: "json \<Rightarrow> hash option"
  l_json_address :: "json \<Rightarrow> address option"
  l_json_error :: "string \<Rightarrow> go_error"
  l_tx_sender :: "mined_tx \<Rightarrow> address rpc"
  l_unpack_revert :: "bytes \<Rightarrow> string rpc"
  l_abi :: "string \<Rightarrow> abi_errors rpc"
  l_pack :: "tx \<Rightarrow> bytes rpc"
  l_parse_registered :: "evm_log \<Rightarrow> int rpc"
  l_parse_contracts_set :: "evm_log \<Rightarrow> unit rpc"
  l_parse_machine_owners :: "evm_log \<Rightarrow> unit rpc"
  l_parse_project_owners :: "evm_log \<Rightarrow> unit rpc"
  l_parse_attestation :: "evm_log \<Rightarrow> hash rpc"
  l_parse_instructions :: "evm_log \<Rightarrow> hash rpc"
  l_decode_info :: "string \<Rightarrow> tee_info rpc"
  l_decode_action :: "string \<Rightarrow> action_response rpc"
  l_decode_prove :: "bytes \<Rightarrow> (bytes \<times> bytes \<times> bytes \<times> bytes list) rpc"
  l_decode_header :: "bytes \<Rightarrow> bytes rpc"
  l_decode_request :: "bytes \<Rightarrow> availability_request rpc"
  l_decode_response :: "bytes \<Rightarrow> availability_response rpc"
  l_parse_pubkey :: "hash \<times> hash \<Rightarrow> (hash \<times> hash) rpc"
  l_pub_address :: "hash \<times> hash \<Rightarrow> address"
  l_info_hash :: "tee_info \<Rightarrow> bytes rpc"
  l_bytes_to_hash :: "bytes \<Rightarrow> hash"
  l_payload_hash :: "u64 \<Rightarrow> hash \<Rightarrow> hash rpc"
  l_text_hash :: "hash \<Rightarrow> bytes"
  l_sig_to_pub :: "bytes \<Rightarrow> bytes \<Rightarrow> (hash \<times> hash) rpc"
  l_token_claims :: "string \<Rightarrow> (hash rpc \<times> hash rpc) rpc"
  l_rsv_to_vrs :: "bytes \<Rightarrow> bytes rpc"
  l_governance_hash :: "address list \<Rightarrow> u64 \<Rightarrow> hash rpc"
  l_evm_type :: hash
  l_marshal_proxy_url :: "string \<Rightarrow> string rpc"
  l_hash_json :: "hash \<Rightarrow> string"
  l_is_print :: "nat \<Rightarrow> bool"

subsection \<open>Sending, files\<close>

definition send_tx :: "('key, 'c) chain \<Rightarrow> 'key \<Rightarrow> tx \<Rightarrow> ('key, 'c, hash) io" where
  "send_tx c k t w =
     (case c_send c k t (ext w) of
        (Inl e, s) \<Rightarrow> (Err e, w\<lparr>ext := s\<rparr>)
      | (Inr h, s) \<Rightarrow> (Ok h, w\<lparr>ext := s, sent := sent w @ [(k, t)]\<rparr>))"

definition transactor :: "'key lib \<Rightarrow> 'key \<Rightarrow> int \<Rightarrow> unit res" where
  \<comment> \<open>\<open>bind.NewKeyedTransactorWithChainID\<close>\<close>
  "transactor l k cid = (case l_transactor l k cid of None \<Rightarrow> Ok () | Some e \<Rightarrow> Err e)"

definition io_sleep :: "('key, 'c) chain \<Rightarrow> nat \<Rightarrow> ('key, 'c, unit) io" where
  "io_sleep c ms w = (Ok (), w\<lparr>ext := c_sleep c ms (ext w)\<rparr>)"

definition read_opt :: "('key, 'c) chain \<Rightarrow> string \<Rightarrow> ('key, 'c, string option) io" where
  \<comment> \<open>\<open>os.ReadFile\<close>; \<open>None\<close> when \<open>os.IsNotExist\<close> holds of its error\<close>
  "read_opt c p w =
     (case c_read_error c p (ext w) of Some e \<Rightarrow> (Err e, w) | None \<Rightarrow> (Ok (files w p), w))"

definition read_file :: "('key, 'c) chain \<Rightarrow> string \<Rightarrow> ('key, 'c, string) io" where
  "read_file c p =
     io_bind (read_opt c p)
       (\<lambda>d. case d of None \<Rightarrow> io_err (c_no_file c p) | Some s \<Rightarrow> io_ok s)"

definition write_file :: "('key, 'c) chain \<Rightarrow> string \<Rightarrow> string \<Rightarrow> ('key, 'c, unit) io" where
  "write_file c p d w =
     (case c_write_error c p d (ext w) of
        None \<Rightarrow> (Ok (), w\<lparr>files := (files w)(p := Some d)\<rparr>)
      | Some (e, left) \<Rightarrow> (Err e, w\<lparr>files := (files w)(p := left)\<rparr>))"

definition remove_file :: "('key, 'c) chain \<Rightarrow> string \<Rightarrow> ('key, 'c, unit) io" where
  "remove_file c p w =
     (case c_remove_error c p (ext w) of
        None \<Rightarrow> (Ok (), w\<lparr>files := (files w)(p := None)\<rparr>)
      | Some e \<Rightarrow> (Err e, w))"

lemma reads_only_res [reads_intros]: "reads_only (io_res (transactor l k n))"
  by (rule reads_only_basic)

lemma reads_only_sleep [reads_intros]: "reads_only (io_sleep c n)"
  by (simp add: reads_only_def io_sleep_def)

lemma reads_only_read [reads_intros]: "reads_only (read_opt c p)"
  by (simp add: reads_only_def read_opt_def split: option.splits)

lemma reads_only_read_file [reads_intros]: "reads_only (read_file c p)"
  unfolding read_file_def by (auto intro!: reads_intros split: option.splits)

lemma send_tx_Ok:
  "send_tx c k t w = (Ok h, w') \<Longrightarrow> sent w' = sent w @ [(k, t)] \<and> files w' = files w"
  by (auto simp: send_tx_def split: prod.splits sum.splits)

lemma send_tx_Err:
  "send_tx c k t w = (Err e, w') \<Longrightarrow> sent w' = sent w \<and> files w' = files w"
  by (auto simp: send_tx_def split: prod.splits sum.splits)

subsection \<open>The deployer's key\<close>

definition dev_key_hex :: string where
  "dev_key_hex = ''804b01a8c27a65cc694a867be76edae3ccce7a7161cda1f67a8349df696d2207''"

definition prv_with_funds :: "'key lib \<Rightarrow> 'key res" where
  "prv_with_funds l =
     (case l_hex_to_ecdsa l dev_key_hex of
        Inl e \<Rightarrow> Panic ''cannot read privateKey with funds'' | Inr k \<Rightarrow> Ok k)"

definition strip_0x :: "string \<Rightarrow> string" where
  "strip_0x s = (if has_prefix s ''0x'' \<or> has_prefix s ''0X'' then drop 2 s else s)"

definition default_private_key :: "'key lib \<Rightarrow> 'key res" where
  "default_private_key l =
     (let s = l_getenv l ''DEPLOYMENT_PRIVATE_KEY'' in
      if s = [] then prv_with_funds l
      else map_err restring (of_rpc (l_hex_to_ecdsa l (strip_0x s))))"

subsection \<open>The addresses file\<close>

record addresses =
  flare_system_manager :: address
  fdc2_hub :: address
  flare_tee_manager :: address

definition zero_addresses :: addresses where
  "zero_addresses = \<lparr>flare_system_manager = 0, fdc2_hub = 0, flare_tee_manager = 0\<rparr>"

definition address_tags :: "string list" where
  "address_tags = [''FlareSystemsManager'', ''Fdc2Hub'', ''FlareTeeManager'']"

text \<open>The write through the pointer \<open>fieldMap\<close> gives for a tag.\<close>

definition set_address :: "string \<Rightarrow> address \<Rightarrow> addresses \<Rightarrow> addresses" where
  "set_address tag a ad =
     (if tag = ''FlareSystemsManager'' then ad\<lparr>flare_system_manager := a\<rparr>
      else if tag = ''Fdc2Hub'' then ad\<lparr>fdc2_hub := a\<rparr>
      else if tag = ''FlareTeeManager'' then ad\<lparr>flare_tee_manager := a\<rparr>
      else ad)"

text \<open>\<open>configs.ReadAddresses\<close>: the file as one object with an address per tag.\<close>

fun decode_address_members ::
    "'key lib \<Rightarrow> (string \<times> json) list \<Rightarrow> addresses \<Rightarrow> addresses option" where
  "decode_address_members l [] ad = Some ad"
| "decode_address_members l ((k, v) # ms) ad =
     (case find_field address_tags k of
        None \<Rightarrow> decode_address_members l ms ad
      | Some tag \<Rightarrow>
          (case l_json_address l v of
             None \<Rightarrow> None
           | Some a \<Rightarrow> decode_address_members l ms (set_address tag a ad)))"

definition read_addresses :: "'key lib \<Rightarrow> string \<Rightarrow> addresses option" where
  "read_addresses l data =
     (case json_unmarshal data of
        Some (JObj ms) \<Rightarrow> decode_address_members l ms zero_addresses
      | Some JNull \<Rightarrow> Some zero_addresses
      | _ \<Rightarrow> None)"

text \<open>\<open>ParseAddresses\<close>: the file as a list of named contracts.\<close>

record raw_contract =
  rw_name :: string
  rw_contract_name :: string
  rw_address :: string

fun decode_raw_members :: "(string \<times> json) list \<Rightarrow> raw_contract \<Rightarrow> raw_contract option" where
  "decode_raw_members [] r = Some r"
| "decode_raw_members ((k, v) # ms) r =
     (case find_field [''name'', ''contractName'', ''address''] k of
        None \<Rightarrow> decode_raw_members ms r
      | Some n \<Rightarrow>
          if n = ''name'' then
            (case into_string v (rw_name r) of
               None \<Rightarrow> None | Some s \<Rightarrow> decode_raw_members ms (r\<lparr>rw_name := s\<rparr>))
          else if n = ''contractName'' then
            (case into_string v (rw_contract_name r) of
               None \<Rightarrow> None | Some s \<Rightarrow> decode_raw_members ms (r\<lparr>rw_contract_name := s\<rparr>))
          else
            (case into_string v (rw_address r) of
               None \<Rightarrow> None | Some s \<Rightarrow> decode_raw_members ms (r\<lparr>rw_address := s\<rparr>)))"

fun decode_raw :: "json \<Rightarrow> raw_contract option" where
  "decode_raw (JObj ms) = decode_raw_members ms \<lparr>rw_name = [], rw_contract_name = [], rw_address = []\<rparr>"
| "decode_raw JNull = Some \<lparr>rw_name = [], rw_contract_name = [], rw_address = []\<rparr>"
| "decode_raw _ = None"

fun decode_raws :: "json list \<Rightarrow> raw_contract list option" where
  "decode_raws [] = Some []"
| "decode_raws (j # js) =
     (case decode_raw j of
        None \<Rightarrow> None
      | Some r \<Rightarrow> (case decode_raws js of None \<Rightarrow> None | Some rs \<Rightarrow> Some (r # rs)))"

definition field_map :: "'key lib \<Rightarrow> raw_contract list \<Rightarrow> addresses \<Rightarrow> addresses" where
  "field_map l rs ad = foldl (\<lambda>ad r. set_address (rw_name r) (l_hex_to_address l (rw_address r)) ad) ad rs"

definition parse_addresses :: "'key lib \<Rightarrow> string \<Rightarrow> addresses option" where
  "parse_addresses l data =
     (case json_unmarshal data of
        Some (JArr js) \<Rightarrow> map_option (\<lambda>rs. field_map l rs zero_addresses) (decode_raws js)
      | Some JNull \<Rightarrow> Some zero_addresses
      | _ \<Rightarrow> None)"

definition parse_addresses_file :: "'key lib \<Rightarrow> ('key, 'c) chain \<Rightarrow> string \<Rightarrow> ('key, 'c, addresses) io" where
  "parse_addresses_file l c path =
     io_bind (read_file c path)
       (\<lambda>data. case parse_addresses l data of
          None \<Rightarrow> io_err (l_json_error l data) | Some ad \<Rightarrow> io_ok ad)"

subsection \<open>The support object\<close>

record 'key support =
  s_prv :: 'key
  s_addresses :: addresses
  s_bindings :: "(string \<times> address) list"
  s_chain_id :: int

text \<open>The contracts \<open>NewSupport\<close> binds, in its order, each with its address.\<close>

definition binding_list :: "addresses \<Rightarrow> (string \<times> address) list" where
  "binding_list ad =
     (let diamond = flare_tee_manager ad in
      [(''MachineManager'', diamond), (''WalletManager'', diamond), (''WalletKeyManager'', diamond),
       (''WalletProjectManager'', diamond), (''FlareSystemsManager'', flare_system_manager ad),
       (''Fdc2Hub'', fdc2_hub ad), (''Verification'', diamond), (''ExtensionManager'', diamond),
       (''OwnerAllowlist'', diamond), (''ExtensionGovernance'', diamond)])"

fun bind_all :: "'key lib \<Rightarrow> (string \<times> address) list \<Rightarrow> unit res" where
  "bind_all l [] = Ok ()"
| "bind_all l ((n, a) # bs) = (case l_bind l n a of Some e \<Rightarrow> Err e | None \<Rightarrow> bind_all l bs)"

definition new_support ::
    "'key lib \<Rightarrow> ('key, 'c) chain \<Rightarrow> 'key \<Rightarrow> addresses \<Rightarrow> ('key, 'c, 'key support) io" where
  "new_support l c prv ad =
     io_bind (io_res (bind_all l (binding_list ad)))
       (\<lambda>_. io_bind (io_ext (c_chain_id c))
         (\<lambda>cid. io_ok \<lparr>s_prv = prv, s_addresses = ad, s_bindings = binding_list ad,
                     s_chain_id = cid\<rparr>))"

text \<open>\<open>DefaultSupport\<close>; \<open>dial\<close> is \<open>ethclient.Dial\<close> of the node's URL.\<close>

definition default_support ::
    "'key lib \<Rightarrow> ('key, 'c) chain \<Rightarrow> (string \<Rightarrow> go_error option) \<Rightarrow> string \<Rightarrow> string
      \<Rightarrow> ('key, 'c, 'key support) io" where
  "default_support l c dial path url =
     io_bind
       (io_try
         (io_bind (read_file c path)
           (\<lambda>data. case read_addresses l data of
              None \<Rightarrow> io_err (l_json_error l data) | Some ad \<Rightarrow> io_ok ad))
         (\<lambda>r. case r of
            Inr ad \<Rightarrow> io_ok ad
          | Inl _ \<Rightarrow> io_map_err restring (parse_addresses_file l c path)))
       (\<lambda>ad. case dial url of
          Some e \<Rightarrow> io_err (restring e)
        | None \<Rightarrow> io_bind (io_res (default_private_key l)) (\<lambda>prv. new_support l c prv ad))"

subsection \<open>Waiting for a transaction\<close>

definition decode_revert_from_error :: "'key lib \<Rightarrow> go_error \<Rightarrow> string" where
  "decode_revert_from_error l e =
     (case errors_as_data e of
        Some (DataString s) \<Rightarrow>
          (case hex_decode (trim_prefix s ''0x'') of
             None \<Rightarrow> []
           | Some decoded \<Rightarrow>
               (case l_unpack_revert l decoded of Inl _ \<Rightarrow> [] | Inr reason \<Rightarrow> reason))
      | _ \<Rightarrow> [])"

definition get_failing_message :: "'key lib \<Rightarrow> ('key, 'c) chain \<Rightarrow> hash \<Rightarrow> ('key, 'c, string) io" where
  "get_failing_message l c h =
     io_bind (io_map_err restring (io_ext (c_tx_by_hash c h)))
       (\<lambda>t. io_bind (io_res (map_err restring (of_rpc (l_tx_sender l t))))
       (\<lambda>from. io_try
          (io_ext (c_call c \<lparr>cm_from = from, cm_to = mt_to t, cm_gas = mt_gas t,
             cm_gas_price = Some (mt_gas_price t), cm_value = Some (mt_value t),
             cm_data = mt_data t\<rparr>))
          (\<lambda>r. case r of
             Inl e \<Rightarrow>
               (let reason = decode_revert_from_error l e in
                io_ok (if reason \<noteq> [] then reason else err_msg e))
           | Inr res \<Rightarrow>
               (case l_unpack_revert l res of
                  Inr reason \<Rightarrow> io_ok reason
                | Inl _ \<Rightarrow>
                    io_ok (if res \<noteq> [] then ''0x'' @ hex_encode res else ''unknown revert reason'')))))"

definition check_tx :: "'key lib \<Rightarrow> ('key, 'c) chain \<Rightarrow> hash \<Rightarrow> ('key, 'c, receipt) io" where
  "check_tx l c h =
     io_try (io_ext (c_wait_mined c (Some 120) h))
       (\<lambda>r. case r of
          Inl e \<Rightarrow> io_err (ErrorString (''transaction not mined within 2 minutes (tx: ''
                     @ l_hash_hex l h @ ''): '' @ err_msg e))
        | Inr rc \<Rightarrow>
            if rc_status rc = 0 then
              io_bind (get_failing_message l c h)
                (\<lambda>reason. io_err (ErrorString (''error: Transaction fail: '' @ reason)))
            else io_ok rc)"

subsection \<open>Facts\<close>

lemma get_failing_message_reads [reads_intros]: "reads_only (get_failing_message l c h)"
  unfolding get_failing_message_def
  by (auto intro!: reads_intros split: sum.splits simp: Let_def)

lemma check_tx_reads [reads_intros]: "reads_only (check_tx l c h)"
  unfolding check_tx_def by (auto intro!: reads_intros split: sum.splits)

lemma check_tx_Ok:
  "check_tx l c h w = (Ok rc, w') \<longleftrightarrow>
     (\<exists>s. c_wait_mined c (Some 120) h (ext w) = (Inr rc, s) \<and> rc_status rc \<noteq> 0 \<and> w' = w\<lparr>ext := s\<rparr>)"
  by (auto simp: check_tx_def io_try_def io_ext_def io_bind_def io_err_def io_ok_def
      split: prod.splits sum.splits res.splits if_splits)

lemma new_support_bindings:
  "new_support l c prv ad w = (Ok s, w') \<Longrightarrow> s_bindings s = binding_list ad \<and> s_prv s = prv"
  by (auto simp: new_support_def io_bind_Ok)

text \<open>In the list form the last entry of a name counts, and unknown names are ignored.\<close>

lemma field_map_snoc:
  "field_map l (rs @ [r]) ad =
     set_address (rw_name r) (l_hex_to_address l (rw_address r)) (field_map l rs ad)"
  by (simp add: field_map_def)

lemma field_map_last:
  assumes "\<And>r. r \<in> set rs \<Longrightarrow> rw_name r \<noteq> ''FlareTeeManager''"
  shows "flare_tee_manager (field_map l rs ad) = flare_tee_manager ad"
  using assms by (induction rs arbitrary: ad) (auto simp: field_map_def set_address_def)

end
