(* ===== verification/Revert.thy ===== *)
theory Revert
  imports Support
begin

text \<open>
  \<open>tee/tools/pkg/fccutils/revert.go\<close> and \<open>diag.go\<close>: the revert reason behind a failed
  call. The data of an RPC error, or the bytes a call returned, are decoded as a
  standard \<open>Error(string)\<close>, matched against the errors an ABI declares, or shown as
  they are. Also \<open>SetExtensionId\<close>-style reports of \<open>pkg/utils/instructions.go\<close> build on
  these.
\<close>

subsection \<open>Decoding\<close>

definition decode_revert_hex :: "'key lib \<Rightarrow> string \<Rightarrow> string" where
  "decode_revert_hex l s =
     (let h = trim_prefix s ''0x'' in
      case hex_decode h of
        None \<Rightarrow> []
      | Some decoded \<Rightarrow>
          if length decoded < 4 then []
          else (case l_unpack_revert l decoded of
                  Inr reason \<Rightarrow> reason
                | Inl _ \<Rightarrow> ''0x'' @ h))"

definition decode_revert_reason :: "'key lib \<Rightarrow> go_error option \<Rightarrow> string" where
  "decode_revert_reason l err =
     (case err of
        None \<Rightarrow> []
      | Some e \<Rightarrow>
          (case errors_as_data e of
             Some (DataString s) \<Rightarrow> decode_revert_hex l s
           | _ \<Rightarrow> []))"

text \<open>The gas fields of the message stay zero.\<close>

definition simulate_and_decode_revert ::
    "'key lib \<Rightarrow> ('key, 'c) chain \<Rightarrow> address \<Rightarrow> address \<Rightarrow> int option \<Rightarrow> bytes
      \<Rightarrow> ('key, 'c, string) io" where
  "simulate_and_decode_revert l c from to value data =
     io_try
       (io_ext (c_call c \<lparr>cm_from = from, cm_to = Some to, cm_gas = 0, cm_gas_price = None,
          cm_value = value, cm_data = data\<rparr>))
       (\<lambda>r. case r of
          Inl e \<Rightarrow>
            (let reason = decode_revert_reason l (Some e) in
             io_ok (if reason \<noteq> [] then reason else err_msg e))
        | Inr result \<Rightarrow>
            io_ok (if 4 \<le> length result then decode_revert_hex l (hex_encode result) else []))"

text \<open>
  \<open>MatchCustomError\<close> ranges over a Go map; the list is the order the range happened to
  take. The first error with the selector wins.
\<close>

definition match_custom_error :: "abi_errors \<Rightarrow> string \<Rightarrow> string" where
  "match_custom_error errs s =
     (case hex_decode (trim_prefix s ''0x'') of
        None \<Rightarrow> []
      | Some data \<Rightarrow>
          if length data < 4 then []
          else
            (case find (\<lambda>(name, e). take 4 (ae_id e) = take 4 data) errs of
               None \<Rightarrow> []
             | Some (name, e) \<Rightarrow>
                 (case ae_unpack e data of
                    Inr args \<Rightarrow> if args \<noteq> ''[]'' \<and> args \<noteq> ''<nil>'' then name @ args else name
                  | Inl _ \<Rightarrow> name)))"

definition extract_revert_data :: "'key lib \<Rightarrow> go_error option \<Rightarrow> bytes" where
  "extract_revert_data l err =
     (case err of
        None \<Rightarrow> []
      | Some e \<Rightarrow>
          (case errors_as_data e of
             Some (DataString s) \<Rightarrow> l_from_hex l s
           | Some (DataBytes b) \<Rightarrow> b
           | _ \<Rightarrow> []))"

subsection \<open>The diagnosis of a refused call\<close>

text \<open>What \<open>diagAvailabilityCheckRevert\<close> logs: one verdict per way out.\<close>

datatype diagnosis =
    DiagAbi string
  | DiagPack string
  | DiagSucceeded
  | DiagNoData string
  | DiagShort bytes
  | DiagReason string
  | DiagCustom string string string
  | DiagCustomRaw string string string bytes
  | DiagUnknown bytes bytes

definition error_selector :: bytes where
  \<comment> \<open>0x08c379a0, \<open>Error(string)\<close>\<close>
  "error_selector = [nat_byte 8, nat_byte 195, nat_byte 121, nat_byte 160]"

fun diag_sources :: "'key lib \<Rightarrow> string list \<Rightarrow> bytes \<Rightarrow> diagnosis" where
  "diag_sources l [] data = DiagUnknown (take 4 data) data"
| "diag_sources l (src # srcs) data =
     (case l_abi l src of
        Inl _ \<Rightarrow> diag_sources l srcs data
      | Inr errs \<Rightarrow>
          (case find (\<lambda>(name, e). take 4 (ae_id e) = take 4 data) errs of
             None \<Rightarrow> diag_sources l srcs data
           | Some (name, e) \<Rightarrow>
               (case ae_inputs e (drop 4 data) of
                  Inl er \<Rightarrow> DiagCustomRaw src name (err_msg er) data
                | Inr args \<Rightarrow> DiagCustom src name args)))"

definition diag_data :: "'key lib \<Rightarrow> string list \<Rightarrow> bytes \<Rightarrow> diagnosis" where
  "diag_data l srcs data =
     (if take 4 data = error_selector then
        (case l_unpack_revert l data of
           Inr reason \<Rightarrow> DiagReason reason
         | Inl _ \<Rightarrow> diag_sources l srcs data)
      else diag_sources l srcs data)"

definition diag_availability_check_revert ::
    "'key lib \<Rightarrow> ('key, 'c) chain \<Rightarrow> 'key support \<Rightarrow> tx \<Rightarrow> int \<Rightarrow> ('key, 'c, diagnosis) io" where
  "diag_availability_check_revert l c s t value =
     (case l_abi l ''Verification'' of
        Inl e \<Rightarrow> io_ok (DiagAbi (err_msg e))
      | Inr _ \<Rightarrow>
          (case l_pack l t of
             Inl e \<Rightarrow> io_ok (DiagPack (err_msg e))
           | Inr calldata \<Rightarrow>
               io_try
                 (io_ext (c_call c \<lparr>cm_from = l_key_address l (s_prv s),
                    cm_to = Some (flare_tee_manager (s_addresses s)), cm_gas = 0,
                    cm_gas_price = None, cm_value = Some value, cm_data = calldata\<rparr>))
                 (\<lambda>r. io_ok (case r of
                    Inr _ \<Rightarrow> DiagSucceeded
                  | Inl e \<Rightarrow>
                      (let data = extract_revert_data l (Some e) in
                       if length data = 0 then DiagNoData (err_msg e)
                       else if length data < 4 then DiagShort data
                       else diag_data l
                         [''Verification'', ''Fdc2Hub'', ''MachineManager'', ''ExtensionManager'']
                         data)))))"

subsection \<open>Facts\<close>

lemma simulate_reads [reads_intros]: "reads_only (simulate_and_decode_revert l c from to v d)"
  unfolding simulate_and_decode_revert_def
  by (auto intro!: reads_intros split: sum.splits simp: Let_def)

lemma diag_reads [reads_intros]: "reads_only (diag_availability_check_revert l c s t v)"
  unfolding diag_availability_check_revert_def by (auto intro!: reads_intros split: sum.splits)

lemma trim_0x [simp]: "trim_prefix (CHR ''0'' # CHR ''x'' # s) ''0x'' = s"
  by (simp add: trim_prefix_def has_prefix_def)

text \<open>A custom error comes back as the hex that went in, so that it can be matched.\<close>

lemma decode_revert_hex_encode:
  assumes "4 \<le> length data"
  shows "decode_revert_hex l (''0x'' @ hex_encode data) =
    (case l_unpack_revert l data of Inr reason \<Rightarrow> reason | Inl _ \<Rightarrow> ''0x'' @ hex_encode data)"
  using assms by (simp add: decode_revert_hex_def trim_0x)

lemma match_custom_error_encode:
  assumes "4 \<le> length data"
  shows "match_custom_error errs (''0x'' @ hex_encode data) =
    (case find (\<lambda>(name, e). take 4 (ae_id e) = take 4 data) errs of
       None \<Rightarrow> []
     | Some (name, e) \<Rightarrow>
         (case ae_unpack e data of
            Inr args \<Rightarrow> if args \<noteq> ''[]'' \<and> args \<noteq> ''<nil>'' then name @ args else name
          | Inl _ \<Rightarrow> name))"
  using assms by (simp add: match_custom_error_def trim_0x)

text \<open>Distinct selectors make the outcome independent of the order of the map.\<close>

definition selectors_distinct :: "abi_errors \<Rightarrow> bool" where
  "selectors_distinct errs = distinct (map (\<lambda>(name, e). take 4 (ae_id e)) errs)"

lemma find_distinct:
  assumes "distinct (map f xs)" and "x \<in> set xs" and "f x = k"
  shows "find (\<lambda>y. f y = k) xs = Some x"
  using assms by (induction xs) (auto simp: image_iff)

lemma find_order:
  assumes "distinct (map f xs)" and "set xs = set ys" and "distinct (map f ys)"
  shows "find (\<lambda>y. f y = k) xs = find (\<lambda>y. f y = k) ys"
proof (cases "\<exists>x\<in>set xs. f x = k")
  case True
  then obtain x where "x \<in> set xs" "f x = k" by blast
  then show ?thesis using assms find_distinct by metis
next
  case False
  then have "find (\<lambda>y. f y = k) xs = None" "find (\<lambda>y. f y = k) ys = None"
    using assms(2) by (auto simp: find_None_iff)
  then show ?thesis by simp
qed

lemma match_custom_error_order:
  assumes "selectors_distinct errs" and "selectors_distinct errs'" and "set errs = set errs'"
  shows "match_custom_error errs s = match_custom_error errs' s"
proof -
  let ?f = "\<lambda>(name :: string, e). take 4 (ae_id e)"
  have "find (\<lambda>y. ?f y = k) errs = find (\<lambda>y. ?f y = k) errs'" for k
    using assms by (intro find_order) (auto simp: selectors_distinct_def)
  then have "find (\<lambda>(name, e). take 4 (ae_id e) = k) errs =
      find (\<lambda>(name, e). take 4 (ae_id e) = k) errs'" for k
    by (simp add: case_prod_unfold)
  then show ?thesis by (simp only: match_custom_error_def)
qed

end
