(* ===== verification/TeeCalls.thy ===== *)
theory TeeCalls
  imports Revert
begin

text \<open>
  \<open>tee/tools/pkg/fccutils/tee_calls.go\<close>, \<open>common.go\<close> and \<open>encoding.go\<close>: the calls of a TEE
  node's and a proxy's HTTP interface, the identities behind them, and the check of
  the attested code hash.
\<close>

subsection \<open>Constants\<close>

definition platform_intel_hex :: string where
  "platform_intel_hex = ''4743505f494e54454c5f54445800000000000000000000000000000000000000''"

definition platform_amd_hex :: string where
  "platform_amd_hex = ''4743505f414d445f534556000000000000000000000000000000000000000000''"

definition platform_amd_es_hex :: string where
  "platform_amd_es_hex = ''4743505f414d445f5345565f4553000000000000000000000000000000000000''"

definition test_platform_hex :: string where
  "test_platform_hex = ''544553545f504c4154464f524d00000000000000000000000000000000000000''"

definition tee_code_hash_hex :: string where
  "tee_code_hash_hex = ''194844cf417dde867073e5ab7199fa4d21fd82b5dbe2bdea8b3d7fc18d10fdc2''"

definition repeats :: nat where "repeats = 15"

text \<open>Each platform is the name in the comment beside it, padded to 32 bytes.\<close>

lemma platform_names:
  "hex_decode platform_intel_hex = Some (''GCP_INTEL_TDX'' @ replicate 19 (nat_byte 0))"
  "hex_decode platform_amd_hex = Some (''GCP_AMD_SEV'' @ replicate 21 (nat_byte 0))"
  "hex_decode platform_amd_es_hex = Some (''GCP_AMD_SEV_ES'' @ replicate 18 (nat_byte 0))"
  "hex_decode test_platform_hex = Some (''TEST_PLATFORM'' @ replicate 19 (nat_byte 0))"
  by (code_simp)+

subsection \<open>The node's answers\<close>

definition tee_info :: "'key lib \<Rightarrow> ('key, 'c) chain \<Rightarrow> string \<Rightarrow> ('key, 'c, tee_info) io" where
  "tee_info l c url =
     io_bind (io_map_err restring (io_ext (c_http_get c (url @ ''/info''))))
       (\<lambda>(st, b). io_res (map_err restring (of_rpc (l_decode_info l b))))"

definition code_hash_and_platform :: "'key lib \<Rightarrow> string \<Rightarrow> (hash \<times> hash) res" where
  "code_hash_and_platform l att =
     res_bind (map_err restring (of_rpc (l_token_claims l att)))
       (\<lambda>(ch, pl). res_bind (map_err restring (of_rpc ch))
         (\<lambda>code_hash. res_bind (map_err restring (of_rpc pl))
           (\<lambda>platform. Ok (code_hash, platform))))"

definition tee_proxy_id :: "'key lib \<Rightarrow> tee_info \<Rightarrow> (address \<times> address) res" where
  "tee_proxy_id l info =
     res_bind (map_err restring (of_rpc (l_parse_pubkey l (ti_public_key info))))
       (\<lambda>pub. res_bind (map_err restring (of_rpc (l_info_hash l info)))
       (\<lambda>h. res_bind (map_err restring (of_rpc
              (l_payload_hash l (ti_chain_id info) (l_bytes_to_hash l h))))
       (\<lambda>sign_hash. res_bind (map_err restring (of_rpc
              (l_sig_to_pub l (l_text_hash l sign_hash) (ti_proxy_signature info))))
       (\<lambda>proxy_pub. Ok (l_pub_address l pub, l_pub_address l proxy_pub)))))"

definition get_tee_proxy_id ::
    "'key lib \<Rightarrow> ('key, 'c) chain \<Rightarrow> string \<Rightarrow> ('key, 'c, address \<times> address) io" where
  "get_tee_proxy_id l c url =
     io_bind (tee_info l c url) (\<lambda>info. io_res (tee_proxy_id l info))"

definition get_code_hash_and_platform :: "'key lib \<Rightarrow> tee_info \<Rightarrow> (hash \<times> hash) res" where
  "get_code_hash_and_platform l info =
     (let simulated = (l_getenv l ''SIMULATED_TEE'' = ''true'') in
      res_bind
        (if simulated
         then Ok (l_hex_to_hash l tee_code_hash_hex, l_hex_to_hash l test_platform_hex)
         else code_hash_and_platform l (ti_attestation info))
        (\<lambda>(code_hash, platform).
           if code_hash \<noteq> md_code_hash (ti_machine info) then
             Err (ErrorString (''code hashes do not match: '' @ l_hash_hex l code_hash @ '', ''
               @ l_hash_hex l (md_code_hash (ti_machine info))))
           else if platform \<noteq> md_platform (ti_machine info) then
             Err (ErrorString (''platforms do not matc: '' @ l_hash_hex l platform @ '', ''
               @ l_hash_hex l (md_platform (ti_machine info))))
           else Ok (code_hash, platform)))"

subsection \<open>The bodies of the availability check\<close>

definition decode_availability_request :: "'key lib \<Rightarrow> bytes \<Rightarrow> availability_request res" where
  "decode_availability_request l b = map_err restring (of_rpc (l_decode_request l b))"

definition decode_availability_response :: "'key lib \<Rightarrow> bytes \<Rightarrow> availability_response res" where
  "decode_availability_response l b = map_err restring (of_rpc (l_decode_response l b))"

subsection \<open>Polling for a result\<close>

definition answered :: "(nat \<times> string) rpc \<Rightarrow> bool" where
  "answered r = (case r of Inr (st, _) \<Rightarrow> st = 200 | Inl _ \<Rightarrow> False)"

text \<open>
  The loop of \<open>ActionResult\<close>: \<open>n + 1\<close> tries at most, two seconds of sleep after each one
  that was not answered with 200. The last answer is what the code goes on with.
\<close>

fun poll :: "('key, 'c) chain \<Rightarrow> nat \<Rightarrow> string \<Rightarrow> 'c \<Rightarrow> (nat \<times> string) rpc \<times> 'c" where
  "poll c n url s =
     (case c_http_get c url s of
        (r, s') \<Rightarrow>
          if answered r then (r, s')
          else
            (let s'' = c_sleep c 2000 s' in
             case n of 0 \<Rightarrow> (r, s'') | Suc m \<Rightarrow> poll c m url s''))"

declare poll.simps [simp del]

definition action_result ::
    "'key lib \<Rightarrow> ('key, 'c) chain \<Rightarrow> string \<Rightarrow> hash \<Rightarrow> ('key, 'c, action_response) io" where
  "action_result l c node_url aid =
     io_bind (io_map_err restring
       (io_ext (poll c (repeats - 1) (node_url @ ''/action/result/'' @ l_hash_hex l aid))))
       (\<lambda>(st, b).
          if st \<noteq> 200 then
            io_err (ErrorString (''action result status not ok, got: '' @ dec st))
          else io_res (map_err restring (of_rpc (l_decode_action l b))))"

definition set_proxy_url :: "'key lib \<Rightarrow> ('key, 'c) chain \<Rightarrow> int \<Rightarrow> int \<Rightarrow> ('key, 'c, unit) io" where
  "set_proxy_url l c configuration_port proxy_port =
     io_bind (io_res (of_rpc (l_marshal_proxy_url l (''http://localhost:'' @ dec_int proxy_port))))
       (\<lambda>b. io_bind
          (io_ext (c_http_post c (''http://localhost:'' @ dec_int configuration_port @ ''/proxy'') b))
          (\<lambda>st. if st \<noteq> 200 then io_err (ErrorString (''unexpected status code: '' @ dec st))
                else io_ok ()))"

subsection \<open>Facts\<close>

lemma tee_info_reads [reads_intros]: "reads_only (tee_info l c url)"
  unfolding tee_info_def by (auto intro!: reads_intros split: prod.splits)

lemma get_tee_proxy_id_reads [reads_intros]: "reads_only (get_tee_proxy_id l c url)"
  unfolding get_tee_proxy_id_def by (intro reads_intros)

lemma action_result_reads [reads_intros]: "reads_only (action_result l c url h)"
  unfolding action_result_def by (auto intro!: reads_intros split: prod.splits)

text \<open>The state before try \<open>k\<close> when all tries before it have failed, and its answer.\<close>

fun poll_state :: "('key, 'c) chain \<Rightarrow> string \<Rightarrow> 'c \<Rightarrow> nat \<Rightarrow> 'c" where
  "poll_state c url s 0 = s"
| "poll_state c url s (Suc k) = poll_state c url (c_sleep c 2000 (snd (c_http_get c url s))) k"

definition poll_answer :: "('key, 'c) chain \<Rightarrow> string \<Rightarrow> 'c \<Rightarrow> nat \<Rightarrow> (nat \<times> string) rpc" where
  "poll_answer c url s k = fst (c_http_get c url (poll_state c url s k))"

lemma poll_answer_Suc:
  "poll_answer c url s (Suc k) =
     poll_answer c url (c_sleep c 2000 (snd (c_http_get c url s))) k"
  by (simp add: poll_answer_def)

lemma poll_0: "fst (poll c 0 url s) = poll_answer c url s 0"
  by (simp add: poll.simps[of c 0 url s] poll_answer_def Let_def split: prod.splits)

lemma poll_Suc:
  "\<not> answered (poll_answer c url s 0) \<Longrightarrow>
   poll c (Suc n) url s = poll c n url (c_sleep c 2000 (snd (c_http_get c url s)))"
  by (cases "c_http_get c url s") (simp add: poll.simps[of c "Suc n" url s] poll_answer_def Let_def)

lemma poll_hit: "answered (poll_answer c url s 0) \<Longrightarrow> fst (poll c n url s) = poll_answer c url s 0"
  by (cases "c_http_get c url s") (simp add: poll.simps[of c n url s] poll_answer_def Let_def)

lemma poll_first:
  assumes "k \<le> n" and "answered (poll_answer c url s k)" and "\<forall>j<k. \<not> answered (poll_answer c url s j)"
  shows "fst (poll c n url s) = poll_answer c url s k"
  using assms
proof (induction k arbitrary: n s)
  case 0
  then show ?case by (simp add: poll_hit)
next
  case (Suc k)
  then obtain m where n: "n = Suc m" by (cases n) auto
  have f: "\<not> answered (poll_answer c url s 0)" using Suc.prems(3) by blast
  let ?s = "c_sleep c 2000 (snd (c_http_get c url s))"
  have "\<forall>j<k. \<not> answered (poll_answer c url ?s j)"
    using Suc.prems(3) by (auto simp flip: poll_answer_Suc)
  then have "fst (poll c m url ?s) = poll_answer c url ?s k"
    using Suc.prems n by (intro Suc.IH) (simp_all add: poll_answer_Suc)
  then show ?case using f n by (simp add: poll_Suc poll_answer_Suc)
qed

lemma poll_none:
  assumes "\<forall>j\<le>n. \<not> answered (poll_answer c url s j)"
  shows "fst (poll c n url s) = poll_answer c url s n"
  using assms
proof (induction n arbitrary: s)
  case 0
  show ?case by (rule poll_0)
next
  case (Suc n)
  have f: "\<not> answered (poll_answer c url s 0)" using Suc.prems by blast
  let ?s = "c_sleep c 2000 (snd (c_http_get c url s))"
  have "\<forall>j\<le>n. \<not> answered (poll_answer c url ?s j)"
    using Suc.prems by (auto simp flip: poll_answer_Suc)
  then have "fst (poll c n url ?s) = poll_answer c url ?s n" by (rule Suc.IH)
  then show ?case using f by (simp add: poll_Suc poll_answer_Suc)
qed

lemma get_code_hash_and_platform_Ok:
  "get_code_hash_and_platform l info = Ok (ch, pl) \<Longrightarrow>
     ch = md_code_hash (ti_machine info) \<and> pl = md_platform (ti_machine info)"
  by (auto simp: get_code_hash_and_platform_def Let_def res_bind_Ok_iff split: if_splits prod.splits)

end
