(* ===== verification/Policy.thy ===== *)
theory Policy
  imports TeeCalls
begin

text \<open>
  \<open>tee/tools/pkg/fccutils/policy_consistency.go\<close>: is the FTDC proxy's signing policy in
  step with the chain's reward epoch? The gate stops a registration only on a
  confirmed mismatch.
\<close>

definition err_policy_out_of_sync :: go_error where
  "err_policy_out_of_sync =
     Sentinel ''FTDC proxy signing policy out of sync with on-chain reward epoch''"

definition policy_in_sync :: "u64 \<Rightarrow> u64 \<Rightarrow> bool" where
  "policy_in_sync onchain_epoch policy_id =
     (policy_id = onchain_epoch \<or> policy_id = onchain_epoch + 1)"

definition out_of_sync_error :: "u64 \<Rightarrow> u64 \<Rightarrow> go_error" where
  "out_of_sync_error onchain_epoch policy_id =
     (let rel = (if policy_id < onchain_epoch
                 then ''proxy is '' @ dec (unat (onchain_epoch - policy_id)) @ '' epoch(s) behind''
                 else ''proxy is '' @ dec (unat (policy_id - onchain_epoch)) @ '' epoch(s) ahead'')
      in WrapError
           (err_msg err_policy_out_of_sync @ '': proxy signing policy '' @ dec (unat policy_id)
            @ '' vs on-chain current reward epoch '' @ dec (unat onchain_epoch) @ '' ('' @ rel
            @ ''); data providers will reject the availability check with 404 ''
            @ [dquote] @ ''no round'' @ [dquote]
            @ ''; wait for the proxy to catch up to the current signing policy, or check the proxy's ''
            @ ''initial_signing_policy_offset and C-chain indexer sync'')
           err_policy_out_of_sync)"

text \<open>\<open>big.Int.Uint64\<close>: the low 64 bits.\<close>

definition big_uint64 :: "int \<Rightarrow> u64" where
  "big_uint64 v = word_of_int v"

definition check_policy_consistency ::
    "'key lib \<Rightarrow> ('key, 'c) chain \<Rightarrow> string \<Rightarrow> ('key, 'c, unit) io" where
  "check_policy_consistency l c url =
     io_try (io_ext (c_reward_epoch c))
       (\<lambda>r. case r of
          Inl _ \<Rightarrow> io_ok ()
        | Inr None \<Rightarrow> io_ok ()
        | Inr (Some onchain) \<Rightarrow>
            io_try (tee_info l c url)
              (\<lambda>q. case q of
                 Inl _ \<Rightarrow> io_ok ()
               | Inr info \<Rightarrow>
                   (let epoch = big_uint64 onchain; policy = ucast (ti_last_policy info) in
                    if \<not> policy_in_sync epoch policy then io_err (out_of_sync_error epoch policy)
                    else io_ok ())))"

subsection \<open>Facts\<close>

lemma check_policy_reads [reads_intros]: "reads_only (check_policy_consistency l c url)"
  unfolding check_policy_consistency_def
  by (auto intro!: reads_intros split: sum.splits option.splits simp: Let_def)

lemma out_of_sync_is: "errors_is (out_of_sync_error o' p) err_policy_out_of_sync"
  by (simp add: out_of_sync_error_def err_policy_out_of_sync_def Let_def)

lemma unat_ucast_32: "unat (ucast (p :: 32 word) :: u64) = unat p"
proof -
  have "unat p < 2 ^ 32" using unsigned_less[of p] by simp
  then have "unat p < 2 ^ 64" by simp
  moreover have "unat (ucast p :: u64) = unat p mod 2 ^ 64"
    by transfer (simp add: nat_take_bit_eq take_bit_eq_mod nat_mod_distrib)
  ultimately show ?thesis by simp
qed

lemma unat_of_nat_u64: "unat (word_of_nat n :: u64) = n mod 2 ^ 64"
  by (subst unat_of_nat) (simp add: take_bit_eq_mod)

text \<open>
  For an epoch of 64 bits: the policy is the epoch or its successor; the one wrap is the
  policy 0 after the last epoch.
\<close>

lemma policy_in_sync_nat:
  fixes p :: "32 word"
  assumes "n < 2 ^ 64"
  shows "policy_in_sync (word_of_nat n) (ucast p) \<longleftrightarrow>
    unat p = n \<or> unat p = n + 1 \<or> n = 2 ^ 64 - 1 \<and> p = 0"
proof -
  have p: "unat p < 2 ^ 32" using unsigned_less[of p] by simp
  have n: "unat (word_of_nat n :: u64) = n" using assms by (simp add: unat_of_nat_u64)
  have s: "unat (word_of_nat n + 1 :: u64) = (n + 1) mod 2 ^ 64"
    using unat_of_nat_u64[of "n + 1"] by (simp add: add.commute)
  have "policy_in_sync (word_of_nat n) (ucast p) \<longleftrightarrow>
      unat p = n \<or> unat p = (n + 1) mod 2 ^ 64"
    unfolding policy_in_sync_def word_unat_eq_iff[where 'a = 64] n s unat_ucast_32 ..
  also have "\<dots> \<longleftrightarrow> unat p = n \<or> unat p = n + 1 \<or> n = 2 ^ 64 - 1 \<and> p = 0"
  proof (cases "n + 1 < 2 ^ 64")
    case True
    then show ?thesis by auto
  next
    case False
    then have "n = 2 ^ 64 - 1" using assms by simp
    then show ?thesis using p by (simp add: unat_eq_0)
  qed
  finally show ?thesis .
qed

end
