(* ===== verification/Transactions.thy ===== *)
theory Transactions
  imports Support
begin

text \<open>
  The contract the transaction-sending operations of the tools share: an operation sends
  at most one transaction, of its own kind and with its own key, exactly one when it
  succeeds, and it leaves the files alone. Clients (the registration flow, the setup of
  an extension) rely on the contract only.
\<close>

subsection \<open>What a program sends\<close>

definition sends :: "('key, 'c, 'a) io \<Rightarrow> ('a res \<Rightarrow> ('key \<times> tx) list \<Rightarrow> bool) \<Rightarrow> bool" where
  "sends m P \<longleftrightarrow> (\<forall>w r w'. m w = (r, w') \<longrightarrow> (\<exists>ts. sent w' = sent w @ ts \<and> P r ts))"

definition keeps_files :: "('key, 'c, 'a) io \<Rightarrow> bool" where
  "keeps_files m \<longleftrightarrow> (\<forall>w r w'. m w = (r, w') \<longrightarrow> files w' = files w)"

definition fails :: "('key, 'c, 'a) io \<Rightarrow> bool" where
  "fails m \<longleftrightarrow> (\<forall>w r w'. m w = (r, w') \<longrightarrow> \<not> is_ok r)"

lemma sendsD: "sends m P \<Longrightarrow> m w = (r, w') \<Longrightarrow> \<exists>ts. sent w' = sent w @ ts \<and> P r ts"
  by (simp add: sends_def)

lemma sendsI: "(\<And>w r w'. m w = (r, w') \<Longrightarrow> \<exists>ts. sent w' = sent w @ ts \<and> P r ts) \<Longrightarrow> sends m P"
  by (simp add: sends_def)

lemma keeps_filesD: "keeps_files m \<Longrightarrow> m w = (r, w') \<Longrightarrow> files w' = files w"
  by (simp add: keeps_files_def)

lemma sends_mono: "sends m P \<Longrightarrow> (\<And>r ts. P r ts \<Longrightarrow> Q r ts) \<Longrightarrow> sends m Q"
  unfolding sends_def by blast

lemma sends_reads: "reads_only m \<Longrightarrow> sends m (\<lambda>r ts. ts = [])"
  unfolding sends_def by (metis append_Nil2 reads_onlyD)

lemma keeps_reads: "reads_only m \<Longrightarrow> keeps_files m"
  unfolding keeps_files_def by (metis reads_onlyD)

lemma io_bind_cases:
  assumes "io_bind m f w = (r, w'')"
  obtains (go) x w' where "m w = (Ok x, w')" and "f x w' = (r, w'')"
  | (err) e where "m w = (Err e, w'')" and "r = Err e"
  | (panic) p where "m w = (Panic p, w'')" and "r = Panic p"
  using assms unfolding io_bind_def by (cases "m w"; cases "fst (m w)") auto

lemma io_try_cases:
  assumes "io_try m f w = (r, w'')"
  obtains (go) x w' where "m w = (Ok x, w')" and "f (Inr x) w' = (r, w'')"
  | (err) e w' where "m w = (Err e, w')" and "f (Inl e) w' = (r, w'')"
  | (panic) p where "m w = (Panic p, w'')" and "r = Panic p"
  using assms unfolding io_try_def by (cases "m w"; cases "fst (m w)") auto

lemma sends_bind:
  assumes "sends m P" and "\<And>x. sends (f x) (Q x)"
    and "\<And>x r t1 t2. P (Ok x) t1 \<Longrightarrow> Q x r t2 \<Longrightarrow> R r (t1 @ t2)"
    and "\<And>e ts. P (Err e) ts \<Longrightarrow> R (Err e) ts" and "\<And>p ts. P (Panic p) ts \<Longrightarrow> R (Panic p) ts"
  shows "sends (io_bind m f) R"
proof (rule sendsI)
  fix w r w''
  assume "io_bind m f w = (r, w'')"
  then show "\<exists>ts. sent w'' = sent w @ ts \<and> R r ts"
  proof (cases rule: io_bind_cases)
    case (go x w')
    from sendsD[OF assms(1) go(1)] sendsD[OF assms(2) go(2)] assms(3)
    show ?thesis by (metis append_assoc)
  qed (use sendsD[OF assms(1)] assms(4,5) in blast)+
qed

lemma keeps_bind: "keeps_files m \<Longrightarrow> (\<And>x. keeps_files (f x)) \<Longrightarrow> keeps_files (io_bind m f)"
  by (auto simp: keeps_files_def elim!: io_bind_cases)

lemma keeps_try: "keeps_files m \<Longrightarrow> (\<And>x. keeps_files (f x)) \<Longrightarrow> keeps_files (io_try m f)"
  by (auto simp: keeps_files_def elim!: io_try_cases)

lemma keeps_map_err: "keeps_files m \<Longrightarrow> keeps_files (io_map_err g m)"
  unfolding keeps_files_def by (metis io_map_err_snd snd_conv prod.collapse)

lemma keeps_send: "keeps_files (send_tx c k t)"
  by (auto simp: keeps_files_def send_tx_def split: prod.splits sum.splits)

lemma sends_send_tx:
  "sends (send_tx c k t) (\<lambda>r ts. if is_ok r then ts = [(k, t)] else ts = [])"
  by (auto simp: sends_def send_tx_def split: prod.splits sum.splits)

lemma sends_map_err: "sends m P \<Longrightarrow> (\<And>r ts. P r ts \<Longrightarrow> Q (map_err g r) ts) \<Longrightarrow> sends (io_map_err g m) Q"
  unfolding sends_def io_map_err_def by (fastforce split: prod.splits)

lemma fails_intros:
  "fails (io_err e)" "(\<And>x. fails (f x)) \<Longrightarrow> fails (io_bind m f)"
  by (auto simp: fails_def io_err_def elim!: io_bind_cases)

subsection \<open>At most one transaction\<close>

definition one_tx :: "('key, 'c, 'a) io \<Rightarrow> 'key \<Rightarrow> (tx \<Rightarrow> bool) \<Rightarrow> bool" where
  "one_tx m k kind \<longleftrightarrow>
     sends m (\<lambda>r ts. ts = [] \<and> \<not> is_ok r \<or> (\<exists>t. kind t \<and> ts = [(k, t)])) \<and> keeps_files m"

named_theorems one_tx_intros "programs that send at most one transaction"

lemma one_tx_err [one_tx_intros]: "one_tx (io_err e) k kind"
  by (auto simp: one_tx_def sends_def keeps_files_def io_err_def)

lemma one_tx_if [one_tx_intros]:
  "(b \<Longrightarrow> one_tx m k kind) \<Longrightarrow> (\<not> b \<Longrightarrow> one_tx n k kind) \<Longrightarrow> one_tx (if b then m else n) k kind"
  by simp

lemma one_tx_bind_reads [one_tx_intros]:
  assumes "reads_only m" and "\<And>x. one_tx (f x) k kind"
  shows "one_tx (io_bind m f) k kind"
  unfolding one_tx_def
proof
  show "sends (io_bind m f) (\<lambda>r ts. ts = [] \<and> \<not> is_ok r \<or> (\<exists>t. kind t \<and> ts = [(k, t)]))"
    by (rule sends_bind[OF sends_reads[OF assms(1)]]) (use assms(2) in \<open>auto simp: one_tx_def\<close>)
  show "keeps_files (io_bind m f)"
    by (rule keeps_bind[OF keeps_reads[OF assms(1)]]) (use assms(2) in \<open>simp add: one_tx_def\<close>)
qed

lemma one_tx_send:
  assumes "kind t" and "\<And>h. reads_only (f h)"
  shows "one_tx (io_bind (io_map_err g (send_tx c k t)) f) k kind"
  unfolding one_tx_def
proof
  have s: "sends (io_map_err g (send_tx c k t)) (\<lambda>r ts. if is_ok r then ts = [(k, t)] else ts = [])"
    by (rule sends_map_err[OF sends_send_tx]) simp
  show "sends (io_bind (io_map_err g (send_tx c k t)) f)
      (\<lambda>r ts. ts = [] \<and> \<not> is_ok r \<or> (\<exists>t. kind t \<and> ts = [(k, t)]))"
    by (rule sends_bind[OF s sends_reads]) (use assms in auto)
  show "keeps_files (io_bind (io_map_err g (send_tx c k t)) f)"
    using assms by (intro keeps_bind keeps_map_err keeps_send keeps_reads)
qed

lemma one_tx_try_send:
  assumes "kind t" and "\<And>h. reads_only (f (Inr h))"
    and "\<And>e. reads_only (f (Inl e))" and "\<And>e. fails (f (Inl e))"
  shows "one_tx (io_try (send_tx c k t) f) k kind"
  unfolding one_tx_def
proof
  show "sends (io_try (send_tx c k t) f) (\<lambda>r ts. ts = [] \<and> \<not> is_ok r \<or> (\<exists>t. kind t \<and> ts = [(k, t)]))"
  proof (rule sendsI)
    fix w r w''
    assume "io_try (send_tx c k t) f w = (r, w'')"
    then show "\<exists>ts. sent w'' = sent w @ ts \<and> (ts = [] \<and> \<not> is_ok r \<or> (\<exists>t. kind t \<and> ts = [(k, t)]))"
    proof (cases rule: io_try_cases)
      case (go x w')
      then show ?thesis
        using send_tx_Ok[OF go(1)] reads_onlyD[OF assms(2) go(2)] assms(1) by auto
    next
      case (err e w')
      have "\<not> is_ok r" using assms(4) err(2) unfolding fails_def by blast
      then show ?thesis
        using send_tx_Err[OF err(1)] reads_onlyD[OF assms(3) err(2)] by auto
    next
      case (panic p)
      then show ?thesis by (auto simp: send_tx_def split: prod.splits sum.splits)
    qed
  qed
  have "keeps_files (f x)" for x using assms(2,3) keeps_reads by (cases x) auto
  then show "keeps_files (io_try (send_tx c k t) f)" by (intro keeps_try keeps_send)
qed

text \<open>What one stage of a flow has sent, from world to world: at most one transaction of its
  kind, none when it has nothing to do, one when it has and succeeds.\<close>

definition stage ::
    "'key \<Rightarrow> (tx \<Rightarrow> bool) \<Rightarrow> bool \<Rightarrow> bool \<Rightarrow> ('key, 'c) world \<Rightarrow> ('key, 'c) world \<Rightarrow> bool" where
  "stage k kind act ok w w' \<longleftrightarrow>
     (\<exists>ts. sent w' = sent w @ ts \<and> length ts \<le> 1 \<and> (\<forall>(k', t)\<in>set ts. k' = k \<and> kind t)
        \<and> (ts \<noteq> [] \<longrightarrow> act) \<and> (ok \<and> act \<longrightarrow> ts \<noteq> []))"

lemma stage_refl [simp]: "stage k kind act False w w"
  by (simp add: stage_def)

lemma stage_none: "sent w' = sent w \<Longrightarrow> stage k kind act False w w'"
  by (simp add: stage_def)

lemma stage_weaken: "stage k kind act True w w' \<Longrightarrow> stage k kind act b w w'"
  by (auto simp: stage_def)

lemma one_tx_stage:
  assumes "one_tx m k kind" and "m w = (r, w')"
  shows "stage k kind True (is_ok r) w w'"
  using sendsD[OF conjunct1[OF assms(1)[unfolded one_tx_def]] assms(2)]
  unfolding stage_def by auto

subsection \<open>The contract as an interface\<close>

locale single_tx =
  fixes m :: "('key, 'c, 'a) io" and k :: 'key and kind :: "tx \<Rightarrow> bool"
  assumes one: "one_tx m k kind"
begin

lemma run:
  "m w = (r, w') \<Longrightarrow> files w' = files w
     \<and> (sent w' = sent w \<and> \<not> is_ok r \<or> (\<exists>t. kind t \<and> sent w' = sent w @ [(k, t)]))"
  using one unfolding one_tx_def sends_def keeps_files_def by fastforce

lemma success: "m w = (Ok x, w') \<Longrightarrow> \<exists>t. kind t \<and> sent w' = sent w @ [(k, t)]"
  using run[of w "Ok x" w'] by simp

lemma at_most_one: "m w = (r, w') \<Longrightarrow> length (sent w') \<le> Suc (length (sent w))"
  using run[of w r w'] by auto

lemma sends_one: "sends m (\<lambda>r ts. ts = [] \<and> \<not> is_ok r \<or> (\<exists>t. kind t \<and> ts = [(k, t)]))"
  using one by (simp add: one_tx_def)

lemma keeps: "keeps_files m"
  using one by (simp add: one_tx_def)

end

end
