(* ===== verification/Registration.thy ===== *)
theory Registration
  imports Policy Transactions
begin

text \<open>
  \<open>tee/tools/pkg/fccutils/registration.go\<close>: the registration of a TEE machine in up to
  four steps (pre-register, request an attestation, availability check, promote), with a
  state file that lets a run resume.
\<close>

subsection \<open>The state file\<close>

record registration_state =
  rs_completed :: string
  rs_attest :: hash
  rs_instruction :: hash

definition zero_state :: registration_state where
  "zero_state = \<lparr>rs_completed = [], rs_attest = 0, rs_instruction = 0\<rparr>"

definition state_fields :: "string list" where
  "state_fields = [''completed_steps'', ''tee_attest_instruction_id'', ''instruction_id'']"

definition json_reg_state :: "'key lib \<Rightarrow> registration_state \<Rightarrow> json" where
  "json_reg_state l st = JObj
     [(''completed_steps'', JStr (rs_completed st)),
      (''tee_attest_instruction_id'', JStr (l_hash_json l (rs_attest st))),
      (''instruction_id'', JStr (l_hash_json l (rs_instruction st)))]"

fun decode_state_members ::
    "'key lib \<Rightarrow> (string \<times> json) list \<Rightarrow> registration_state \<Rightarrow> registration_state option" where
  "decode_state_members l [] st = Some st"
| "decode_state_members l ((k, v) # ms) st =
     (case find_field state_fields k of
        None \<Rightarrow> decode_state_members l ms st
      | Some n \<Rightarrow>
          if n = ''completed_steps'' then
            (case into_string v (rs_completed st) of
               None \<Rightarrow> None | Some s \<Rightarrow> decode_state_members l ms (st\<lparr>rs_completed := s\<rparr>))
          else
            (case l_json_hash l v of
               None \<Rightarrow> None
             | Some h \<Rightarrow>
                 decode_state_members l ms
                   (if n = ''tee_attest_instruction_id'' then st\<lparr>rs_attest := h\<rparr>
                    else st\<lparr>rs_instruction := h\<rparr>)))"

definition decode_reg_state :: "'key lib \<Rightarrow> string \<Rightarrow> registration_state option" where
  "decode_reg_state l data =
     (case json_unmarshal data of
        Some (JObj ms) \<Rightarrow> decode_state_members l ms zero_state
      | Some JNull \<Rightarrow> Some zero_state
      | _ \<Rightarrow> None)"

definition load_state ::
    "'key lib \<Rightarrow> ('key, 'c) chain \<Rightarrow> string \<Rightarrow> ('key, 'c, registration_state) io" where
  "load_state l c path =
     io_bind (io_map_err (errorf ''failed to read state file'') (read_opt c path))
       (\<lambda>d. case d of
          None \<Rightarrow> io_ok zero_state
        | Some data \<Rightarrow>
            (case decode_reg_state l data of
               None \<Rightarrow> io_err (errorf ''failed to parse state file'' (l_json_error l data))
             | Some st \<Rightarrow> io_ok st))"

definition save_state ::
    "'key lib \<Rightarrow> ('key, 'c) chain \<Rightarrow> string \<Rightarrow> registration_state \<Rightarrow> ('key, 'c, unit) io" where
  "save_state l c path st =
     io_map_err (errorf ''failed to write state file'')
       (write_file c path (json_indent 0 (json_reg_state l st)))"

text \<open>A failed save is only logged.\<close>

definition save_or_warn ::
    "'key lib \<Rightarrow> ('key, 'c) chain \<Rightarrow> string \<Rightarrow> registration_state \<Rightarrow> ('key, 'c, unit) io" where
  "save_or_warn l c path st = io_try (save_state l c path st) (\<lambda>_. io_ok ())"

subsection \<open>The transactions\<close>

definition instruction_fee :: int where "instruction_fee = 1000000000"

definition registry_of :: "machine_data \<Rightarrow> registry_machine" where
  "registry_of md =
     \<lparr>rm_extension_id = uint (md_extension_id md), rm_initial_owner = md_initial_owner md,
      rm_code_hash = md_code_hash md, rm_platform = md_platform md,
      rm_public_key = md_public_key md, rm_governance_hash = md_governance_hash md\<rparr>"

definition split_vrs :: "bytes \<Rightarrow> vrs_signature res" where
  "split_vrs b =
     (if length b < 65 then Panic ''slice bounds out of range''
      else Ok \<lparr>sig_v = b ! 0, sig_r = take 32 (drop 1 b), sig_s = take 32 (drop 33 b)\<rparr>)"

text \<open>The reason a refused \<open>register()\<close> is reported with.\<close>

definition register_reason ::
    "'key lib \<Rightarrow> ('key, 'c) chain \<Rightarrow> 'key support \<Rightarrow> tx \<Rightarrow> go_error \<Rightarrow> ('key, 'c, string) io" where
  "register_reason l c s t err =
     (let reason = decode_revert_reason l (Some err);
          finish = (\<lambda>r. io_ok (if r = [] then err_msg err else r))
      in case l_abi l ''MachineManager'' of
           Inl _ \<Rightarrow> finish reason
         | Inr errs \<Rightarrow>
             (case l_pack l t of
                Inl _ \<Rightarrow> finish reason
              | Inr calldata \<Rightarrow>
                  io_bind
                    (simulate_and_decode_revert l c (l_key_address l (s_prv s))
                       (flare_tee_manager (s_addresses s)) (Some instruction_fee) calldata)
                    (\<lambda>raw.
                       let named = match_custom_error errs raw in
                       finish (if named \<noteq> [] then named
                               else if reason = [] then raw else reason))))"

definition pre_registration ::
    "'key lib \<Rightarrow> ('key, 'c) chain \<Rightarrow> 'key support \<Rightarrow> string \<Rightarrow> address \<Rightarrow> tee_info
      \<Rightarrow> ('key, 'c, hash \<times> hash) io" where
  "pre_registration l c s host proxy info =
     io_bind (io_res (map_err restring (transactor l (s_prv s) (s_chain_id s))))
       (\<lambda>_. if length (ti_data_signature info) \<noteq> 65 then io_err (ErrorString ''signature error'')
       else io_bind (io_res (map_err restring (of_rpc (l_rsv_to_vrs l (ti_data_signature info)))))
       (\<lambda>vrs. io_bind (io_res (split_vrs vrs))
       (\<lambda>sg.
         let t = TxRegisterMachine (registry_of (ti_machine info)) sg proxy host
                   (l_key_address l (s_prv s)) instruction_fee
         in io_try (send_tx c (s_prv s) t)
           (\<lambda>r. case r of
              Inl err \<Rightarrow>
                io_bind (register_reason l c s t err)
                  (\<lambda>reason. io_err (ErrorString (''register() reverted: '' @ reason)))
            | Inr h \<Rightarrow>
                io_bind (check_tx l c h)
                  (\<lambda>rc.
                     if length (rc_logs rc) < 2
                     then io_err (ErrorString ''unexpected logs, this should not happen'')
                     else
                       io_bind (io_res (map_err (errorf ''failed to parse TeeAttestationRequested event'')
                           (of_rpc (l_parse_attestation l (rc_logs rc ! 1)))))
                         (\<lambda>challenge.
                            io_bind (io_res (map_err (errorf ''failed to parse TeeInstructionsSent event'')
                                (of_rpc (l_parse_instructions l (rc_logs rc ! 0)))))
                              (\<lambda>iid. io_ok (challenge, iid))))))))"

definition request_tee_attestation ::
    "'key lib \<Rightarrow> ('key, 'c) chain \<Rightarrow> 'key support \<Rightarrow> address \<Rightarrow> ('key, 'c, hash) io" where
  "request_tee_attestation l c s tee =
     io_bind (io_res (map_err restring (transactor l (s_prv s) (s_chain_id s))))
       (\<lambda>_. io_bind (io_map_err (errorf ''error'')
              (send_tx c (s_prv s)
                (TxRequestAttestation tee (l_key_address l (s_prv s)) instruction_fee)))
       (\<lambda>h. io_bind (check_tx l c h)
       (\<lambda>rc. if length (rc_logs rc) < 2
             then io_err (ErrorString ''unexpected logs, this should not happen'')
             else io_res (map_err (errorf ''failed to parse TeeInstructionsSent event'')
                    (of_rpc (l_parse_instructions l (rc_logs rc ! 0)))))))"

definition request_availability_check ::
    "'key lib \<Rightarrow> ('key, 'c) chain \<Rightarrow> 'key support \<Rightarrow> address \<Rightarrow> address \<Rightarrow> hash
      \<Rightarrow> ('key, 'c, hash) io" where
  "request_availability_check l c s tee external attest =
     io_bind (io_res (map_err restring (transactor l (s_prv s) (s_chain_id s))))
       (\<lambda>_.
         let me = l_key_address l (s_prv s);
             t = TxAvailabilityCheck tee attest external me me instruction_fee
         in io_try (send_tx c (s_prv s) t)
           (\<lambda>r. case r of
              Inl err \<Rightarrow>
                io_bind (diag_availability_check_revert l c s t instruction_fee)
                  (\<lambda>_. io_err (restring err))
            | Inr h \<Rightarrow>
                io_bind (io_map_err restring (check_tx l c h))
                  (\<lambda>rc. case rc_logs rc of
                     [] \<Rightarrow> io_err (ErrorString ''no logs found in receipt'')
                   | lg # _ \<Rightarrow>
                       io_res (map_err (errorf ''failed to parse TeeInstructionsSent event'')
                         (of_rpc (l_parse_instructions l lg))))))"

definition get_availability_result ::
    "'key lib \<Rightarrow> ('key, 'c) chain \<Rightarrow> string \<Rightarrow> hash \<Rightarrow> ('key, 'c, availability_proof) io" where
  "get_availability_result l c host iid =
     io_bind (action_result l c host iid)
       (\<lambda>r. io_bind (io_res (map_err restring (of_rpc (l_decode_prove l (an_data r)))))
       (\<lambda>(hd, rq, rs, sigs). io_bind (io_res (map_err restring (of_rpc (l_decode_header l hd))))
       (\<lambda>header. io_bind (io_res (map_err restring (decode_availability_request l rq)))
       (\<lambda>request. io_bind (io_res (map_err restring (decode_availability_response l rs)))
       (\<lambda>response. io_ok \<lparr>pf_signatures = sigs, pf_header = header, pf_request = request,
          pf_response = response\<rparr>)))))"

definition to_production ::
    "'key lib \<Rightarrow> ('key, 'c) chain \<Rightarrow> 'key support \<Rightarrow> availability_proof \<Rightarrow> ('key, 'c, unit) io" where
  "to_production l c s proof =
     io_bind (io_res (map_err restring (transactor l (s_prv s) (s_chain_id s))))
       (\<lambda>_. io_bind (io_map_err restring (send_tx c (s_prv s) (TxToProduction proof)))
       (\<lambda>h. io_bind (io_map_err restring (check_tx l c h))
       (\<lambda>_. io_bind (io_map_err restring
              (io_ext (c_get_machine c (aq_tee_id (pf_request proof)))))
       (\<lambda>tid. if tid \<noteq> aq_tee_id (pf_request proof)
              then io_err (ErrorString ''tee machine not set up correctly'')
              else io_ok ()))))"

text \<open>A version string, left-aligned in 32 bytes.\<close>

definition string_to_bytes32 :: "'key lib \<Rightarrow> string \<Rightarrow> bytes res" where
  "string_to_bytes32 l s =
     (if 32 < length s
      then Err (ErrorString (''version '' @ go_quote (l_is_print l) s @ '' exceeds 32 bytes''))
      else Ok (s @ replicate (32 - length s) (nat_byte 0)))"

definition add_tee_version ::
    "'key lib \<Rightarrow> ('key, 'c) chain \<Rightarrow> 'key support \<Rightarrow> 'key \<Rightarrow> int \<Rightarrow> hash \<Rightarrow> hash \<Rightarrow> string
      \<Rightarrow> ('key, 'c, unit) io" where
  "add_tee_version l c s k eid code_hash platform v =
     io_bind (io_res (map_err restring (transactor l k (s_chain_id s))))
       (\<lambda>_. io_bind (io_res (string_to_bytes32 l v))
       (\<lambda>vb. io_bind (io_map_err (errorf ''TeeExtensionRegistry.AddTeeVersion failed'')
              (send_tx c k (TxAddTeeVersion eid vb code_hash [platform])))
       (\<lambda>h. io_bind (io_map_err restring (check_tx l c h)) (\<lambda>_. io_ok ()))))"

subsection \<open>The four steps\<close>

record reg_args =
  ra_host :: string
  ra_ftdc_url :: string
  ra_ftdc_tee :: address
  ra_command :: string
  ra_instruction :: string
  ra_state_path :: string

definition wants :: "reg_args \<Rightarrow> string \<Rightarrow> bool" where
  "wants a x = contains (ra_command a) x"

definition is_done :: "registration_state \<Rightarrow> string \<Rightarrow> bool" where
  "is_done st x = contains (rs_completed st) x"

text \<open>
  Each step takes the state and the attestation's instruction and gives them on; a step
  that was run ends with a sleep of one second.
\<close>

definition step_pre_register ::
    "'key lib \<Rightarrow> ('key, 'c) chain \<Rightarrow> 'key support \<Rightarrow> tee_info \<Rightarrow> reg_args \<Rightarrow> address \<Rightarrow> address
      \<Rightarrow> registration_state \<times> hash \<Rightarrow> ('key, 'c, registration_state \<times> hash) io" where
  "step_pre_register l c s info a tee proxy = (\<lambda>(st, attest).
     if \<not> wants a ''r'' then io_ok (st, attest)
     else
       io_bind
         (if is_done st ''r'' then io_ok (st, rs_attest st)
          else
            io_bind
              (io_try (io_ext (c_get_machine c tee))
                (\<lambda>m. case m of
                   Inr tid \<Rightarrow>
                     if tid \<noteq> 0 then request_tee_attestation l c s tee
                     else io_bind (pre_registration l c s (ra_host a) proxy info) (\<lambda>(_, i). io_ok i)
                 | Inl _ \<Rightarrow>
                     io_bind (pre_registration l c s (ra_host a) proxy info) (\<lambda>(_, i). io_ok i)))
              (\<lambda>iid. let st' = st\<lparr>rs_completed := rs_completed st @ ''r'', rs_attest := iid\<rparr> in
                 io_bind (save_or_warn l c (ra_state_path a) st') (\<lambda>_. io_ok (st', iid))))
         (\<lambda>p. io_bind (io_sleep c 1000) (\<lambda>_. io_ok p)))"

definition step_request_attestation ::
    "'key lib \<Rightarrow> ('key, 'c) chain \<Rightarrow> 'key support \<Rightarrow> reg_args \<Rightarrow> address
      \<Rightarrow> registration_state \<times> hash \<Rightarrow> ('key, 'c, registration_state \<times> hash) io" where
  "step_request_attestation l c s a tee = (\<lambda>(st, attest).
     if \<not> wants a ''R'' then io_ok (st, attest)
     else
       io_bind
         (if is_done st ''R'' then io_ok (st, rs_attest st)
          else
            io_bind (request_tee_attestation l c s tee)
              (\<lambda>iid. let st' = st\<lparr>rs_completed := rs_completed st @ ''R'', rs_attest := iid\<rparr> in
                 io_bind (save_or_warn l c (ra_state_path a) st') (\<lambda>_. io_ok (st', iid))))
         (\<lambda>p. io_bind (io_sleep c 1000) (\<lambda>_. io_ok p)))"

definition step_availability ::
    "'key lib \<Rightarrow> ('key, 'c) chain \<Rightarrow> 'key support \<Rightarrow> reg_args \<Rightarrow> address
      \<Rightarrow> registration_state \<times> hash \<Rightarrow> ('key, 'c, hash) io" where
  "step_availability l c s a tee = (\<lambda>(st, attest).
     if \<not> wants a ''a'' then io_ok (l_hex_to_hash l (ra_instruction a))
     else
       io_bind
         (if is_done st ''a'' then io_ok (rs_instruction st)
          else
            io_bind (check_policy_consistency l c (ra_ftdc_url a))
              (\<lambda>_. io_bind (request_availability_check l c s tee (ra_ftdc_tee a) attest)
                (\<lambda>iid. let st' = st\<lparr>rs_completed := rs_completed st @ ''a'', rs_instruction := iid\<rparr> in
                   io_bind (save_or_warn l c (ra_state_path a) st') (\<lambda>_. io_ok iid))))
         (\<lambda>iid. io_bind (io_sleep c 1000) (\<lambda>_. io_ok iid)))"

definition step_promote ::
    "'key lib \<Rightarrow> ('key, 'c) chain \<Rightarrow> 'key support \<Rightarrow> reg_args \<Rightarrow> hash \<Rightarrow> ('key, 'c, unit) io" where
  "step_promote l c s a iid =
     (if \<not> wants a ''p'' then io_ok ()
      else io_bind (get_availability_result l c (ra_ftdc_url a) iid)
             (\<lambda>proof. to_production l c s proof))"

text \<open>At the end the state file is removed; an error of the removal is ignored.\<close>

definition register_node ::
    "'key lib \<Rightarrow> ('key, 'c) chain \<Rightarrow> 'key support \<Rightarrow> tee_info \<Rightarrow> reg_args \<Rightarrow> ('key, 'c, unit) io" where
  "register_node l c s info a =
     io_bind (io_res (tee_proxy_id l info))
       (\<lambda>(tee, proxy). io_bind (load_state l c (ra_state_path a))
       (\<lambda>st. io_bind (step_pre_register l c s info a tee proxy (st, 0))
       (\<lambda>p. io_bind (step_request_attestation l c s a tee p)
       (\<lambda>q. io_bind (step_availability l c s a tee q)
       (\<lambda>iid. io_bind (step_promote l c s a iid)
       (\<lambda>_. io_try (remove_file c (ra_state_path a)) (\<lambda>_. io_ok ())))))))"

subsection \<open>The transactions keep the contract\<close>

lemma register_reason_reads [reads_intros]: "reads_only (register_reason l c s t e)"
  unfolding register_reason_def
  by (auto intro!: reads_intros split: sum.splits simp: Let_def)

lemma request_tee_attestation_one:
  "one_tx (request_tee_attestation l c s tee) (s_prv s)
     (\<lambda>t. t = TxRequestAttestation tee (l_key_address l (s_prv s)) instruction_fee)"
  unfolding request_tee_attestation_def
  by (intro one_tx_bind_reads one_tx_send reads_intros refl)

lemma pre_registration_one:
  "one_tx (pre_registration l c s host proxy info) (s_prv s)
     (\<lambda>t. \<exists>sg. t = TxRegisterMachine (registry_of (ti_machine info)) sg proxy host
                (l_key_address l (s_prv s)) instruction_fee)"
  unfolding pre_registration_def Let_def
  by (intro one_tx_bind_reads one_tx_if one_tx_err one_tx_try_send reads_intros)
     (auto intro!: reads_intros fails_intros)

lemma request_availability_check_one:
  "one_tx (request_availability_check l c s tee external attest) (s_prv s)
     (\<lambda>t. t = TxAvailabilityCheck tee attest external (l_key_address l (s_prv s))
                (l_key_address l (s_prv s)) instruction_fee)"
  unfolding request_availability_check_def Let_def
  by (intro one_tx_bind_reads one_tx_try_send reads_intros)
     (auto intro!: reads_intros fails_intros split: list.splits)

lemma to_production_one: "one_tx (to_production l c s pr) (s_prv s) (\<lambda>t. t = TxToProduction pr)"
  unfolding to_production_def
  by (intro one_tx_bind_reads one_tx_send reads_intros refl)

lemma get_availability_result_reads [reads_intros]: "reads_only (get_availability_result l c url h)"
  unfolding get_availability_result_def by (auto intro!: reads_intros split: prod.splits)

lemma add_tee_version_one:
  "one_tx (add_tee_version l c s k eid ch pl v) k
     (\<lambda>t. \<exists>vb. t = TxAddTeeVersion eid vb ch [pl])"
  unfolding add_tee_version_def
  by (intro one_tx_bind_reads one_tx_send reads_intros) auto

interpretation attest: single_tx "request_tee_attestation l c s tee" "s_prv s"
    "\<lambda>t. t = TxRequestAttestation tee (l_key_address l (s_prv s)) instruction_fee" for l c s tee
  by unfold_locales (rule request_tee_attestation_one)

interpretation pre_reg: single_tx "pre_registration l c s host proxy info" "s_prv s"
    "\<lambda>t. \<exists>sg. t = TxRegisterMachine (registry_of (ti_machine info)) sg proxy host
                (l_key_address l (s_prv s)) instruction_fee" for l c s host proxy info
  by unfold_locales (rule pre_registration_one)

interpretation avail: single_tx "request_availability_check l c s tee external attest" "s_prv s"
    "\<lambda>t. t = TxAvailabilityCheck tee attest external (l_key_address l (s_prv s))
                (l_key_address l (s_prv s)) instruction_fee" for l c s tee external attest
  by unfold_locales (rule request_availability_check_one)

interpretation promote: single_tx "to_production l c s pr" "s_prv s" "\<lambda>t. t = TxToProduction pr"
    for l c s pr
  by unfold_locales (rule to_production_one)

interpretation add_version: single_tx "add_tee_version l c s k eid ch pl v" k
    "\<lambda>t. \<exists>vb. t = TxAddTeeVersion eid vb ch [pl]" for l c s k eid ch pl v
  by unfold_locales (rule add_tee_version_one)

end
