(* ===== verification/RegistrationFlow.thy ===== *)
theory RegistrationFlow
  imports Registration
begin

text \<open>
  Facts on \<open>RegisterNode\<close>: the state file is read back, a step sends at most one
  transaction and records it, completed steps are not repeated, and after a failure the
  file accounts for everything sent but the last transaction.
\<close>

subsection \<open>The state file is read back\<close>

text \<open>go-ethereum's text form of a hash: ASCII, and \<open>UnmarshalJSON\<close> inverts \<open>MarshalText\<close>.\<close>

definition hash_text_ok :: "'key lib \<Rightarrow> bool" where
  "hash_text_ok l \<longleftrightarrow>
     (\<forall>h. ascii (l_hash_json l h) \<and> l_json_hash l (JStr (l_hash_json l h)) = Some h)"

lemma decode_reg_state_print:
  assumes "hash_text_ok l" and "ascii (rs_completed st)"
  shows "decode_reg_state l (json_indent 0 (json_reg_state l st)) = Some st"
proof -
  let ?ms = "[(''completed_steps'', rs_completed st),
    (''tee_attest_instruction_id'', l_hash_json l (rs_attest st)),
    (''instruction_id'', l_hash_json l (rs_instruction st))]"
  have j: "json_reg_state l st = JObj (map (\<lambda>(k, v). (k, JStr v)) ?ms)"
    by (simp add: json_reg_state_def)
  have "json_unmarshal (json_indent 0 (json_reg_state l st)) = Some (json_reg_state l st)"
    unfolding j
    by (rule json_unmarshal_indent_flat)
       (use assms in \<open>auto simp: hash_text_ok_def ascii_def byte_nat_Char\<close>)
  then show ?thesis
    using assms(1)
    by (simp add: decode_reg_state_def json_reg_state_def find_field_def state_fields_def
        zero_state_def hash_text_ok_def)
qed

text \<open>What a later run would resume from; \<open>None\<close> for a file that does not parse.\<close>

definition file_state :: "'key lib \<Rightarrow> string option \<Rightarrow> registration_state option" where
  "file_state l d = (case d of None \<Rightarrow> Some zero_state | Some data \<Rightarrow> decode_reg_state l data)"

definition writes_ok :: "('key, 'c) chain \<Rightarrow> bool" where
  "writes_ok c \<longleftrightarrow> (\<forall>p d x. c_write_error c p d x = None)"

lemma load_state_Ok:
  "load_state l c p w = (Ok st, w') \<Longrightarrow> file_state l (files w p) = Some st \<and> w' = w"
  by (auto simp: load_state_def io_bind_Ok file_state_def read_opt_def io_err_def
      split: option.splits)

lemma load_state_reads [reads_intros]: "reads_only (load_state l c p)"
  unfolding load_state_def by (auto intro!: reads_intros split: option.splits)

lemma save_or_warn_run:
  assumes "save_or_warn l c p st w = (r, w')"
  shows "r = Ok () \<and> sent w' = sent w
    \<and> (writes_ok c \<longrightarrow> files w' = (files w)(p := Some (json_indent 0 (json_reg_state l st))))"
  using assms
  by (auto simp: save_or_warn_def save_state_def io_try_def io_map_err_def write_file_def io_ok_def
      writes_ok_def split: prod.splits res.splits option.splits)

subsection \<open>One step of the flow\<close>

text \<open>
  An active step sends at most one transaction of its kind; when it succeeds it has sent
  exactly one and saved the new state. A step that is skipped or fails leaves the file.
\<close>

definition step_effect ::
    "'key lib \<Rightarrow> ('key, 'c) chain \<Rightarrow> string \<Rightarrow> 'key \<Rightarrow> (tx \<Rightarrow> bool) \<Rightarrow> bool
      \<Rightarrow> ('key, 'c) world \<Rightarrow> bool \<Rightarrow> registration_state \<Rightarrow> ('key, 'c) world \<Rightarrow> bool" where
  "step_effect l c p k kind active w ok st' w' \<longleftrightarrow>
     (\<exists>ts. sent w' = sent w @ ts \<and> length ts \<le> 1 \<and> (\<forall>(k', t)\<in>set ts. k' = k \<and> kind t)
        \<and> (ts \<noteq> [] \<longrightarrow> active) \<and> (ok \<and> active \<longrightarrow> length ts = 1))
     \<and> (ok \<and> active \<longrightarrow> writes_ok c \<longrightarrow>
          files w' = (files w)(p := Some (json_indent 0 (json_reg_state l st'))))
     \<and> (\<not> (ok \<and> active) \<longrightarrow> files w' = files w)"

text \<open>The call behind a step returned the id, and only what it sent was sent.\<close>

definition op_ran :: "('key, 'c, hash) io \<Rightarrow> hash \<Rightarrow> ('key, 'c) world \<Rightarrow> ('key, 'c) world \<Rightarrow> bool" where
  "op_ran op iid w w' \<longleftrightarrow> (\<exists>v v'. op v = (Ok iid, v') \<and> sent v = sent w \<and> sent v' = sent w')"

lemma step_effect_skip: "sent w' = sent w \<Longrightarrow> files w' = files w \<Longrightarrow> \<not> active \<Longrightarrow>
    step_effect l c p k kind active w ok st' w'"
  by (simp add: step_effect_def)

lemma recorded_effect:
  assumes m: "one_tx m k kind"
    and run: "io_bind m (\<lambda>iid. io_bind (save_or_warn l c p (upd iid)) (\<lambda>_. io_ok (g iid))) w = (r, w')"
  shows "(\<exists>iid. r = Ok (g iid) \<and> op_ran m iid w w' \<and> step_effect l c p k kind True w True (upd iid) w')
    \<or> \<not> is_ok r \<and> (\<forall>st'. step_effect l c p k kind True w False st' w')"
proof -
  show ?thesis using run
  proof (cases rule: io_bind_cases)
    case (go iid w1)
    obtain t where t: "kind t" "sent w1 = sent w @ [(k, t)]" "files w1 = files w"
      using single_tx.run[OF single_tx.intro, OF m go(1)] by auto
    from go(2) obtain w2 where w2: "save_or_warn l c p (upd iid) w1 = (Ok (), w2)" "r = Ok (g iid)" "w2 = w'"
      by (cases rule: io_bind_cases) (use save_or_warn_run in \<open>fastforce simp: io_ok_def\<close>)+
    have "op_ran m iid w w'"
      unfolding op_ran_def using go(1) w2(3) save_or_warn_run[OF w2(1)] by (intro exI[of _ w] exI[of _ w1]) simp
    then show ?thesis using t w2 save_or_warn_run[OF w2(1)] by (auto simp: step_effect_def)
  qed (use single_tx.run[OF single_tx.intro, OF m] in \<open>fastforce simp: step_effect_def\<close>)+
qed

lemma io_bind_assoc: "io_bind (io_bind m f) g = io_bind m (\<lambda>x. io_bind (f x) g)"
  by (rule ext) (auto simp: io_bind_def split: prod.splits res.splits)

lemma sleep_then_run:
  "io_bind m (\<lambda>x. io_bind (io_sleep c n) (\<lambda>_. io_ok x)) w = (r, w') \<Longrightarrow>
     \<exists>w1. m w = (r, w1) \<and> sent w' = sent w1 \<and> files w' = files w1"
  by (auto simp: io_bind_def io_sleep_def io_ok_def split: prod.splits res.splits)

lemma guarded_effect:
  assumes m: "one_tx m k kind"
    and run: "(if \<not> want then io_ok x0
       else io_bind
         (if dn then io_ok x1
          else io_bind m (\<lambda>iid. io_bind (save_or_warn l c p (upd iid)) (\<lambda>_. io_ok (g iid))))
         (\<lambda>x. io_bind (io_sleep c 1000) (\<lambda>_. io_ok x))) w = (r, w')"
  shows "(\<exists>iid. want \<and> \<not> dn \<and> r = Ok (g iid) \<and> op_ran m iid w w'
        \<and> step_effect l c p k kind True w True (upd iid) w')
    \<or> \<not> (want \<and> \<not> dn) \<and> r = Ok (if want then x1 else x0) \<and> sent w' = sent w \<and> files w' = files w
    \<or> want \<and> \<not> dn \<and> \<not> is_ok r \<and> (\<forall>st'. step_effect l c p k kind True w False st' w')"
proof (cases "want \<and> \<not> dn")
  case True
  then obtain w1 where w1: "sent w' = sent w1" "files w' = files w1"
    "io_bind m (\<lambda>iid. io_bind (save_or_warn l c p (upd iid)) (\<lambda>_. io_ok (g iid))) w = (r, w1)"
    using sleep_then_run[of _ c 1000 w r w'] run by auto
  have "step_effect l c p k kind True w b st w1 = step_effect l c p k kind True w b st w'"
    and "op_ran m iid w w1 = op_ran m iid w w'" for b st iid
    using w1 by (simp_all add: step_effect_def op_ran_def)
  then show ?thesis using recorded_effect[OF m w1(3)] True by auto
next
  case False
  then show ?thesis
    using run sleep_then_run[of "io_ok x1" c 1000 w r w'] by (auto simp: io_ok_def split: if_splits)
qed

definition active :: "reg_args \<Rightarrow> registration_state \<Rightarrow> string \<Rightarrow> bool" where
  "active a st x \<longleftrightarrow> wants a x \<and> \<not> is_done st x"

definition is_register :: "tx \<Rightarrow> bool" where
  "is_register t = (case t of TxRegisterMachine _ _ _ _ _ _ \<Rightarrow> True
     | TxRequestAttestation _ _ _ \<Rightarrow> True | _ \<Rightarrow> False)"

definition is_request :: "tx \<Rightarrow> bool" where
  "is_request t = (case t of TxRequestAttestation _ _ _ \<Rightarrow> True | _ \<Rightarrow> False)"

definition is_check :: "hash \<Rightarrow> tx \<Rightarrow> bool" where
  "is_check h t = (case t of TxAvailabilityCheck _ h' _ _ _ _ \<Rightarrow> h' = h | _ \<Rightarrow> False)"

definition is_promote :: "tx \<Rightarrow> bool" where
  "is_promote t = (case t of TxToProduction _ \<Rightarrow> True | _ \<Rightarrow> False)"

lemma one_tx_mono: "one_tx m k kind \<Longrightarrow> (\<And>t. kind t \<Longrightarrow> kind' t) \<Longrightarrow> one_tx m k kind'"
  unfolding one_tx_def by (auto elim!: sends_mono)

lemma one_tx_map: "one_tx m k kind \<Longrightarrow> one_tx (io_bind m (\<lambda>x. io_ok (f x))) k kind"
proof -
  assume m: "one_tx m k kind"
  have "sends (io_bind m (\<lambda>x. io_ok (f x)))
      (\<lambda>r ts. ts = [] \<and> \<not> is_ok r \<or> (\<exists>t. kind t \<and> ts = [(k, t)]))"
    by (rule sends_bind[OF conjunct1[OF m[unfolded one_tx_def]] sends_reads[OF reads_only_basic(1)]])
       auto
  moreover have "keeps_files (io_bind m (\<lambda>x. io_ok (f x)))"
    by (rule keeps_bind[OF conjunct2[OF m[unfolded one_tx_def]] keeps_reads[OF reads_only_basic(1)]])
  ultimately show ?thesis by (simp add: one_tx_def)
qed

lemma one_tx_try_reads:
  assumes "reads_only m" and "\<And>x. one_tx (f x) k kind"
  shows "one_tx (io_try m f) k kind"
proof -
  have "sends (io_try m f) (\<lambda>r ts. ts = [] \<and> \<not> is_ok r \<or> (\<exists>t. kind t \<and> ts = [(k, t)]))"
  proof (rule sendsI)
    fix w r w''
    assume "io_try m f w = (r, w'')"
    then show "\<exists>ts. sent w'' = sent w @ ts \<and> (ts = [] \<and> \<not> is_ok r \<or> (\<exists>t. kind t \<and> ts = [(k, t)]))"
    proof (cases rule: io_try_cases)
      case (go x w')
      then show ?thesis using reads_onlyD[OF assms(1) go(1)]
          sendsD[OF conjunct1[OF assms(2)[of "Inr x", unfolded one_tx_def]], of w' r w''] by simp
    next
      case (err e w')
      then show ?thesis using reads_onlyD[OF assms(1) err(1)]
          sendsD[OF conjunct1[OF assms(2)[of "Inl e", unfolded one_tx_def]], of w' r w''] by simp
    next
      case (panic q)
      then show ?thesis using reads_onlyD[OF assms(1) panic(1)] by simp
    qed
  qed
  moreover have "keeps_files (io_try m f)"
    by (rule keeps_try[OF keeps_reads[OF assms(1)] conjunct2[OF assms(2)[unfolded one_tx_def]]])
  ultimately show ?thesis by (simp add: one_tx_def)
qed

subsection \<open>The four steps\<close>

definition recorded :: "registration_state \<Rightarrow> string \<Rightarrow> hash \<Rightarrow> registration_state" where
  "recorded st x iid =
     (let st' = st\<lparr>rs_completed := rs_completed st @ x\<rparr> in
      if x = ''a'' then st'\<lparr>rs_instruction := iid\<rparr> else st'\<lparr>rs_attest := iid\<rparr>)"

text \<open>The outcome of a step: done and recorded, skipped, or failed.\<close>

definition step_outcome ::
    "'key lib \<Rightarrow> ('key, 'c) chain \<Rightarrow> reg_args \<Rightarrow> 'key \<Rightarrow> (tx \<Rightarrow> bool) \<Rightarrow> ('key, 'c, hash) io
      \<Rightarrow> registration_state \<Rightarrow> string \<Rightarrow> ('key, 'c) world \<Rightarrow> bool \<Rightarrow> registration_state
      \<Rightarrow> ('key, 'c) world \<Rightarrow> bool" where
  "step_outcome l c a k kind op st x w ok st' w' \<longleftrightarrow>
     step_effect l c (ra_state_path a) k kind (active a st x) w ok st' w'
     \<and> (if active a st x then ok \<longrightarrow> (\<exists>iid. st' = recorded st x iid \<and> op_ran op iid w w')
        else ok \<and> st' = st)"

text \<open>The calls of the three steps that are recorded.\<close>

definition pre_register_call ::
    "'key lib \<Rightarrow> ('key, 'c) chain \<Rightarrow> 'key support \<Rightarrow> tee_info \<Rightarrow> reg_args \<Rightarrow> address \<Rightarrow> address
      \<Rightarrow> ('key, 'c, hash) io" where
  "pre_register_call l c s info a tee proxy =
     io_try (io_ext (c_get_machine c tee))
      (\<lambda>m. case m of
         Inr tid \<Rightarrow>
           if tid \<noteq> 0 then request_tee_attestation l c s tee
           else io_bind (pre_registration l c s (ra_host a) proxy info) (\<lambda>(_, i). io_ok i)
       | Inl _ \<Rightarrow> io_bind (pre_registration l c s (ra_host a) proxy info) (\<lambda>(_, i). io_ok i))"

definition attest_of :: "reg_args \<Rightarrow> registration_state \<Rightarrow> hash" where
  \<comment> \<open>the attestation the availability check is requested for\<close>
  "attest_of a st = (if wants a ''r'' \<or> wants a ''R'' then rs_attest st else 0)"

definition step_call ::
    "'key lib \<Rightarrow> ('key, 'c) chain \<Rightarrow> 'key support \<Rightarrow> tee_info \<Rightarrow> reg_args \<Rightarrow> address \<Rightarrow> address
      \<Rightarrow> registration_state \<Rightarrow> char \<Rightarrow> ('key, 'c, hash) io" where
  "step_call l c s info a tee proxy st x =
     (if x = CHR ''r'' then pre_register_call l c s info a tee proxy
      else if x = CHR ''R'' then request_tee_attestation l c s tee
      else request_availability_check l c s tee (ra_ftdc_tee a) (attest_of a st))"

lemma is_done_recorded: "is_done (recorded st x iid) x"
  by (simp add: is_done_def recorded_def Let_def)

lemma pre_register_one: "one_tx (pre_register_call l c s info a tee proxy) (s_prv s) is_register"
proof -
  have "one_tx (io_bind (pre_registration l c s host proxy info) (\<lambda>(_, i). io_ok i)) (s_prv s) is_register" for host
    unfolding case_prod_unfold
    by (rule one_tx_map[OF one_tx_mono[OF pre_registration_one]]) (auto simp: is_register_def)
  moreover have "one_tx (request_tee_attestation l c s tee) (s_prv s) is_register"
    by (rule one_tx_mono[OF request_tee_attestation_one]) (simp add: is_register_def)
  ultimately show ?thesis unfolding pre_register_call_def
    by (intro one_tx_try_reads reads_intros) (auto split: sum.splits)
qed

lemma step_pre_register_outcome:
  assumes "step_pre_register l c s info a tee proxy (st, at0) w = (r, w')"
  shows "(\<exists>st'. r = Ok (st', if wants a ''r'' then rs_attest st' else at0)
      \<and> step_outcome l c a (s_prv s) is_register (pre_register_call l c s info a tee proxy) st ''r'' w True st' w')
    \<or> \<not> is_ok r \<and> (\<forall>st'. step_outcome l c a (s_prv s) is_register
          (pre_register_call l c s info a tee proxy) st ''r'' w False st' w')"
proof -
  have eq: "step_pre_register l c s info a tee proxy (st, at0) =
      (if \<not> wants a ''r'' then io_ok (st, at0)
       else io_bind
         (if is_done st ''r'' then io_ok (st, rs_attest st)
          else io_bind (pre_register_call l c s info a tee proxy)
            (\<lambda>iid. io_bind (save_or_warn l c (ra_state_path a) (recorded st ''r'' iid))
              (\<lambda>_. io_ok (recorded st ''r'' iid, iid))))
         (\<lambda>x. io_bind (io_sleep c 1000) (\<lambda>_. io_ok x)))"
    by (simp add: step_pre_register_def pre_register_call_def recorded_def Let_def cong: if_cong)
  have at: "rs_attest (recorded st ''r'' iid) = iid" for iid by (simp add: recorded_def Let_def)
  from guarded_effect[OF pre_register_one assms[unfolded eq]] show ?thesis
    by (elim disjE exE conjE) (auto simp: step_outcome_def active_def step_effect_skip at)
qed

lemma step_request_attestation_outcome:
  assumes "step_request_attestation l c s a tee (st, at0) w = (r, w')"
  shows "(\<exists>st'. r = Ok (st', if wants a ''R'' then rs_attest st' else at0)
      \<and> (\<not> wants a ''R'' \<longrightarrow> st' = st)
      \<and> step_outcome l c a (s_prv s) is_request (request_tee_attestation l c s tee) st ''R'' w True st' w')
    \<or> \<not> is_ok r \<and> (\<forall>st'. step_outcome l c a (s_prv s) is_request
          (request_tee_attestation l c s tee) st ''R'' w False st' w')"
proof -
  have one: "one_tx (request_tee_attestation l c s tee) (s_prv s) is_request"
    by (rule one_tx_mono[OF request_tee_attestation_one]) (simp add: is_request_def)
  have eq: "step_request_attestation l c s a tee (st, at0) =
      (if \<not> wants a ''R'' then io_ok (st, at0)
       else io_bind
         (if is_done st ''R'' then io_ok (st, rs_attest st)
          else io_bind (request_tee_attestation l c s tee)
            (\<lambda>iid. io_bind (save_or_warn l c (ra_state_path a) (recorded st ''R'' iid))
              (\<lambda>_. io_ok (recorded st ''R'' iid, iid))))
         (\<lambda>x. io_bind (io_sleep c 1000) (\<lambda>_. io_ok x)))"
    by (simp add: step_request_attestation_def recorded_def Let_def cong: if_cong)
  have at: "rs_attest (recorded st ''R'' iid) = iid" for iid by (simp add: recorded_def Let_def)
  from guarded_effect[OF one assms[unfolded eq]] show ?thesis
    by (elim disjE exE conjE) (auto simp: step_outcome_def active_def step_effect_skip at)
qed

lemma op_ran_after_reads:
  assumes "reads_only m" and "op_ran (io_bind m (\<lambda>_. op)) iid w w'"
  shows "op_ran op iid w w'"
proof -
  obtain v v' where v: "io_bind m (\<lambda>_. op) v = (Ok iid, v')" "sent v = sent w" "sent v' = sent w'"
    using assms(2) by (auto simp: op_ran_def)
  from v(1) obtain x u where "m v = (Ok x, u)" "op u = (Ok iid, v')" by (auto simp: io_bind_Ok)
  then show ?thesis using v reads_onlyD[OF assms(1)] unfolding op_ran_def by fastforce
qed

lemma step_availability_outcome:
  assumes "step_availability l c s a tee (st, attest) w = (r, w')"
  shows "(\<exists>st' iid. r = Ok iid
      \<and> step_outcome l c a (s_prv s) (is_check attest)
          (request_availability_check l c s tee (ra_ftdc_tee a) attest) st ''a'' w True st' w')
    \<or> \<not> is_ok r \<and> (\<forall>st'. step_outcome l c a (s_prv s) (is_check attest)
          (request_availability_check l c s tee (ra_ftdc_tee a) attest) st ''a'' w False st' w')"
proof -
  let ?op = "request_availability_check l c s tee (ra_ftdc_tee a) attest"
  have one: "one_tx (io_bind (check_policy_consistency l c (ra_ftdc_url a)) (\<lambda>_. ?op)) (s_prv s) (is_check attest)"
    by (intro one_tx_bind_reads check_policy_reads
        one_tx_mono[OF request_availability_check_one]) (simp add: is_check_def)
  have eq: "step_availability l c s a tee (st, attest) =
      (if \<not> wants a ''a'' then io_ok (l_hex_to_hash l (ra_instruction a))
       else io_bind
         (if is_done st ''a'' then io_ok (rs_instruction st)
          else io_bind (io_bind (check_policy_consistency l c (ra_ftdc_url a)) (\<lambda>_. ?op))
            (\<lambda>iid. io_bind (save_or_warn l c (ra_state_path a) (recorded st ''a'' iid))
              (\<lambda>_. io_ok iid)))
         (\<lambda>x. io_bind (io_sleep c 1000) (\<lambda>_. io_ok x)))"
    by (simp add: step_availability_def recorded_def Let_def io_bind_assoc cong: if_cong)
  from guarded_effect[OF one assms[unfolded eq]] show ?thesis
    by (elim disjE exE conjE)
       (auto simp: step_outcome_def active_def step_effect_skip dest!: op_ran_after_reads[OF check_policy_reads])
qed

lemma step_promote_effect:
  assumes "step_promote l c s a iid w = (r, w')"
  shows "\<exists>ts. sent w' = sent w @ ts \<and> length ts \<le> 1 \<and> (\<forall>(k, t)\<in>set ts. k = s_prv s \<and> is_promote t)
    \<and> (ts \<noteq> [] \<longrightarrow> wants a ''p'') \<and> (is_ok r \<and> wants a ''p'' \<longrightarrow> length ts = 1)
    \<and> files w' = files w"
proof (cases "wants a ''p''")
  case True
  have one: "one_tx (io_bind (get_availability_result l c (ra_ftdc_url a) iid)
      (\<lambda>pr. to_production l c s pr)) (s_prv s) is_promote"
    by (intro one_tx_bind_reads get_availability_result_reads one_tx_mono[OF to_production_one])
       (simp add: is_promote_def)
  have "io_bind (get_availability_result l c (ra_ftdc_url a) iid)
      (\<lambda>pr. to_production l c s pr) w = (r, w')"
    using assms True by (simp add: step_promote_def)
  from single_tx.run[OF single_tx.intro, OF one this] show ?thesis using True by auto
next
  case False
  then show ?thesis using assms by (simp add: step_promote_def io_ok_def)
qed

subsection \<open>The whole flow\<close>

lemma is_done_iff: "is_done st [x] \<longleftrightarrow> x \<in> set (rs_completed st)"
  by (simp add: is_done_def)

lemma completed_recorded [simp]: "rs_completed (recorded st x iid) = rs_completed st @ x"
  by (simp add: recorded_def Let_def)

lemma active_outcome:
  assumes "step_outcome l c a k kind op st [x] w True st' w'" and "y \<noteq> x"
  shows "active a st' [y] \<longleftrightarrow> active a st [y]"
  using assms
  by (auto simp: step_outcome_def active_def is_done_iff split: if_splits)

lemma outcome_sent:
  assumes "step_outcome l c a k kind op st x w ok st' w'"
  obtains ts where "sent w' = sent w @ ts" "length ts \<le> 1" "\<forall>(k', t)\<in>set ts. k' = k \<and> kind t"
    "ts \<noteq> [] \<Longrightarrow> active a st x" "ok \<Longrightarrow> active a st x \<Longrightarrow> length ts = 1"
  using assms unfolding step_outcome_def step_effect_def by blast

text \<open>
  The flow runs its steps in order and stops at the first failure; what it has sent is
  the concatenation of what the steps sent.
\<close>

lemma register_node_cases:
  assumes "register_node l c s info a w = (r, w')"
  obtains (start) "\<not> is_ok r" "sent w' = sent w" "files w' = files w"
  | (pre) tee proxy st st' where "load_state l c (ra_state_path a) w = (Ok st, w)"
      "tee_proxy_id l info = Ok (tee, proxy)" "\<not> is_ok r"
      "step_outcome l c a (s_prv s) is_register (step_call l c s info a tee proxy st (CHR ''r''))
         st ''r'' w False st' w'"
  | (request) tee proxy st st1 w1 st' where "load_state l c (ra_state_path a) w = (Ok st, w)"
      "tee_proxy_id l info = Ok (tee, proxy)" "\<not> is_ok r"
      "step_outcome l c a (s_prv s) is_register (step_call l c s info a tee proxy st (CHR ''r''))
         st ''r'' w True st1 w1"
      "step_outcome l c a (s_prv s) is_request (step_call l c s info a tee proxy st1 (CHR ''R''))
         st1 ''R'' w1 False st' w'"
  | (check) tee proxy st st1 w1 st2 w2 st' where "load_state l c (ra_state_path a) w = (Ok st, w)"
      "tee_proxy_id l info = Ok (tee, proxy)" "\<not> is_ok r"
      "step_outcome l c a (s_prv s) is_register (step_call l c s info a tee proxy st (CHR ''r''))
         st ''r'' w True st1 w1"
      "step_outcome l c a (s_prv s) is_request (step_call l c s info a tee proxy st1 (CHR ''R''))
         st1 ''R'' w1 True st2 w2"
      "step_outcome l c a (s_prv s) (is_check (attest_of a st2))
         (step_call l c s info a tee proxy st2 (CHR ''a'')) st2 ''a'' w2 False st' w'"
  | (promote) tee proxy st st1 w1 st2 w2 st3 w3 iid w4 where
      "load_state l c (ra_state_path a) w = (Ok st, w)"
      "tee_proxy_id l info = Ok (tee, proxy)"
      "step_outcome l c a (s_prv s) is_register (step_call l c s info a tee proxy st (CHR ''r''))
         st ''r'' w True st1 w1"
      "step_outcome l c a (s_prv s) is_request (step_call l c s info a tee proxy st1 (CHR ''R''))
         st1 ''R'' w1 True st2 w2"
      "step_outcome l c a (s_prv s) (is_check (attest_of a st2))
         (step_call l c s info a tee proxy st2 (CHR ''a'')) st2 ''a'' w2 True st3 w3"
      "step_promote l c s a iid w3 = (r, w4)" "sent w' = sent w4"
      "is_ok r \<Longrightarrow> c_remove_error c (ra_state_path a) (ext w4) = None \<Longrightarrow>
         files w' = (files w4)(ra_state_path a := None)"
      "\<not> is_ok r \<Longrightarrow> w' = w4"
proof -
  let ?k = "s_prv s"
  note run = assms[unfolded register_node_def]
  from run show thesis
  proof (cases rule: io_bind_cases)
    case (go tp w0)
    obtain tee proxy where tp: "tp = (tee, proxy)" "w0 = w" using go(1) by (cases tp) (auto simp: io_res_def)
    have id: "tee_proxy_id l info = Ok (tee, proxy)" using go(1) tp by (simp add: io_res_def)
    have cr: "step_call l c s info a tee proxy q (CHR ''r'') = pre_register_call l c s info a tee proxy"
      and cR: "step_call l c s info a tee proxy q (CHR ''R'') = request_tee_attestation l c s tee"
      and ca: "step_call l c s info a tee proxy q (CHR ''a'')
        = request_availability_check l c s tee (ra_ftdc_tee a) (attest_of a q)" for q
      by (simp_all add: step_call_def)
    from go(2)[unfolded tp, simplified] show thesis
    proof (cases rule: io_bind_cases)
      case (go st wl)
      then have ld: "load_state l c (ra_state_path a) w = (Ok st, w)" "wl = w"
        using load_state_Ok[OF go(1)] by simp_all
      from go(2)[unfolded ld(2)] show thesis
      proof (cases rule: io_bind_cases)
        case (go q w1)
        then obtain st1 where q: "q = (st1, if wants a ''r'' then rs_attest st1 else 0)"
          and o1: "step_outcome l c a ?k is_register (step_call l c s info a tee proxy st (CHR ''r''))
             st ''r'' w True st1 w1"
          using step_pre_register_outcome[OF go(1)] unfolding cr by auto
        from go(2)[unfolded q] show thesis
        proof (cases rule: io_bind_cases)
          case (go q w2)
          then obtain st2 where q: "q = (st2, attest_of a st2)"
            and o2: "step_outcome l c a ?k is_request (step_call l c s info a tee proxy st1 (CHR ''R''))
               st1 ''R'' w1 True st2 w2"
            using step_request_attestation_outcome[OF go(1)] unfolding cR attest_of_def by auto
          from go(2)[unfolded q] show thesis
          proof (cases rule: io_bind_cases)
            case (go iid w3)
            obtain st3 where o3: "step_outcome l c a ?k (is_check (attest_of a st2))
                (step_call l c s info a tee proxy st2 (CHR ''a'')) st2 ''a'' w2 True st3 w3"
              using step_availability_outcome[OF go(1)] unfolding ca by auto
            from go(2) show thesis
            proof (cases rule: io_bind_cases)
              case (go u w4)
              have "r = Ok u \<and> sent w' = sent w4 \<and> (c_remove_error c (ra_state_path a) (ext w4) = None
                  \<longrightarrow> files w' = (files w4)(ra_state_path a := None))"
                using go(2) by (auto simp: io_try_def remove_file_def io_ok_def split: option.splits)
              then show thesis using promote[OF ld(1) id o1 o2 o3, of iid w4] go(1) by auto
            qed (use promote[OF ld(1) id o1 o2 o3, of iid w'] in auto)
          qed (use check[OF ld(1) id _ o1 o2] step_availability_outcome in \<open>unfold ca, fastforce\<close>)+
        qed (use request[OF ld(1) id _ o1] step_request_attestation_outcome in \<open>unfold cR, fastforce\<close>)+
      qed (use pre[OF ld(1) id] step_pre_register_outcome in \<open>unfold cr, fastforce\<close>)+
    qed (use start reads_onlyD[OF load_state_reads] tp in fastforce)+
  qed (use start in \<open>auto simp: io_res_def\<close>)
qed

lemma outcome_stage:
  assumes "step_outcome l c a k kind op st x w b st' w'" and "ok \<Longrightarrow> b"
  shows "stage k kind (active a st x) ok w w'"
  using assms(2) outcome_sent[OF assms(1)] unfolding stage_def by (metis length_0_conv zero_neq_one)

text \<open>No step that the state file records as completed is sent again.\<close>

lemma register_node_stages:
  assumes run: "register_node l c s info a w = (r, w')"
    and st: "file_state l (files w (ra_state_path a)) = Some st"
  shows "\<exists>w1 w2 w3 h. stage (s_prv s) is_register (active a st ''r'') (is_ok r) w w1
    \<and> stage (s_prv s) is_request (active a st ''R'') (is_ok r) w1 w2
    \<and> stage (s_prv s) (is_check h) (active a st ''a'') (is_ok r) w2 w3
    \<and> stage (s_prv s) is_promote (wants a ''p'') (is_ok r) w3 w'
    \<and> (wants a ''r'' \<or> wants a ''R'' \<or> h = 0)"
  using run
proof (cases rule: register_node_cases)
  case start
  then have "stage (s_prv s) kind act (is_ok r) w w'" "stage (s_prv s) kind act (is_ok r) w w" for kind act
    by (simp_all add: stage_def)
  then show ?thesis by (intro exI[of _ w] exI[of _ 0]) simp
next
  case (pre tee proxy st0 st')
  have [simp]: "st0 = st" using load_state_Ok[OF pre(1)] st by simp
  show ?thesis using outcome_stage[OF pre(4), of False] pre(3)
    by (intro exI[of _ w'] exI[of _ 0]) auto
next
  case (request tee proxy st0 st1 w1 st')
  have [simp]: "st0 = st" using load_state_Ok[OF request(1)] st by simp
  have "active a st1 ''R'' = active a st ''R''" using active_outcome[OF request(4)] by simp
  then show ?thesis
    using outcome_stage[OF request(4), of False] outcome_stage[OF request(5), of False] request(3)
    by (intro exI[of _ w1] exI[of _ w'] exI[of _ 0]) auto
next
  case (check tee proxy st0 st1 w1 st2 w2 st')
  have [simp]: "st0 = st" using load_state_Ok[OF check(1)] st by simp
  have "active a st1 ''R'' = active a st ''R''" "active a st2 ''a'' = active a st ''a''"
    using active_outcome[OF check(4)] active_outcome[OF check(5)] by simp_all
  then show ?thesis
    using outcome_stage[OF check(4), of False] outcome_stage[OF check(5), of False]
      outcome_stage[OF check(6), of False] check(3)
    by (intro exI[of _ w1] exI[of _ w2] exI[of _ w'] exI[of _ "attest_of a st2"]) (auto simp: attest_of_def)
next
  case (promote tee proxy st0 st1 w1 st2 w2 st3 w3 iid w4)
  have [simp]: "st0 = st" using load_state_Ok[OF promote(1)] st by simp
  have eq: "active a st1 ''R'' = active a st ''R''" "active a st2 ''a'' = active a st ''a''"
    using active_outcome[OF promote(3)] active_outcome[OF promote(4)] by simp_all
  have "stage (s_prv s) is_promote (wants a ''p'') (is_ok r) w3 w'"
    using step_promote_effect[OF promote(6)] promote(7) unfolding stage_def
    by (metis length_0_conv zero_neq_one)
  moreover have "wants a ''r'' \<or> wants a ''R'' \<or> attest_of a st2 = 0" by (simp add: attest_of_def)
  ultimately show ?thesis
    using outcome_stage[OF promote(3), of "is_ok r"] outcome_stage[OF promote(4), of "is_ok r"]
      outcome_stage[OF promote(5), of "is_ok r"] unfolding eq by auto
qed

subsection \<open>After a failure\<close>

text \<open>Each step is recorded at most once, and only the steps that are recorded.\<close>

definition wf_state :: "registration_state \<Rightarrow> bool" where
  "wf_state st \<longleftrightarrow> distinct (rs_completed st) \<and> set (rs_completed st) \<subseteq> set ''rRa''"

lemma wf_zero_state: "wf_state zero_state"
  by (simp add: wf_state_def zero_state_def)

lemma wf_state_ascii: "wf_state st \<Longrightarrow> ascii (rs_completed st)"
  by (auto simp: wf_state_def ascii_def list_all_iff byte_nat_Char)

lemma wf_state_length: "wf_state st \<Longrightarrow> length (rs_completed st) \<le> 3"
  using card_mono[of "set ''rRa''" "set (rs_completed st)"]
  by (simp add: wf_state_def distinct_card)

lemma wf_recorded: "wf_state st \<Longrightarrow> \<not> is_done st [x] \<Longrightarrow> x \<in> set ''rRa'' \<Longrightarrow> wf_state (recorded st [x] iid)"
  by (auto simp: wf_state_def is_done_iff)

text \<open>
  \<open>completed_steps xs st ss\<close>: the calls of the steps \<open>xs\<close> have returned one after the other, each
  made when everything sent was \<open>ss\<close> without its own transaction and those after it; \<open>st\<close> records
  the steps with the ids the calls returned.
\<close>

inductive completed_steps ::
    "'key lib \<Rightarrow> ('key, 'c) chain \<Rightarrow> 'key support \<Rightarrow> tee_info \<Rightarrow> reg_args \<Rightarrow> address \<Rightarrow> address
      \<Rightarrow> registration_state \<Rightarrow> ('key \<times> tx) list
      \<Rightarrow> char list \<Rightarrow> registration_state \<Rightarrow> ('key \<times> tx) list \<Rightarrow> bool"
  for l c s info a tee proxy st0 ss0 where
  none: "completed_steps l c s info a tee proxy st0 ss0 [] st0 ss0"
| step: "completed_steps l c s info a tee proxy st0 ss0 xs st (sent v) \<Longrightarrow> active a st [x]
    \<Longrightarrow> step_call l c s info a tee proxy st x v = (Ok iid, v') \<Longrightarrow> sent v' = sent v @ [(s_prv s, t)]
    \<Longrightarrow> completed_steps l c s info a tee proxy st0 ss0 (xs @ [x]) (recorded st [x] iid) (sent v')"

lemma completed_steps_counts:
  "completed_steps l c s info a tee proxy st0 ss0 xs st ss
    \<Longrightarrow> rs_completed st = rs_completed st0 @ xs \<and> length ss = length ss0 + length xs"
  by (induction rule: completed_steps.induct) auto

lemma completed_steps_wf:
  "completed_steps l c s info a tee proxy st0 ss0 xs st ss
    \<Longrightarrow> set xs \<subseteq> set ''rRa'' \<Longrightarrow> wf_state st0 \<Longrightarrow> wf_state st"
  by (induction rule: completed_steps.induct) (auto simp: active_def wf_recorded)

text \<open>The state file and the state in memory agree after each step that has gone through.\<close>

definition tracked ::
    "'key lib \<Rightarrow> ('key, 'c) chain \<Rightarrow> 'key support \<Rightarrow> tee_info \<Rightarrow> reg_args \<Rightarrow> address \<Rightarrow> address
      \<Rightarrow> registration_state \<Rightarrow> ('key, 'c) world \<Rightarrow> char list \<Rightarrow> registration_state \<Rightarrow> ('key, 'c) world \<Rightarrow> bool"
  where
  "tracked l c s info a tee proxy st0 w0 xs st w \<longleftrightarrow>
     completed_steps l c s info a tee proxy st0 (sent w0) xs st (sent w)
     \<and> file_state l (files w (ra_state_path a)) = Some st \<and> ascii (rs_completed st)"

lemma outcome_tracked:
  assumes "tracked l c s info a tee proxy st0 w0 xs st w" and "hash_text_ok l" and "writes_ok c"
    and "step_outcome l c a (s_prv s) kind (step_call l c s info a tee proxy st x) st [x] w True st' w'"
    and "x \<in> set ''rRa''"
  shows "tracked l c s info a tee proxy st0 w0 (if active a st [x] then xs @ [x] else xs) st' w'"
proof (cases "active a st [x]")
  case True
  then obtain iid where st': "st' = recorded st [x] iid"
    and f: "files w' (ra_state_path a) = Some (json_indent 0 (json_reg_state l st'))"
    and op: "op_ran (step_call l c s info a tee proxy st x) iid w w'"
    using assms(3,4) by (auto simp: step_outcome_def step_effect_def)
  from op obtain v v' where v: "step_call l c s info a tee proxy st x v = (Ok iid, v')"
    "sent v = sent w" "sent v' = sent w'" by (auto simp: op_ran_def)
  obtain ts where ts: "sent w' = sent w @ ts" "length ts = 1" "\<forall>(k', t)\<in>set ts. k' = s_prv s \<and> kind t"
    using outcome_sent[OF assms(4)] True by metis
  then obtain t where t: "sent w' = sent w @ [(s_prv s, t)]" by (cases ts) auto
  have "completed_steps l c s info a tee proxy st0 (sent w0) xs st (sent v)"
    using assms(1) v(2) by (simp add: tracked_def)
  from completed_steps.step[OF this True v(1), of t] t v
  have "completed_steps l c s info a tee proxy st0 (sent w0) (xs @ [x]) st' (sent w')" by (simp add: st')
  moreover have "ascii (rs_completed st')"
    using assms(1,5) by (auto simp: st' tracked_def ascii_def byte_nat_Char)
  ultimately show ?thesis
    using decode_reg_state_print[OF assms(2), of st'] f True by (simp add: tracked_def file_state_def)
next
  case False
  then have "st' = st" "files w' = files w" "sent w' = sent w"
    using assms(4) outcome_sent[OF assms(4)] by (auto simp: step_outcome_def step_effect_def)
  then show ?thesis using assms(1) False by (simp add: tracked_def)
qed

lemma active_recorded: "y \<noteq> x \<Longrightarrow> active a (recorded st [x] iid) [y] = active a st [y]"
  by (simp add: active_def is_done_iff)

text \<open>
  A failed run: the steps that went through are exactly those recorded, in the order of the
  flow; at most one more transaction was sent, after all of theirs.
\<close>

definition nearly_tracked ::
    "'key lib \<Rightarrow> ('key, 'c) chain \<Rightarrow> 'key support \<Rightarrow> tee_info \<Rightarrow> reg_args
      \<Rightarrow> registration_state \<Rightarrow> ('key, 'c) world \<Rightarrow> ('key, 'c) world \<Rightarrow> bool" where
  "nearly_tracked l c s info a st0 w0 w \<longleftrightarrow>
     (\<exists>tee proxy xs st ss rest. completed_steps l c s info a tee proxy st0 (sent w0) xs st ss
       \<and> (xs \<noteq> [] \<longrightarrow> tee_proxy_id l info = Ok (tee, proxy))
       \<and> subseq xs ''rRa'' \<and> file_state l (files w (ra_state_path a)) = Some st
       \<and> sent w = ss @ rest \<and> length rest \<le> 1 \<and> (\<forall>(k, t)\<in>set rest. k = s_prv s))"

lemma tracked_failed:
  assumes "tracked l c s info a tee proxy st0 w0 xs st w" and "subseq xs ''rRa''"
    and "tee_proxy_id l info = Ok (tee, proxy)"
    and "files w' = files w" and "sent w' = sent w @ rest" and "length rest \<le> 1"
    and "\<forall>(k, t)\<in>set rest. k = s_prv s"
  shows "nearly_tracked l c s info a st0 w0 w'"
  using assms unfolding tracked_def nearly_tracked_def by metis

lemma outcome_failed:
  assumes "tracked l c s info a tee proxy st0 w0 xs st w" and "subseq xs ''rRa''"
    and "tee_proxy_id l info = Ok (tee, proxy)"
    and "step_outcome l c a (s_prv s) kind op st x w False st' w'"
  shows "nearly_tracked l c s info a st0 w0 w'"
proof -
  have "files w' = files w" using assms(4) by (simp add: step_outcome_def step_effect_def)
  moreover obtain ts where ts: "sent w' = sent w @ ts" "length ts \<le> 1"
      "\<forall>(k', t)\<in>set ts. k' = s_prv s \<and> kind t"
    using outcome_sent[OF assms(4)] by metis
  moreover have "\<forall>(k', t)\<in>set ts. k' = s_prv s" using ts(3) by auto
  ultimately show ?thesis by (intro tracked_failed[OF assms(1-3)])
qed

lemma register_node_failure:
  assumes run: "register_node l c s info a w = (r, w')" and "\<not> is_ok r"
    and "hash_text_ok l" and "writes_ok c"
    and st: "file_state l (files w (ra_state_path a)) = Some st" and "ascii (rs_completed st)"
  shows "nearly_tracked l c s info a st w w'"
proof -
  have t: "tracked l c s info a tee proxy st w [] st w" for tee proxy
    using assms by (simp add: tracked_def completed_steps.none)
  note go = outcome_tracked[OF _ assms(3,4)]
  let ?r = "\<lambda>q b. if active a q ''r'' then b @ ''r'' else b" and ?R = "\<lambda>q b. if active a q ''R'' then b @ ''R'' else b"
  have sub: "subseq (?r q []) ''rRa''" "subseq (?R q' (?r q [])) ''rRa''"
    "subseq (if active a q'' ''a'' then ?R q' (?r q []) @ ''a'' else ?R q' (?r q [])) ''rRa''" for q q' q''
    by simp_all
  from run show ?thesis
  proof (cases rule: register_node_cases)
    case start
    then show ?thesis using st unfolding nearly_tracked_def
      by (intro exI[of _ 0] exI[of _ "[]"] exI[of _ st] exI[of _ "sent w"]) (simp add: completed_steps.none)
  next
    case (pre tee proxy st0 st')
    have [simp]: "st0 = st" using load_state_Ok[OF pre(1)] st by simp
    show ?thesis using outcome_failed[OF t _ pre(2)] pre(4) by simp
  next
    case (request tee proxy st0 st1 w1 st')
    have [simp]: "st0 = st" using load_state_Ok[OF request(1)] st by simp
    have "tracked l c s info a tee proxy st w (?r st []) st1 w1"
      using go[OF t request(4)[unfolded \<open>st0 = st\<close>]] by simp
    from outcome_failed[OF this sub(1) request(2,5)] show ?thesis .
  next
    case (check tee proxy st0 st1 w1 st2 w2 st')
    have [simp]: "st0 = st" using load_state_Ok[OF check(1)] st by simp
    have "tracked l c s info a tee proxy st w (?r st []) st1 w1"
      using go[OF t check(4)[unfolded \<open>st0 = st\<close>]] by simp
    from go[OF this check(5)] have "tracked l c s info a tee proxy st w (?R st1 (?r st [])) st2 w2" by simp
    from outcome_failed[OF this sub(2) check(2,6)] show ?thesis .
  next
    case (promote tee proxy st0 st1 w1 st2 w2 st3 w3 iid w4)
    have [simp]: "st0 = st" using load_state_Ok[OF promote(1)] st by simp
    have "tracked l c s info a tee proxy st w (?r st []) st1 w1"
      using go[OF t promote(3)[unfolded \<open>st0 = st\<close>]] by simp
    from go[OF this promote(4)] have "tracked l c s info a tee proxy st w (?R st1 (?r st [])) st2 w2" by simp
    from go[OF this promote(5)] have t3: "tracked l c s info a tee proxy st w
        (if active a st2 ''a'' then ?R st1 (?r st []) @ ''a'' else ?R st1 (?r st [])) st3 w3" by simp
    obtain ts where "sent w' = sent w3 @ ts" "length ts \<le> 1" "files w' = files w3" "\<forall>(k, t)\<in>set ts. k = s_prv s"
      using step_promote_effect[OF promote(6)] promote(9) assms(2) by fastforce
    then show ?thesis by (intro tracked_failed[OF t3 sub(3) promote(2)])
  qed
qed

text \<open>Counted: what was sent is recorded, but for one transaction.\<close>

lemma nearly_tracked_counts:
  assumes "nearly_tracked l c s info a st0 w0 w"
  shows "\<exists>st. file_state l (files w (ra_state_path a)) = Some st \<and> (wf_state st0 \<longrightarrow> wf_state st)
    \<and> length (sent w) + length (rs_completed st0) \<le> length (sent w0) + length (rs_completed st) + 1"
proof -
  obtain tee proxy xs st ss rest where n: "completed_steps l c s info a tee proxy st0 (sent w0) xs st ss"
    "subseq xs ''rRa''" "file_state l (files w (ra_state_path a)) = Some st" "sent w = ss @ rest" "length rest \<le> 1"
    using assms unfolding nearly_tracked_def by blast
  have "set xs \<subseteq> set ''rRa''"
  proof
    fix x assume "x \<in> set xs"
    from list_emb_set[OF n(2) this] show "x \<in> set ''rRa''" by metis
  qed
  then have "wf_state st0 \<longrightarrow> wf_state st" using completed_steps_wf[OF n(1)] by blast
  moreover have "length (sent w) + length (rs_completed st0) \<le> length (sent w0) + length (rs_completed st) + 1"
    using completed_steps_counts[OF n(1)] n(4,5) by simp
  ultimately show ?thesis using n(3) by blast
qed

end
