(* ===== verification/Setup.thy ===== *)
theory Setup
  imports Registration
begin

text \<open>
  \<open>tee/tools/pkg/fccutils/extension.go\<close> and \<open>governance.go\<close>: the registration of an
  extension with its owners and key type, and the governance signers of the TEEs.
\<close>

subsection \<open>Registering an extension\<close>

text \<open>An extension id of zero is only warned about.\<close>

definition register_extension ::
    "'key lib \<Rightarrow> ('key, 'c) chain \<Rightarrow> 'key support \<Rightarrow> address \<Rightarrow> address
      \<Rightarrow> ('key, 'c, int) io" where
  "register_extension l c s sender verifier =
     io_bind (io_map_err (errorf ''TeeExtensionRegistry.Register failed'')
         (send_tx c (s_prv s) (TxRegisterExtension verifier sender)))
       (\<lambda>h. io_bind (io_map_err (errorf ''Register transaction failed'') (check_tx l c h))
       (\<lambda>rc.
          if length (rc_logs rc) < 2 then
            io_err (ErrorString (''expected at least 2 logs from Register() transaction, got ''
              @ dec (length (rc_logs rc)) @ '' '' @ em_dash
              @ '' the registry contract may have changed or be behind a proxy''))
          else
            io_bind (io_res (map_err (errorf ''failed to parse TeeExtensionRegistered event'')
                (of_rpc (l_parse_registered l (rc_logs rc ! 0)))))
              (\<lambda>eid. io_bind (io_res (map_err (errorf ''failed to parse TeeExtensionContractsSet event'')
                  (of_rpc (l_parse_contracts_set l (rc_logs rc ! 1)))))
                (\<lambda>_. io_ok eid))))"

text \<open>The two owner lists are filled in the same way.\<close>

definition allow_owners ::
    "'key lib \<Rightarrow> ('key, 'c) chain \<Rightarrow> 'key support \<Rightarrow> string \<Rightarrow> string \<Rightarrow> tx
      \<Rightarrow> (evm_log \<Rightarrow> unit rpc) \<Rightarrow> ('key, 'c, unit) io" where
  "allow_owners l c s call event t parse =
     io_bind (io_map_err (errorf (call @ '' failed'')) (send_tx c (s_prv s) t))
       (\<lambda>h. io_bind (io_map_err (errorf (call @ '' transaction failed'')) (check_tx l c h))
       (\<lambda>rc. case rc_logs rc of
          [] \<Rightarrow> io_err (ErrorString (''no logs in '' @ call @ '' transaction '' @ em_dash @ '' unexpected''))
        | lg # _ \<Rightarrow>
            io_res (map_err (errorf (''failed to parse '' @ event @ '' event'')) (of_rpc (parse lg)))))"

definition allow_machine_owners ::
    "'key lib \<Rightarrow> ('key, 'c) chain \<Rightarrow> 'key support \<Rightarrow> int \<Rightarrow> address list \<Rightarrow> ('key, 'c, unit) io" where
  "allow_machine_owners l c s eid owners =
     allow_owners l c s ''AddAllowedTeeMachineOwners'' ''AllowedTeeMachineOwnersAdded''
       (TxAddMachineOwners eid owners) (l_parse_machine_owners l)"

definition allow_project_owners ::
    "'key lib \<Rightarrow> ('key, 'c) chain \<Rightarrow> 'key support \<Rightarrow> int \<Rightarrow> address list \<Rightarrow> ('key, 'c, unit) io" where
  "allow_project_owners l c s eid owners =
     allow_owners l c s ''AddAllowedTeeWalletProjectOwners'' ''AllowedTeeWalletProjectOwnersAdded''
       (TxAddProjectOwners eid owners) (l_parse_project_owners l)"

definition add_key_types_tx ::
    "'key lib \<Rightarrow> ('key, 'c) chain \<Rightarrow> 'key support \<Rightarrow> int \<Rightarrow> hash list \<Rightarrow> ('key, 'c, unit) io" where
  "add_key_types_tx l c s eid types =
     io_bind (io_map_err restring (send_tx c (s_prv s) (TxAddKeyTypes eid types)))
       (\<lambda>h. io_bind (io_map_err restring (check_tx l c h)) (\<lambda>_. io_ok ()))"

definition add_supported_key_types ::
    "'key lib \<Rightarrow> ('key, 'c) chain \<Rightarrow> 'key support \<Rightarrow> int \<Rightarrow> hash list \<Rightarrow> ('key, 'c, unit) io" where
  "add_supported_key_types l c s eid types =
     io_bind (io_res (map_err restring (transactor l (s_prv s) (s_chain_id s))))
       (\<lambda>_. io_map_err restring (add_key_types_tx l c s eid types))"

definition is_key_type_supported ::
    "('key, 'c) chain \<Rightarrow> int \<Rightarrow> hash \<Rightarrow> ('key, 'c, bool) io" where
  "is_key_type_supported c eid t = io_map_err restring (io_ext (c_key_type c eid t))"

text \<open>A step of the setup: ask the chain, and act when the answer is no.\<close>

definition ensure ::
    "('key, 'c, bool) io \<Rightarrow> ('key, 'c, unit) io \<Rightarrow> ('key, 'c, unit) io" where
  "ensure asked act = io_bind asked (\<lambda>b. if b then io_ok () else act)"

definition failed_owners :: "string \<Rightarrow> int \<Rightarrow> string" where
  "failed_owners what eid =
     ''failed adding '' @ what @ '' (extension exists as ID '' @ dec_int eid @ '' but owners not set)''"

definition ensure_machine_owner ::
    "'key lib \<Rightarrow> ('key, 'c) chain \<Rightarrow> 'key support \<Rightarrow> int \<Rightarrow> ('key, 'c, unit) io" where
  "ensure_machine_owner l c s eid =
     (let me = l_key_address l (s_prv s) in
      ensure
        (io_map_err (errorf ''failed checking TEE machine owner status'')
          (io_ext (c_machine_owner c eid me)))
        (io_map_err (errorf (failed_owners ''TEE machine owners'' eid))
          (allow_machine_owners l c s eid [me])))"

definition ensure_project_owner ::
    "'key lib \<Rightarrow> ('key, 'c) chain \<Rightarrow> 'key support \<Rightarrow> int \<Rightarrow> ('key, 'c, unit) io" where
  "ensure_project_owner l c s eid =
     (let me = l_key_address l (s_prv s) in
      ensure
        (io_map_err (errorf ''failed checking wallet project owner status'')
          (io_ext (c_project_owner c eid me)))
        (io_map_err (errorf (failed_owners ''wallet project owners'' eid))
          (allow_project_owners l c s eid [me])))"

definition ensure_key_type ::
    "'key lib \<Rightarrow> ('key, 'c) chain \<Rightarrow> 'key support \<Rightarrow> int \<Rightarrow> ('key, 'c, unit) io" where
  "ensure_key_type l c s eid =
     ensure (is_key_type_supported c eid (l_evm_type l))
       (add_supported_key_types l c s eid [l_evm_type l])"

text \<open>The governance hash of the signature is not used.\<close>

definition setup_extension ::
    "'key lib \<Rightarrow> ('key, 'c) chain \<Rightarrow> 'key support \<Rightarrow> hash \<Rightarrow> address \<Rightarrow> address \<Rightarrow> ('key, 'c, int) io" where
  "setup_extension l c s governance sender verifier =
     io_bind (io_res (transactor l (s_prv s) (s_chain_id s)))
       (\<lambda>_. io_bind (register_extension l c s sender verifier)
       (\<lambda>eid. io_bind (ensure_machine_owner l c s eid)
       (\<lambda>_. io_bind (ensure_project_owner l c s eid)
       (\<lambda>_. io_bind (ensure_key_type l c s eid) (\<lambda>_. io_ok eid)))))"

subsection \<open>Governance\<close>

definition valid_threshold :: "u64 \<Rightarrow> address list \<Rightarrow> bool" where
  "valid_threshold threshold signers =
     (\<not> (threshold = 0 \<or> word_of_nat (length signers) < threshold))"

definition governance_already_set ::
    "('key, 'c) chain \<Rightarrow> int \<Rightarrow> hash \<Rightarrow> ('key, 'c, bool) io" where
  "governance_already_set c eid desired =
     io_try (io_ext (c_governance c eid))
       (\<lambda>r. io_ok (case r of Inr current \<Rightarrow> current = desired | Inl _ \<Rightarrow> False))"

definition set_tee_governance ::
    "'key lib \<Rightarrow> ('key, 'c) chain \<Rightarrow> 'key support \<Rightarrow> 'key \<Rightarrow> int \<Rightarrow> address list \<Rightarrow> u64
      \<Rightarrow> ('key, 'c, unit) io" where
  "set_tee_governance l c s k eid signers threshold =
     (if signers = [] then
        io_err (ErrorString ''at least one governance signer is required (set GOVERNANCE_SIGNERS)'')
      else if \<not> valid_threshold threshold signers then
        io_err (ErrorString (''invalid GOVERNANCE_THRESHOLD '' @ dec (unat threshold) @ '' for ''
          @ dec (length signers) @ '' signer(s)''))
      else
        io_bind (io_res (map_err (errorf ''computing governance hash'')
            (of_rpc (l_governance_hash l signers threshold))))
          (\<lambda>desired. io_bind (governance_already_set c eid desired)
          (\<lambda>already.
             if already then io_ok ()
             else
               io_bind (io_res (map_err restring (transactor l k (s_chain_id s))))
                 (\<lambda>_. io_bind (io_map_err (errorf ''SetNewTeeGovernance failed'')
                        (send_tx c k (TxSetGovernance eid signers threshold)))
                   (\<lambda>h. io_bind (io_map_err restring (check_tx l c h)) (\<lambda>_. io_ok ()))))))"

subsection \<open>The contract of the transactions\<close>

lemma register_extension_one:
  "one_tx (register_extension l c s sender verifier) (s_prv s)
     (\<lambda>t. t = TxRegisterExtension verifier sender)"
  unfolding register_extension_def
  by (intro one_tx_send refl) (auto intro!: reads_intros)

lemma allow_owners_one: "one_tx (allow_owners l c s call event t parse) (s_prv s) (\<lambda>u. u = t)"
  unfolding allow_owners_def
  by (intro one_tx_send refl) (auto intro!: reads_intros split: list.splits)

lemma add_key_types_one:
  "one_tx (add_key_types_tx l c s eid types) (s_prv s) (\<lambda>t. t = TxAddKeyTypes eid types)"
  unfolding add_key_types_tx_def
  by (intro one_tx_send refl) (auto intro!: reads_intros)

interpretation reg_ext: single_tx "register_extension l c s sender verifier" "s_prv s"
    "\<lambda>t. t = TxRegisterExtension verifier sender" for l c s sender verifier
  by unfold_locales (rule register_extension_one)

interpretation owners: single_tx "allow_owners l c s call event t parse" "s_prv s" "\<lambda>u. u = t"
    for l c s call event t parse
  by unfold_locales (rule allow_owners_one)

interpretation key_types: single_tx "add_key_types_tx l c s eid types" "s_prv s"
    "\<lambda>t. t = TxAddKeyTypes eid types" for l c s eid types
  by unfold_locales (rule add_key_types_one)

subsection \<open>Facts\<close>

lemma valid_threshold_nat:
  "length signers < 2 ^ 64 \<Longrightarrow>
   valid_threshold threshold signers \<longleftrightarrow> 1 \<le> unat threshold \<and> unat threshold \<le> length signers"
  by (simp add: valid_threshold_def word_less_nat_alt unat_of_nat_u64 not_less unat_gt_0
      Suc_le_eq)

lemma governance_already_set_reads [reads_intros]: "reads_only (governance_already_set c eid h)"
  unfolding governance_already_set_def by (auto intro!: reads_intros)

lemma is_key_type_supported_reads [reads_intros]: "reads_only (is_key_type_supported c eid t)"
  unfolding is_key_type_supported_def by (intro reads_intros)

lemma one_tx_map_err: "one_tx m k kind \<Longrightarrow> one_tx (io_map_err g m) k kind"
  by (auto simp: one_tx_def intro!: keeps_map_err elim!: sends_map_err)

text \<open>A step of the setup sends nothing when the chain says it is not needed.\<close>

lemma ensure_stage:
  assumes "reads_only asked" and "one_tx act k kind" and "ensure asked act w = (r, w')"
  shows "stage k kind (fst (asked w) = Ok False) (is_ok r) w w' \<and> files w' = files w"
  using assms(3)[unfolded ensure_def]
proof (cases rule: io_bind_cases)
  case (go b w1)
  note eq = reads_onlyD[OF assms(1) go(1)]
  show ?thesis
  proof (cases b)
    case True
    then show ?thesis using go eq by (auto simp: stage_def io_ok_def)
  next
    case False
    then have "act w1 = (r, w')" using go(2) by simp
    from one_tx_stage[OF assms(2) this] keeps_filesD[OF conjunct2[OF assms(2)[unfolded one_tx_def]] this]
    show ?thesis using go eq False by (auto simp: stage_def)
  qed
qed (use reads_onlyD[OF assms(1)] in \<open>auto simp: stage_def\<close>)

lemma asked_iff: "fst (io_map_err g (io_ext f) w) = Ok b \<longleftrightarrow> fst (f (ext w)) = Inr b"
  by (simp add: io_map_err_def io_ext_def split: prod.splits)

lemma ensure_ext_stage:
  assumes "one_tx act k kind" and "ensure (io_map_err g (io_ext f)) act w = (r, w')"
  shows "stage k kind (fst (f (ext w)) = Inr False) (is_ok r) w w'"
  using conjunct1[OF ensure_stage[OF reads_only_map_err[OF reads_only_ext] assms]]
  unfolding asked_iff .

lemma ensure_machine_owner_stage:
  assumes "ensure_machine_owner l c s eid w = (r, w')"
  shows "stage (s_prv s) (\<lambda>t. t = TxAddMachineOwners eid [l_key_address l (s_prv s)])
     (fst (c_machine_owner c eid (l_key_address l (s_prv s)) (ext w)) = Inr False) (is_ok r) w w'"
  using assms
  unfolding ensure_machine_owner_def Let_def allow_machine_owners_def
  by (rule ensure_ext_stage[rotated]) (intro one_tx_map_err allow_owners_one)

lemma ensure_project_owner_stage:
  assumes "ensure_project_owner l c s eid w = (r, w')"
  shows "stage (s_prv s) (\<lambda>t. t = TxAddProjectOwners eid [l_key_address l (s_prv s)])
     (fst (c_project_owner c eid (l_key_address l (s_prv s)) (ext w)) = Inr False) (is_ok r) w w'"
  using assms
  unfolding ensure_project_owner_def Let_def allow_project_owners_def
  by (rule ensure_ext_stage[rotated]) (intro one_tx_map_err allow_owners_one)

lemma ensure_key_type_stage:
  assumes "ensure_key_type l c s eid w = (r, w')"
  shows "stage (s_prv s) (\<lambda>t. t = TxAddKeyTypes eid [l_evm_type l])
     (fst (c_key_type c eid (l_evm_type l) (ext w)) = Inr False) (is_ok r) w w'"
  using assms
  unfolding ensure_key_type_def is_key_type_supported_def add_supported_key_types_def
  by (rule ensure_ext_stage[rotated]) (intro one_tx_bind_reads reads_intros one_tx_map_err add_key_types_one)

text \<open>The setup: register, then what the chain still lacks, in this order.\<close>

lemma setup_extension_stages:
  assumes "setup_extension l c s gov sender verifier w = (r, w')"
  shows "\<exists>w1 w2 w3 eid.
      stage (s_prv s) (\<lambda>t. t = TxRegisterExtension verifier sender) True (is_ok r) w w1
    \<and> stage (s_prv s) (\<lambda>t. t = TxAddMachineOwners eid [l_key_address l (s_prv s)])
        (fst (c_machine_owner c eid (l_key_address l (s_prv s)) (ext w1)) = Inr False) (is_ok r) w1 w2
    \<and> stage (s_prv s) (\<lambda>t. t = TxAddProjectOwners eid [l_key_address l (s_prv s)])
        (fst (c_project_owner c eid (l_key_address l (s_prv s)) (ext w2)) = Inr False) (is_ok r) w2 w3
    \<and> stage (s_prv s) (\<lambda>t. t = TxAddKeyTypes eid [l_evm_type l])
        (fst (c_key_type c eid (l_evm_type l) (ext w3)) = Inr False) (is_ok r) w3 w'
    \<and> (is_ok r \<longrightarrow> r = Ok eid)"
proof -
  from assms[unfolded setup_extension_def] show ?thesis
  proof (cases rule: io_bind_cases)
    case (go u w0)
    then have [simp]: "w0 = w" by (simp add: io_res_def)
    from go(2) show ?thesis
    proof (cases rule: io_bind_cases)
      case (go eid w1)
      note s1 = stage_weaken[OF one_tx_stage[OF register_extension_one go(1), simplified]]
      from go(2) show ?thesis
      proof (cases rule: io_bind_cases)
        case (go u w2)
        note s2 = stage_weaken[OF ensure_machine_owner_stage[OF go(1), simplified]]
        from go(2) show ?thesis
        proof (cases rule: io_bind_cases)
          case (go u w3)
          note s3 = stage_weaken[OF ensure_project_owner_stage[OF go(1), simplified]]
          from go(2) have "stage (s_prv s) (\<lambda>t. t = TxAddKeyTypes eid [l_evm_type l])
              (fst (c_key_type c eid (l_evm_type l) (ext w3)) = Inr False) (is_ok r) w3 w'
              \<and> (is_ok r \<longrightarrow> r = Ok eid)"
            by (cases rule: io_bind_cases) (use ensure_key_type_stage in \<open>fastforce simp: io_ok_def\<close>)+
          then show ?thesis using s1 s2 s3
            by (intro exI[of _ w1] exI[of _ w2] exI[of _ w3] exI[of _ eid]) simp
        next
          case (err e)
          then show ?thesis using s1 s2 ensure_project_owner_stage[OF err(1)]
            by (intro exI[of _ w1] exI[of _ w2] exI[of _ w'] exI[of _ eid]) simp
        next
          case (panic e)
          then show ?thesis using s1 s2 ensure_project_owner_stage[OF panic(1)]
            by (intro exI[of _ w1] exI[of _ w2] exI[of _ w'] exI[of _ eid]) simp
        qed
      next
        case (err e)
        then show ?thesis using s1 ensure_machine_owner_stage[OF err(1)]
          by (intro exI[of _ w1] exI[of _ w'] exI[of _ w'] exI[of _ eid]) simp
      next
        case (panic e)
        then show ?thesis using s1 ensure_machine_owner_stage[OF panic(1)]
          by (intro exI[of _ w1] exI[of _ w'] exI[of _ w'] exI[of _ eid]) simp
      qed
    next
      case (err e)
      then show ?thesis using  one_tx_stage[OF register_extension_one err(1)]
        by (intro exI[of _ w'] exI[of _ w'] exI[of _ w']) simp
    next
      case (panic e)
      then show ?thesis using  one_tx_stage[OF register_extension_one panic(1)]
        by (intro exI[of _ w'] exI[of _ w'] exI[of _ w']) simp
    qed
  qed (rule exI[of _ w'], rule exI[of _ w'], rule exI[of _ w'], simp add: io_res_def stage_none)+
qed

text \<open>Governance: refused, already set, or set by one transaction.\<close>

definition governance_needed ::
    "'key lib \<Rightarrow> ('key, 'c) chain \<Rightarrow> int \<Rightarrow> address list \<Rightarrow> u64 \<Rightarrow> 'c \<Rightarrow> bool" where
  "governance_needed l c eid signers threshold x \<longleftrightarrow>
     signers \<noteq> [] \<and> valid_threshold threshold signers
     \<and> (\<exists>h. l_governance_hash l signers threshold = Inr h \<and> fst (c_governance c eid x) \<noteq> Inr h)"

lemma governance_send_one:
  "one_tx (io_bind (io_res (map_err restring (transactor l k cid)))
       (\<lambda>_. io_bind (io_map_err (errorf msg) (send_tx c k (TxSetGovernance eid signers threshold)))
         (\<lambda>h. io_bind (io_map_err restring (check_tx l c h)) (\<lambda>_. io_ok ()))))
     k (\<lambda>t. t = TxSetGovernance eid signers threshold)"
  by (intro one_tx_bind_reads one_tx_send reads_intros refl)

lemma governance_already_set_run:
  "governance_already_set c eid h w = (r, w') \<Longrightarrow>
     r = Ok (fst (c_governance c eid (ext w)) = Inr h) \<and> sent w' = sent w"
  by (cases "c_governance c eid (ext w)"; cases "fst (c_governance c eid (ext w))")
     (auto simp: governance_already_set_def io_try_def io_ext_def io_ok_def)

lemma set_tee_governance_stage:
  assumes "set_tee_governance l c s k eid signers threshold w = (r, w')"
  shows "stage k (\<lambda>t. t = TxSetGovernance eid signers threshold)
    (governance_needed l c eid signers threshold (ext w)) (is_ok r) w w'"
proof (cases "signers \<noteq> [] \<and> valid_threshold threshold signers")
  case False
  then show ?thesis using assms
    by (auto simp: set_tee_governance_def io_err_def stage_def split: if_splits)
next
  case True
  then have run: "io_bind (io_res (map_err (errorf ''computing governance hash'')
       (of_rpc (l_governance_hash l signers threshold))))
      (\<lambda>desired. io_bind (governance_already_set c eid desired)
        (\<lambda>already. if already then io_ok ()
          else io_bind (io_res (map_err restring (transactor l k (s_chain_id s))))
                 (\<lambda>_. io_bind (io_map_err (errorf ''SetNewTeeGovernance failed'')
                        (send_tx c k (TxSetGovernance eid signers threshold)))
                   (\<lambda>h. io_bind (io_map_err restring (check_tx l c h)) (\<lambda>_. io_ok ()))))) w = (r, w')"
    using assms by (simp add: set_tee_governance_def)
  from run show ?thesis
  proof (cases rule: io_bind_cases)
    case (go h w0)
    then have h: "l_governance_hash l signers threshold = Inr h" "w0 = w" by (auto simp: io_res_def)
    from go(2)[unfolded h(2)] show ?thesis
    proof (cases rule: io_bind_cases)
      case (go b w1)
      note g = governance_already_set_run[OF go(1)]
      show ?thesis
      proof (cases b)
        case True
        then show ?thesis using g h go(2) by (auto simp: stage_def io_ok_def governance_needed_def)
      next
        case False
        then have "governance_needed l c eid signers threshold (ext w)"
          using g h True by (auto simp: governance_needed_def)
        moreover have "stage k (\<lambda>t. t = TxSetGovernance eid signers threshold) True (is_ok r) w1 w'"
          using one_tx_stage[OF governance_send_one] go(2) False by simp
        ultimately show ?thesis using g by (simp add: stage_def)
      qed
    qed (auto dest: governance_already_set_run)
  qed (auto simp: io_res_def stage_none)
qed

lemma set_tee_governance_idempotent:
  assumes "signers \<noteq> []" and "valid_threshold threshold signers"
    and "l_governance_hash l signers threshold = Inr h" and "c_governance c eid (ext w) = (Inr h, x)"
  shows "set_tee_governance l c s k eid signers threshold w = (Ok (), w\<lparr>ext := x\<rparr>)"
  using assms
  by (simp add: set_tee_governance_def governance_already_set_def io_bind_def io_res_def io_try_def
      io_ext_def io_ok_def)

end
