(* ===== verification/Instructions.thy ===== *)
theory Instructions
  imports Setup
begin

text \<open>
  \<open>tee/tools/pkg/utils/instructions.go\<close>: deploying the instruction sender, telling it its
  extension id and sending the two test instructions, each with the revert reason
  looked up when the call is refused or the transaction fails. The contract bindings
  are generated code outside the repository.
\<close>

subsection \<open>Shared parts\<close>

definition sender_contract :: string where
  "sender_contract = ''HelloWorldInstructionSender''"

definition bind_sender :: "'key lib \<Rightarrow> address \<Rightarrow> unit res" where
  "bind_sender l a =
     (case l_bind l sender_contract a of
        Some e \<Rightarrow> Err (errorf ''failed to bind contract'' e) | None \<Rightarrow> Ok ())"

definition instruction_transactor :: "'key lib \<Rightarrow> 'key support \<Rightarrow> unit res" where
  "instruction_transactor l s =
     map_err (errorf ''failed to create transactor'') (transactor l (s_prv s) (s_chain_id s))"

text \<open>The call replayed, when the ABI loads and the arguments pack; else no reason.\<close>

definition simulated_reason ::
    "'key lib \<Rightarrow> ('key, 'c) chain \<Rightarrow> 'key support \<Rightarrow> address \<Rightarrow> int option \<Rightarrow> tx \<Rightarrow> ('key, 'c, string) io" where
  "simulated_reason l c s a value t =
     (case l_abi l sender_contract of
        Inl _ \<Rightarrow> io_ok []
      | Inr _ \<Rightarrow>
          (case l_pack l t of
             Inl _ \<Rightarrow> io_ok []
           | Inr calldata \<Rightarrow>
               simulate_and_decode_revert l c (l_key_address l (s_prv s)) a value calldata))"

text \<open>The error of a refused call: the reason from the error itself, else from a replay.\<close>

definition refused ::
    "'key lib \<Rightarrow> ('key, 'c) chain \<Rightarrow> 'key support \<Rightarrow> address \<Rightarrow> int option \<Rightarrow> tx \<Rightarrow> string \<Rightarrow> go_error
      \<Rightarrow> ('key, 'c, 'a) io" where
  "refused l c s a value t what err =
     io_bind
       (let reason = decode_revert_reason l (Some err) in
        if reason = [] then simulated_reason l c s a value t else io_ok reason)
       (\<lambda>reason.
          io_err (ErrorString
            (if reason \<noteq> []
             then what @ '': '' @ err_msg err @ '' (revert reason: '' @ reason @ '')''
             else what @ '': '' @ err_msg err)))"

subsection \<open>The operations\<close>

text \<open>\<open>address_of\<close> is the address the binding computes for the deployment.\<close>

definition deploy_instruction_sender ::
    "'key lib \<Rightarrow> ('key, 'c) chain \<Rightarrow> (hash \<Rightarrow> address) \<Rightarrow> 'key support \<Rightarrow> ('key, 'c, address) io" where
  "deploy_instruction_sender l c address_of s =
     io_bind (io_res (instruction_transactor l s))
       (\<lambda>_. io_bind (io_map_err (errorf ''failed to deploy contract'')
              (send_tx c (s_prv s) (TxDeploySender (flare_tee_manager (s_addresses s))
                (flare_tee_manager (s_addresses s)))))
       (\<lambda>h. io_bind (io_map_err
              (errorf (''deployment tx not mined within 2 minutes (tx: '' @ l_hash_hex l h @ '')''))
              (io_ext (c_wait_mined c (Some 120) h)))
       (\<lambda>rc. if rc_status rc \<noteq> 1 then io_err (ErrorString ''contract deployment failed'')
             else io_ok (address_of h))))"

definition set_extension_id ::
    "'key lib \<Rightarrow> ('key, 'c) chain \<Rightarrow> 'key support \<Rightarrow> address \<Rightarrow> ('key, 'c, unit) io" where
  "set_extension_id l c s a =
     (let t = TxSetExtensionId a in
      io_bind (io_res (bind_sender l a))
       (\<lambda>_. io_bind (io_res (instruction_transactor l s))
       (\<lambda>_. io_try (send_tx c (s_prv s) t)
         (\<lambda>r. case r of
            Inl err \<Rightarrow> refused l c s a None t ''failed to call setExtensionId'' err
          | Inr h \<Rightarrow>
              io_bind (io_map_err (errorf ''failed waiting for transaction'')
                  (io_ext (c_wait_mined c None h)))
                (\<lambda>rc.
                   if rc_status rc \<noteq> 1 then
                     io_bind (simulated_reason l c s a None t)
                       (\<lambda>reason. io_err (ErrorString
                          (if reason \<noteq> []
                           then ''setExtensionId transaction failed (revert reason: '' @ reason @ '')''
                           else ''setExtensionId transaction failed'')))
                   else io_ok ())))))"

definition say_fee :: int where "say_fee = 1000000"

text \<open>What follows a mined instruction: the event of the first log.\<close>

definition sent_instruction ::
    "'key lib \<Rightarrow> receipt \<Rightarrow> ('key, 'c, hash \<times> hash) io" where
  "sent_instruction l rc =
     (case rc_logs rc of
        [] \<Rightarrow> io_err (ErrorString ''no logs found in receipt'')
      | lg # _ \<Rightarrow>
          io_bind (io_res (map_err (errorf ''failed to parse TeeInstructionsSent event'')
              (of_rpc (l_parse_instructions l lg))))
            (\<lambda>iid. io_ok (iid, rc_tx_hash rc)))"

definition send_say_hello ::
    "'key lib \<Rightarrow> ('key, 'c) chain \<Rightarrow> 'key support \<Rightarrow> address \<Rightarrow> bytes \<Rightarrow> ('key, 'c, hash \<times> hash) io" where
  "send_say_hello l c s a message =
     (let t = TxSayHello a message say_fee in
      io_bind (io_res (bind_sender l a))
       (\<lambda>_. io_bind (io_res (instruction_transactor l s))
       (\<lambda>_. io_try (send_tx c (s_prv s) t)
         (\<lambda>r. case r of
            Inl err \<Rightarrow> refused l c s a (Some say_fee) t ''failed to send instruction'' err
          | Inr h \<Rightarrow>
              io_bind (io_map_err (errorf ''failed waiting for transaction'')
                  (io_ext (c_wait_mined c None h)))
                (\<lambda>rc.
                   if rc_status rc \<noteq> 1 then
                     io_bind (simulated_reason l c s a (Some say_fee) t)
                       (\<lambda>reason. io_err (ErrorString
                          (if reason \<noteq> []
                           then ''transaction failed with status '' @ dec (unat (rc_status rc))
                             @ '' (revert reason: '' @ reason @ '')''
                           else ''transaction failed with status: '' @ dec (unat (rc_status rc)))))
                   else sent_instruction l rc)))))"

definition send_say_goodbye ::
    "'key lib \<Rightarrow> ('key, 'c) chain \<Rightarrow> 'key support \<Rightarrow> address \<Rightarrow> string \<Rightarrow> string
      \<Rightarrow> ('key, 'c, hash \<times> hash) io" where
  "send_say_goodbye l c s a person why =
     io_bind (io_res (bind_sender l a))
       (\<lambda>_. io_bind (io_res (instruction_transactor l s))
       (\<lambda>_. io_bind (io_map_err (errorf ''failed to send instruction'')
              (send_tx c (s_prv s) (TxSayGoodbye a person why say_fee)))
       (\<lambda>h. io_bind (io_map_err (errorf ''failed waiting for transaction'')
              (io_ext (c_wait_mined c None h)))
       (\<lambda>rc. if rc_status rc \<noteq> 1
             then io_err (ErrorString (''transaction failed with status: '' @ dec (unat (rc_status rc))))
             else sent_instruction l rc))))"

subsection \<open>The contract of the transactions\<close>

lemma simulated_reason_reads [reads_intros]: "reads_only (simulated_reason l c s a v t)"
  unfolding simulated_reason_def by (auto intro!: reads_intros split: sum.splits)

lemma refused_reads [reads_intros]: "reads_only (refused l c s a v t what e)"
  unfolding refused_def Let_def by (intro reads_intros)

lemma refused_fails: "fails (refused l c s a v t what e)"
  unfolding refused_def by (intro fails_intros)

lemma sent_instruction_reads [reads_intros]: "reads_only (sent_instruction l rc)"
  unfolding sent_instruction_def by (auto intro!: reads_intros split: list.splits)

lemma deploy_one:
  "one_tx (deploy_instruction_sender l c f s) (s_prv s)
     (\<lambda>t. t = TxDeploySender (flare_tee_manager (s_addresses s)) (flare_tee_manager (s_addresses s)))"
  unfolding deploy_instruction_sender_def
  by (intro one_tx_bind_reads one_tx_send reads_intros refl)

lemma set_extension_id_one:
  "one_tx (set_extension_id l c s a) (s_prv s) (\<lambda>t. t = TxSetExtensionId a)"
  unfolding set_extension_id_def Let_def
  by (intro one_tx_bind_reads one_tx_try_send reads_intros)
     (auto intro!: reads_intros refused_fails)

lemma send_say_hello_one:
  "one_tx (send_say_hello l c s a msg) (s_prv s) (\<lambda>t. t = TxSayHello a msg say_fee)"
  unfolding send_say_hello_def Let_def
  by (intro one_tx_bind_reads one_tx_try_send reads_intros)
     (auto intro!: reads_intros refused_fails)

lemma send_say_goodbye_one:
  "one_tx (send_say_goodbye l c s a p y) (s_prv s) (\<lambda>t. t = TxSayGoodbye a p y say_fee)"
  unfolding send_say_goodbye_def
  by (intro one_tx_bind_reads one_tx_send reads_intros refl)

interpretation deploy_sender: single_tx "deploy_instruction_sender l c f s" "s_prv s"
    "\<lambda>t. t = TxDeploySender (flare_tee_manager (s_addresses s)) (flare_tee_manager (s_addresses s))"
    for l c f s
  by unfold_locales (rule deploy_one)

interpretation set_id: single_tx "set_extension_id l c s a" "s_prv s" "\<lambda>t. t = TxSetExtensionId a"
    for l c s a
  by unfold_locales (rule set_extension_id_one)

interpretation say_hello: single_tx "send_say_hello l c s a msg" "s_prv s"
    "\<lambda>t. t = TxSayHello a msg say_fee" for l c s a msg
  by unfold_locales (rule send_say_hello_one)

interpretation say_goodbye: single_tx "send_say_goodbye l c s a p y" "s_prv s"
    "\<lambda>t. t = TxSayGoodbye a p y say_fee" for l c s a p y
  by unfold_locales (rule send_say_goodbye_one)

end
