(* ===== verification/Tools.thy ===== *)
theory Tools
  imports Instructions Validate
begin

text \<open>
  The command-line tools under \<open>tee/tools/cmd\<close> and the two starters under
  \<open>tee/go/cmd\<close>: how each reads its flags and environment, what it decides, and which
  of the library's operations it runs. A tool that stops with an error stops with
  \<open>FatalWithCause\<close> and exit code 1; log lines are left out.
\<close>

subsection \<open>Keys from the environment\<close>

text \<open>\<open>allow-tee-version\<close> strips one prefix, \<open>set-governance\<close> strips both in turn.\<close>

definition owner_key_version :: "'key lib \<Rightarrow> 'key support \<Rightarrow> 'key res" where
  "owner_key_version l s =
     (let k = l_getenv l ''EXTENSION_OWNER_KEY'' in
      if k \<noteq> [] then of_rpc (l_hex_to_ecdsa l (strip_0x k)) else Ok (s_prv s))"

definition owner_key_governance :: "'key lib \<Rightarrow> 'key support \<Rightarrow> 'key res" where
  "owner_key_governance l s =
     (let k = l_getenv l ''EXTENSION_OWNER_KEY'' in
      if k \<noteq> [] then of_rpc (l_hex_to_ecdsa l (trim_prefix (trim_prefix k ''0x'') ''0X''))
      else Ok (s_prv s))"

subsection \<open>set-governance\<close>

fun signer_parts :: "'key lib \<Rightarrow> string list \<Rightarrow> address list" where
  "signer_parts l [] = []"
| "signer_parts l (p # ps) =
     (let part = trim_space p in
      if part \<noteq> [] then l_hex_to_address l part # signer_parts l ps else signer_parts l ps)"

definition parse_signers :: "'key lib \<Rightarrow> string \<Rightarrow> address \<Rightarrow> address list" where
  "parse_signers l raw fallback =
     (let signers = signer_parts l (split_all (CHR '','') raw) in
      if length signers = 0 then [fallback] else signers)"

definition parse_threshold :: "string \<Rightarrow> u64" where
  "parse_threshold raw =
     (case parse_uint64 (trim_space raw) of
        (v, None) \<Rightarrow> if 0 < v then v else 1
      | (_, Some _) \<Rightarrow> 1)"

definition default_signer :: "'key lib \<Rightarrow> 'key \<Rightarrow> address" where
  "default_signer l k =
     (let io = trim_space (l_getenv l ''INITIAL_OWNER'') in
      if io \<noteq> [] then l_hex_to_address l io else l_key_address l k)"

definition extension_id_of :: "tee_info \<Rightarrow> int" where
  "extension_id_of info = uint (md_extension_id (ti_machine info))"

definition set_governance_main ::
    "'key lib \<Rightarrow> ('key, 'c) chain \<Rightarrow> (string \<Rightarrow> go_error option) \<Rightarrow> string \<Rightarrow> string \<Rightarrow> string
      \<Rightarrow> ('key, 'c, unit) io" where
  "set_governance_main l c dial af cf pf =
     io_bind (default_support l c dial af cf)
       (\<lambda>s. io_bind (io_res (owner_key_governance l s))
       (\<lambda>k. io_bind (tee_info l c pf)
       (\<lambda>info. set_tee_governance l c s k (extension_id_of info)
          (parse_signers l (l_getenv l ''GOVERNANCE_SIGNERS'') (default_signer l k))
          (parse_threshold (l_getenv l ''GOVERNANCE_THRESHOLD'')))))"

subsection \<open>allow-tee-version\<close>

text \<open>A version that exists already is not an error.\<close>

definition allow_version ::
    "'key lib \<Rightarrow> ('key, 'c) chain \<Rightarrow> 'key support \<Rightarrow> 'key \<Rightarrow> tee_info \<Rightarrow> string \<Rightarrow> ('key, 'c, unit) io" where
  "allow_version l c s k info v =
     (let eid = extension_id_of info; ch = md_code_hash (ti_machine info);
          pl = md_platform (ti_machine info)
      in io_bind (io_ext (c_version_supported c eid ch pl))
           (\<lambda>supported.
              if supported then io_ok ()
              else
                io_try (add_tee_version l c s k eid ch pl v)
                  (\<lambda>r. case r of
                     Inr _ \<Rightarrow> io_ok ()
                   | Inl e \<Rightarrow>
                       if contains (err_msg e) ''VersionAlreadyExists'' then io_ok () else io_err e)))"

definition allow_tee_version_main ::
    "'key lib \<Rightarrow> ('key, 'c) chain \<Rightarrow> (string \<Rightarrow> go_error option) \<Rightarrow> string \<Rightarrow> string \<Rightarrow> string \<Rightarrow> string
      \<Rightarrow> ('key, 'c, unit) io" where
  "allow_tee_version_main l c dial af cf pf v =
     io_bind (default_support l c dial af cf)
       (\<lambda>s. io_bind (tee_info l c pf)
       (\<lambda>info. io_bind (io_res (owner_key_version l s))
       (\<lambda>k. io_bind (io_res (tee_proxy_id l info))
       (\<lambda>_. allow_version l c s k info v))))"

subsection \<open>register-extension\<close>

fun hex_nat :: "nat \<Rightarrow> string" where
  "hex_nat n = (if n < 16 then [hex_digit n] else hex_nat (n div 16) @ [hex_digit (n mod 16)])"

declare hex_nat.simps [simp del]

definition hex_064 :: "int \<Rightarrow> string" where
  \<comment> \<open>\<open>fmt.Sprintf("0x%064x", id)\<close>: 64 columns, the sign among them\<close>
  "hex_064 v =
     (let body = hex_nat (nat \<bar>v\<bar>) in
      ''0x'' @ (if v < 0 then ''-'' @ replicate (63 - length body) (CHR ''0'') @ body
               else replicate (64 - length body) (CHR ''0'') @ body))"

definition register_extension_main ::
    "'key machine \<Rightarrow> chain_client \<Rightarrow> 'key lib \<Rightarrow> ('key, 'c) chain \<Rightarrow> (string \<Rightarrow> go_error option)
      \<Rightarrow> string \<Rightarrow> string \<Rightarrow> string \<Rightarrow> string \<Rightarrow> ('key, 'c, string) io" where
  "register_extension_main m cl l c dial af cf sender gov =
     (if sender = [] then io_err (ErrorString ''--instructionSender flag is required'')
      else
        io_bind (default_support l c dial af cf)
          (\<lambda>s.
             let a = l_hex_to_address l sender in
             case address_has_code m (Some cl) a ''InstructionSender'' of
               Some e \<Rightarrow> io_err e
             | None \<Rightarrow>
                 io_bind (setup_extension l c s (l_hex_to_hash l gov) a 0)
                   (\<lambda>eid. io_ok (hex_064 eid))))"

subsection \<open>deploy-contract\<close>

definition deploy_preflight ::
    "'key machine \<Rightarrow> chain_client \<Rightarrow> 'key support \<Rightarrow> go_error option" where
  "deploy_preflight m cl s =
     (let a = flare_tee_manager (s_addresses s) in
      case address_not_zero m a ''FlareTeeManager'' of
        Some e \<Rightarrow> Some e
      | None \<Rightarrow>
          (case address_has_code m (Some cl) a ''FlareTeeManager'' of
             Some e \<Rightarrow> Some e
           | None \<Rightarrow> key_has_funds m (Some cl) (s_prv s) min_deploy_balance))"

text \<open>The result is the line printed, none after \<open>-preflight-only\<close>.\<close>

definition deploy_contract_main ::
    "'key machine \<Rightarrow> chain_client \<Rightarrow> 'key lib \<Rightarrow> ('key, 'c) chain \<Rightarrow> (string \<Rightarrow> go_error option)
      \<Rightarrow> (hash \<Rightarrow> address) \<Rightarrow> string \<Rightarrow> string \<Rightarrow> string \<Rightarrow> bool \<Rightarrow> ('key, 'c, string option) io" where
  "deploy_contract_main m cl l c dial address_of af cf out preflight_only =
     io_bind (default_support l c dial af cf)
       (\<lambda>s.
          case deploy_preflight m cl s of
            Some e \<Rightarrow> io_err e
          | None \<Rightarrow>
              if preflight_only then io_ok None
              else
                io_bind (deploy_instruction_sender l c address_of s)
                  (\<lambda>a. io_bind
                     (if out \<noteq> [] then io_try (write_file c out (l_addr_hex l a)) (\<lambda>_. io_ok ())
                      else io_ok ())
                     (\<lambda>_. io_ok (Some (l_addr_hex l a)))))"

subsection \<open>register-tee\<close>

record register_tee_flags =
  rt_addresses :: string
  rt_chain :: string
  rt_proxy :: string
  rt_host :: string
  rt_external :: string
  rt_instruction :: string
  rt_command :: string
  rt_state :: string
  rt_resume :: bool

definition reg_args_of :: "register_tee_flags \<Rightarrow> address \<Rightarrow> reg_args" where
  "reg_args_of f ftdc =
     \<lparr>ra_host = (if rt_host f = [] then rt_proxy f else rt_host f), ra_ftdc_url = rt_external f,
      ra_ftdc_tee = ftdc, ra_command = rt_command f, ra_instruction = rt_instruction f,
      ra_state_path = rt_state f\<rparr>"

definition register_tee_main ::
    "'key lib \<Rightarrow> ('key, 'c) chain \<Rightarrow> (string \<Rightarrow> go_error option) \<Rightarrow> register_tee_flags
      \<Rightarrow> ('key, 'c, unit) io" where
  "register_tee_main l c dial f =
     io_bind
       (if \<not> rt_resume f then io_try (remove_file c (rt_state f)) (\<lambda>_. io_ok ()) else io_ok ())
       (\<lambda>_. io_bind (default_support l c dial (rt_addresses f) (rt_chain f))
       (\<lambda>s. io_bind (tee_info l c (rt_proxy f))
       (\<lambda>info. io_bind (io_res (tee_proxy_id l info))
       (\<lambda>_. io_bind (get_tee_proxy_id l c (rt_external f))
       (\<lambda>(ftdc, _). io_bind (io_res (get_code_hash_and_platform l info))
       (\<lambda>_. register_node l c s info (reg_args_of f ftdc)))))))"

subsection \<open>run-test\<close>

text \<open>The two responses have the same shape: a text and a number.\<close>

fun into_int :: "json \<Rightarrow> int \<Rightarrow> int option" where
  "into_int (JNum n) old = atoi n"
| "into_int JNull old = Some old"
| "into_int _ old = None"

fun decode_say_members ::
    "string \<Rightarrow> string \<Rightarrow> (string \<times> json) list \<Rightarrow> string \<times> int \<Rightarrow> (string \<times> int) option" where
  "decode_say_members tf nf [] r = Some r"
| "decode_say_members tf nf ((k, v) # ms) r =
     (case find_field [tf, nf] k of
        None \<Rightarrow> decode_say_members tf nf ms r
      | Some n \<Rightarrow>
          if n = tf then
            (case into_string v (fst r) of
               None \<Rightarrow> None | Some t \<Rightarrow> decode_say_members tf nf ms (t, snd r))
          else
            (case into_int v (snd r) of
               None \<Rightarrow> None | Some i \<Rightarrow> decode_say_members tf nf ms (fst r, i)))"

definition decode_say :: "string \<Rightarrow> string \<Rightarrow> string \<Rightarrow> (string \<times> int) option" where
  "decode_say tf nf data =
     (case json_unmarshal data of
        Some (JObj ms) \<Rightarrow> decode_say_members tf nf ms ([], 0)
      | Some JNull \<Rightarrow> Some ([], 0)
      | _ \<Rightarrow> None)"

definition say_verdict ::
    "'key lib \<Rightarrow> string \<Rightarrow> string \<Rightarrow> string \<Rightarrow> string \<Rightarrow> action_response \<Rightarrow> unit res" where
  "say_verdict l tf nf text_name number_name r =
     (if an_status r = 0 then
        Err (ErrorString (''instruction processing failed: '' @ an_log r))
      else if an_status r = 2 then
        Err (ErrorString ''instruction still pending after polling, expected completed'')
      else if length (an_data r) = 0 then
        Err (ErrorString ''expected response data but got none'')
      else
        (case decode_say tf nf (an_data r) of
           None \<Rightarrow> Err (errorf ''failed to unmarshal response'' (l_json_error l (an_data r)))
         | Some (t, n) \<Rightarrow>
             if t = [] then Err (ErrorString (''expected non-empty '' @ text_name))
             else if n < 1 then
               Err (ErrorString (''expected '' @ number_name @ '' >= 1, got '' @ dec_int n))
             else Ok ()))"

definition verify_hello_result ::
    "'key lib \<Rightarrow> ('key, 'c) chain \<Rightarrow> string \<Rightarrow> hash \<Rightarrow> ('key, 'c, unit) io" where
  "verify_hello_result l c url iid =
     io_bind (action_result l c url iid)
       (\<lambda>r. io_res (say_verdict l ''greeting'' ''greetingNumber'' ''Greeting'' ''GreetingNumber'' r))"

definition verify_goodbye_result ::
    "'key lib \<Rightarrow> ('key, 'c) chain \<Rightarrow> string \<Rightarrow> hash \<Rightarrow> ('key, 'c, unit) io" where
  "verify_goodbye_result l c url iid =
     io_bind (action_result l c url iid)
       (\<lambda>r. io_res (say_verdict l ''farewell'' ''farewellNumber'' ''Farewell'' ''FarewellNumber'' r))"

text \<open>Setting the id again is not an error.\<close>

definition configure_sender ::
    "'key lib \<Rightarrow> ('key, 'c) chain \<Rightarrow> 'key support \<Rightarrow> address \<Rightarrow> ('key, 'c, unit) io" where
  "configure_sender l c s a =
     io_try (set_extension_id l c s a)
       (\<lambda>r. case r of
          Inr _ \<Rightarrow> io_ok ()
        | Inl e \<Rightarrow>
            if contains (err_msg e) ''already set'' \<or> contains (err_msg e) ''Extension ID already set''
            then io_ok ()
            else io_err (ErrorString (''setExtensionId failed '' @ em_dash
              @ '' is the extension registered? Check that pre-build.sh completed successfully. Error: ''
              @ err_msg e)))"

definition run_test_main ::
    "'key lib \<Rightarrow> ('key, 'c) chain \<Rightarrow> (string \<Rightarrow> go_error option) \<Rightarrow> string \<Rightarrow> string \<Rightarrow> string \<Rightarrow> string
      \<Rightarrow> ('key, 'c, unit) io" where
  "run_test_main l c dial af cf pf sender =
     (let a = l_hex_to_address l sender in
      io_bind (default_support l c dial af cf)
       (\<lambda>s. io_bind (configure_sender l c s a)
       (\<lambda>_. io_bind (send_say_hello l c s a (json_print (JObj [(''name'', JStr ''World'')])))
       (\<lambda>(i1, _). io_bind (io_sleep c 5000)
       (\<lambda>_. io_bind (verify_hello_result l c pf i1)
       (\<lambda>_. io_bind (send_say_goodbye l c s a ''World'' ''heading out'')
       (\<lambda>(i2, _). io_bind (io_sleep c 5000)
       (\<lambda>_. verify_goodbye_result l c pf i2))))))))"

subsection \<open>audit-deploy\<close>

definition bytes32_to_string :: "bytes \<Rightarrow> string" where
  "bytes32_to_string b = trim_space (rev (dropWhile (\<lambda>x. x = nat_byte 0) (rev b)))"

definition address_status :: "address \<Rightarrow> bytes rpc \<Rightarrow> string" where
  "address_status a r =
     (case r of
        Inl e \<Rightarrow> ''ERROR '' @ err_msg e
      | Inr cd \<Rightarrow>
          if a = 0 then ''ZERO ADDRESS''
          else if length cd = 0 then ''NO CODE''
          else ''ok ('' @ dec (length cd) @ '' bytes)'')"

definition replay_add_tee_version ::
    "'key lib \<Rightarrow> ('key, 'c) chain \<Rightarrow> address \<Rightarrow> address \<Rightarrow> int \<Rightarrow> string \<Rightarrow> hash \<Rightarrow> hash
      \<Rightarrow> ('key, 'c, string + diagnosis) io" where
  "replay_add_tee_version l c to from eid v code_hash platform =
     (case l_abi l ''ExtensionManager'' of
        Inl e \<Rightarrow> io_ok (Inl (''load ABI: '' @ err_msg e))
      | Inr _ \<Rightarrow>
          (case string_to_bytes32 l v of
             Err e \<Rightarrow> io_ok (Inl (''version: '' @ err_msg e))
           | Panic p \<Rightarrow> io_res (Panic p)
           | Ok vb \<Rightarrow>
               (case l_pack l (TxAddTeeVersion eid vb code_hash [platform]) of
                  Inl e \<Rightarrow> io_ok (Inl (''pack: '' @ err_msg e))
                | Inr calldata \<Rightarrow>
                    io_try
                      (io_ext (c_call c \<lparr>cm_from = from, cm_to = Some to, cm_gas = 0,
                         cm_gas_price = None, cm_value = None, cm_data = calldata\<rparr>))
                      (\<lambda>r. io_ok (Inr (case r of
                         Inr _ \<Rightarrow> DiagSucceeded
                       | Inl e \<Rightarrow>
                           (let data = extract_revert_data l (Some e) in
                            if length data < 4 then DiagNoData (err_msg e)
                            else diag_data l
                              [''ExtensionManager'', ''MachineManager'', ''Verification''] data)))))))"

subsection \<open>The starters\<close>

definition int_env :: "env \<Rightarrow> string \<Rightarrow> int \<Rightarrow> int" where
  "int_env e k fallback = (case atoi (e k) of Some v \<Rightarrow> v | None \<Rightarrow> fallback)"

text \<open>\<open>setOwnerAddress\<close> of \<open>start-tee\<close>: the address returned and the environment after.\<close>

definition set_owner_address :: "'key lib \<Rightarrow> env \<Rightarrow> (address \<times> env) res" where
  "set_owner_address l e =
     (let owner = e ''INITIAL_OWNER'' in
      if owner \<noteq> [] then Ok (l_hex_to_address l owner, e)
      else
        (let ks = e ''DEPLOYMENT_PRIVATE_KEY'' in
         res_bind
           (if ks = [] then
              (case l_hex_to_ecdsa l dev_key_hex of
                 Inl _ \<Rightarrow> Panic ''cannot parse default private key'' | Inr k \<Rightarrow> Ok k)
            else of_rpc (l_hex_to_ecdsa l (strip_0x ks)))
           (\<lambda>k. Ok (l_hex_to_address l owner,
                    e(''INITIAL_OWNER'' := l_addr_hex l (l_key_address l k))))))"

subsection \<open>Facts\<close>

lemma parse_signers_not_Nil [simp]: "parse_signers l raw fb \<noteq> []"
  by (simp add: parse_signers_def Let_def)

lemma parse_threshold_pos: "0 < parse_threshold raw"
  by (auto simp: parse_threshold_def split: prod.splits option.splits)

lemma bytes32_roundtrip:
  assumes "length s \<le> 32" and "s = [] \<or> last s \<noteq> nat_byte 0"
    and "string_to_bytes32 l s = Ok b"
  shows "length b = 32 \<and> bytes32_to_string b = trim_space s"
proof -
  have b: "b = s @ replicate (32 - length s) (nat_byte 0)"
    using assms by (simp add: string_to_bytes32_def)
  have "dropWhile (\<lambda>x. x = nat_byte 0) (rev s) = rev s"
    using assms(2) by (cases s rule: rev_cases) auto
  then have "rev (dropWhile (\<lambda>x. x = nat_byte 0) (rev b)) = s"
    by (simp add: b dropWhile_append)
  then show ?thesis using assms(1) by (simp add: b bytes32_to_string_def)
qed

lemma say_verdict_Ok:
  "say_verdict l tf nf tn nn r = Ok () \<longleftrightarrow>
     an_status r \<noteq> 0 \<and> an_status r \<noteq> 2 \<and> an_data r \<noteq> []
     \<and> (\<exists>t n. decode_say tf nf (an_data r) = Some (t, n) \<and> t \<noteq> [] \<and> 1 \<le> n)"
  by (cases "decode_say tf nf (an_data r)") (auto simp: say_verdict_def not_less split: if_splits)

end
