(* ===== verification/ToolsDemo.thy ===== *)
theory ToolsDemo
  imports RegistrationFlow Tools ChecksDemo
begin

text \<open>
  A concrete chain and concrete libraries on which the tools' theorems are evaluated. The
  outside world is a clock: a sleep moves it, the machine appears in the registry (as
  \<open>seen\<close>) once time has passed, and the proxy answers an action's result after four seconds.
\<close>

definition demo_hash_text :: "hash \<Rightarrow> string" where
  "demo_hash_text h = dec (unat h)"

fun demo_json_hash :: "json \<Rightarrow> hash option" where
  "demo_json_hash (JStr s) = map_option of_nat (digits_val 0 s)"
| "demo_json_hash _ = None"

definition demo_machine_data :: machine_data where
  "demo_machine_data = \<lparr>md_extension_id = 2, md_initial_owner = 1, md_code_hash = 3, md_platform = 4,
     md_public_key = (1, 2), md_governance_hash = 5\<rparr>"

definition demo_info :: tee_info where
  "demo_info = \<lparr>ti_public_key = (1, 2), ti_chain_id = 114, ti_last_policy = 8, ti_attestation = [],
     ti_machine = demo_machine_data, ti_data_signature = replicate 65 (CHR ''s''),
     ti_proxy_signature = []\<rparr>"

definition demo_log :: evm_log where
  "demo_log = \<lparr>log_address = 1, log_topics = [], log_data = []\<rparr>"

definition demo_lib :: "unit lib" where
  "demo_lib =
     \<lparr>l_getenv = (\<lambda>_. []), l_bind = (\<lambda>_ _. None), l_transactor = (\<lambda>_ _. None),
      l_key_address = (\<lambda>_. 1), l_hex_to_ecdsa = (\<lambda>_. Inr ()), l_hex_to_address = (\<lambda>_. 7),
      l_hex_to_hash = (\<lambda>_. 0), l_from_hex = (\<lambda>_. []), l_addr_hex = (\<lambda>_. ''0x01''),
      l_hash_hex = (\<lambda>_. ''0x00''), l_json_hash = demo_json_hash, l_json_address = (\<lambda>_. Some 5),
      l_json_error = (\<lambda>_. ErrorString ''EOF''), l_tx_sender = (\<lambda>_. Inr 1),
      l_unpack_revert = (\<lambda>_. Inl (ErrorString ''no revert'')), l_abi = (\<lambda>_. Inr []),
      l_pack = (\<lambda>_. Inr []), l_parse_registered = (\<lambda>_. Inr 12), l_parse_contracts_set = (\<lambda>_. Inr ()),
      l_parse_machine_owners = (\<lambda>_. Inr ()), l_parse_project_owners = (\<lambda>_. Inr ()),
      l_parse_attestation = (\<lambda>_. Inr 6), l_parse_instructions = (\<lambda>_. Inr 7),
      l_decode_info = (\<lambda>_. Inr demo_info),
      l_decode_action = (\<lambda>_. Inr \<lparr>an_status = 1, an_log = [], an_data = ''data''\<rparr>),
      l_decode_prove = (\<lambda>_. Inr ([], [], [], [])), l_decode_header = (\<lambda>_. Inr []),
      l_decode_request = (\<lambda>_. Inr \<lparr>aq_tee_id = 9, aq_rest = []\<rparr>),
      l_decode_response = (\<lambda>_. Inr \<lparr>ap_status = 0, ap_timestamp = 0, ap_code_hash = 3, ap_platform = 4,
        ap_initial_policy = 8, ap_last_policy = 8, ap_state = []\<rparr>),
      l_parse_pubkey = Inr, l_pub_address = (\<lambda>_. 9), l_info_hash = (\<lambda>_. Inr []),
      l_bytes_to_hash = (\<lambda>_. 0), l_payload_hash = (\<lambda>_ _. Inr 0), l_text_hash = (\<lambda>_. []),
      l_sig_to_pub = (\<lambda>_ _. Inr (1, 2)), l_token_claims = (\<lambda>_. Inr (Inr 3, Inr 4)),
      l_rsv_to_vrs = Inr, l_governance_hash = (\<lambda>ss n. Inr (of_nat (length ss))), l_evm_type = 11,
      l_marshal_proxy_url = Inr, l_hash_json = demo_hash_text, l_is_print = (\<lambda>_. True)\<rparr>"

definition demo_chain :: "address \<Rightarrow> (unit, nat) chain" where
  "demo_chain seen =
     \<lparr>c_send = (\<lambda>_ _ t. (Inr 1, t)),
      c_wait_mined = (\<lambda>_ _ t. (Inr \<lparr>rc_status = 1, rc_logs = [demo_log, demo_log], rc_tx_hash = 1\<rparr>, t)),
      c_tx_by_hash = (\<lambda>_ t. (Inl (ErrorString ''not found''), t)),
      c_call = (\<lambda>_ t. (Inr [], t)), c_chain_id = (\<lambda>t. (Inr 114, t)),
      c_http_get = (\<lambda>_ t. (Inr (if 4000 \<le> t then 200 else 404, []), t)),
      c_http_post = (\<lambda>_ _ t. (Inr 200, t)), c_sleep = (\<lambda>ms t. t + ms),
      c_reward_epoch = (\<lambda>t. (Inr (Some 8), t)),
      c_get_machine = (\<lambda>_ t. (Inr (if t = 0 then 0 else seen), t)),
      c_governance = (\<lambda>_ t. (Inr 1, t)), c_machine_owner = (\<lambda>_ _ t. (Inr False, t)),
      c_project_owner = (\<lambda>_ _ t. (Inr True, t)), c_key_type = (\<lambda>_ _ t. (Inr False, t)),
      c_version_supported = (\<lambda>_ _ _ t. (Inr (0 < t), t)), c_code_at = (\<lambda>_ t. (Inr [], t)),
      c_read_error = (\<lambda>_ _. None), c_no_file = (\<lambda>_. ErrorString ''no file''),
      c_write_error = (\<lambda>_ _ _. None), c_remove_error = (\<lambda>_ _. None)\<rparr>"

definition demo_addresses :: addresses where
  "demo_addresses = \<lparr>flare_system_manager = 0, fdc2_hub = 0, flare_tee_manager = 5\<rparr>"

definition demo_keys :: "unit support" where
  "demo_keys = \<lparr>s_prv = (), s_addresses = demo_addresses, s_bindings = binding_list demo_addresses,
     s_chain_id = 114\<rparr>"

definition demo_args :: reg_args where
  "demo_args = \<lparr>ra_host = ''h'', ra_ftdc_url = ''f'', ra_ftdc_tee = 9, ra_command = ''rap'',
     ra_instruction = [], ra_state_path = ''state''\<rparr>"

text \<open>The files: the addresses, with one contract in it.\<close>

definition demo_addresses_file :: string where
  "demo_addresses_file = json_print (JObj [(''FlareTeeManager'', JStr [])])"

definition demo_files :: "string \<Rightarrow> string option" where
  "demo_files = [''addresses'' \<mapsto> demo_addresses_file]"

definition demo_world :: "(unit, nat) world" where
  "demo_world = \<lparr>ext = 0, files = demo_files, sent = []\<rparr>"

lemma ascii_dec: "ascii (dec n)"
  unfolding ascii_def list_all_iff
proof
  fix c assume "c \<in> set (dec n)"
  then obtain d where "d < 10" "c = digit_char d" using dec_digits by blast
  then show "byte_nat c < 128" by (simp add: digit_char_def)
qed

lemma demo_hash_text_ok: "hash_text_ok demo_lib"
  by (simp add: hash_text_ok_def demo_lib_def demo_hash_text_def ascii_dec)

lemma demo_writes_ok: "writes_ok (demo_chain x)"
  by (simp add: writes_ok_def demo_chain_def)

subsection \<open>The operations on the demo chain\<close>

definition demo_receipt :: receipt where
  "demo_receipt = \<lparr>rc_status = 1, rc_logs = [demo_log, demo_log], rc_tx_hash = 1\<rparr>"

lemma demo_send [simp]: "send_tx (demo_chain x) k t w = (Ok 1, w\<lparr>sent := sent w @ [(k, t)]\<rparr>)"
  by (simp add: send_tx_def demo_chain_def)

lemma demo_wait [simp]: "check_tx demo_lib (demo_chain x) h w = (Ok demo_receipt, w)"
  by (simp add: check_tx_def io_try_def io_ext_def demo_chain_def io_ok_def demo_receipt_def)

lemma demo_transactor [simp]: "transactor demo_lib k n = Ok ()"
  by (simp add: transactor_def demo_lib_def)

lemma demo_tee_info [simp]: "TeeCalls.tee_info demo_lib (demo_chain x) url w = (Ok demo_info, w)"
  by (simp add: TeeCalls.tee_info_def io_defs io_ext_def demo_lib_def demo_chain_def)

lemma demo_tee_proxy_id [simp]: "tee_proxy_id demo_lib info = Ok (9, 9)"
  by (simp add: tee_proxy_id_def demo_lib_def)

lemma demo_policy [simp]: "check_policy_consistency demo_lib (demo_chain x) url w = (Ok (), w)"
proof -
  have "policy_in_sync (big_uint64 8) (ucast (ti_last_policy demo_info))"
    by (simp add: policy_in_sync_def big_uint64_def demo_info_def)
  moreover have "io_ext (c_reward_epoch (demo_chain x)) w = (Ok (Some 8), w)"
    by (simp add: io_ext_def demo_chain_def)
  ultimately show ?thesis
    by (simp add: check_policy_consistency_def io_try_def io_ok_def Let_def)
qed

definition demo_sig :: vrs_signature where
  "demo_sig = \<lparr>sig_v = CHR ''s'', sig_r = replicate 32 (CHR ''s''), sig_s = replicate 32 (CHR ''s'')\<rparr>"

lemma demo_pre_registration [simp]:
  "pre_registration demo_lib (demo_chain x) demo_keys host proxy demo_info w =
     (Ok (6, 7), w\<lparr>sent := sent w @ [((), TxRegisterMachine (registry_of demo_machine_data) demo_sig
        proxy host 1 instruction_fee)]\<rparr>)"
proof -
  have v: "l_rsv_to_vrs demo_lib b = Inr b" "l_key_address demo_lib k = 1"
    "l_parse_attestation demo_lib lg = Inr 6" "l_parse_instructions demo_lib lg = Inr 7" for b k lg
    by (simp_all add: demo_lib_def)
  have sg: "split_vrs (ti_data_signature demo_info) = Ok demo_sig"
    by (simp add: split_vrs_def demo_info_def demo_sig_def)
  have l: "length (ti_data_signature demo_info) = 65" "ti_machine demo_info = demo_machine_data"
    by (simp_all add: demo_info_def)
  show ?thesis
    by (simp add: pre_registration_def io_defs v sg l Let_def demo_receipt_def)
qed

lemma demo_attestation [simp]:
  "request_tee_attestation demo_lib (demo_chain x) demo_keys tee w =
     (Ok 7, w\<lparr>sent := sent w @ [((), TxRequestAttestation tee 1 instruction_fee)]\<rparr>)"
proof -
  have v: "l_key_address demo_lib k = 1" "l_parse_instructions demo_lib lg = Inr 7" for k lg
    by (simp_all add: demo_lib_def)
  show ?thesis by (simp add: request_tee_attestation_def io_defs v demo_receipt_def demo_keys_def)
qed

lemma demo_availability [simp]:
  "request_availability_check demo_lib (demo_chain x) demo_keys tee external attest w =
     (Ok 7, w\<lparr>sent := sent w @ [((), TxAvailabilityCheck tee attest external 1 1 instruction_fee)]\<rparr>)"
proof -
  have v: "l_key_address demo_lib k = 1" "l_parse_instructions demo_lib lg = Inr 7" for k lg
    by (simp_all add: demo_lib_def)
  show ?thesis
    by (simp add: request_availability_check_def io_defs v demo_receipt_def demo_keys_def Let_def)
qed

lemma demo_save [simp]:
  "save_or_warn demo_lib (demo_chain x) p st w =
     (Ok (), w\<lparr>files := (files w)(p := Some (json_indent 0 (json_reg_state demo_lib st)))\<rparr>)"
  by (simp add: save_or_warn_def save_state_def io_defs write_file_def demo_chain_def)

lemma demo_sleep [simp]: "io_sleep (demo_chain x) n w = (Ok (), w\<lparr>ext := ext w + n\<rparr>)"
  by (simp add: io_sleep_def demo_chain_def)

lemma demo_poll:
  assumes "4000 \<le> ext w"
  shows "TeeCalls.action_result demo_lib (demo_chain x) url h w =
    (Ok \<lparr>an_status = 1, an_log = [], an_data = ''data''\<rparr>, w)"
  using assms
  by (simp add: TeeCalls.action_result_def io_defs io_ext_def poll.simps repeats_def demo_chain_def
      answered_def demo_lib_def)

lemma demo_poll_late:
  assumes "ext w < 4000" "2000 \<le> ext w"
  shows "TeeCalls.action_result demo_lib (demo_chain x) url h w =
    (Ok \<lparr>an_status = 1, an_log = [], an_data = ''data''\<rparr>, w\<lparr>ext := ext w + 2000\<rparr>)"
  using assms
  by (simp add: TeeCalls.action_result_def io_defs io_ext_def poll.simps repeats_def demo_chain_def
      answered_def demo_lib_def numeral_eq_Suc)

definition demo_pf :: availability_proof where
  "demo_pf = \<lparr>pf_signatures = [], pf_header = [], pf_request = \<lparr>aq_tee_id = 9, aq_rest = []\<rparr>,
     pf_response = \<lparr>ap_status = 0, ap_timestamp = 0, ap_code_hash = 3, ap_platform = 4,
        ap_initial_policy = 8, ap_last_policy = 8, ap_state = []\<rparr>\<rparr>"

lemma demo_proof:
  assumes "ext w < 4000" "2000 \<le> ext w"
  shows "get_availability_result demo_lib (demo_chain x) url h w = (Ok demo_pf, w\<lparr>ext := ext w + 2000\<rparr>)"
  using demo_poll_late[OF assms, of x url h]
  by (simp add: get_availability_result_def decode_availability_request_def decode_availability_response_def io_bind_def demo_pf_def)
     (simp add: demo_lib_def io_bind_def io_res_def io_ok_def)

lemma demo_to_production:
  assumes "0 < ext w"
  shows "to_production demo_lib (demo_chain x) demo_keys demo_pf w =
    (if x = 9 then Ok () else Err (ErrorString ''tee machine not set up correctly''),
     w\<lparr>sent := sent w @ [((), TxToProduction demo_pf)]\<rparr>)"
proof -
  have "io_ext (c_get_machine (demo_chain x) a) v = (Ok x, v)" if "0 < ext v" for a and v :: "(unit, nat) world"
    using that by (simp add: io_ext_def demo_chain_def)
  then show ?thesis using assms by (simp add: to_production_def io_defs demo_keys_def) (simp add: demo_pf_def)
qed

text \<open>The whole flow, with the command \<open>rap\<close> and no state file.\<close>

definition demo_sent :: "(unit \<times> tx) list" where
  "demo_sent = map (Pair ())
     [TxRegisterMachine (registry_of demo_machine_data) demo_sig 9 ''h'' 1 instruction_fee,
      TxAvailabilityCheck 9 7 9 1 1 instruction_fee, TxToProduction demo_pf]"

definition demo_left :: registration_state where
  "demo_left = \<lparr>rs_completed = ''ra'', rs_attest = 7, rs_instruction = 7\<rparr>"

text \<open>With another machine in the registry the last step fails and leaves the state file.\<close>

lemma demo_runs:
  "register_node demo_lib (demo_chain x) demo_keys demo_info demo_args demo_world =
     (if x = 9 then (Ok (), \<lparr>ext = 4000, files = demo_files, sent = demo_sent\<rparr>)
      else (Err (ErrorString ''tee machine not set up correctly''),
        \<lparr>ext = 4000, files = demo_files(''state'' \<mapsto> json_indent 0 (json_reg_state demo_lib demo_left)),
         sent = demo_sent\<rparr>))"
proof -
  have w: "wants demo_args ''r''" "wants demo_args ''a''" "wants demo_args ''p''" "\<not> wants demo_args ''R''"
    by (simp_all add: wants_def demo_args_def)
  have ld: "load_state demo_lib (demo_chain x) ''state'' demo_world = (Ok zero_state, demo_world)"
    by (simp add: load_state_def read_opt_def io_defs)
       (simp add: demo_chain_def demo_world_def demo_files_def io_ok_def)
  have gm: "io_ext (c_get_machine (demo_chain x) a) demo_world = (Ok 0, demo_world)" for a
    by (simp add: io_ext_def demo_chain_def demo_world_def)
  have rm: "remove_file (demo_chain y) p v = (Ok (), v\<lparr>files := (files v)(p := None)\<rparr>)"
    for p y and v :: "(unit, nat) world"
    by (simp add: remove_file_def demo_chain_def)
  have a: "ra_host demo_args = ''h''" "ra_state_path demo_args = ''state''" "ra_ftdc_tee demo_args = 9" "s_prv demo_keys = ()"
    by (simp_all add: demo_args_def demo_keys_def)
  show ?thesis
    unfolding register_node_def
    by (simp add: io_bind_def io_res_def ld w step_pre_register_def is_done_def zero_state_def io_try_def gm
        step_request_attestation_def step_availability_def step_promote_def io_ok_def a Let_def)
       (simp add: demo_world_def demo_proof demo_to_production rm demo_sent_def fun_upd_def demo_left_def demo_files_def
        io_try_def io_ok_def cong: if_cong, auto simp: fun_eq_iff)
qed

lemmas demo_register_run = demo_runs[of 9, simplified]
lemmas demo_register_failure = demo_runs[of 0, simplified]

subsection \<open>The mains\<close>

definition demo_tee_flags :: register_tee_flags where
  "demo_tee_flags = \<lparr>rt_addresses = ''addresses'', rt_chain = ''u'', rt_proxy = ''h'', rt_host = [],
     rt_external = ''f'', rt_instruction = [], rt_command = ''rap'', rt_state = ''state'', rt_resume = True\<rparr>"

lemma demo_default_support:
  "default_support demo_lib (demo_chain x) (\<lambda>_. None) ''addresses'' u demo_world = (Ok demo_keys, demo_world)"
proof -
  have j: "json_unmarshal demo_addresses_file = Some (JObj [(''FlareTeeManager'', JStr [])])"
    unfolding demo_addresses_file_def
    by (rule json_unmarshal_print) (simp_all add: byte_nat_Char)
  have t: "find_field address_tags ''FlareTeeManager'' = Some ''FlareTeeManager''"
    by (simp add: find_field_def address_tags_def)
  have a: "l_json_address demo_lib v = Some 5" for v by (simp add: demo_lib_def)
  have b: "bind_all demo_lib bs = Ok ()" for bs
    by (induction bs) (auto simp: demo_lib_def)
  have r: "read_file (demo_chain x) ''addresses'' demo_world = (Ok demo_addresses_file, demo_world)"
    by (simp add: read_file_def read_opt_def io_bind_def io_ok_def)
       (simp add: demo_chain_def demo_world_def demo_files_def io_ok_def)
  have c: "io_ext (c_chain_id (demo_chain x)) demo_world = (Ok 114, demo_world)"
    by (simp add: io_ext_def demo_chain_def)
  have k: "default_private_key demo_lib = Ok ()"
    by (simp add: default_private_key_def prv_with_funds_def demo_lib_def)
  show ?thesis
    by (simp add: default_support_def new_support_def io_defs r read_addresses_def j t a b c k)
       (simp add: demo_keys_def demo_addresses_def set_address_def zero_addresses_def)
qed

lemma demo_code_hash: "get_code_hash_and_platform demo_lib demo_info = Ok (3, 4)"
  by (simp add: get_code_hash_and_platform_def code_hash_and_platform_def demo_lib_def demo_info_def
      demo_machine_data_def)

lemma demo_tee_main:
  "register_tee_main demo_lib (demo_chain 9) (\<lambda>_. None) demo_tee_flags demo_world =
     (Ok (), \<lparr>ext = 4000, files = demo_files, sent = demo_sent\<rparr>)"
proof -
  have a: "reg_args_of demo_tee_flags 9 = demo_args"
    by (simp add: reg_args_of_def demo_tee_flags_def demo_args_def)
  have f: "rt_resume demo_tee_flags" "rt_addresses demo_tee_flags = ''addresses''"
    by (simp_all add: demo_tee_flags_def)
  show ?thesis
    by (simp add: register_tee_main_def f io_bind_def io_ok_def io_res_def demo_default_support
        get_tee_proxy_id_def demo_code_hash a demo_register_run)
qed

end
