(* ===== verification/ToolsClaims.thy ===== *)
theory ToolsClaims
  imports ToolsDemo "HOL-Library.Multiset"
begin

text \<open>
  What the deployment tools promise: which transactions the registration of a machine, the
  setup of an extension and the governance tool send and when, that a failed registration
  can be resumed, and what is checked before anything is sent.
\<close>

subsection \<open>Helpers\<close>

lemma default_support_reads [reads_intros]: "reads_only (default_support l c dial p u)"
  unfolding default_support_def new_support_def parse_addresses_file_def
  by (auto intro!: reads_intros split: option.splits sum.splits)

text \<open>A program that has sent something has got past everything that only reads.\<close>

lemma past_quiet:
  assumes "io_bind m f w = (r, w')" and "sent w' \<noteq> s0" and "\<forall>q v. m w = (q, v) \<longrightarrow> sent v = s0"
  shows "\<exists>x w1. m w = (Ok x, w1) \<and> sent w1 = s0 \<and> f x w1 = (r, w')"
  using assms(1)
proof (cases rule: io_bind_cases)
  case (go x w1)
  then show ?thesis using assms(3) by blast
qed (use assms(2,3) in auto)

lemma past_reads:
  assumes "io_bind m f w = (r, w')" and "sent w = s0" and "sent w' \<noteq> s0" and "reads_only m"
  shows "\<exists>x w1. m w = (Ok x, w1) \<and> sent w1 = s0 \<and> f x w1 = (r, w')"
  by (rule past_quiet[OF assms(1,3)]) (use reads_onlyD[OF assms(4)] assms(2) in auto)

lemma code_hash_gate:
  "get_code_hash_and_platform l info = Ok u \<Longrightarrow>
     (if l_getenv l ''SIMULATED_TEE'' = ''true''
       then md_code_hash (ti_machine info) = l_hex_to_hash l tee_code_hash_hex
          \<and> md_platform (ti_machine info) = l_hex_to_hash l test_platform_hex
       else code_hash_and_platform l (ti_attestation info) =
          Ok (md_code_hash (ti_machine info), md_platform (ti_machine info)))"
  by (auto simp: get_code_hash_and_platform_def Let_def res_bind_Ok_iff split: if_splits)

subsection \<open>Registration\<close>

text \<open>
  C5. Registering a machine sends, in this order, at most one registration (or attestation
  request for a machine that is registered), one attestation request, one availability
  check and one promotion, all with the deployer's key. The first three are sent only when
  the command asks for the step and the state file does not record it as completed, and a
  run that succeeds has sent each that was asked for. A command with neither \<open>r\<close> nor \<open>R\<close>
  requests the availability check with the zero attestation, whatever the file holds.
\<close>
theorem register_sends_each_step_once:
  assumes "register_node l c s info a w = (r, w')"
    and "file_state l (files w (ra_state_path a)) = Some st"
  shows "\<exists>w1 w2 w3 h. stage (s_prv s) is_register (wants a ''r'' \<and> \<not> is_done st ''r'') (is_ok r) w w1
    \<and> stage (s_prv s) is_request (wants a ''R'' \<and> \<not> is_done st ''R'') (is_ok r) w1 w2
    \<and> stage (s_prv s) (is_check h) (wants a ''a'' \<and> \<not> is_done st ''a'') (is_ok r) w2 w3
    \<and> stage (s_prv s) is_promote (wants a ''p'') (is_ok r) w3 w'
    \<and> (wants a ''r'' \<or> wants a ''R'' \<or> h = 0)"
  using register_node_stages[OF assms] by (simp only: active_def)

theorem register_sends_each_step_once_witness:
  "\<exists>w1 w2 w3 :: (unit, nat) world. \<exists>h. stage () is_register True True demo_world w1
    \<and> stage () is_request False True w1 w2
    \<and> stage () (is_check h) True True w2 w3
    \<and> stage () is_promote True True w3 \<lparr>ext = 4000, files = demo_files, sent = demo_sent\<rparr>"
proof -
  have "file_state demo_lib (files demo_world (ra_state_path demo_args)) = Some zero_state"
    by (simp add: demo_world_def demo_files_def demo_args_def file_state_def)
  from register_sends_each_step_once[OF demo_register_run this] show ?thesis
    by (simp add: demo_args_def demo_keys_def wants_def is_done_def zero_state_def)
qed

text \<open>
  C10. When every write of the state file goes through, a failed run leaves a file from which a
  later run goes on: it parses, and it is the state from before the run with exactly the steps
  \<open>xs\<close> added whose calls have returned, in the order of the flow, each under its letter and with
  the id its call returned. Each was asked for and not yet recorded, and sent one transaction;
  the availability check was requested for the attestation recorded then. Beyond these, at most
  one transaction was sent, after all of theirs.
\<close>
theorem failed_registration_resumable:
  assumes "register_node l c s info a w = (r, w')" and "\<not> is_ok r"
    and "hash_text_ok l" and "writes_ok c"
    and "file_state l (files w (ra_state_path a)) = Some st" and "ascii (rs_completed st)"
  shows "\<exists>tee proxy xs st' ss rest. completed_steps l c s info a tee proxy st (sent w) xs st' ss
    \<and> (xs \<noteq> [] \<longrightarrow> tee_proxy_id l info = Ok (tee, proxy)) \<and> subseq xs ''rRa''
    \<and> file_state l (files w' (ra_state_path a)) = Some st'
    \<and> sent w' = ss @ rest \<and> length rest \<le> 1 \<and> (\<forall>(k, t)\<in>set rest. k = s_prv s)"
  using register_node_failure[OF assms] unfolding nearly_tracked_def .

theorem failed_registration_resumable_witness:
  "\<exists>tee proxy xs st' ss. completed_steps demo_lib (demo_chain 0) demo_keys demo_info demo_args tee proxy
      zero_state [] xs st' ss
    \<and> file_state demo_lib (Some (json_indent 0 (json_reg_state demo_lib demo_left))) = Some st'
    \<and> 2 \<le> length xs"
proof -
  have f: "file_state demo_lib (files demo_world (ra_state_path demo_args)) = Some zero_state"
    by (simp add: demo_world_def demo_files_def demo_args_def file_state_def)
  have w: "sent demo_world = []" and l: "length demo_sent = 3"
    and p: "ra_state_path demo_args = ''state''"
    by (simp_all add: demo_world_def demo_sent_def demo_args_def)
  from failed_registration_resumable[OF demo_register_failure _ demo_hash_text_ok demo_writes_ok f]
  have "\<exists>tee proxy xs st' ss rest.
    completed_steps demo_lib (demo_chain 0) demo_keys demo_info demo_args tee proxy zero_state [] xs st' ss
    \<and> file_state demo_lib (Some (json_indent 0 (json_reg_state demo_lib demo_left))) = Some st'
    \<and> demo_sent = ss @ rest \<and> length rest \<le> 1"
    unfolding w p by (simp add: zero_state_def ascii_def) metis
  then obtain tee proxy xs st' ss rest where r:
    "completed_steps demo_lib (demo_chain 0) demo_keys demo_info demo_args tee proxy zero_state [] xs st' ss"
    "file_state demo_lib (Some (json_indent 0 (json_reg_state demo_lib demo_left))) = Some st'"
    "demo_sent = ss @ rest" "length rest \<le> 1"
    by blast
  have "length ss + length rest = 3" using l unfolding r(3) by simp
  then have "2 \<le> length xs" using completed_steps_counts[OF r(1)] r(4) by simp
  then show ?thesis using r(1,2) by blast
qed

text \<open>
  C28. The state file is a faithful copy: what \<open>saveState\<close> writes, \<open>loadState\<close> reads back,
  for the text form go-ethereum gives to hashes.
\<close>
theorem state_file_roundtrip:
  assumes "save_state l c p st w = (Ok (), w')" and "c_read_error c p (ext w') = None"
    and "hash_text_ok l" and "ascii (rs_completed st)"
  shows "load_state l c p w' = (Ok st, w')"
proof -
  have "files w' p = Some (json_indent 0 (json_reg_state l st))"
    using assms(1) by (auto simp: save_state_def write_file_def split: option.splits)
  then show ?thesis
    using assms(2) decode_reg_state_print[OF assms(3,4)]
    by (simp add: load_state_def read_opt_def io_bind_def io_map_err_def io_ok_def)
qed

theorem state_file_roundtrip_witness:
  "\<exists>w'. save_state demo_lib (demo_chain 9) ''p'' demo_left demo_world = (Ok (), w')
     \<and> load_state demo_lib (demo_chain 9) ''p'' w' = (Ok demo_left, w')"
proof -
  have s: "save_state demo_lib (demo_chain 9) ''p'' demo_left demo_world =
     (Ok (), demo_world\<lparr>files := (files demo_world)(''p'' := Some (json_indent 0 (json_reg_state demo_lib demo_left)))\<rparr>)"
    by (simp add: save_state_def write_file_def io_map_err_def) (simp add: demo_chain_def)
  have "ascii (rs_completed demo_left)" by (simp add: demo_left_def byte_nat_Char)
  from state_file_roundtrip[OF s _ demo_hash_text_ok this] show ?thesis
    using s by (simp add: demo_chain_def)
qed

text \<open>
  C21. \<open>register-tee\<close> sends nothing before the gate: whenever it has sent a transaction, the
  code hash and platform of the machine data are those of the attestation token (or the
  test constants in simulated mode), and everything was sent by \<open>RegisterNode\<close> on them.
\<close>
theorem register_tee_gate:
  assumes "register_tee_main l c dial f w = (r, w')" and "sent w' \<noteq> sent w"
  shows "\<exists>info s ftdc w1. register_node l c s info (reg_args_of f ftdc) w1 = (r, w') \<and> sent w1 = sent w
    \<and> (if l_getenv l ''SIMULATED_TEE'' = ''true''
       then md_code_hash (ti_machine info) = l_hex_to_hash l tee_code_hash_hex
          \<and> md_platform (ti_machine info) = l_hex_to_hash l test_platform_hex
       else code_hash_and_platform l (ti_attestation info) =
          Ok (md_code_hash (ti_machine info), md_platform (ti_machine info)))"
proof -
  note ne = assms(2)
  have "\<forall>q v. (if \<not> rt_resume f then io_try (remove_file c (rt_state f)) (\<lambda>_. io_ok ()) else io_ok ()) w = (q, v)
      \<longrightarrow> sent v = sent w" by (auto simp: io_try_def io_ok_def remove_file_def split: if_splits option.splits)
  from past_quiet[OF assms(1)[unfolded register_tee_main_def] ne this] obtain w0 where 0: "sent w0 = sent w"
    "io_bind (default_support l c dial (rt_addresses f) (rt_chain f))
       (\<lambda>s. io_bind (TeeCalls.tee_info l c (rt_proxy f))
       (\<lambda>info. io_bind (io_res (tee_proxy_id l info))
       (\<lambda>_. io_bind (get_tee_proxy_id l c (rt_external f))
       (\<lambda>(ftdc, _). io_bind (io_res (get_code_hash_and_platform l info))
       (\<lambda>_. register_node l c s info (reg_args_of f ftdc)))))) w0 = (r, w')"
    by (elim exE conjE) (rule that)
  from past_reads[OF 0(2,1) ne default_support_reads] obtain s w1 where 1: "sent w1 = sent w"
    "io_bind (TeeCalls.tee_info l c (rt_proxy f))
       (\<lambda>info. io_bind (io_res (tee_proxy_id l info))
       (\<lambda>_. io_bind (get_tee_proxy_id l c (rt_external f))
       (\<lambda>(ftdc, _). io_bind (io_res (get_code_hash_and_platform l info))
       (\<lambda>_. register_node l c s info (reg_args_of f ftdc))))) w1 = (r, w')" by blast
  from past_reads[OF 1(2,1) ne tee_info_reads] obtain info w2 where 2: "sent w2 = sent w"
    "io_bind (io_res (tee_proxy_id l info))
       (\<lambda>_. io_bind (get_tee_proxy_id l c (rt_external f))
       (\<lambda>(ftdc, _). io_bind (io_res (get_code_hash_and_platform l info))
       (\<lambda>_. register_node l c s info (reg_args_of f ftdc)))) w2 = (r, w')" by blast
  from past_reads[OF 2(2,1) ne reads_only_basic(3)] obtain w3 where 3: "sent w3 = sent w"
    "io_bind (get_tee_proxy_id l c (rt_external f))
       (\<lambda>(ftdc, _). io_bind (io_res (get_code_hash_and_platform l info))
       (\<lambda>_. register_node l c s info (reg_args_of f ftdc))) w3 = (r, w')" by blast
  from past_reads[OF 3(2,1) ne get_tee_proxy_id_reads] obtain ftdc w4 where 4: "sent w4 = sent w"
    "io_bind (io_res (get_code_hash_and_platform l info))
       (\<lambda>_. register_node l c s info (reg_args_of f ftdc)) w4 = (r, w')" by auto
  from past_reads[OF 4(2,1) ne reads_only_basic(3)] obtain u w5 where 5: "sent w5 = sent w"
    "get_code_hash_and_platform l info = Ok u" "register_node l c s info (reg_args_of f ftdc) w5 = (r, w')"
    by (auto simp: io_res_def)
  show ?thesis using 5 code_hash_gate[OF 5(2)] by blast
qed

theorem register_tee_gate_witness:
  "\<exists>info :: tee_info. code_hash_and_platform demo_lib (ti_attestation info) =
     Ok (md_code_hash (ti_machine info), md_platform (ti_machine info))"
proof -
  have "sent \<lparr>ext = 4000, files = demo_files, sent = demo_sent\<rparr> \<noteq> sent demo_world"
    by (simp add: demo_sent_def demo_world_def)
  moreover have "l_getenv demo_lib v = []" for v by (simp add: demo_lib_def)
  ultimately show ?thesis using register_tee_gate[OF demo_tee_main] by auto
qed

subsection \<open>Polling\<close>

text \<open>
  C29. \<open>ActionResult\<close> asks at most fifteen times, two seconds apart: it goes on with the body
  of the first answer of status 200, and fails when there is none among the fifteen.
\<close>
theorem action_result_polls:
  assumes "url = node @ ''/action/result/'' @ l_hash_hex l aid"
  shows "(k < 15 \<and> poll_answer c url (ext w) k = Inr (200, b) \<and> (\<forall>j<k. \<not> answered (poll_answer c url (ext w) j))
      \<longrightarrow> fst (TeeCalls.action_result l c node aid w) = map_err restring (of_rpc (l_decode_action l b)))
    \<and> ((\<forall>j<15. \<not> answered (poll_answer c url (ext w) j))
      \<longrightarrow> \<not> is_ok (fst (TeeCalls.action_result l c node aid w)))"
proof -
  have run: "fst (TeeCalls.action_result l c node aid w) =
      (case fst (poll c 14 url (ext w)) of
         Inl e \<Rightarrow> Err (restring e)
       | Inr (st, b) \<Rightarrow>
           if st \<noteq> 200 then Err (ErrorString (''action result status not ok, got: '' @ dec st))
           else map_err restring (of_rpc (l_decode_action l b)))"
    by (simp add: TeeCalls.action_result_def repeats_def assms io_bind_def io_map_err_def io_ext_def
        io_err_def io_res_def split: prod.splits sum.splits)
  have hit: "fst (poll c 14 url (ext w)) = Inr (200, b)"
    if "k < 15" "poll_answer c url (ext w) k = Inr (200, b)" "\<forall>j<k. \<not> answered (poll_answer c url (ext w) j)"
    using poll_first[of k 14 c url "ext w"] that by (simp add: answered_def)
  have miss: "\<not> answered (fst (poll c 14 url (ext w)))" if "\<forall>j<15. \<not> answered (poll_answer c url (ext w) j)"
    using poll_none[of 14 c url "ext w"] that by simp
  show ?thesis
  proof (intro conjI impI)
    assume "k < 15 \<and> poll_answer c url (ext w) k = Inr (200, b) \<and> (\<forall>j<k. \<not> answered (poll_answer c url (ext w) j))"
    then show "fst (TeeCalls.action_result l c node aid w) = map_err restring (of_rpc (l_decode_action l b))"
      using hit by (simp add: run)
  next
    assume "\<forall>j<15. \<not> answered (poll_answer c url (ext w) j)"
    from miss[OF this] show "\<not> is_ok (fst (TeeCalls.action_result l c node aid w))"
      by (auto simp: run answered_def split: sum.splits prod.splits)
  qed
qed

theorem action_result_polls_witness:
  "fst (TeeCalls.action_result demo_lib (demo_chain 9) ''n'' 7 demo_world) =
     Ok \<lparr>an_status = 1, an_log = [], an_data = ''data''\<rparr>"
proof -
  let ?a = "poll_answer (demo_chain 9) (''n'' @ ''/action/result/'' @ l_hash_hex demo_lib 7) 0"
  have a: "?a 0 = Inr (404, [])" "?a 1 = Inr (404, [])" "?a 2 = Inr (200, [])"
    by (simp_all add: poll_answer_def demo_chain_def numeral_2_eq_2)
  have "\<forall>j<2. \<not> answered (?a j)"
    using a(1,2) by (simp add: less_2_cases_iff answered_def)
  with a(3) show ?thesis
    using action_result_polls[OF refl, of 2 "demo_chain 9" "''n''" demo_lib 7 demo_world "[]"]
    by (simp add: demo_world_def) (simp add: demo_lib_def)
qed

subsection \<open>Setting up an extension\<close>

text \<open>
  C20. Setting up an extension sends, in this order, its registration and then what the chain
  still lacks: the deployer as machine owner, as project owner, and the EVM key type. What
  the chain already has is not sent again, a success has sent all that was missing, and the
  id returned is the one the owners were added to.
\<close>
theorem setup_sends_what_is_missing:
  assumes "setup_extension l c s gov sender verifier w = (r, w')"
  shows "\<exists>w1 w2 w3 eid.
      stage (s_prv s) (\<lambda>t. t = TxRegisterExtension verifier sender) True (is_ok r) w w1
    \<and> stage (s_prv s) (\<lambda>t. t = TxAddMachineOwners eid [l_key_address l (s_prv s)])
        (fst (c_machine_owner c eid (l_key_address l (s_prv s)) (ext w1)) = Inr False) (is_ok r) w1 w2
    \<and> stage (s_prv s) (\<lambda>t. t = TxAddProjectOwners eid [l_key_address l (s_prv s)])
        (fst (c_project_owner c eid (l_key_address l (s_prv s)) (ext w2)) = Inr False) (is_ok r) w2 w3
    \<and> stage (s_prv s) (\<lambda>t. t = TxAddKeyTypes eid [l_evm_type l])
        (fst (c_key_type c eid (l_evm_type l) (ext w3)) = Inr False) (is_ok r) w3 w'
    \<and> (is_ok r \<longrightarrow> r = Ok eid)"
  using assms by (rule setup_extension_stages)

lemma demo_setup_run:
  "setup_extension demo_lib (demo_chain 9) demo_keys 0 7 0 demo_world =
     (Ok 12, demo_world\<lparr>sent := map (Pair ())
        [TxRegisterExtension 0 7, TxAddMachineOwners 12 [1], TxAddKeyTypes 12 [11]]\<rparr>)"
proof -
  have v: "l_key_address demo_lib k = 1" "l_parse_registered demo_lib lg = Inr 12"
    "l_parse_contracts_set demo_lib lg = Inr ()" "l_parse_machine_owners demo_lib lg = Inr ()"
    "l_evm_type demo_lib = 11" for k lg
    by (simp_all add: demo_lib_def)
  have e: "io_ext (c_machine_owner (demo_chain 9) i a) u = (Ok False, u)"
    "io_ext (c_project_owner (demo_chain 9) i a) u = (Ok True, u)"
    "io_ext (c_key_type (demo_chain 9) i h) u = (Ok False, u)" for i a h and u :: "(unit, nat) world"
    by (simp_all add: io_ext_def demo_chain_def)
  show ?thesis
    by (simp add: setup_extension_def register_extension_def ensure_machine_owner_def ensure_project_owner_def
        ensure_key_type_def ensure_def allow_machine_owners_def allow_owners_def is_key_type_supported_def
        add_supported_key_types_def add_key_types_tx_def Let_def io_defs v e demo_receipt_def)
       (simp add: demo_world_def demo_keys_def)
qed

theorem setup_sends_what_is_missing_witness:
  "\<exists>w1 w2 w3 :: (unit, nat) world.
      stage () (\<lambda>t. t = TxRegisterExtension 0 7) True True demo_world w1
    \<and> stage () (\<lambda>t. t = TxAddMachineOwners 12 [1]) True True w1 w2
    \<and> stage () (\<lambda>t. t = TxAddProjectOwners 12 [1]) False True w2 w3"
proof -
  have v: "l_key_address demo_lib k = 1" "s_prv demo_keys = ()" for k
    by (simp_all add: demo_lib_def)
  have e: "fst (c_machine_owner (demo_chain 9) i a u) = Inr False"
    "fst (c_project_owner (demo_chain 9) i a u) = Inr True" for i a u
    by (simp_all add: demo_chain_def)
  from setup_sends_what_is_missing[OF demo_setup_run] show ?thesis
    by (simp only: v e is_ok.simps res.inject sum.inject simp_thms) blast
qed

subsection \<open>Governance and versions\<close>

text \<open>
  C38. For fewer than \<open>2 ^ 64\<close> signers \<open>SetTeeGovernance\<close> sends nothing or the one transaction
  asked for, with the key given. It sends only for a threshold from 1 to the number of signers
  and when the chain's hash is not already the wanted one; when it is, it succeeds without a
  transaction, and when it succeeds the hash was the wanted one or the transaction was sent.
\<close>
theorem governance_idempotent:
  assumes "set_tee_governance l c s k eid signers threshold w = (r, w')" and "length signers < 2 ^ 64"
  shows "(sent w' = sent w \<or> sent w' = sent w @ [(k, TxSetGovernance eid signers threshold)]
        \<and> 1 \<le> unat threshold \<and> unat threshold \<le> length signers
        \<and> (\<exists>h. l_governance_hash l signers threshold = Inr h \<and> fst (c_governance c eid (ext w)) \<noteq> Inr h))
    \<and> (r = Ok () \<longrightarrow> (\<exists>h. l_governance_hash l signers threshold = Inr h
          \<and> (fst (c_governance c eid (ext w)) = Inr h \<or> sent w' \<noteq> sent w)))
    \<and> (\<forall>h. signers \<noteq> [] \<and> 1 \<le> unat threshold \<and> unat threshold \<le> length signers
        \<and> l_governance_hash l signers threshold = Inr h \<and> fst (c_governance c eid (ext w)) = Inr h
        \<longrightarrow> r = Ok () \<and> sent w' = sent w)"
proof -
  note st = set_tee_governance_stage[OF assms(1)] and vt = valid_threshold_nat[OF assms(2)]
  obtain ts where ts: "sent w' = sent w @ ts" "length ts \<le> 1"
    "\<forall>(k', t)\<in>set ts. k' = k \<and> t = TxSetGovernance eid signers threshold"
    "ts \<noteq> [] \<longrightarrow> governance_needed l c eid signers threshold (ext w)"
    "is_ok r \<and> governance_needed l c eid signers threshold (ext w) \<longrightarrow> ts \<noteq> []"
    using st unfolding stage_def by blast
  have one: "ts = [] \<or> ts = [(k, TxSetGovernance eid signers threshold)]"
    using ts(2,3) by (cases ts) auto
  have ok: "\<exists>h. l_governance_hash l signers threshold = Inr h
      \<and> (fst (c_governance c eid (ext w)) = Inr h \<or> sent w' \<noteq> sent w)" if rok: "r = Ok ()"
  proof -
    have v: "signers \<noteq> [] \<and> valid_threshold threshold signers"
      using assms(1) rok by (auto simp: set_tee_governance_def io_err_def split: if_splits)
    then obtain h where "l_governance_hash l signers threshold = Inr h"
      using assms(1) rok
      by (cases "l_governance_hash l signers threshold")
         (auto simp: set_tee_governance_def io_bind_def io_res_def)
    with v rok ts show ?thesis by (auto simp: governance_needed_def)
  qed
  have same: "r = Ok () \<and> sent w' = sent w" if "signers \<noteq> []" "valid_threshold threshold signers"
    "l_governance_hash l signers threshold = Inr h" "fst (c_governance c eid (ext w)) = Inr h" for h
    using set_tee_governance_idempotent[OF that(1-3), of c eid w "snd (c_governance c eid (ext w))" s k]
      that(4) assms(1) by (cases "c_governance c eid (ext w)") auto
  from one ts(1,4) have "sent w' = sent w \<or> sent w' = sent w @ [(k, TxSetGovernance eid signers threshold)]
      \<and> governance_needed l c eid signers threshold (ext w)" by auto
  then show ?thesis using ok same unfolding vt governance_needed_def by blast
qed

theorem governance_idempotent_witness:
  "\<exists>w'. set_tee_governance demo_lib (demo_chain 0) demo_keys () 2 [7] 1 demo_world = (Ok (), w') \<and> sent w' = []"
proof -
  obtain r w' where run: "set_tee_governance demo_lib (demo_chain 0) demo_keys () 2 [7] 1 demo_world = (r, w')"
    by (cases "set_tee_governance demo_lib (demo_chain 0) demo_keys () 2 [7] 1 demo_world")
  have h: "l_governance_hash demo_lib [7] 1 = Inr 1" "fst (c_governance (demo_chain 0) 2 (ext demo_world)) = Inr 1"
    by (simp_all add: demo_lib_def demo_chain_def)
  have w: "sent demo_world = []" by (simp add: demo_world_def)
  from governance_idempotent[OF run] h have "r = Ok () \<and> sent w' = sent demo_world" by simp
  then show ?thesis using run w by simp
qed

text \<open>
  \<open>allow-tee-version\<close> sends nothing for a version the registry supports, and otherwise at
  most one transaction, for the extension, code hash and platform of the machine data; a
  registry that answers VersionAlreadyExists counts as success.
\<close>
lemma allow_version_idempotent:
  assumes "allow_version l c s k info v w = (r, w')"
  shows "(fst (c_version_supported c (extension_id_of info) (md_code_hash (ti_machine info))
           (md_platform (ti_machine info)) (ext w)) = Inr True \<longrightarrow> r = Ok () \<and> sent w' = sent w)
    \<and> (sent w' = sent w \<or> (\<exists>vb. sent w' = sent w @ [(k, TxAddTeeVersion (extension_id_of info) vb
          (md_code_hash (ti_machine info)) [md_platform (ti_machine info)])]))
    \<and> (\<forall>e. r = Err e \<longrightarrow>
          fst (c_version_supported c (extension_id_of info) (md_code_hash (ti_machine info))
             (md_platform (ti_machine info)) (ext w)) = Inl e
          \<or> \<not> contains (err_msg e) ''VersionAlreadyExists'')"
proof -
  let ?q = "c_version_supported c (extension_id_of info) (md_code_hash (ti_machine info))
           (md_platform (ti_machine info))"
  obtain x t where q: "?q (ext w) = (x, t)" by fastforce
  let ?w = "w\<lparr>ext := t\<rparr>"
  consider (err) e where "x = Inl e" "r = Err e" "w' = ?w"
    | (yes) "x = Inr True" "r = Ok ()" "w' = ?w"
    | (no) "x = Inr False" "io_try (add_tee_version l c s k (extension_id_of info) (md_code_hash (ti_machine info))
           (md_platform (ti_machine info)) v)
         (\<lambda>r. case r of Inr _ \<Rightarrow> io_ok ()
            | Inl e \<Rightarrow> if contains (err_msg e) ''VersionAlreadyExists'' then io_ok () else io_err e) ?w = (r, w')"
    using assms q
    by (cases x) (auto simp: allow_version_def Let_def io_bind_def io_ext_def io_ok_def split: if_splits)
  then show ?thesis
  proof cases
    case no
    from no(2) have "(sent w' = sent w \<or> (\<exists>vb. sent w' = sent w @ [(k, TxAddTeeVersion (extension_id_of info) vb
          (md_code_hash (ti_machine info)) [md_platform (ti_machine info)])]))
      \<and> (\<forall>e. r = Err e \<longrightarrow> \<not> contains (err_msg e) ''VersionAlreadyExists'')"
      by (cases rule: io_try_cases)
         (auto dest!: add_version.run simp: io_ok_def io_err_def split: if_splits)
    then show ?thesis using no(1) q by simp
  qed (use q in simp_all)
qed

text \<open>
  A version text of at most 32 bytes goes into a bytes32 and comes back without its
  surrounding white space; a longer one is refused.
\<close>
lemma version_text_roundtrip:
  assumes "s = [] \<or> last s \<noteq> nat_byte 0"
  shows "case string_to_bytes32 l s of
      Ok b \<Rightarrow> length s \<le> 32 \<and> length b = 32 \<and> bytes32_to_string b = trim_space s
    | Err _ \<Rightarrow> 32 < length s
    | Panic _ \<Rightarrow> False"
  using bytes32_roundtrip[OF _ assms, of l]
  by (cases "string_to_bytes32 l s") (auto simp: string_to_bytes32_def split: if_splits)

subsection \<open>The policy gate\<close>

text \<open>
  C22. When the contract's epoch cannot be read the gate lets the registration through without
  asking the proxy, and when the proxy's answer cannot be had it lets it through too. For an
  epoch \<open>n\<close> of 64 bits and a proxy that answers, it passes exactly when the proxy's signing
  policy is \<open>n\<close> or \<open>n + 1\<close> (or has wrapped to 0 after the last epoch), and stops the
  registration with the out-of-sync error otherwise.
\<close>
theorem policy_gate:
  assumes "c_reward_epoch c (ext w) = (epoch, x)" and "\<And>n. epoch = Inr (Some n) \<Longrightarrow> 0 \<le> n \<and> n < 2 ^ 64"
    and "TeeCalls.tee_info l c url (w\<lparr>ext := x\<rparr>) = (q, w1)"
  shows "case epoch of
      Inl _ \<Rightarrow> check_policy_consistency l c url w = (Ok (), w\<lparr>ext := x\<rparr>)
    | Inr None \<Rightarrow> check_policy_consistency l c url w = (Ok (), w\<lparr>ext := x\<rparr>)
    | Inr (Some n) \<Rightarrow>
        (case q of
           Ok info \<Rightarrow>
             if int (unat (ti_last_policy info)) \<in> {n, n + 1} \<or> n = 2 ^ 64 - 1 \<and> ti_last_policy info = 0
             then check_policy_consistency l c url w = (Ok (), w1)
             else \<exists>e. check_policy_consistency l c url w = (Err e, w1) \<and> errors_is e err_policy_out_of_sync
         | Err _ \<Rightarrow> check_policy_consistency l c url w = (Ok (), w1)
         | Panic m \<Rightarrow> check_policy_consistency l c url w = (Panic m, w1))"
proof -
  consider (no) "\<forall>n. epoch \<noteq> Inr (Some n)" | (epoch) n where "epoch = Inr (Some (int n))" "n < 2 ^ 64"
  proof (cases "\<exists>n. epoch = Inr (Some n)")
    case True
    then obtain n where n: "epoch = Inr (Some n)" by blast
    with assms(2) have "0 \<le> n" "n < 2 ^ 64" by auto
    then show thesis using n by (intro epoch[of "nat n"]) (simp_all add: nat_less_iff)
  qed (use no in blast)
  then show ?thesis
  proof cases
    case no
    then show ?thesis using assms(1)
      by (cases epoch) (auto simp: check_policy_consistency_def io_try_def io_ext_def io_ok_def split: option.splits)
  next
    case epoch
    have e: "io_ext (c_reward_epoch c) w = (Ok (Some (int n)), w\<lparr>ext := x\<rparr>)"
      using assms(1) epoch(1) by (simp add: io_ext_def)
    have b: "big_uint64 (int n) = word_of_nat n" by (simp add: big_uint64_def)
    have "int (unat p) = int n \<longleftrightarrow> unat p = n" "int (unat p) = int n + 1 \<longleftrightarrow> unat p = n + 1"
      for p :: "32 word" by linarith+
    moreover have "int n = 2 ^ 64 - 1 \<longleftrightarrow> n = 2 ^ 64 - 1" by simp
    ultimately have i: "int (unat p) \<in> {int n, int n + 1} \<or> int n = 2 ^ 64 - 1 \<and> p = 0
        \<longleftrightarrow> unat p \<in> {n, n + 1} \<or> n = 2 ^ 64 - 1 \<and> p = 0" for p :: "32 word"
      unfolding insert_iff empty_iff by metis
    show ?thesis
      using out_of_sync_is policy_in_sync_nat[OF epoch(2)] unfolding epoch(1) i sum.case option.case
      by (cases q) (auto simp: check_policy_consistency_def io_try_def e assms(3) b Let_def io_ok_def io_err_def)
  qed
qed

theorem policy_gate_witness:
  "check_policy_consistency demo_lib (demo_chain 9) [] demo_world = (Ok (), demo_world)"
proof -
  have "c_reward_epoch (demo_chain 9) (ext demo_world) = (Inr (Some 8), ext demo_world)"
    by (simp add: demo_chain_def)
  from policy_gate[OF this, of demo_lib "[]" "Ok demo_info" demo_world] show ?thesis
    by (simp add: demo_info_def)
qed

subsection \<open>Transactions and reverts\<close>

text \<open>
  \<open>CheckTx\<close> accepts exactly a receipt that arrives in time with a status other than 0,
  and never sends anything or touches a file.
\<close>
lemma check_tx_accepts:
  "(check_tx l c h w = (Ok rc, w') \<longleftrightarrow>
     (\<exists>x. c_wait_mined c (Some 120) h (ext w) = (Inr rc, x) \<and> rc_status rc \<noteq> 0 \<and> w' = w\<lparr>ext := x\<rparr>))
   \<and> sent (snd (check_tx l c h w)) = sent w \<and> files (snd (check_tx l c h w)) = files w"
  using check_tx_Ok[of l c h w rc w'] check_tx_reads[of l c h] by (simp add: reads_only_def)

text \<open>
  The name of a custom error does not depend on the order in which Go ranges over the
  ABI's map of errors, provided their selectors differ.
\<close>
lemma custom_error_order:
  assumes "distinct (map (\<lambda>(name, e). take 4 (ae_id e)) errs)" and "mset errs' = mset errs"
  shows "match_custom_error errs' s = match_custom_error errs s"
proof (rule match_custom_error_order)
  show "selectors_distinct errs" using assms(1) by (simp add: selectors_distinct_def)
  have m: "mset (map (\<lambda>(name, e). take 4 (ae_id e)) errs') = mset (map (\<lambda>(name, e). take 4 (ae_id e)) errs)"
    using assms(2) by (simp add: mset_map)
  show "selectors_distinct errs'"
    unfolding selectors_distinct_def mset_eq_imp_distinct_iff[OF m] by (rule assms(1))
  show "set errs' = set errs" using assms(2) mset_eq_setD by blast
qed

definition demo_error :: "string \<Rightarrow> abi_error" where
  "demo_error s = \<lparr>ae_id = s, ae_unpack = (\<lambda>_. Inr ''[]''), ae_inputs = (\<lambda>_. Inr ''[]'')\<rparr>"

text \<open>
  A custom error survives the way through the node: when the replayed call fails with
  the error's bytes as hex data that are no \<open>Error(string)\<close>, the reason the tools report is
  the bytes, and matching them names the error whose selector they start with.
\<close>
lemma custom_error_survives:
  assumes "c_call c \<lparr>cm_from = from, cm_to = Some to, cm_gas = 0, cm_gas_price = None,
      cm_value = v, cm_data = d\<rparr> (ext w) = (Inl er, x)"
    and "errors_as_data er = Some (DataString (''0x'' @ hex_encode data))"
    and "l_unpack_revert l data = Inl u" and "4 \<le> length data"
    and "(name, e) \<in> set errs" and "take 4 (ae_id e) = take 4 data"
    and "distinct (map (\<lambda>(name, e). take 4 (ae_id e)) errs)"
  shows "\<exists>raw. simulate_and_decode_revert l c from to v d w = (Ok raw, w\<lparr>ext := x\<rparr>)
    \<and> raw = ''0x'' @ hex_encode data \<and> has_prefix (match_custom_error errs raw) name"
proof -
  have raw: "decode_revert_reason l (Some er) = ''0x'' @ hex_encode data"
    using assms(2,3) decode_revert_hex_encode[OF assms(4), of l] by (simp add: decode_revert_reason_def)
  have "simulate_and_decode_revert l c from to v d w = (Ok (''0x'' @ hex_encode data), w\<lparr>ext := x\<rparr>)"
    using raw by (simp add: simulate_and_decode_revert_def io_try_def io_ext_def assms(1) io_ok_def)
  moreover have "find (\<lambda>(name, e). take 4 (ae_id e) = take 4 data) errs = Some (name, e)"
    using find_distinct[OF assms(7,5), of "take 4 data"] assms(6) by (simp add: case_prod_unfold)
  then have "has_prefix (match_custom_error errs (''0x'' @ hex_encode data)) name"
    unfolding match_custom_error_encode[OF assms(4)]
    by (auto simp: has_prefix_iff split: sum.splits)
  ultimately show ?thesis by blast
qed

subsection \<open>Before a deployment\<close>

text \<open>
  C30. \<open>deploy-contract\<close> sends its one transaction only after the pre-flight checks: the
  manager's address is set and has code and the deployer holds the minimal balance; with
  \<open>-preflight-only\<close> it sends nothing.
\<close>
theorem deploy_after_preflight:
  fixes m :: "'key machine"
  assumes "deploy_contract_main m cl l c dial f af cf out only w = (r, w')" and "sent w' \<noteq> sent w"
  shows "\<exists>s :: 'key support. \<not> only \<and> flare_tee_manager (s_addresses s) \<noteq> 0
    \<and> (\<exists>code. code_at cl (flare_tee_manager (s_addresses s)) = Inr code \<and> code \<noteq> [])
    \<and> (\<exists>b. balance_at cl (key_address m (s_prv s)) = Inr b \<and> min_deploy_balance \<le> b)
    \<and> sent w' = sent w @ [(s_prv s, TxDeploySender (flare_tee_manager (s_addresses s)) (flare_tee_manager (s_addresses s)))]"
proof -
  from past_reads[OF assms(1)[unfolded deploy_contract_main_def] refl assms(2) default_support_reads]
  obtain s w1 where 1: "sent w1 = sent w" "(case deploy_preflight m cl s of
            Some e \<Rightarrow> io_err e
          | None \<Rightarrow>
              if only then io_ok None
              else
                io_bind (deploy_instruction_sender l c f s)
                  (\<lambda>a. io_bind
                     (if out \<noteq> [] then io_try (write_file c out (l_addr_hex l a)) (\<lambda>_. io_ok ())
                      else io_ok ())
                     (\<lambda>_. io_ok (Some (l_addr_hex l a))))) w1 = (r, w')" by blast
  then have p: "deploy_preflight m cl s = None" "\<not> only"
    using assms(2) by (auto simp: io_err_def io_ok_def split: option.splits if_splits)
  let ?t = "(s_prv s, TxDeploySender (flare_tee_manager (s_addresses s)) (flare_tee_manager (s_addresses s)))"
  have "sent w' = sent w1 @ [?t]"
    using 1(2) assms(2) unfolding p(1) option.case if_not_P[OF p(2)]
  proof (cases rule: io_bind_cases)
    case (go a w2)
    have "sent w2 = sent w1 @ [?t]" using deploy_sender.success[OF go(1)] by auto
    moreover have "sent w' = sent w2"
      using go(2) by (auto simp: io_bind_def io_try_def io_ok_def write_file_def
          split: if_splits option.splits res.splits prod.splits)
    ultimately show ?thesis by simp
  qed (use deploy_sender.run 1(1) assms(2) in fastforce)+
  then show ?thesis
    using p 1(1)
    by (intro exI[of _ s]) (auto simp: deploy_preflight_def Let_def address_not_zero_None
        address_has_code_None key_has_funds_None split: option.splits)
qed

lemma demo_deploy_run:
  "deploy_contract_main demo_machine demo_client demo_lib (demo_chain 9) (\<lambda>_. None) (\<lambda>_. 3)
     ''addresses'' ''u'' [] False demo_world =
   (Ok (Some ''0x01''), demo_world\<lparr>sent := [((), TxDeploySender 5 5)]\<rparr>)"
proof -
  have p: "deploy_preflight demo_machine demo_client demo_keys = None"
    by (simp add: deploy_preflight_def Let_def address_not_zero_def address_has_code_def key_has_funds_def
        demo_client_def demo_keys_def demo_addresses_def)
  have w: "io_ext (c_wait_mined (demo_chain 9) t h) u = (Ok demo_receipt, u)" for t h and u :: "(unit, nat) world"
    by (simp add: io_ext_def demo_chain_def demo_receipt_def)
  have a: "l_addr_hex demo_lib x = ''0x01''" for x by (simp add: demo_lib_def)
  have t: "instruction_transactor demo_lib demo_keys = Ok ()" by (simp add: instruction_transactor_def)
  show ?thesis
    by (simp add: deploy_contract_main_def io_bind_def demo_default_support p deploy_instruction_sender_def
        io_defs w a t demo_receipt_def)
       (simp add: demo_world_def demo_keys_def demo_addresses_def demo_receipt_def)
qed

theorem deploy_after_preflight_witness:
  "\<exists>s :: unit support. (\<exists>code. code_at demo_client (flare_tee_manager (s_addresses s)) = Inr code \<and> code \<noteq> [])
    \<and> [((), TxDeploySender 5 5)] =
        [(s_prv s, TxDeploySender (flare_tee_manager (s_addresses s)) (flare_tee_manager (s_addresses s)))]"
proof -
  have "sent (demo_world\<lparr>sent := [((), TxDeploySender 5 5)]\<rparr>) \<noteq> sent demo_world"
    by (simp add: demo_world_def)
  from deploy_after_preflight[OF demo_deploy_run this] show ?thesis
    by (auto simp: demo_world_def)
qed

end
