(* ===== verification/RetryClaims.thy ===== *)
theory RetryClaims
  imports ToolsDemo
begin

text \<open>
  Registration over several runs. A run that fails leaves its state file behind, the world
  changes, and the operator runs the tool again, possibly with another command, machine or
  key, on the same state file.
\<close>

subsection \<open>Runs that fail\<close>

inductive failed_runs ::
    "'key lib \<Rightarrow> ('key, 'c) chain \<Rightarrow> string \<Rightarrow> nat \<Rightarrow> ('key, 'c) world \<Rightarrow> ('key, 'c) world \<Rightarrow> bool"
  for l c p where
  none: "failed_runs l c p 0 w w"
| again: "failed_runs l c p n w w1 \<Longrightarrow> ra_state_path a = p
    \<Longrightarrow> register_node l c s info a (w1\<lparr>ext := x\<rparr>) = (r, w2) \<Longrightarrow> \<not> is_ok r
    \<Longrightarrow> failed_runs l c p (Suc n) w w2"

text \<open>Everything sent is recorded, up to one transaction a run.\<close>

lemma failed_runs_tracked:
  assumes "failed_runs l c p n w w'" and "hash_text_ok l" and "writes_ok c"
    and "file_state l (files w p) = Some st" and "wf_state st"
  shows "\<exists>st'. file_state l (files w' p) = Some st' \<and> wf_state st'
    \<and> length (sent w') + length (rs_completed st) \<le> length (sent w) + length (rs_completed st') + n"
  using assms
proof (induction rule: failed_runs.induct)
  case (none w)
  then show ?case by auto
next
  case (again n w w1 a s info x r w2)
  from again.IH[OF again.prems] obtain st1 where st1: "file_state l (files w1 p) = Some st1" "wf_state st1"
    "length (sent w1) + length (rs_completed st) \<le> length (sent w) + length (rs_completed st1) + n"
    by blast
  have "file_state l (files (w1\<lparr>ext := x\<rparr>) (ra_state_path a)) = Some st1"
    using st1(1) again.hyps(2) by simp
  from nearly_tracked_counts[OF register_node_failure[OF again.hyps(3,4) again.prems(1,2) this wf_state_ascii[OF st1(2)]]]
  obtain st2 where "file_state l (files w2 p) = Some st2" "wf_state st2"
    "length (sent w2) + length (rs_completed st1) \<le> length (sent w1) + length (rs_completed st2) + 1"
    using st1(2) again.hyps(2) by auto
  then show ?case using st1(3) by (intro exI[of _ st2]) simp
qed

text \<open>
  C11. When every write of the state file goes through, over any number of failed runs that
  start without a state file, the file always records each of the steps \<open>r\<close>, \<open>R\<close>, \<open>a\<close> at most
  once and nothing else, and every transaction ever sent is recorded in it, but for one a run:
  \<open>n\<close> failed runs send at most \<open>n + 3\<close> transactions, whatever the chain and the network do
  between and during the runs.
\<close>
theorem failed_runs_bounded:
  assumes "failed_runs l c p n w w'" and "hash_text_ok l" and "writes_ok c" and "files w p = None"
  shows "(\<exists>st. file_state l (files w' p) = Some st \<and> distinct (rs_completed st)
      \<and> set (rs_completed st) \<subseteq> set ''rRa''
      \<and> length (sent w') \<le> length (sent w) + length (rs_completed st) + n)
    \<and> length (sent w') \<le> length (sent w) + n + 3"
proof -
  have "file_state l (files w p) = Some zero_state" using assms(4) by (simp add: file_state_def)
  from failed_runs_tracked[OF assms(1-3) this wf_zero_state]
  obtain st where st: "file_state l (files w' p) = Some st" "wf_state st"
    "length (sent w') \<le> length (sent w) + length (rs_completed st) + n"
    by (auto simp: zero_state_def)
  moreover have "length (rs_completed st) \<le> 3" by (rule wf_state_length[OF st(2)])
  ultimately show ?thesis unfolding wf_state_def by auto
qed

theorem failed_runs_bounded_witness:
  "\<exists>w. failed_runs demo_lib (demo_chain 0) ''state'' 1 demo_world w \<and> length (sent w) = 3
    \<and> length (sent w) \<le> length (sent demo_world) + 1 + 3"
proof -
  let ?w = "\<lparr>ext = 4000, files = demo_files(''state'' \<mapsto> json_indent 0 (json_reg_state demo_lib demo_left)),
    sent = demo_sent\<rparr>"
  have w0: "demo_world\<lparr>ext := 0\<rparr> = demo_world" by (simp add: demo_world_def)
  have "failed_runs demo_lib (demo_chain 0) ''state'' (Suc 0) demo_world ?w"
    by (rule failed_runs.again[OF failed_runs.none, where a = demo_args and x = 0])
       (simp add: demo_args_def, simp only: w0, rule demo_register_failure, simp)
  then have r: "failed_runs demo_lib (demo_chain 0) ''state'' 1 demo_world ?w" by simp
  have "files demo_world ''state'' = None" by (simp add: demo_world_def demo_files_def)
  from conjunct2[OF failed_runs_bounded[OF r demo_hash_text_ok demo_writes_ok this]] r
  show ?thesis by (intro exI[of _ ?w]) (simp add: demo_sent_def)
qed

end
