(* ===== verification/Lifecycle.thy ===== *)
theory Lifecycle
  imports Tools GuardTypes
begin

text \<open>
  The processes that run the guard: \<open>tee/go/cmd/main.go\<close> (the server alone),
  \<open>tee/go/cmd/docker/main.go\<close> and \<open>tee/go/cmd/start-tee/main.go\<close> (the server beside the
  tee-node), and \<open>StartExtension\<close> of \<open>tee/go/pkg/server/server.go\<close>. Each is a step relation
  between the main goroutine, the goroutine of the HTTP server and the signals of the
  operating system. Of net/http it uses what its documentation says: \<open>ListenAndServe\<close> blocks
  and returns \<open>ErrServerClosed\<close> as soon as \<open>Shutdown\<close> is called, while \<open>Shutdown\<close> itself waits
  for the requests being served or for its deadline. The tee-node runs in a goroutine that
  does not interact with these.
\<close>

datatype process_end = Killed | Exited nat

subsection \<open>StartExtension\<close>

text \<open>The goroutine that serves, and the error channel of capacity one.\<close>

record server_task =
  serving :: bool
  err_ch :: "go_error option"

definition start_extension :: server_task where
  "start_extension = \<lparr>serving = True, err_ch = None\<rparr>"

definition serve_returns :: "go_error option \<Rightarrow> server_task \<Rightarrow> server_task" where
  "serve_returns r t =
     t\<lparr>serving := False, err_ch := (case r of Some e \<Rightarrow> Some e | None \<Rightarrow> err_ch t)\<rparr>"

subsection \<open>The container's main\<close>

text \<open>
  \<open>DockerStarting\<close> lasts until the early check of the error channel, \<open>DockerChecked\<close> until
  \<open>signal.Notify\<close>; up to there a signal has its default effect. \<open>DockerWaiting\<close> is the last
  \<open>select\<close>.
\<close>

datatype docker_phase = DockerStarting | DockerChecked | DockerWaiting | DockerEnded process_end

fun docker_ended :: "docker_phase \<Rightarrow> bool" where
  "docker_ended (DockerEnded _) = True"
| "docker_ended _ = False"

text \<open>The ports of the tee-node (configuration, signing, extension).\<close>

definition docker_ports :: "env \<Rightarrow> int \<times> int \<times> int" where
  "docker_ports e = (int_env e ''CONFIG_PORT'' 5501, snd (config_ports e), fst (config_ports e))"

record docker =
  dk_phase :: docker_phase
  dk_server :: server_task
  dk_signal :: bool

definition docker_start :: docker where
  "docker_start = \<lparr>dk_phase = DockerStarting, dk_server = start_extension, dk_signal = False\<rparr>"

definition docker_check :: "docker \<Rightarrow> docker" where
  \<comment> \<open>\<open>select\<close> with a \<open>default\<close>: \<open>Fatalf\<close> exits with 1\<close>
  "docker_check s =
     s\<lparr>dk_phase := (case err_ch (dk_server s) of
        Some e \<Rightarrow> DockerEnded (Exited 1) | None \<Rightarrow> DockerChecked)\<rparr>"

inductive docker_step :: "docker \<Rightarrow> docker \<Rightarrow> bool" where
  serve: "serving (dk_server s) \<Longrightarrow> \<not> docker_ended (dk_phase s)
    \<Longrightarrow> docker_step s (s\<lparr>dk_server := serve_returns r (dk_server s)\<rparr>)"
| killed: "dk_phase s = DockerStarting \<or> dk_phase s = DockerChecked
    \<Longrightarrow> docker_step s (s\<lparr>dk_phase := DockerEnded Killed\<rparr>)"
| check: "dk_phase s = DockerStarting \<Longrightarrow> docker_step s (docker_check s)"
| notify: "dk_phase s = DockerChecked \<Longrightarrow> docker_step s (s\<lparr>dk_phase := DockerWaiting\<rparr>)"
| signal: "dk_phase s = DockerWaiting \<Longrightarrow> docker_step s (s\<lparr>dk_signal := True\<rparr>)"
| on_signal: "dk_phase s = DockerWaiting \<Longrightarrow> dk_signal s
    \<Longrightarrow> docker_step s (s\<lparr>dk_phase := DockerEnded (Exited 0)\<rparr>)"
| on_error: "dk_phase s = DockerWaiting \<Longrightarrow> err_ch (dk_server s) = Some e
    \<Longrightarrow> docker_step s (s\<lparr>dk_phase := DockerEnded (Exited 1)\<rparr>)"

inductive docker_reachable :: "docker \<Rightarrow> bool" where
  start: "docker_reachable docker_start"
| step: "docker_reachable s \<Longrightarrow> docker_step s s' \<Longrightarrow> docker_reachable s'"

subsection \<open>start-tee\<close>

text \<open>
  The local node. Signals are caught from the start; the error channel is a local variable of
  \<open>runExtension\<close> and is read once, before the proxy url is set.
\<close>

definition configuration_port :: int where "configuration_port = 5501"
definition proxy_internal_port :: int where "proxy_internal_port = 6663"

definition node_set_proxy_url ::
    "'key lib \<Rightarrow> ('key, 'c) chain \<Rightarrow> int \<Rightarrow> int \<Rightarrow> ('key, 'c, unit) io" where
  "node_set_proxy_url l c conf_port proxy_port =
     io_bind (io_res (of_rpc (l_marshal_proxy_url l (''http://localhost:'' @ dec_int proxy_port))))
       (\<lambda>body. io_bind
          (io_ext (c_http_post c (''http://localhost:'' @ dec_int conf_port @ ''/proxy'') body))
          (\<lambda>code. if code \<noteq> 200
              then io_err (ErrorString (''unexpected status code: '' @ dec code))
              else io_ok ()))"

definition start_tee_env :: "'key lib \<Rightarrow> env \<Rightarrow> string \<Rightarrow> env res" where
  \<comment> \<open>the environment the node is started in: the owner, then the id from the flag\<close>
  "start_tee_env l e extension_id =
     res_bind (set_owner_address l e)
       (\<lambda>(_, e'). Ok (if extension_id \<noteq> [] then e'(''EXTENSION_ID'' := extension_id) else e'))"

datatype tee_phase = TeeBooting | TeeStarting | TeeConfiguring | TeeWaiting | TeeEnded process_end

fun tee_ended :: "tee_phase \<Rightarrow> bool" where
  "tee_ended (TeeEnded _) = True"
| "tee_ended _ = False"

record tee_process =
  tp_phase :: tee_phase
  tp_server :: server_task
  tp_signal :: bool

definition tee_start :: tee_process where
  "tee_start = \<lparr>tp_phase = TeeBooting, tp_server = \<lparr>serving = False, err_ch = None\<rparr>, tp_signal = False\<rparr>"

definition tee_boot :: "env res \<Rightarrow> tee_process \<Rightarrow> tee_process" where
  \<comment> \<open>a key that does not parse ends in \<open>Fatalf\<close>; the server is started after that\<close>
  "tee_boot r s =
     (case r of
        Ok _ \<Rightarrow> s\<lparr>tp_phase := TeeStarting, tp_server := start_extension\<rparr>
      | Err _ \<Rightarrow> s\<lparr>tp_phase := TeeEnded (Exited 1)\<rparr>
      | Panic _ \<Rightarrow> s\<lparr>tp_phase := TeeEnded (Exited 2)\<rparr>)"

definition tee_check :: "tee_process \<Rightarrow> tee_process" where
  "tee_check s =
     s\<lparr>tp_phase := (case err_ch (tp_server s) of
        Some e \<Rightarrow> TeeEnded (Exited 1) | None \<Rightarrow> TeeConfiguring)\<rparr>"

definition tee_configured :: "unit res \<Rightarrow> tee_process \<Rightarrow> tee_process" where
  "tee_configured r s =
     s\<lparr>tp_phase := (case r of
        Ok _ \<Rightarrow> TeeWaiting | Err _ \<Rightarrow> TeeEnded (Exited 1) | Panic _ \<Rightarrow> TeeEnded (Exited 2))\<rparr>"

inductive tee_step ::
    "'key lib \<Rightarrow> ('key, 'c) chain \<Rightarrow> env \<Rightarrow> string \<Rightarrow> tee_process \<Rightarrow> tee_process \<Rightarrow> bool"
  for l c e x where
  serve: "serving (tp_server s) \<Longrightarrow> \<not> tee_ended (tp_phase s)
    \<Longrightarrow> tee_step l c e x s (s\<lparr>tp_server := serve_returns r (tp_server s)\<rparr>)"
| signal: "\<not> tee_ended (tp_phase s) \<Longrightarrow> tee_step l c e x s (s\<lparr>tp_signal := True\<rparr>)"
| boot: "tp_phase s = TeeBooting \<Longrightarrow> tee_step l c e x s (tee_boot (start_tee_env l e x) s)"
| check: "tp_phase s = TeeStarting \<Longrightarrow> tee_step l c e x s (tee_check s)"
| configured: "tp_phase s = TeeConfiguring \<Longrightarrow> tee_step l c e x s
    (tee_configured (fst (node_set_proxy_url l c configuration_port proxy_internal_port w)) s)"
| on_signal: "tp_phase s = TeeWaiting \<Longrightarrow> tp_signal s
    \<Longrightarrow> tee_step l c e x s (s\<lparr>tp_phase := TeeEnded (Exited 0)\<rparr>)"

inductive tee_reachable ::
    "'key lib \<Rightarrow> ('key, 'c) chain \<Rightarrow> env \<Rightarrow> string \<Rightarrow> tee_process \<Rightarrow> bool"
  for l c e x where
  start: "tee_reachable l c e x tee_start"
| step: "tee_reachable l c e x s \<Longrightarrow> tee_step l c e x s s' \<Longrightarrow> tee_reachable l c e x s'"

subsection \<open>The server alone\<close>

text \<open>
  The main goroutine is in \<open>ListenAndServe\<close> until that returns; a second goroutine waits for a
  signal, calls \<open>Shutdown\<close> with a deadline of five seconds and ends the process.
  \<open>sv_expired\<close> records that the deadline has passed.
\<close>

datatype shutdown = NotAsked | Draining

definition err_server_closed :: go_error where
  "err_server_closed = Sentinel ''http: Server closed''"

record server =
  sv_returned :: "go_error option"
  sv_shutdown :: shutdown
  sv_active :: nat
  sv_expired :: bool
  sv_exit :: "nat option"

definition server_start :: server where
  "server_start = \<lparr>sv_returned = None, sv_shutdown = NotAsked, sv_active = 0, sv_expired = False,
     sv_exit = None\<rparr>"

definition main_status :: "go_error option \<Rightarrow> nat" where
  \<comment> \<open>the exit status of \<open>main\<close> once \<open>ListenAndServe\<close> has returned\<close>
  "main_status err = (case err of
      Some e \<Rightarrow> if e \<noteq> err_server_closed then 1 else 0 | None \<Rightarrow> 0)"

inductive server_step :: "server \<Rightarrow> server \<Rightarrow> bool" where
  request: "sv_exit s = None \<Longrightarrow> sv_returned s = None \<Longrightarrow> sv_shutdown s = NotAsked
    \<Longrightarrow> server_step s (s\<lparr>sv_active := sv_active s + 1\<rparr>)"
| answered: "sv_exit s = None \<Longrightarrow> 0 < sv_active s
    \<Longrightarrow> server_step s (s\<lparr>sv_active := sv_active s - 1\<rparr>)"
| failed: "sv_exit s = None \<Longrightarrow> sv_returned s = None \<Longrightarrow> sv_shutdown s = NotAsked
    \<Longrightarrow> e \<noteq> err_server_closed \<Longrightarrow> server_step s (s\<lparr>sv_returned := Some e\<rparr>)"
| signal: "sv_exit s = None \<Longrightarrow> sv_shutdown s = NotAsked
    \<Longrightarrow> server_step s (s\<lparr>sv_shutdown := Draining\<rparr>)"
| closed: "sv_exit s = None \<Longrightarrow> sv_returned s = None \<Longrightarrow> sv_shutdown s = Draining
    \<Longrightarrow> server_step s (s\<lparr>sv_returned := Some err_server_closed\<rparr>)"
| returns: "sv_exit s = None \<Longrightarrow> sv_returned s = Some e
    \<Longrightarrow> server_step s (s\<lparr>sv_exit := Some (main_status (sv_returned s))\<rparr>)"
| drained: "sv_exit s = None \<Longrightarrow> sv_shutdown s = Draining \<Longrightarrow> sv_active s = 0
    \<Longrightarrow> server_step s (s\<lparr>sv_exit := Some 0\<rparr>)"
| expired: "sv_exit s = None \<Longrightarrow> sv_shutdown s = Draining
    \<Longrightarrow> server_step s (s\<lparr>sv_expired := True, sv_exit := Some 0\<rparr>)"

inductive server_reachable :: "server \<Rightarrow> bool" where
  start: "server_reachable server_start"
| step: "server_reachable s \<Longrightarrow> server_step s s' \<Longrightarrow> server_reachable s'"

subsection \<open>Facts\<close>

text \<open>The two copies of \<open>setProxyURL\<close> do the same.\<close>

lemma node_set_proxy_url_eq: "node_set_proxy_url l c p q = set_proxy_url l c p q"
  by (simp add: node_set_proxy_url_def set_proxy_url_def)

lemma start_extension_sel [simp]: "serving start_extension" "err_ch start_extension = None"
  by (simp_all add: start_extension_def)

lemma serve_returns_sel [simp]: "\<not> serving (serve_returns r t)"
  "err_ch (serve_returns r t) = (case r of Some e \<Rightarrow> Some e | None \<Rightarrow> err_ch t)"
  by (simp_all add: serve_returns_def)

inductive_simps docker_step_iff: "docker_step s s'"
inductive_simps tee_step_iff: "tee_step l c e x s s'"
inductive_simps server_step_iff: "server_step s s'"

text \<open>The container: an error in the channel is one of a server that has stopped.\<close>

definition docker_inv :: "docker \<Rightarrow> bool" where
  "docker_inv s \<longleftrightarrow>
     (err_ch (dk_server s) \<noteq> None \<longrightarrow> \<not> serving (dk_server s))
     \<and> (dk_phase s = DockerEnded (Exited 1) \<longrightarrow> err_ch (dk_server s) \<noteq> None)
     \<and> (dk_phase s = DockerEnded (Exited 0) \<longrightarrow> dk_signal s)
     \<and> (dk_signal s \<longrightarrow> dk_phase s = DockerWaiting \<or> docker_ended (dk_phase s))
     \<and> (\<forall>n. dk_phase s = DockerEnded (Exited n) \<longrightarrow> n \<le> 1)"

lemma docker_inv_step: "docker_inv s \<Longrightarrow> docker_step s s' \<Longrightarrow> docker_inv s'"
  by (auto simp: docker_step_iff docker_inv_def docker_check_def split: option.splits)

lemma docker_reachable_inv: "docker_reachable s \<Longrightarrow> docker_inv s"
proof (induction rule: docker_reachable.induct)
  case start
  show ?case by (simp add: docker_inv_def docker_start_def)
next
  case (step s s')
  then show ?case using docker_inv_step by blast
qed

definition server_inv :: "server \<Rightarrow> bool" where
  "server_inv s \<longleftrightarrow>
     (sv_returned s = Some err_server_closed \<longrightarrow> sv_shutdown s = Draining)
     \<and> (sv_exit s = Some 0 \<longrightarrow> sv_shutdown s = Draining)
     \<and> (sv_expired s \<longrightarrow> sv_shutdown s = Draining)
     \<and> (\<forall>n. sv_exit s = Some n \<longrightarrow> n = 0
          \<or> n = 1 \<and> (\<exists>e. sv_returned s = Some e \<and> e \<noteq> err_server_closed))"

lemma server_inv_step: "server_inv s \<Longrightarrow> server_step s s' \<Longrightarrow> server_inv s'"
  by (auto simp: server_step_iff server_inv_def main_status_def split: if_splits)

lemma server_reachable_inv: "server_reachable s \<Longrightarrow> server_inv s"
proof (induction rule: server_reachable.induct)
  case start
  show ?case by (simp add: server_inv_def server_start_def)
next
  case (step s s')
  then show ?case using server_inv_step by blast
qed

end
