(* ===== verification/LifecycleClaims.thy ===== *)
theory LifecycleClaims
  imports Lifecycle ToolsDemo
begin

text \<open>
  How the processes of the guard end: which exit status means what, whether the failure of
  the HTTP server is noticed, and what becomes of the requests being served at a shutdown.
\<close>

subsection \<open>The container\<close>

text \<open>
  C33. The container's main ends with status 0 only on a signal and with status 1 only when
  the HTTP server has failed, and has no other status. As long as it runs a failure of the
  server is never lost: the process can go on to end with status 1, and from the start until
  the early check it has no other step of its own.
\<close>
theorem container_exit:
  assumes "docker_reachable s"
  shows "(\<forall>n. dk_phase s = DockerEnded (Exited n) \<longrightarrow>
        n = 0 \<and> dk_signal s \<or> n = 1 \<and> \<not> serving (dk_server s) \<and> err_ch (dk_server s) \<noteq> None)
    \<and> (err_ch (dk_server s) \<noteq> None \<and> \<not> docker_ended (dk_phase s) \<longrightarrow>
        (\<exists>s'. rtranclp docker_step s s' \<and> dk_phase s' = DockerEnded (Exited 1)))
    \<and> (err_ch (dk_server s) \<noteq> None \<and> dk_phase s = DockerStarting \<longrightarrow>
        (\<forall>s'. docker_step s s' \<longrightarrow>
           dk_phase s' \<in> {DockerEnded Killed, DockerEnded (Exited 1)}))"
proof -
  have inv: "docker_inv s" using docker_reachable_inv[OF assms] .
  have n: "n = 0 \<and> dk_signal s \<or> n = 1 \<and> \<not> serving (dk_server s) \<and> err_ch (dk_server s) \<noteq> None"
    if "dk_phase s = DockerEnded (Exited n)" for n
  proof -
    have "n \<le> 1" using inv that by (simp add: docker_inv_def)
    then consider "n = 0" | "n = 1" by linarith
    then show ?thesis using inv that by cases (auto simp: docker_inv_def)
  qed
  have waiting: "docker_step t (t\<lparr>dk_phase := DockerEnded (Exited 1)\<rparr>)"
    if "dk_phase t = DockerWaiting" "err_ch (dk_server t) = Some e" for t e
    using that by (rule docker_step.on_error)
  have "\<exists>s'. rtranclp docker_step s s' \<and> dk_phase s' = DockerEnded (Exited 1)"
    if e: "err_ch (dk_server s) = Some e" and r: "\<not> docker_ended (dk_phase s)" for e
  proof (cases "dk_phase s")
    case DockerStarting
    then have "docker_step s (docker_check s)" by (rule docker_step.check)
    moreover have "dk_phase (docker_check s) = DockerEnded (Exited 1)" by (simp add: docker_check_def e)
    ultimately show ?thesis by blast
  next
    case DockerChecked
    let ?t = "s\<lparr>dk_phase := DockerWaiting\<rparr>"
    have "docker_step s ?t" using DockerChecked by (rule docker_step.notify)
    moreover have "docker_step ?t (?t\<lparr>dk_phase := DockerEnded (Exited 1)\<rparr>)"
      by (rule waiting[of _ e]) (simp_all add: e)
    ultimately have "rtranclp docker_step s (?t\<lparr>dk_phase := DockerEnded (Exited 1)\<rparr>)"
      by (meson rtranclp.rtrancl_into_rtrancl r_into_rtranclp)
    then show ?thesis by (intro exI[of _ "?t\<lparr>dk_phase := DockerEnded (Exited 1)\<rparr>"]) simp
  next
    case DockerWaiting
    have "docker_step s (s\<lparr>dk_phase := DockerEnded (Exited 1)\<rparr>)" by (rule waiting[OF DockerWaiting e])
    then show ?thesis by (intro exI[of _ "s\<lparr>dk_phase := DockerEnded (Exited 1)\<rparr>"]) auto
  qed (use r in simp)
  moreover have "dk_phase s' \<in> {DockerEnded Killed, DockerEnded (Exited 1)}"
    if "err_ch (dk_server s) = Some e" "dk_phase s = DockerStarting" "docker_step s s'" for e s'
    using that inv by (auto simp: docker_step_iff docker_check_def docker_inv_def)
  ultimately show ?thesis using n by auto
qed

definition docker_failed :: docker where
  "docker_failed = docker_start\<lparr>dk_server := serve_returns (Some (ErrorString ''in use'')) start_extension\<rparr>"

lemma docker_failed_reachable: "docker_reachable docker_failed"
proof -
  have "docker_step docker_start docker_failed"
    using docker_step.serve[of docker_start "Some (ErrorString ''in use'')"]
    by (simp add: docker_failed_def docker_start_def)
  then show ?thesis using docker_reachable.intros by blast
qed

theorem container_exit_witness:
  "\<exists>s'. rtranclp docker_step docker_failed s' \<and> dk_phase s' = DockerEnded (Exited 1)"
  using container_exit[OF docker_failed_reachable] by (simp add: docker_failed_def docker_start_def)

subsection \<open>start-tee\<close>

text \<open>Once it waits for a signal, \<open>start-tee\<close> does nothing else.\<close>

lemma tee_waits:
  assumes "rtranclp (tee_step l c e x) s s'"
  shows "tp_phase s = TeeWaiting \<Longrightarrow> (tp_signal s \<longrightarrow> tp_signal s')
    \<and> (tp_phase s' = TeeWaiting \<or> tp_signal s' \<and> tp_phase s' = TeeEnded (Exited 0))"
  using assms
proof (induction rule: rtranclp_induct)
  case (step y z)
  then show ?case by (auto simp: tee_step_iff)
qed simp

definition tee_inv :: "'key lib \<Rightarrow> ('key, 'c) chain \<Rightarrow> env \<Rightarrow> string \<Rightarrow> tee_process \<Rightarrow> bool" where
  "tee_inv l c e x s \<longleftrightarrow>
     (tp_phase s = TeeEnded (Exited 0) \<longrightarrow> tp_signal s)
     \<and> (tp_phase s \<in> {TeeStarting, TeeConfiguring, TeeWaiting} \<longrightarrow> is_ok (start_tee_env l e x))
     \<and> (tp_phase s = TeeWaiting \<longrightarrow>
          (\<exists>w. is_ok (fst (node_set_proxy_url l c configuration_port proxy_internal_port w))))"

lemma tee_phases:
  "tp_phase (tee_boot r s) = (case r of Ok _ \<Rightarrow> TeeStarting | Err _ \<Rightarrow> TeeEnded (Exited 1)
      | Panic _ \<Rightarrow> TeeEnded (Exited 2))"
  "tp_phase (tee_check s) = (if err_ch (tp_server s) = None then TeeConfiguring else TeeEnded (Exited 1))"
  "tp_phase (tee_configured q s) = (case q of Ok _ \<Rightarrow> TeeWaiting | Err _ \<Rightarrow> TeeEnded (Exited 1)
      | Panic _ \<Rightarrow> TeeEnded (Exited 2))"
  by (simp_all add: tee_boot_def tee_check_def tee_configured_def split: res.splits option.splits)

lemma tee_inv_step:
  assumes "tee_inv l c e x s" and "tee_step l c e x s s'"
  shows "tee_inv l c e x s'"
  using assms(2,1)
proof cases
  case (configured w)
  then show ?thesis using assms(1)
    by (cases "fst (node_set_proxy_url l c configuration_port proxy_internal_port w)")
       (auto simp: tee_inv_def tee_phases intro: exI[of _ w])
qed (auto simp: tee_inv_def tee_phases split: res.splits)

lemma tee_reachable_inv: "tee_reachable l c e x s \<Longrightarrow> tee_inv l c e x s"
proof (induction rule: tee_reachable.induct)
  case start
  show ?case by (simp add: tee_inv_def tee_start_def)
next
  case (step s s')
  then show ?case using tee_inv_step by blast
qed

text \<open>
  C31. \<open>start-tee\<close> waits for a signal only after its environment was set and the node accepted
  the proxy url. From then on nothing but a signal ends it, with status 0: unlike the
  container it never notices that the HTTP server has failed.
\<close>
theorem start_tee_misses_late_failure:
  assumes "tee_reachable l c e x s" and "tp_phase s = TeeWaiting"
    and "rtranclp (tee_step l c e x) s s'"
  shows "is_ok (start_tee_env l e x)
    \<and> (\<exists>w. is_ok (fst (node_set_proxy_url l c configuration_port proxy_internal_port w)))
    \<and> (tp_phase s' = TeeWaiting \<or> tp_signal s' \<and> tp_phase s' = TeeEnded (Exited 0))"
  using tee_reachable_inv[OF assms(1)] tee_waits[OF assms(3,2)] assms(2) by (simp add: tee_inv_def)

definition tee_serving :: tee_process where
  "tee_serving = \<lparr>tp_phase = TeeWaiting, tp_server = start_extension, tp_signal = False\<rparr>"

definition tee_dead :: tee_process where
  "tee_dead = tee_serving\<lparr>tp_server := serve_returns (Some (ErrorString ''accept'')) start_extension\<rparr>"

lemma demo_tee_boot: "is_ok (start_tee_env demo_lib (\<lambda>_. []) [])"
  by (simp add: start_tee_env_def set_owner_address_def demo_lib_def Let_def)

lemma demo_tee_url:
  "node_set_proxy_url demo_lib (demo_chain 9) p q demo_world = (Ok (), demo_world)"
  by (simp add: node_set_proxy_url_def io_defs io_ext_def demo_lib_def demo_chain_def demo_world_def)

lemma tee_serving_reachable:
  "tee_reachable demo_lib (demo_chain 9) (\<lambda>_. []) [] tee_serving"
proof -
  let ?r = "tee_reachable demo_lib (demo_chain 9) (\<lambda>_. []) []"
  let ?s = "tee_start\<lparr>tp_phase := TeeStarting, tp_server := start_extension\<rparr>"
  obtain e' where "start_tee_env demo_lib (\<lambda>_. []) [] = Ok e'" using demo_tee_boot by (auto simp: is_ok_iff)
  then have "tee_step demo_lib (demo_chain 9) (\<lambda>_. []) [] tee_start ?s"
    using tee_step.boot[of tee_start demo_lib "demo_chain 9" "\<lambda>_. []" "[]"]
    by (simp add: tee_boot_def tee_start_def)
  from tee_reachable.step[OF tee_reachable.start this] have "?r ?s" .
  from tee_reachable.step[OF this tee_step.check]
  have "?r (?s\<lparr>tp_phase := TeeConfiguring\<rparr>)" by (simp add: tee_check_def)
  from tee_reachable.step[OF this tee_step.configured[where w = demo_world]]
  show ?thesis by (simp add: tee_configured_def demo_tee_url tee_serving_def tee_start_def)
qed

theorem start_tee_misses_late_failure_witness:
  "rtranclp (tee_step demo_lib (demo_chain 9) (\<lambda>_. []) []) tee_serving tee_dead
   \<and> err_ch (tp_server tee_dead) \<noteq> None \<and> tp_phase tee_dead = TeeWaiting"
proof -
  have "tee_step demo_lib (demo_chain 9) (\<lambda>_. []) [] tee_serving tee_dead"
    using tee_step.serve[of tee_serving] by (simp add: tee_dead_def tee_serving_def)
  then have r: "rtranclp (tee_step demo_lib (demo_chain 9) (\<lambda>_. []) []) tee_serving tee_dead" by blast
  have "tp_phase tee_serving = TeeWaiting" by (simp add: tee_serving_def)
  from start_tee_misses_late_failure[OF tee_serving_reachable this r] r
  show ?thesis by (simp add: tee_dead_def tee_serving_def)
qed

subsection \<open>The server alone\<close>

text \<open>A server that has been asked to stop while it serves \<open>n\<close> requests.\<close>

lemma busy_server:
  "server_reachable (server_start\<lparr>sv_active := n\<rparr>)"
proof (induction n)
  case 0
  show ?case using server_reachable.start by (simp add: server_start_def)
next
  case (Suc n)
  from server_reachable.step[OF this server_step.request] show ?case by (simp add: server_start_def)
qed

lemma cut_server:
  "server_reachable (server_start\<lparr>sv_active := n, sv_shutdown := Draining,
     sv_returned := Some err_server_closed, sv_exit := Some 0\<rparr>)"
proof -
  let ?s = "server_start\<lparr>sv_active := n, sv_shutdown := Draining\<rparr>"
  let ?t = "?s\<lparr>sv_returned := Some err_server_closed\<rparr>"
  from server_reachable.step[OF busy_server server_step.signal] have "server_reachable ?s"
    by (simp add: server_start_def)
  from server_reachable.step[OF this server_step.closed] have "server_reachable ?t"
    by (simp add: server_start_def)
  from server_reachable.step[OF this server_step.returns] show ?thesis
    by (simp add: server_start_def main_status_def)
qed

text \<open>
  C36. The server alone ends with status 1 only when \<open>ListenAndServe\<close> failed and otherwise with
  status 0 after a signal. But the shutdown is not graceful: \<open>main\<close> returns as soon as
  \<open>ListenAndServe\<close> does, so the process can end with any number of requests still being
  served although the deadline has not passed.
\<close>
theorem shutdown_not_awaited:
  assumes "server_reachable s" and "sv_exit s = Some k"
  shows "(k = 1 \<and> (\<exists>e. sv_returned s = Some e \<and> e \<noteq> err_server_closed)
        \<or> k = 0 \<and> sv_shutdown s = Draining)
    \<and> (\<exists>t. server_reachable t \<and> sv_exit t = Some 0 \<and> sv_active t = n \<and> \<not> sv_expired t)"
proof -
  have "k = 1 \<and> (\<exists>e. sv_returned s = Some e \<and> e \<noteq> err_server_closed)
        \<or> k = 0 \<and> sv_shutdown s = Draining"
    using server_reachable_inv[OF assms(1)] assms(2) by (auto simp: server_inv_def)
  moreover have "\<exists>t. server_reachable t \<and> sv_exit t = Some 0 \<and> sv_active t = n \<and> \<not> sv_expired t"
    by (rule exI, rule conjI[OF cut_server[of n]]) (simp add: server_start_def)
  ultimately show ?thesis by blast
qed

theorem shutdown_not_awaited_witness:
  "\<exists>t. server_reachable t \<and> sv_exit t = Some 0 \<and> sv_active t = 3 \<and> \<not> sv_expired t"
proof -
  have "sv_exit (server_start\<lparr>sv_active := 3, sv_shutdown := Draining,
     sv_returned := Some err_server_closed, sv_exit := Some 0\<rparr>) = Some 0" by simp
  from shutdown_not_awaited[OF cut_server this, of 3] show ?thesis by blast
qed

end
