(* ===== verification/GoPath.thy ===== *)
theory GoPath
  imports GoStrings
begin

text \<open>
  The functions of Go's \<open>path/filepath\<close> the program uses, for Unix: \<open>Clean\<close>, \<open>Dir\<close> and
  \<open>Join\<close>. They work on the text of a path alone. The lemmas give their results on a clean
  absolute path.
\<close>

subsection \<open>Clean, Dir, Join\<close>

text \<open>One element of a path against the elements kept so far, the last one first.\<close>

fun path_push :: "bool \<Rightarrow> string \<Rightarrow> string list \<Rightarrow> string list" where
  "path_push rooted e st =
     (if e = [] \<or> e = ''.'' then st
      else if e = ''..'' then
        (case st of
           [] \<Rightarrow> if rooted then [] else [''..'']
         | p # ps \<Rightarrow> if p = ''..'' then ''..'' # st else ps)
      else e # st)"

declare path_push.simps [simp del]

definition path_clean :: "string \<Rightarrow> string" where
  "path_clean p =
     (if p = [] then ''.''
      else
        (let rooted = (hd p = CHR ''/'');
             out = rev (fold (path_push rooted) (split_all (CHR ''/'') p) []) in
         if rooted then ''/'' @ join ''/'' out
         else if out = [] then ''.'' else join ''/'' out))"

definition path_join :: "string list \<Rightarrow> string" where
  "path_join es =
     (case dropWhile (\<lambda>e. e = []) es of [] \<Rightarrow> [] | e # r \<Rightarrow> path_clean (join ''/'' (e # r)))"

definition path_dir :: "string \<Rightarrow> string" where
  "path_dir p = path_clean (rev (dropWhile (\<lambda>c. c \<noteq> CHR ''/'') (rev p)))"

subsection \<open>Clean absolute paths\<close>

definition proper :: "string \<Rightarrow> bool" where
  "proper e \<longleftrightarrow> e \<noteq> [] \<and> e \<noteq> ''.'' \<and> e \<noteq> ''..'' \<and> CHR ''/'' \<notin> set e"

definition abs_path :: "string list \<Rightarrow> string" where
  "abs_path cs = ''/'' @ join ''/'' cs"

lemma proper_no_slash: "proper e \<Longrightarrow> CHR ''/'' \<notin> set e"
  by (simp add: proper_def)

lemma path_push_proper [simp]: "proper e \<Longrightarrow> path_push r e st = e # st"
  by (simp add: path_push.simps proper_def)

lemma path_push_skip [simp]: "path_push r [] st = st" "path_push r ''.'' st = st"
  by (simp_all add: path_push.simps)

lemma path_push_up [simp]: "proper e \<Longrightarrow> path_push r ''..'' (e # st) = st" "path_push True ''..'' [] = []"
  by (auto simp add: path_push.simps proper_def)

lemma fold_path_push: "\<forall>e\<in>set cs. proper e \<Longrightarrow> fold (path_push r) cs st = rev cs @ st"
  by (induction cs arbitrary: st) auto

lemma split_all_no_occ: "sep \<notin> set s \<Longrightarrow> split_all sep s = [s]"
  by (induction s) auto

lemma split_all_append: "sep \<notin> set s \<Longrightarrow> split_all sep (s @ sep # t) = s # split_all sep t"
  by (induction s) auto

lemma split_all_join:
  "es \<noteq> [] \<Longrightarrow> \<forall>e\<in>set es. sep \<notin> set e \<Longrightarrow> split_all sep (join [sep] es) = es"
  by (induction "[sep]" es rule: join.induct) (auto simp: split_all_no_occ split_all_append)

lemma fold_join:
  "\<forall>e\<in>set es. CHR ''/'' \<notin> set e
    \<Longrightarrow> fold (path_push r) (split_all (CHR ''/'') (join ''/'' es)) st = fold (path_push r) es st"
  by (cases "es = []") (simp_all add: split_all_join)

lemma path_clean_abs:
  assumes "\<forall>e\<in>set es. CHR ''/'' \<notin> set e"
  shows "path_clean (abs_path es) = abs_path (rev (fold (path_push True) es []))"
  using fold_join[OF assms] by (simp add: path_clean_def abs_path_def Let_def)

lemma path_clean_proper: "\<forall>e\<in>set cs. proper e \<Longrightarrow> path_clean (abs_path cs) = abs_path cs"
  by (subst path_clean_abs) (auto simp: proper_def fold_path_push)

lemma join_snoc: "join sep (xs @ [x]) = (if xs = [] then x else join sep xs @ sep @ x)"
  by (induction sep xs rule: join.induct) auto

lemma join_append:
  "join sep (xs @ ys) = (if xs = [] then join sep ys else if ys = [] then join sep xs
     else join sep xs @ sep @ join sep ys)"
  by (induction sep xs rule: join.induct) (auto simp: neq_Nil_conv)

lemma path_join_abs:
  assumes "\<forall>e\<in>set cs. proper e" and "\<forall>e\<in>set es. CHR ''/'' \<notin> set e" and "cs \<noteq> []"
  shows "path_join (abs_path cs # es) = abs_path (rev (fold (path_push True) es (rev cs)))"
proof -
  have "join ''/'' (abs_path cs # es) = abs_path (cs @ es)"
    using assms(3) by (cases es) (auto simp: abs_path_def join_append)
  moreover have "path_clean (abs_path (cs @ es)) = abs_path (rev (fold (path_push True) (cs @ es) []))"
    using assms(1,2) by (intro path_clean_abs) (auto simp: proper_def)
  ultimately show ?thesis
    using fold_path_push[OF assms(1)] by (simp add: path_join_def) (simp add: abs_path_def)
qed

lemma path_dir_abs:
  assumes "\<forall>e\<in>set (cs @ [f]). proper e" and "cs \<noteq> []"
  shows "path_dir (abs_path (cs @ [f])) = abs_path cs"
proof -
  have f: "\<forall>c\<in>set (rev f). c \<noteq> CHR ''/''" using assms(1) by (auto simp: proper_def)
  have "dropWhile (\<lambda>c. c \<noteq> CHR ''/'') (rev f @ CHR ''/'' # t) = CHR ''/'' # t" for t
    using f by (simp add: dropWhile_append3)
  then have "path_dir (abs_path (cs @ [f])) = path_clean (abs_path (cs @ [[]]))"
    using assms(2) by (simp add: path_dir_def abs_path_def join_snoc)
  also have "\<dots> = abs_path (rev (fold (path_push True) (cs @ [[]]) []))"
    using assms(1) by (intro path_clean_abs) (auto simp: proper_def)
  finally show ?thesis using assms(1) by (simp add: fold_path_push)
qed

lemma abs_path_inject:
  assumes "\<forall>e\<in>set cs. proper e" and "\<forall>e\<in>set ds. proper e"
  shows "abs_path cs = abs_path ds \<longleftrightarrow> cs = ds"
proof
  assume eq: "abs_path cs = abs_path ds"
  have "rev (rev cs @ []) = rev (fold (path_push True) (split_all (CHR ''/'') (join ''/'' cs)) [])"
    using assms(1) by (subst fold_join) (auto simp: proper_def fold_path_push)
  also have "\<dots> = rev (fold (path_push True) (split_all (CHR ''/'') (join ''/'' ds)) [])"
    using eq by (simp add: abs_path_def)
  also have "\<dots> = rev (rev ds @ [])"
    using assms(2) by (subst fold_join) (auto simp: proper_def fold_path_push)
  finally show "cs = ds" by simp
qed simp

text \<open>\<open>Clean\<close> gives a clean path: doing it again changes nothing.\<close>

lemma path_push_slash:
  assumes "CHR ''/'' \<notin> set e" and "\<forall>x\<in>set st. proper x"
  shows "\<forall>x\<in>set (path_push True e st). proper x"
proof (cases "e = [] \<or> e = ''.'' \<or> e = ''..''")
  case True
  then show ?thesis using assms(2) by (cases st) (auto simp: path_push.simps)
next
  case False
  then have "proper e" using assms(1) by (simp add: proper_def)
  then show ?thesis using assms(2) by simp
qed

lemma fold_path_push_slash:
  "\<forall>e\<in>set es. CHR ''/'' \<notin> set e \<Longrightarrow> \<forall>x\<in>set st. proper x
    \<Longrightarrow> \<forall>x\<in>set (fold (path_push True) es st). proper x"
proof (induction es arbitrary: st)
  case (Cons e es)
  have "CHR ''/'' \<notin> set e" and "\<forall>e\<in>set es. CHR ''/'' \<notin> set e" using Cons.prems(1) by simp_all
  then show ?case using Cons.IH[OF _ path_push_slash[OF _ Cons.prems(2)]] unfolding fold_simps(2) by blast
qed simp

lemma path_clean_rooted_idem:
  "path_clean (path_clean (CHR ''/'' # p)) = path_clean (CHR ''/'' # p)"
proof -
  let ?cs = "rev (fold (path_push True) (split_all (CHR ''/'') p) [])"
  have "\<forall>x\<in>set (fold (path_push True) (split_all (CHR ''/'') p) []). proper x"
    by (rule fold_path_push_slash) (auto dest: split_all_no_sep)
  then have "path_clean (abs_path ?cs) = abs_path ?cs" by (intro path_clean_proper) simp
  then show ?thesis by (simp add: path_clean_def[of "CHR ''/'' # p"] Let_def abs_path_def)
qed

end
