(* ===== verification/StartProxy.thy ===== *)
theory StartProxy
  imports Lifecycle GoPath
begin

text \<open>
  \<open>tee/tools/cmd/start-proxy/main.go\<close>, and what it shares with
  \<open>tee/go/cmd/start-tee/main.go\<close>: where the two look for \<open>.env\<close>. \<open>this_file\<close> is the path of
  the source file that \<open>runtime.Caller\<close> reports. \<open>godotenv.Load\<close> of a path, \<open>os.Stat\<close>, the
  reading of the proxy's configuration and its start are parameters.
\<close>

subsection \<open>Finding .env\<close>

definition project_root :: "string \<Rightarrow> string" where
  "project_root this_file = path_join [path_dir this_file, ''..'', ''..'', ''..'']"

type_synonym dotenv = "string \<Rightarrow> env \<Rightarrow> go_error option \<times> env"

definition proxy_load_env :: "dotenv \<Rightarrow> string \<Rightarrow> env \<Rightarrow> env \<times> string" where
  \<comment> \<open>the environment after, and what is printed on stdout\<close>
  "proxy_load_env load this_file e =
     (let root_env = path_join [project_root this_file, ''.env''] in
      case load root_env e of
        (None, e') \<Rightarrow> (e', [])
      | (Some _, e') \<Rightarrow>
          (case load ''.env'' e' of
             (None, e'') \<Rightarrow> (e'', [])
           | (Some err, e'') \<Rightarrow>
               (e'', ''Warning: Error loading .env file: '' @ err_msg err @ [nat_byte 10])))"

definition tee_load_env :: "dotenv \<Rightarrow> string \<Rightarrow> env \<Rightarrow> env \<times> string" where
  "tee_load_env load this_file e =
     (let root_env = path_join [path_dir this_file, ''..'', ''..'', ''.env''] in
      case load root_env e of
        (None, e') \<Rightarrow> (e', [])
      | (Some _, e') \<Rightarrow>
          (case load ''.env'' e' of
             (None, e'') \<Rightarrow> (e'', [])
           | (Some err, e'') \<Rightarrow>
               (e'', ''Warning: Error loading .env file: '' @ err_msg err @ [nat_byte 10])))"

definition find_proxy_config :: "env \<Rightarrow> (string \<Rightarrow> bool) \<Rightarrow> string \<Rightarrow> string" where
  \<comment> \<open>\<open>exists\<close> is a successful \<open>os.Stat\<close>\<close>
  "find_proxy_config e exists this_file =
     (if e ''PROXY_CONFIG'' \<noteq> [] then e ''PROXY_CONFIG''
      else
        (let candidate = path_join [project_root this_file, ''config'', ''proxy'', ''extension_proxy.toml'']
         in if exists candidate then candidate else ''./config/proxy/extension_proxy.toml''))"

subsection \<open>The process\<close>

text \<open>
  \<open>read_port\<close> gives \<open>Ports.External\<close> of a configuration file. \<open>init\<close> starts the proxy with it;
  it may end the process with a status of its own.
\<close>

definition log_proxy_and_tee_ids ::
    "'key lib \<Rightarrow> ('key, 'c) chain \<Rightarrow> (string \<Rightarrow> string rpc) \<Rightarrow> string \<Rightarrow> ('key, 'c, string) io" where
  \<comment> \<open>the line that is logged\<close>
  "log_proxy_and_tee_ids l c read_port config_file =
     io_bind (io_res (map_err (wrapf ''failed to read proxy config'') (of_rpc (read_port config_file))))
       (\<lambda>port. io_bind (io_map_err (wrapf ''failed to extract teeID and proxyID'')
          (get_tee_proxy_id l c (''http://localhost:'' @ port)))
       (\<lambda>(tee, proxy). io_ok (''Proxy started - TeeID: '' @ l_addr_hex l tee
          @ '', ProxyID: '' @ l_addr_hex l proxy)))"

datatype proxy_phase = ProxyBooting | ProxyWaiting | ProxyEnded process_end

record proxy_process =
  pp_phase :: proxy_phase
  pp_log :: "string list"
  pp_signal :: bool

definition proxy_start :: proxy_process where
  "proxy_start = \<lparr>pp_phase = ProxyBooting, pp_log = [], pp_signal = False\<rparr>"

definition proxy_boot ::
    "'key lib \<Rightarrow> ('key, 'c) chain \<Rightarrow> dotenv \<Rightarrow> (string \<Rightarrow> bool) \<Rightarrow> (string \<Rightarrow> string rpc)
      \<Rightarrow> (env \<Rightarrow> string \<Rightarrow> 'c \<Rightarrow> nat option \<times> 'c) \<Rightarrow> string \<Rightarrow> env
      \<Rightarrow> ('key, 'c) world \<Rightarrow> proxy_process \<Rightarrow> proxy_process" where
  "proxy_boot l c load exists read_port init this_file e w s =
     (case proxy_load_env load this_file e of
        (e', out) \<Rightarrow>
          (let config = find_proxy_config e' exists this_file in
           case init e' config (ext w) of
             (Some n, x) \<Rightarrow> s\<lparr>pp_phase := ProxyEnded (Exited n)\<rparr>
           | (None, x) \<Rightarrow>
               (let started = pp_log s @ [''Started extension proxy''] in
                case fst (log_proxy_and_tee_ids l c read_port config (w\<lparr>ext := x\<rparr>)) of
                  Ok line \<Rightarrow> s\<lparr>pp_phase := ProxyWaiting, pp_log := started @ [line]\<rparr>
                | Err err \<Rightarrow> s\<lparr>pp_phase := ProxyWaiting,
                    pp_log := started @ [''Failed to log proxy and tee IDs: '' @ err_msg err]\<rparr>
                | Panic p \<Rightarrow> s\<lparr>pp_phase := ProxyEnded (Exited 2), pp_log := started\<rparr>)))"

fun proxy_ended :: "proxy_phase \<Rightarrow> bool" where
  "proxy_ended (ProxyEnded _) = True"
| "proxy_ended _ = False"

inductive proxy_step ::
    "(proxy_process \<Rightarrow> proxy_process) \<Rightarrow> proxy_process \<Rightarrow> proxy_process \<Rightarrow> bool"
  for boot where
  signal: "\<not> proxy_ended (pp_phase s) \<Longrightarrow> proxy_step boot s (s\<lparr>pp_signal := True\<rparr>)"
| boot: "pp_phase s = ProxyBooting \<Longrightarrow> proxy_step boot s (boot s)"
| on_signal: "pp_phase s = ProxyWaiting \<Longrightarrow> pp_signal s
    \<Longrightarrow> proxy_step boot s (s\<lparr>pp_phase := ProxyEnded (Exited 0),
          pp_log := pp_log s @ [''Received shutdown signal, shutting down'']\<rparr>)"

inductive proxy_reachable :: "(proxy_process \<Rightarrow> proxy_process) \<Rightarrow> proxy_process \<Rightarrow> bool"
  for boot where
  start: "proxy_reachable boot proxy_start"
| step: "proxy_reachable boot s \<Longrightarrow> proxy_step boot s s' \<Longrightarrow> proxy_reachable boot s'"

subsection \<open>Facts\<close>

text \<open>What the two programs look for, in a checkout whose root is \<open>abs_path cs\<close>.\<close>

lemma proper_names [simp]:
  "proper ''tools''" "proper ''cmd''" "proper ''start-proxy''" "proper ''start-tee''" "proper ''go''"
  "proper ''main.go''" "proper ''.env''" "proper ''config''" "proper ''proxy''"
  "proper ''extension_proxy.toml''" "proper ''tee''"
  by (simp_all add: proper_def)

lemma source_dir:
  assumes "\<forall>e\<in>set cs. proper e" and "proper a" and "proper b" and "proper d" and "proper f"
  shows "path_dir (abs_path (cs @ [a, b, d, f])) = abs_path (cs @ [a, b, d])"
  using path_dir_abs[of "cs @ [a, b, d]" f] assms by auto

lemma project_root_abs:
  assumes "\<forall>e\<in>set cs. proper e"
  shows "project_root (abs_path (cs @ [''tools'', ''cmd'', ''start-proxy'', ''main.go''])) = abs_path cs"
  using assms unfolding project_root_def
  by (subst source_dir; simp?) (subst path_join_abs; auto)

lemma start_tee_env_abs:
  assumes "\<forall>e\<in>set cs. proper e"
  shows "path_join [path_dir (abs_path (cs @ [''go'', ''cmd'', ''start-tee'', ''main.go''])), ''..'', ''..'', ''.env'']
    = abs_path (cs @ [''go'', ''.env''])"
  using assms by (subst source_dir; simp?) (subst path_join_abs; auto)

lemma root_join_abs:
  assumes "\<forall>e\<in>set cs. proper e" and "cs \<noteq> []" and "\<forall>e\<in>set es. proper e"
  shows "path_join (abs_path cs # es) = abs_path (cs @ es)"
  using path_join_abs[OF assms(1) _ assms(2), of es] assms(3) by (simp add: fold_path_push proper_no_slash)

text \<open>
  Once started, the proxy runs until a signal, whether or not its ids could be read: only the
  library's own start, or a panic of the ids' readers, ends it otherwise.
\<close>

lemma proxy_boot_phase:
  assumes "init e' (find_proxy_config e' exists f) (ext w) = (None, x)"
    and "proxy_load_env load f e = (e', out)"
    and "\<not> is_panic (fst (log_proxy_and_tee_ids l c read_port (find_proxy_config e' exists f) (w\<lparr>ext := x\<rparr>)))"
  shows "pp_phase (proxy_boot l c load exists read_port init f e w s) = ProxyWaiting"
  using assms
  by (cases "fst (log_proxy_and_tee_ids l c read_port (find_proxy_config e' exists f) (w\<lparr>ext := x\<rparr>))")
     (simp_all add: proxy_boot_def Let_def)

lemma proxy_boot_signal [simp]: "pp_signal (proxy_boot l c load exists read_port init f e w s) = pp_signal s"
  by (auto simp: proxy_boot_def Let_def split: prod.splits option.splits res.splits)

lemma proxy_waits:
  assumes "proxy_reachable boot s"
    and boot: "\<And>s. pp_phase (boot s) = ProxyWaiting" "\<And>s. pp_signal (boot s) = pp_signal s"
  shows "pp_phase s = ProxyEnded r \<longrightarrow> r = Exited 0 \<and> pp_signal s"
  using assms(1)
proof (induction rule: proxy_reachable.induct)
  case start
  show ?case by (simp add: proxy_start_def)
next
  case (step s s')
  from step.hyps(2) show ?case using step.IH
    by cases (simp_all add: boot)
qed

lemma proxy_ends_by_signal:
  assumes "proxy_reachable (proxy_boot l c load exists read_port init f e w) s"
    and "proxy_load_env load f e = (e', out)"
    and "init e' (find_proxy_config e' exists f) (ext w) = (None, x)"
    and "\<not> is_panic (fst (log_proxy_and_tee_ids l c read_port (find_proxy_config e' exists f) (w\<lparr>ext := x\<rparr>)))"
    and "pp_phase s = ProxyEnded r"
  shows "r = Exited 0 \<and> pp_signal s"
  using proxy_waits[OF assms(1) proxy_boot_phase[where init = init, OF assms(3,2,4)] proxy_boot_signal] assms(5) by blast

end
