(* ===== verification/StartupClaims.thy ===== *)
theory StartupClaims
  imports StartProxy
begin

text \<open>Where the two programs started on the host find their settings.\<close>

text \<open>
  C32. Let the only \<open>.env\<close> file be the one of the \<open>tee\<close> directory of a checkout, and let it
  not set \<open>PROXY_CONFIG\<close>. \<open>start-proxy\<close>, run from any directory, takes the variables from it and
  its configuration from \<open>tee/config/proxy\<close>, when that file exists. \<open>start-tee\<close> looks in
  \<open>tee/go/.env\<close> and in the working directory, so that, run from anywhere but \<open>tee\<close>, it prints
  a warning and starts the node without any of the variables.
\<close>
theorem start_tee_misses_env:
  assumes "\<forall>e\<in>set cs. proper e"
    and found: "load (abs_path (cs @ [''tee'', ''.env''])) e = (None, e1)"
    and other: "\<And>p. p \<noteq> abs_path (cs @ [''tee'', ''.env'']) \<Longrightarrow> load p e = (Some err, e)"
    and "e1 ''PROXY_CONFIG'' = []"
    and "exists (abs_path (cs @ [''tee'', ''config'', ''proxy'', ''extension_proxy.toml'']))"
  shows "proxy_load_env load (abs_path (cs @ [''tee'', ''tools'', ''cmd'', ''start-proxy'', ''main.go''])) e = (e1, [])
    \<and> find_proxy_config e1 exists (abs_path (cs @ [''tee'', ''tools'', ''cmd'', ''start-proxy'', ''main.go'']))
        = abs_path (cs @ [''tee'', ''config'', ''proxy'', ''extension_proxy.toml''])
    \<and> tee_load_env load (abs_path (cs @ [''tee'', ''go'', ''cmd'', ''start-tee'', ''main.go''])) e
        = (e, ''Warning: Error loading .env file: '' @ err_msg err @ [nat_byte 10])"
proof -
  let ?t = "cs @ [''tee'']"
  have t: "\<forall>e\<in>set ?t. proper e" "?t \<noteq> []" using assms(1) by auto
  note root = project_root_abs[OF t(1), simplified] and join = root_join_abs[OF t, simplified]
    and tee = start_tee_env_abs[OF t(1), simplified]
  have "abs_path (?t @ [''go'', ''.env'']) \<noteq> abs_path (?t @ [''.env''])"
    using t(1) by (subst abs_path_inject) auto
  then have "load (abs_path (cs @ [''tee'', ''go'', ''.env''])) e = (Some err, e)" by (intro other) simp
  moreover have "load ''.env'' e = (Some err, e)" by (rule other) (simp add: abs_path_def)
  ultimately have "tee_load_env load (abs_path (cs @ [''tee'', ''go'', ''cmd'', ''start-tee'', ''main.go''])) e
      = (e, ''Warning: Error loading .env file: '' @ err_msg err @ [nat_byte 10])"
    unfolding tee_load_env_def tee by simp
  moreover have "proxy_load_env load (abs_path (cs @ [''tee'', ''tools'', ''cmd'', ''start-proxy'', ''main.go''])) e = (e1, [])"
    unfolding proxy_load_env_def root using join[of "[''.env'']"] found by simp
  moreover have "find_proxy_config e1 exists (abs_path (cs @ [''tee'', ''tools'', ''cmd'', ''start-proxy'', ''main.go'']))
      = abs_path (cs @ [''tee'', ''config'', ''proxy'', ''extension_proxy.toml''])"
    unfolding find_proxy_config_def root
    using join[of "[''config'', ''proxy'', ''extension_proxy.toml'']"] assms(4,5) by simp
  ultimately show ?thesis by blast
qed

theorem start_tee_misses_env_witness:
  "let load = (\<lambda>p e. if p = ''/praesidio/tee/.env'' then (None, e(''EXT_PROXY_URL'' := ''h''))
        else (Some (ErrorString ''no such file''), e)) in
     fst (proxy_load_env load ''/praesidio/tee/tools/cmd/start-proxy/main.go'' (\<lambda>_. [])) ''EXT_PROXY_URL'' = ''h''
     \<and> fst (tee_load_env load ''/praesidio/tee/go/cmd/start-tee/main.go'' (\<lambda>_. [])) ''EXT_PROXY_URL'' = []"
proof -
  let ?load = "\<lambda>p e. if p = ''/praesidio/tee/.env'' then (None, (e :: env)(''EXT_PROXY_URL'' := ''h''))
        else (Some (ErrorString ''no such file''), e)"
  have c: "\<forall>e\<in>set [''praesidio'']. proper e" by (simp add: proper_def)
  have "?load (abs_path ([''praesidio''] @ [''tee'', ''.env''])) (\<lambda>_. []) = (None, (\<lambda>_. [])(''EXT_PROXY_URL'' := ''h''))"
    and "\<And>p. p \<noteq> abs_path ([''praesidio''] @ [''tee'', ''.env'']) \<Longrightarrow>
      ?load p (\<lambda>_. []) = (Some (ErrorString ''no such file''), (\<lambda>_. []))"
    by (simp_all add: abs_path_def)
  from start_tee_misses_env[where load = ?load and exists = "\<lambda>_. True", OF c this]
  show ?thesis by (simp add: abs_path_def)
qed

end
