(* ===== verification/AuditTool.thy ===== *)
theory AuditTool
  imports Tools Report
begin

text \<open>
  The tools that only look: \<open>tee/tools/cmd/audit-deploy/main.go\<close> and
  \<open>tee/tools/cmd/query-tee/main.go\<close>. Each returns what it prints on stdout; an error is the text printed on stderr
  before \<open>os.Exit(1)\<close>, at a point where nothing is on stdout. The reads of the contract
  bindings are parameters; like the other remote calls each transforms the state outside.
\<close>

subsection \<open>Printing\<close>

fun io_concat :: "('key, 'c, string) io list \<Rightarrow> ('key, 'c, string) io" where
  "io_concat [] = io_ok []"
| "io_concat (m # ms) = io_bind m (\<lambda>a. io_bind (io_concat ms) (\<lambda>b. io_ok (a @ b)))"

definition pad_right :: "nat \<Rightarrow> string \<Rightarrow> string" where
  \<comment> \<open>\<open>%-25s\<close> of an ASCII text\<close>
  "pad_right n s = s @ replicate (n - length s) (nat_byte 32)"

definition line :: "string \<Rightarrow> string" where
  "line s = s @ nl"

text \<open>One read and the text printed for its answer.\<close>

definition show_read :: "('c \<Rightarrow> 'a rpc \<times> 'c) \<Rightarrow> ('a rpc \<Rightarrow> string) \<Rightarrow> ('key, 'c, string) io" where
  "show_read f sh = io_try (io_ext f) (\<lambda>r. io_ok (sh r))"

subsection \<open>audit-deploy\<close>

record 'c audit_reads =
  ad_block :: "'c \<Rightarrow> u64 \<times> 'c"
  ad_platforms :: "'c \<Rightarrow> bytes list rpc \<times> 'c"
  ad_next_id :: "'c \<Rightarrow> int rpc \<times> 'c"
  ad_owner :: "int \<Rightarrow> 'c \<Rightarrow> address rpc \<times> 'c"
  ad_code_hashes :: "int \<Rightarrow> 'c \<Rightarrow> bytes list rpc \<times> 'c"
  ad_key_types :: "int \<Rightarrow> 'c \<Rightarrow> bytes list rpc \<times> 'c"

record audit_flags =
  au_addresses :: string
  au_rpc :: string
  au_ext :: int
  au_code_hash :: string
  au_platform :: string
  au_from :: string
  au_version :: string

definition audited :: "addresses \<Rightarrow> (string \<times> address) list" where
  "audited a = [(''FlareTeeManager'', flare_tee_manager a),
     (''FlareSystemsManager'', flare_system_manager a), (''Fdc2Hub'', fdc2_hub a)]"

definition address_row :: "'key lib \<Rightarrow> string \<Rightarrow> address \<Rightarrow> bytes rpc \<Rightarrow> string" where
  "address_row l name a r =
     line (''  '' @ pad_right 25 name @ '' '' @ l_addr_hex l a @ ''   '' @ address_status a r)"

definition address_rows :: "'key lib \<Rightarrow> ('key, 'c) chain \<Rightarrow> addresses \<Rightarrow> ('key, 'c, string) io" where
  "address_rows l c ad =
     io_concat (map (\<lambda>(name, a). show_read (c_code_at c a) (address_row l name a)) (audited ad))"

definition bytes32_hex :: "'key lib \<Rightarrow> bytes \<Rightarrow> string" where
  "bytes32_hex l b = l_hash_hex l (l_bytes_to_hash l b)"

definition quoted_rows :: "'key lib \<Rightarrow> string \<Rightarrow> bytes list \<Rightarrow> string" where
  "quoted_rows l title bs =
     line (''  '' @ title @ '' ('' @ dec (length bs) @ ''):'')
     @ concat (map (\<lambda>b. line (''    '' @ bytes32_hex l b @ ''   ''
         @ go_quote (l_is_print l) (bytes32_to_string b))) bs)"

definition show_platforms :: "'key lib \<Rightarrow> bytes list rpc \<Rightarrow> string" where
  "show_platforms l r = (case r of
      Inl e \<Rightarrow> line (''  getSystemSupportedPlatforms ERROR: '' @ err_msg e)
    | Inr ps \<Rightarrow> quoted_rows l ''systemSupportedPlatforms'' ps)"

definition show_next_id :: "int rpc \<Rightarrow> string" where
  "show_next_id r = (case r of
      Inl _ \<Rightarrow> [] | Inr n \<Rightarrow> line (''  nextPublicExtensionId: '' @ dec_int n))"

definition show_owner :: "'key lib \<Rightarrow> address rpc \<Rightarrow> string" where
  "show_owner l r = (case r of
      Inl e \<Rightarrow> line (''  getExtensionOwner ERROR: '' @ err_msg e)
    | Inr a \<Rightarrow> line (''  owner: '' @ l_addr_hex l a))"

definition show_code_hashes :: "'key lib \<Rightarrow> bytes list rpc \<Rightarrow> string" where
  "show_code_hashes l r = (case r of
      Inl e \<Rightarrow> line (''  getSupportedCodeHashes ERROR: '' @ err_msg e)
    | Inr hs \<Rightarrow> line (''  supportedCodeHashes ('' @ dec (length hs) @ ''):'')
        @ concat (map (\<lambda>h. line (''    '' @ bytes32_hex l h)) hs))"

definition show_key_types :: "'key lib \<Rightarrow> bytes list rpc \<Rightarrow> string" where
  "show_key_types l r = (case r of
      Inl _ \<Rightarrow> [] | Inr ks \<Rightarrow> quoted_rows l ''supportedKeyTypes'' ks)"

definition facet_section ::
    "'key lib \<Rightarrow> 'c audit_reads \<Rightarrow> address \<Rightarrow> ('key, 'c, string) io" where
  "facet_section l q manager =
     io_concat
       [show_read (ad_platforms q)
          (\<lambda>r. nl @ line (''=== ExtensionManager facet @ FlareTeeManager '' @ l_addr_hex l manager @ '' ==='')
             @ show_platforms l r),
        show_read (ad_next_id q) show_next_id]"

definition extension_section ::
    "'key lib \<Rightarrow> 'c audit_reads \<Rightarrow> int \<Rightarrow> ('key, 'c, string) io" where
  "extension_section l q eid =
     io_concat
       [io_ok (nl @ line (''=== Extension id='' @ dec_int eid @ '' ==='')),
        show_read (ad_owner q eid) (show_owner l),
        show_read (ad_code_hashes q eid) (show_code_hashes l),
        show_read (ad_key_types q eid) (show_key_types l)]"

definition diag_line :: "'key lib \<Rightarrow> diagnosis \<Rightarrow> string" where
  "diag_line l d =
     (case d of
        DiagSucceeded \<Rightarrow>
          line (''  eth_call succeeded '' @ em_dash @ '' tx-time-only revert (gas/state race?)'')
      | DiagNoData m \<Rightarrow> line (''  no/short revert data: '' @ m)
      | DiagReason m \<Rightarrow> line (''  revert reason (string): '' @ go_quote (l_is_print l) m)
      | DiagCustom src name args \<Rightarrow> line (''  revert -> '' @ src @ ''.'' @ name @ args)
      | DiagCustomRaw src name e data \<Rightarrow>
          line (''  revert -> '' @ src @ ''.'' @ name @ '' (unpack failed: '' @ e @ '') data=0x''
            @ hex_encode data)
      | DiagUnknown sel data \<Rightarrow>
          line (''  revert with unknown selector 0x'' @ hex_encode sel @ '' (full: 0x''
            @ hex_encode data @ '')'')
      | _ \<Rightarrow> [])"

definition replay_section ::
    "'key lib \<Rightarrow> ('key, 'c) chain \<Rightarrow> audit_flags \<Rightarrow> address \<Rightarrow> ('key, 'c, string) io" where
  "replay_section l c f manager =
     io_bind (replay_add_tee_version l c manager (l_hex_to_address l (au_from f)) (au_ext f)
        (au_version f) (l_hex_to_hash l (au_code_hash f)) (l_hex_to_hash l (au_platform f)))
       (\<lambda>r. io_ok (nl @ line ''=== addTeeVersion eth_call replay (decoding revert) ===''
          @ (case r of Inl m \<Rightarrow> line (''  '' @ m) | Inr d \<Rightarrow> diag_line l d)))"

text \<open>What is printed after the addresses; a binding that fails is reported on stderr.\<close>

definition audit_registry ::
    "'key lib \<Rightarrow> ('key, 'c) chain \<Rightarrow> 'c audit_reads \<Rightarrow> audit_flags \<Rightarrow> address
      \<Rightarrow> ('key, 'c, string \<times> string) io" where
  "audit_registry l c q f manager =
     (if manager = 0 then io_ok ([], [])
      else
        case l_bind l ''ExtensionManager'' manager of
          Some e \<Rightarrow> io_ok ([], line (''bind ExtensionManager: '' @ err_msg e))
        | None \<Rightarrow>
            io_bind (io_concat
              ([facet_section l q manager]
               @ (if 0 \<le> au_ext f then [extension_section l q (au_ext f)] else [])
               @ (if au_code_hash f \<noteq> [] \<and> au_platform f \<noteq> [] \<and> 0 \<le> au_ext f
                  then [replay_section l c f manager] else [])))
              (\<lambda>out. io_ok (out, [])))"

definition audit_main ::
    "'key lib \<Rightarrow> ('key, 'c) chain \<Rightarrow> (string \<Rightarrow> go_error option) \<Rightarrow> 'c audit_reads \<Rightarrow> audit_flags
      \<Rightarrow> ('key, 'c, string \<times> string) io" where
  \<comment> \<open>(stdout, stderr) of a run that ends with status 0\<close>
  "audit_main l c dial q f =
     io_bind (io_map_err (errorf ''parse addresses'') (parse_addresses_file l c (au_addresses f)))
       (\<lambda>ad. io_bind (io_res (case dial (au_rpc f) of
            Some e \<Rightarrow> Err (errorf ''dial'' e) | None \<Rightarrow> Ok ()))
       (\<lambda>_. io_bind (io_map_err (errorf ''chainId'') (io_ext (c_chain_id c)))
       (\<lambda>i. io_bind (io_ext (\<lambda>x. map_prod Inr id (ad_block q x)))
       (\<lambda>bn. io_bind (address_rows l c ad)
       (\<lambda>rows. io_bind (audit_registry l c q f (flare_tee_manager ad))
       (\<lambda>(out, err). io_ok
          (line (''Chain ID: '' @ dec_int i @ ''   block: '' @ dec (unat bn)) @ rows @ out, err)))))))"

subsection \<open>query-tee\<close>

record 'c machine_reads =
  mr_active :: "int \<Rightarrow> 'c \<Rightarrow> (address list \<times> string list) rpc \<times> 'c"
  mr_machine :: "address \<Rightarrow> 'c \<Rightarrow> (address \<times> address \<times> string) rpc \<times> 'c"
  mr_status :: "address \<Rightarrow> 'c \<Rightarrow> 8 word rpc \<times> 'c"
  mr_owner :: "address \<Rightarrow> 'c \<Rightarrow> address rpc \<times> 'c"
  mr_extension :: "address \<Rightarrow> 'c \<Rightarrow> int rpc \<times> 'c"
  mr_changed :: "address \<Rightarrow> 'c \<Rightarrow> int rpc \<times> 'c"
  mr_policy :: "address \<Rightarrow> 'c \<Rightarrow> 32 word rpc \<times> 'c"

text \<open>The rows \<open>i, i+1, ...\<close>; \<open>out.Urls[i]\<close> panics when there are fewer urls than ids.\<close>

fun active_rows :: "'key lib \<Rightarrow> nat \<Rightarrow> address list \<Rightarrow> string list \<Rightarrow> string res" where
  "active_rows l i [] urls = Ok []"
| "active_rows l i (a # as) urls =
     (if i < length urls then
        res_bind (active_rows l (i + 1) as urls)
          (\<lambda>rest. Ok (line (''  '' @ dec i @ '': '' @ l_addr_hex l a @ '' url=''
             @ go_quote (l_is_print l) (urls ! i)) @ rest))
      else Panic ''index out of range'')"

definition active_section ::
    "'key lib \<Rightarrow> 'c machine_reads \<Rightarrow> int \<Rightarrow> ('key, 'c, string) io" where
  "active_section l q eid =
     io_try (io_ext (mr_active q eid))
       (\<lambda>r. io_bind (io_res (case r of
            Inl e \<Rightarrow> Ok (line (''getActiveTeeMachines ERROR: '' @ err_msg e))
          | Inr (ids, urls) \<Rightarrow>
              if ids = [] then Ok (line ''  (none)'') else active_rows l 0 ids urls))
        (\<lambda>t. io_ok (nl @ line (''=== Active TEEs for extensionId='' @ dec_int eid @ '' ==='') @ t)))"

definition shown :: "string \<Rightarrow> ('a \<Rightarrow> string) \<Rightarrow> 'a rpc \<Rightarrow> string" where
  "shown name sh r = line (''  '' @ name @ (case r of Inl e \<Rightarrow> '' ERROR: '' @ err_msg e | Inr x \<Rightarrow> '': '' @ sh x))"

definition show_machine :: "'key lib \<Rightarrow> (address \<times> address \<times> string) rpc \<Rightarrow> string" where
  "show_machine l r =
     shown ''getTeeMachine'' (\<lambda>(tid, pid, url). ''teeId='' @ l_addr_hex l tid @ '' teeProxyId=''
        @ l_addr_hex l pid @ '' url='' @ go_quote (l_is_print l) url) r
     @ (case r of Inr (tid, _) \<Rightarrow> if tid = 0 then line ''  -> EMPTY/UNREGISTERED'' else [] | Inl _ \<Rightarrow> [])"

definition machine_section ::
    "'key lib \<Rightarrow> 'c machine_reads \<Rightarrow> string \<Rightarrow> ('key, 'c, string) io" where
  "machine_section l q raw =
     (let i = l_hex_to_address l raw in
      io_concat
        [io_ok (nl @ line (''=== TEE '' @ l_addr_hex l i @ '' ==='')),
         show_read (mr_machine q i) (show_machine l),
         show_read (mr_status q i) (shown ''getTeeMachineStatus'' (\<lambda>n. dec (unat n))),
         show_read (mr_owner q i) (shown ''getTeeMachineOwner'' (l_addr_hex l)),
         show_read (mr_extension q i) (shown ''getExtensionId'' dec_int),
         show_read (mr_changed q i) (shown ''getLastStatusChangeTs'' dec_int),
         show_read (mr_policy q i) (shown ''getInitialSigningPolicyId'' (\<lambda>n. dec (unat n)))])"

definition query_main ::
    "'key lib \<Rightarrow> (string \<Rightarrow> go_error option) \<Rightarrow> 'c machine_reads \<Rightarrow> string \<Rightarrow> string \<Rightarrow> int \<Rightarrow> string list
      \<Rightarrow> ('key, 'c, string) io" where
  "query_main l dial q rpc_url reg list_ext args =
     io_bind (io_res (case dial rpc_url of Some e \<Rightarrow> Err (errorf ''dial'' e) | None \<Rightarrow> Ok ()))
       (\<lambda>_. io_bind (io_res (case l_bind l ''MachineManager'' (l_hex_to_address l reg) of
            Some e \<Rightarrow> Err (errorf ''bind'' e) | None \<Rightarrow> Ok ()))
       (\<lambda>_. io_concat ((if 0 \<le> list_ext then [active_section l q list_ext] else [])
              @ map (machine_section l q) args)))"

subsection \<open>Facts\<close>

text \<open>These tools send nothing and write no file.\<close>

lemma io_concat_reads [reads_intros]: "\<forall>m\<in>set ms. reads_only m \<Longrightarrow> reads_only (io_concat ms)"
  by (induction ms) (auto intro!: reads_intros)

lemma show_read_reads [reads_intros]: "reads_only (show_read f sh)"
  unfolding show_read_def by (intro reads_intros)

lemma parse_addresses_file_reads [reads_intros]: "reads_only (parse_addresses_file l c p)"
  unfolding parse_addresses_file_def by (auto intro!: reads_intros split: option.splits)

lemma replay_reads [reads_intros]: "reads_only (replay_add_tee_version l c to from eid v ch pl)"
  unfolding replay_add_tee_version_def by (auto intro!: reads_intros split: sum.splits res.splits)

lemma audit_registry_reads [reads_intros]: "reads_only (audit_registry l c q f a)"
  unfolding audit_registry_def facet_section_def extension_section_def replay_section_def
  by (auto intro!: reads_intros split: option.splits)

lemma audit_main_reads: "reads_only (audit_main l c dial q f)"
  unfolding audit_main_def address_rows_def
  by (auto intro!: reads_intros split: prod.splits)

lemma active_section_reads [reads_intros]: "reads_only (active_section l q eid)"
  unfolding active_section_def by (intro reads_intros)

lemma machine_section_reads [reads_intros]: "reads_only (machine_section l q a)"
  unfolding machine_section_def Let_def by (auto intro!: reads_intros)

lemma query_main_reads: "reads_only (query_main l dial q u reg eid args)"
  unfolding query_main_def by (auto intro!: reads_intros)

text \<open>The listing of the active machines panics exactly when a url is missing.\<close>

lemma active_rows_ok:
  "is_ok (active_rows l i ids urls) \<longleftrightarrow> ids = [] \<or> i + length ids \<le> length urls"
proof (induction ids arbitrary: i)
  case (Cons a as)
  show ?case using Cons[of "i + 1"]
    by (cases "active_rows l (i + 1) as urls") (auto simp: is_ok_iff)
qed (simp add: is_ok_iff)

end
