(* ===== verification/Spec2Isabelle.thy ===== *)
theory Spec2Isabelle
  imports GuardClaims GuardAbiClaims AuditTrail Linearization ChecksClaims ToolsClaims RetryClaims
    LifecycleClaims StartupClaims AuditTool
begin

text \<open>
  Praesidio guards FAssets agent vaults on Flare. This library models its Go code: the guard
  extension that runs in the enclave (\<open>tee/go\<close>) and the tools that deploy, check and register
  it (\<open>tee/tools\<close>), with the contract at the other end of the guard's reads and signatures
  (\<open>contracts/src/GuardianRegistry.sol\<close>). The root theory only imports the others.

  \<^bold>\<open>The program.\<close> A request names a vault and a guard. The extension reads the vault's health
  and the guard's policy from the chain with \<open>eth_call\<close>, decides, records the check in a shared
  struct under a mutex and, when the vault is in danger and the policy active, signs a top-up.
  It is reached by two paths: the tee-node's \<open>POST /action\<close> and the relay's
  \<open>POST /guard/check\<close>. A signed action is posted to the contract, which checks the nonce and
  the signature and appends it to its ledger. The tools deploy the instruction sender, set up the extension in the
  registry, register the machine in resumable steps recorded in a state file, and check a
  deployment (\<open>verify-deploy\<close>).

  \<^bold>\<open>Shared theories.\<close> \<open>Prelude\<close>: byte strings, Go errors with wrapping, the three-way result of
  a call (value, error, panic), the locale \<open>codec\<close> for round trips. \<open>GoStrings\<close>: the functions
  of strconv, strings, math/big, bufio, encoding/hex and \<open>%q\<close> that the code calls. \<open>GoJson\<close>:
  encoding/json. A string is a list of bytes, so everything holds for any input.

  \<^bold>\<open>The guard.\<close>
  \<^item> \<open>GuardTypes\<close>: \<open>pkg/types/types.go\<close> and \<open>internal/config/config.go\<close>, the \<open>Extension\<close> struct
    with its 64-bit counters, the JSON forms of requests and answers.
  \<^item> \<open>GuardRpc\<close>: \<open>internal/extension/guard_rpc.go\<close>, the two reads, \<open>formatPrice\<close>, the digest.
  \<^item> \<open>Extension\<close>: \<open>internal/extension/extension.go\<close> and \<open>utils.go\<close>, one definition per handler,
    from state to state and response.
  \<^item> \<open>GuardMachine\<close>: the critical sections of \<open>checkVaultJSON\<close> as an inductive step relation over
    any number of concurrent requests, each with its own answers of the network, and the
    invariant of the reachable states.
    \<open>guard_run\<close> is the same relation with the order of the critical sections.
  \<^item> \<open>GuardAbi\<close>: the ABIs declared in \<open>guard_rpc.go\<close>, what a typed answer of the ABI library is,
    and that no handler then panics.
  \<^item> \<open>GuardianRegistry\<close>: the contract, one definition per external function from storage to
    revert or storage, runs of calls, and the invariant that every call keeps.
  \<^item> \<open>Lifecycle\<close>: \<open>cmd/main.go\<close>, \<open>cmd/docker/main.go\<close>, \<open>cmd/start-tee/main.go\<close>,
    \<open>pkg/server/server.go\<close>, the processes with their goroutines, channels and signals.
    \<open>StartProxy\<close>: \<open>tools/cmd/start-proxy/main.go\<close>, and the search of both starters for \<open>.env\<close>,
    over \<open>GoPath\<close>, the functions of path/filepath.

  \<^bold>\<open>The checks.\<close>
  \<^item> \<open>Report\<close>, \<open>Validate\<close>: \<open>pkg/validate/report.go\<close> and \<open>validate.go\<close>.
  \<^item> \<open>DeployChecks\<close>, \<open>RegistrationChecks\<close>, \<open>ServiceChecks\<close>: \<open>pkg/validate/checks.go\<close>, one
    definition per check. The locales \<open>appender\<close> and \<open>registrar\<close> state the contract of every
    \<open>Register...Checks\<close> function (it appends to the report results of its own step that do not
    depend on the report) and are interpreted on all seven.
  \<^item> \<open>VerifyDeploy\<close>: \<open>cmd/verify-deploy/main.go\<close>, with the filter that reuses its array.

  \<^bold>\<open>The tools.\<close>
  \<^item> \<open>Support\<close>: \<open>pkg/support/support.go\<close> and \<open>pkg/configs/configs.go\<close>, and the world the tools
    act on: a state of any type for all that is remote, the files, the transactions sent.
    A program is a function from a world to a result and a world.
  \<^item> \<open>Transactions\<close>: what a program may send. The locale \<open>single_tx\<close> is the contract of an
    operation that sends one transaction of a kind with a key or fails; it is interpreted on
    every operation of that shape, and the ones built of them are staged with \<open>stage\<close>.
  \<^item> \<open>Revert\<close>, \<open>TeeCalls\<close>, \<open>Policy\<close>, \<open>Registration\<close>, \<open>Setup\<close>: \<open>pkg/fccutils\<close>.
    \<open>RegistrationFlow\<close>: the facts on \<open>RegisterNode\<close> and its state file.
  \<^item> \<open>Instructions\<close>: \<open>pkg/utils/instructions.go\<close>. \<open>Tools\<close>, \<open>AuditTool\<close>: the mains under
    \<open>cmd\<close> after flag parsing.

  \<^bold>\<open>The properties.\<close> \<open>GuardClaims\<close>: the decision, what is signed and over which digest, the
  effect of a check on every branch, the two HTTP paths and their agreement, the reads,
  prices, and what of the policy has no influence. \<open>GuardAbiClaims\<close>: the values of an answer and the
  absence of panics for typed ABI values. \<open>RegistryClaims\<close>: the contract's invariant, no replay,
  when a signed action is accepted, and what anyone can post before a key is set.
  \<open>AuditTrail\<close>: the guard and the contract as one system, in which anyone posts anything and checks
  may read an older state. Its ledgers have no gaps and hold nothing the guard has not signed, when
  a signature that recovers to the enclave's address is over a digest it has signed, the digests
  of a history's messages differ, and the enclave's key is stored before the first post and not
  replaced; the contract's own check of the signer does the rest.
  \<open>ConcurrencyClaims\<close> and \<open>Linearization\<close>: every outcome of concurrent requests is that of a
  serial run that keeps the order of requests that do not overlap, and every answer is the one
  the request gets alone. \<open>LifecycleClaims\<close>: how the processes
  end. \<open>ChecksClaims\<close>: output and exit status, the two readers of the env file, when the steps
  pass. \<open>ToolsClaims\<close>: which transactions are sent, in which order, when not, what a failed
  registration leaves in its state file (\<open>completed_steps\<close> of \<open>RegistrationFlow\<close>: which steps, under
  which letters, with which ids), gates and polling. \<open>RetryClaims\<close>:
  any number of failed registrations on one state file. \<open>StartupClaims\<close>: where the starters find
  their settings.
  \<open>GuardDemo\<close>, \<open>ChecksDemo\<close>, \<open>ToolsDemo\<close> hold the concrete environments of the witnesses.

  \<^bold>\<open>Bounds and fuel.\<close> The JSON parser of \<open>GoJson\<close> recurses on fuel, twice the length of its
  input and two; \<open>jvalue_enough\<close> shows that more changes nothing, so that what it refuses is
  refused because of the text. The other loops are structural or have a measure; the polling loop of \<open>ActionResult\<close> counts its fifteen tries. Counters, ids,
  nonces and epochs are words of the width the code uses and wrap; \<open>big.Int\<close> is \<open>int\<close>.

  \<^bold>\<open>Concurrency.\<close> A critical section of the guard is one step, and a read of the network that
  never returns is a request that takes no further step. The mutex itself is not a part of the
  state, so a lock that is not released cannot be expressed.

  \<^bold>\<open>Parameters.\<close> Code that is not in the repository: go-ethereum (ABI coding, Keccak, keys,
  signatures, hex and address parsing, the RPC client, generated contract bindings), the
  tee-node and proxy libraries, net/http, godotenv, the operating system. They are arguments of
  the definitions (\<open>guard_env\<close>, \<open>node\<close>, \<open>machine\<close>, \<open>lib\<close>, \<open>chain\<close> and the like) and nothing
  is assumed of them except in hypotheses a theorem names. The order in which Go ranges over
  a map is the order of the list given.

  \<^bold>\<open>Not modelled.\<close> Log lines and sleeps (sleeping passes time in the remote state only), flag
  parsing and its defaults, the response headers, what the proxy library and godotenv do inside,
  the two ABI encoders of \<open>encoding.go\<close>, which nothing calls, the contract's events, and the rest
  of what is not Go: the instruction sender's contract, the backend, the web front end, the
  scripts. The test harness is not part of the program.
\<close>

end
